(* ===== verification/Prelude.thy ===== *)
theory Prelude
  imports Main "HOL-Library.AList" "HOL-Library.Sublist"
begin

text \<open>
  Shared vocabulary of the development: Go errors, the result of a Go call (value, error or
  panic), the effect type of every operation that talks to the outside, Go maps, and the
  interaction-trace judgement \<open>emits\<close> with the rules that all component proofs are built from.

  An operation of the program is a function on a process state \<open>('e, 'w) sys\<close>.  The state holds
  the outside world as an abstract value of type \<open>'w\<close> (the LXD or Incus server, the source of
  UUIDs, the operating system), the files the program reads and writes itself, and the list of
  interactions that have happened so far.  What the outside answers is a parameter of the model,
  so a theorem about \<open>emits\<close> holds for every server.
\<close>

named_theorems emits_rules \<open>introduction rules of the trace judgement, one per combinator\<close>
named_theorems file_rules \<open>introduction rules of the file judgement, one per combinator\<close>

section \<open>Errors and results\<close>

text \<open>
  Go error values.  \<open>ComplexError\<close> is what \<open>bosherr.WrapError\<close> builds; \<open>DeadlineExceeded\<close> is
  \<open>context.DeadlineExceeded\<close>; \<open>NotExist\<close> is an error for which \<open>os.IsNotExist\<close> answers true.
\<close>

datatype gerr =
    GoError string
  | ComplexError gerr gerr
  | DeadlineExceeded
  | NotExist string

fun error_string :: "gerr \<Rightarrow> string" where
  "error_string (GoError s) = s"
| "error_string (ComplexError e c) = error_string e @ '': '' @ error_string c"
| "error_string DeadlineExceeded = ''context deadline exceeded''"
| "error_string (NotExist s) = s"

definition WrapError :: "gerr \<Rightarrow> string \<Rightarrow> gerr" where
  "WrapError cause msg = ComplexError (GoError msg) cause"

lemma error_string_WrapError [simp]:
  "error_string (WrapError c m) = m @ '': '' @ error_string c"
  by (simp add: WrapError_def)

text \<open>The outcome of a call: a value, an error, or a panic that unwinds the stack.\<close>

datatype 'a res = Ok 'a | Err gerr | Panic string

definition is_Ok :: "'a res \<Rightarrow> bool" where
  "is_Ok r = (case r of Ok _ \<Rightarrow> True | _ \<Rightarrow> False)"

definition is_Panic :: "'a res \<Rightarrow> bool" where
  "is_Panic r = (case r of Panic _ \<Rightarrow> True | _ \<Rightarrow> False)"

lemma is_Ok_simps [simp]:
  "is_Ok (Ok x)" "\<not> is_Ok (Err e)" "\<not> is_Ok (Panic s)"
  by (simp_all add: is_Ok_def)

lemma is_Panic_simps [simp]:
  "\<not> is_Panic (Ok x)" "\<not> is_Panic (Err e)" "is_Panic (Panic s)"
  by (simp_all add: is_Panic_def)

definition is_Inr :: "'a + 'b \<Rightarrow> bool" where
  "is_Inr x = (case x of Inl _ \<Rightarrow> False | Inr _ \<Rightarrow> True)"

lemma is_Inr_simps [simp]: "is_Inr (Inr x)" "\<not> is_Inr (Inl e)"
  by (simp_all add: is_Inr_def)

section \<open>Go maps\<close>

text \<open>
  A Go map is an association list with distinct keys.  Its order is the order in which one
  particular \<open>range\<close> loop visits the keys: Go leaves that order open, so a theorem about a loop
  over a map quantifies over the list.  Reading a missing key of a string map gives the empty
  string, as in Go.
\<close>

type_synonym 'v gomap = "(string \<times> 'v) list"
type_synonym strmap = "string gomap"
type_synonym devices = "strmap gomap"

definition wf_map :: "'v gomap \<Rightarrow> bool" where
  "wf_map m \<longleftrightarrow> distinct (map fst m)"

abbreviation gm_find :: "'v gomap \<Rightarrow> string \<Rightarrow> 'v option" where
  "gm_find m k \<equiv> map_of m k"

definition gm_get :: "strmap \<Rightarrow> string \<Rightarrow> string" where
  "gm_get m k = (case gm_find m k of None \<Rightarrow> [] | Some v \<Rightarrow> v)"

abbreviation gm_put :: "string \<Rightarrow> 'v \<Rightarrow> 'v gomap \<Rightarrow> 'v gomap" where
  "gm_put k v m \<equiv> AList.update k v m"

abbreviation gm_del :: "string \<Rightarrow> 'v gomap \<Rightarrow> 'v gomap" where
  "gm_del k m \<equiv> AList.delete k m"

lemma wf_map_Nil [simp]: "wf_map []"
  by (simp add: wf_map_def)

lemma wf_map_Cons [simp]: "wf_map ((k, v) # m) \<longleftrightarrow> k \<notin> fst ` set m \<and> wf_map m"
  by (simp add: wf_map_def)

lemma wf_map_put [simp]: "wf_map m \<Longrightarrow> wf_map (gm_put k v m)"
  by (simp add: wf_map_def distinct_update)

lemma wf_map_del [simp]: "wf_map m \<Longrightarrow> wf_map (gm_del k m)"
  by (simp add: wf_map_def distinct_delete)

lemma find_put [simp]: "gm_find (gm_put k v m) = (gm_find m)(k \<mapsto> v)"
  by (rule ext) (simp add: update_conv')

lemma find_del [simp]: "gm_find (gm_del k m) = (gm_find m)(k := None)"
  by (rule ext) (simp add: delete_conv')

lemma put_fresh: "k \<notin> fst ` set m \<Longrightarrow> gm_put k v m = m @ [(k, v)]"
  by (induction m) auto

lemma del_absent: "k \<notin> fst ` set m \<Longrightarrow> gm_del k m = m"
  by (induction m) auto

lemma del_put_absent: "k \<notin> fst ` set m \<Longrightarrow> gm_del k (gm_put k v m) = m"
  by (induction m) (auto simp: del_absent)

lemma find_filter_wf:
  "wf_map m \<Longrightarrow> gm_find (filter P m) k =
     (case gm_find m k of None \<Rightarrow> None | Some v \<Rightarrow> if P (k, v) then Some v else None)"
proof (induction m)
  case Nil
  then show ?case by simp
next
  case (Cons kv m)
  obtain k' v' where kv: "kv = (k', v')" by (cases kv)
  have "k' \<notin> dom (gm_find m)" using Cons.prems kv by (simp add: dom_map_of_conv_image_fst)
  then have none: "gm_find m k' = None" by (simp add: domIff)
  show ?case using Cons none by (auto simp: kv split: option.splits)
qed

section \<open>The process state and its operations\<close>

record ('e, 'w) sys =
  world :: 'w
  files :: "string \<rightharpoonup> string"
  trace :: "'e list"

type_synonym ('e, 'w, 'a) io = "('e, 'w) sys \<Rightarrow> 'a res \<times> ('e, 'w) sys"

text \<open>A call of the outside: an error or a value, and the world after the call.\<close>

type_synonym ('w, 'a) ext = "'w \<Rightarrow> (gerr + 'a) \<times> 'w"

definition io_ret :: "'a \<Rightarrow> ('e, 'w, 'a) io" where
  "io_ret x = (\<lambda>s. (Ok x, s))"

definition io_fail :: "gerr \<Rightarrow> ('e, 'w, 'a) io" where
  "io_fail e = (\<lambda>s. (Err e, s))"

definition io_panic :: "string \<Rightarrow> ('e, 'w, 'a) io" where
  "io_panic p = (\<lambda>s. (Panic p, s))"

text \<open>
  \<open>io_try m h k\<close> is \<open>x, err := m(); if err != nil { h(err) } else { k(x) }\<close>.  A panic skips both
  branches.
\<close>

definition io_try :: "('e, 'w, 'a) io \<Rightarrow> (gerr \<Rightarrow> ('e, 'w, 'b) io) \<Rightarrow>
    ('a \<Rightarrow> ('e, 'w, 'b) io) \<Rightarrow> ('e, 'w, 'b) io" where
  "io_try m h k = (\<lambda>s. case m s of
      (Ok x, s') \<Rightarrow> k x s'
    | (Err e, s') \<Rightarrow> h e s'
    | (Panic p, s') \<Rightarrow> (Panic p, s'))"

text \<open>The two idioms of the code: return the error as it is, or return it wrapped.\<close>

definition io_bind :: "('e, 'w, 'a) io \<Rightarrow> ('a \<Rightarrow> ('e, 'w, 'b) io) \<Rightarrow> ('e, 'w, 'b) io" where
  "io_bind m k = io_try m io_fail k"

definition io_wrap :: "('e, 'w, 'a) io \<Rightarrow> string \<Rightarrow> ('a \<Rightarrow> ('e, 'w, 'b) io) \<Rightarrow> ('e, 'w, 'b) io" where
  "io_wrap m msg k = io_try m (\<lambda>e. io_fail (WrapError e msg)) k"

text \<open>A deferred call runs after the body whatever its outcome, and its own outcome is dropped.\<close>

definition io_finally :: "('e, 'w, 'a) io \<Rightarrow> ('e, 'w, 'b) io \<Rightarrow> ('e, 'w, 'a) io" where
  "io_finally m d = (\<lambda>s. case m s of (r, s') \<Rightarrow>
     (case d s' of (Panic p, s'') \<Rightarrow> (Panic p, s'') | (_, s'') \<Rightarrow> (r, s'')))"

text \<open>\<open>for _, x := range xs { f(x) }\<close> with an early return on the first error.\<close>

primrec io_for :: "'a list \<Rightarrow> ('a \<Rightarrow> ('e, 'w, unit) io) \<Rightarrow> ('e, 'w, unit) io" where
  "io_for [] f = io_ret ()"
| "io_for (x # xs) f = io_bind (f x) (\<lambda>_. io_for xs f)"

text \<open>One interaction: the world answers, and the request with its answer joins the trace.\<close>

definition io_ext :: "((gerr + 'a) \<Rightarrow> 'e) \<Rightarrow> ('w, 'a) ext \<Rightarrow> ('e, 'w, 'a) io" where
  "io_ext ev f = (\<lambda>s. case f (world s) of (r, w) \<Rightarrow>
     (case r of Inl e \<Rightarrow> Err e | Inr x \<Rightarrow> Ok x, s\<lparr>world := w, trace := trace s @ [ev r]\<rparr>))"

definition io_lift :: "gerr + 'a \<Rightarrow> ('e, 'w, 'a) io" where
  "io_lift r = (case r of Inl e \<Rightarrow> io_fail e | Inr x \<Rightarrow> io_ret x)"

section \<open>Evaluation of the combinators\<close>

lemma io_ret_run: "io_ret x s = (Ok x, s)"
  by (simp add: io_ret_def)

lemma io_fail_run: "io_fail e s = (Err e, s)"
  by (simp add: io_fail_def)

lemma io_panic_run: "io_panic p s = (Panic p, s)"
  by (simp add: io_panic_def)

lemma io_try_ret [simp]: "io_try (io_ret x) h k = k x"
  by (rule ext) (simp add: io_try_def io_ret_def io_fail_def io_panic_def)

lemma io_try_fail [simp]: "io_try (io_fail e) h k = h e"
  by (rule ext) (simp add: io_try_def io_ret_def io_fail_def io_panic_def)

lemma io_try_panic [simp]: "io_try (io_panic p) h k = io_panic p"
  by (rule ext) (simp add: io_try_def io_ret_def io_fail_def io_panic_def)

lemma io_bind_ret: "io_bind (io_ret x) k = k x"
  by (simp add: io_bind_def)

lemma io_bind_ret_right [simp]: "io_bind m io_ret = m"
  by (rule ext) (auto simp: io_bind_def io_try_def io_ret_def io_fail_def split: prod.splits res.splits)

lemma io_bind_assoc: "io_bind (io_bind m f) g = io_bind m (\<lambda>x. io_bind (f x) g)"
  by (rule ext) (auto simp: io_bind_def io_try_def io_ret_def io_fail_def split: prod.splits res.splits)

lemma io_lift_simps [simp]: "io_lift (Inl e) = io_fail e" "io_lift (Inr x) = io_ret x"
  by (simp_all add: io_lift_def)

lemma io_try_run:
  "io_try m h k s = (case m s of (Ok x, s') \<Rightarrow> k x s' | (Err e, s') \<Rightarrow> h e s'
     | (Panic p, s') \<Rightarrow> (Panic p, s'))"
  by (simp add: io_try_def)

lemma io_ext_run:
  "io_ext ev f s = (case f (world s) of (r, w) \<Rightarrow>
     (case r of Inl e \<Rightarrow> Err e | Inr x \<Rightarrow> Ok x, s\<lparr>world := w, trace := trace s @ [ev r]\<rparr>))"
  by (simp add: io_ext_def)

lemma io_finally_run:
  "io_finally m d s = (case m s of (r, s') \<Rightarrow>
     (case d s' of (Panic p, s'') \<Rightarrow> (Panic p, s'') | (_, s'') \<Rightarrow> (r, s'')))"
  by (simp add: io_finally_def)

lemmas io_run = io_ret_run io_fail_run io_panic_run io_try_run io_ext_run io_bind_def io_wrap_def io_finally_run

section \<open>The trace judgement\<close>

text \<open>
  \<open>emits m P\<close>: from every state, running \<open>m\<close> only appends interactions to the trace, and the
  outcome together with the appended interactions satisfies \<open>P\<close>.
\<close>

definition emits :: "('e, 'w, 'a) io \<Rightarrow> ('a res \<Rightarrow> 'e list \<Rightarrow> bool) \<Rightarrow> bool" where
  "emits m P \<longleftrightarrow> (\<forall>s. \<exists>ts. trace (snd (m s)) = trace s @ ts \<and> P (fst (m s)) ts)"

lemma emitsI:
  "(\<And>s. \<exists>ts. trace (snd (m s)) = trace s @ ts \<and> P (fst (m s)) ts) \<Longrightarrow> emits m P"
  by (simp add: emits_def)

lemma emitsD:
  assumes "emits m P" and "m s = (r, s')"
  obtains ts where "trace s' = trace s @ ts" "P r ts"
proof -
  from assms(1) have "\<exists>ts. trace (snd (m s)) = trace s @ ts \<and> P (fst (m s)) ts"
    by (simp add: emits_def)
  with assms(2) show ?thesis using that by auto
qed

lemma emits_mono: "emits m P \<Longrightarrow> (\<And>r ts. P r ts \<Longrightarrow> Q r ts) \<Longrightarrow> emits m Q"
  unfolding emits_def by meson

lemma emits_conj: "emits m P \<Longrightarrow> emits m Q \<Longrightarrow> emits m (\<lambda>r ts. P r ts \<and> Q r ts)"
  unfolding emits_def by (metis same_append_eq)

lemma emits_ret [emits_rules]: "P (Ok x) [] \<Longrightarrow> emits (io_ret x) P"
  by (simp add: emits_def io_ret_def)

lemma emits_fail [emits_rules]: "P (Err e) [] \<Longrightarrow> emits (io_fail e) P"
  by (simp add: emits_def io_fail_def)

lemma emits_panic [emits_rules]: "P (Panic p) [] \<Longrightarrow> emits (io_panic p) P"
  by (simp add: emits_def io_panic_def)

lemma emits_simps [simp]:
  "emits (io_ret x) P \<longleftrightarrow> P (Ok x) []" "emits (io_fail e) P \<longleftrightarrow> P (Err e) []"
  "emits (io_panic p) P \<longleftrightarrow> P (Panic p) []"
  by (simp_all add: emits_def io_ret_def io_fail_def io_panic_def)

lemma emits_ext [emits_rules]:
  assumes "\<And>x. P (Ok x) [ev (Inr x)]" and "\<And>e. P (Err e) [ev (Inl e)]"
  shows "emits (io_ext ev f) P"
proof (rule emitsI)
  fix s :: "('b, 'c) sys"
  obtain r w where "f (world s) = (r, w)" by (cases "f (world s)")
  then show "\<exists>ts. trace (snd (io_ext ev f s)) = trace s @ ts \<and> P (fst (io_ext ev f s)) ts"
    using assms by (cases r) (auto simp: io_ext_run)
qed

text \<open>What is left to show of a run after a first part \<open>m\<close> ended with \<open>r\<close> and appended \<open>ts\<close>.\<close>

definition emits_after :: "(gerr \<Rightarrow> ('e, 'w, 'b) io) \<Rightarrow> ('a \<Rightarrow> ('e, 'w, 'b) io) \<Rightarrow>
    ('b res \<Rightarrow> 'e list \<Rightarrow> bool) \<Rightarrow> 'a res \<Rightarrow> 'e list \<Rightarrow> bool" where
  "emits_after h k P r ts = (case r of
      Ok x \<Rightarrow> emits (k x) (\<lambda>r' us. P r' (ts @ us))
    | Err e \<Rightarrow> emits (h e) (\<lambda>r' us. P r' (ts @ us))
    | Panic p \<Rightarrow> P (Panic p) ts)"

lemma emits_after_simps [simp]:
  "emits_after h k P (Ok x) ts = emits (k x) (\<lambda>r' us. P r' (ts @ us))"
  "emits_after h k P (Err e) ts = emits (h e) (\<lambda>r' us. P r' (ts @ us))"
  "emits_after h k P (Panic p) ts = P (Panic p) ts"
  by (simp_all add: emits_after_def)

lemma emits_afterI [emits_rules]:
  "(\<And>x. r = Ok x \<Longrightarrow> emits (k x) (\<lambda>r' us. P r' (ts @ us))) \<Longrightarrow>
   (\<And>e. r = Err e \<Longrightarrow> emits (h e) (\<lambda>r' us. P r' (ts @ us))) \<Longrightarrow>
   (\<And>p. r = Panic p \<Longrightarrow> P (Panic p) ts) \<Longrightarrow> emits_after h k P r ts"
  by (cases r) simp_all

lemma emits_after_mono:
  "emits_after h k P r ts \<Longrightarrow> (\<And>r ts. P r ts \<Longrightarrow> Q r ts) \<Longrightarrow> emits_after h k Q r ts"
  by (cases r) (auto elim: emits_mono)

lemma emits_try [emits_rules]:
  assumes "emits m (emits_after h k P)"
  shows "emits (io_try m h k) P"
proof (rule emitsI)
  fix s
  obtain r s' where run: "m s = (r, s')" by (cases "m s")
  from assms run obtain ts where ts: "trace s' = trace s @ ts" "emits_after h k P r ts"
    by (rule emitsD)
  show "\<exists>ts. trace (snd (io_try m h k s)) = trace s @ ts \<and> P (fst (io_try m h k s)) ts"
  proof (cases r)
    case (Ok x)
    then have "emits (k x) (\<lambda>r' us. P r' (ts @ us))" using ts(2) by simp
    then show ?thesis using ts(1) run Ok unfolding emits_def
      by (auto simp: io_try_run) (metis append.assoc)
  next
    case (Err e)
    then have "emits (h e) (\<lambda>r' us. P r' (ts @ us))" using ts(2) by simp
    then show ?thesis using ts(1) run Err unfolding emits_def
      by (auto simp: io_try_run) (metis append.assoc)
  next
    case (Panic p)
    then show ?thesis using ts run by (auto simp: io_try_run)
  qed
qed

lemma emits_bind [emits_rules]:
  "emits m (emits_after io_fail k P) \<Longrightarrow> emits (io_bind m k) P"
  unfolding io_bind_def by (rule emits_try)

lemma emits_wrap [emits_rules]:
  "emits m (emits_after (\<lambda>e. io_fail (WrapError e msg)) k P) \<Longrightarrow> emits (io_wrap m msg k) P"
  unfolding io_wrap_def by (rule emits_try)

lemma emits_lift [emits_rules]:
  "(\<And>x. r = Inr x \<Longrightarrow> P (Ok x) []) \<Longrightarrow> (\<And>e. r = Inl e \<Longrightarrow> P (Err e) []) \<Longrightarrow> emits (io_lift r) P"
  by (cases r) (auto intro: emits_rules)

lemma emits_if [emits_rules]:
  "(b \<Longrightarrow> emits m P) \<Longrightarrow> (\<not> b \<Longrightarrow> emits n P) \<Longrightarrow> emits (if b then m else n) P"
  by simp

lemma emits_prod [emits_rules]:
  "(\<And>a b. x = (a, b) \<Longrightarrow> emits (f a b) P) \<Longrightarrow> emits (case x of (a, b) \<Rightarrow> f a b) P"
  by (cases x) simp

lemma emits_option [emits_rules]:
  "(x = None \<Longrightarrow> emits m P) \<Longrightarrow> (\<And>y. x = Some y \<Longrightarrow> emits (k y) P) \<Longrightarrow>
   emits (case x of None \<Rightarrow> m | Some y \<Rightarrow> k y) P"
  by (cases x) auto

lemma emits_finally [emits_rules]:
  assumes "emits m (\<lambda>r ts. emits d (\<lambda>r' us.
      P (case r' of Panic p \<Rightarrow> Panic p | _ \<Rightarrow> r) (ts @ us)))"
  shows "emits (io_finally m d) P"
proof (rule emitsI)
  fix s
  obtain r s' where run: "m s = (r, s')" by (cases "m s")
  obtain r' s'' where run': "d s' = (r', s'')" by (cases "d s'")
  from assms run obtain ts where ts: "trace s' = trace s @ ts"
    "emits d (\<lambda>r' us. P (case r' of Panic p \<Rightarrow> Panic p | _ \<Rightarrow> r) (ts @ us))"
    by (rule emitsD)
  from ts(2) run' obtain us where us: "trace s'' = trace s' @ us"
    "P (case r' of Panic p \<Rightarrow> Panic p | _ \<Rightarrow> r) (ts @ us)"
    by (rule emitsD)
  show "\<exists>ts. trace (snd (io_finally m d s)) = trace s @ ts \<and> P (fst (io_finally m d s)) ts"
    using ts(1) us run run' by (intro exI [of _ "ts @ us"]) (cases r', auto simp: io_finally_run)
qed

text \<open>A loop: an invariant on the part of the list that is done and the interactions so far.\<close>

lemma emits_for:
  assumes start: "I [] []"
    and step: "\<And>pre x ts. I pre ts \<Longrightarrow> pre @ [x] \<in> {ys. prefix ys xs} \<Longrightarrow>
      emits (f x) (\<lambda>r us. case r of Ok _ \<Rightarrow> I (pre @ [x]) (ts @ us)
        | Err e \<Rightarrow> P (Err e) (ts @ us) | Panic p \<Rightarrow> P (Panic p) (ts @ us))"
    and finish: "\<And>ts. I xs ts \<Longrightarrow> P (Ok ()) ts"
  shows "emits (io_for xs f) P"
proof -
  have "emits (io_for ys f) (\<lambda>r us. P r (ts @ us))" if "I pre ts" "xs = pre @ ys" for pre ys ts
    using that
  proof (induction ys arbitrary: pre ts)
    case Nil
    then show ?case using finish by (auto intro!: emits_ret)
  next
    case (Cons y ys)
    have pfx: "pre @ [y] \<in> {zs. prefix zs xs}" using Cons.prems by simp
    have IH: "emits (io_for ys f) (\<lambda>r us. P r (ts' @ us))" if "I (pre @ [y]) ts'" for ts'
      using Cons.IH [OF that] Cons.prems by simp
    show ?case
      unfolding io_for.simps
    proof (rule emits_bind, rule emits_mono [OF step [OF Cons.prems(1) pfx]])
      fix r us
      assume post: "case r of Ok _ \<Rightarrow> I (pre @ [y]) (ts @ us) | Err e \<Rightarrow> P (Err e) (ts @ us)
        | Panic p \<Rightarrow> P (Panic p) (ts @ us)"
      show "emits_after io_fail (\<lambda>_. io_for ys f) (\<lambda>r us'. P r (ts @ us')) r us"
      proof (cases r)
        case (Ok x)
        then show ?thesis using IH [of "ts @ us"] post by simp
      qed (use post in \<open>auto intro!: emits_fail\<close>)
    qed
  qed
  from this [of "[]" "[]" xs] start show ?thesis by simp
qed

section \<open>The file judgement\<close>

text \<open>
  \<open>leaves m P f\<close>: started with the local files \<open>f\<close>, the outcome of \<open>m\<close> and the files it leaves
  satisfy \<open>P\<close>.
\<close>

definition leaves :: "('e, 'w, 'a) io \<Rightarrow> ('a res \<Rightarrow> (string \<rightharpoonup> string) \<Rightarrow> bool) \<Rightarrow>
    (string \<rightharpoonup> string) \<Rightarrow> bool" where
  "leaves m P f \<longleftrightarrow> (\<forall>s. files s = f \<longrightarrow> P (fst (m s)) (files (snd (m s))))"

definition leaves_after :: "(gerr \<Rightarrow> ('e, 'w, 'b) io) \<Rightarrow> ('a \<Rightarrow> ('e, 'w, 'b) io) \<Rightarrow>
    ('b res \<Rightarrow> (string \<rightharpoonup> string) \<Rightarrow> bool) \<Rightarrow> 'a res \<Rightarrow> (string \<rightharpoonup> string) \<Rightarrow> bool" where
  "leaves_after h k P r g = (case r of
      Ok x \<Rightarrow> leaves (k x) P g | Err e \<Rightarrow> leaves (h e) P g | Panic p \<Rightarrow> P (Panic p) g)"

lemma leaves_afterI [file_rules]:
  "(\<And>x. r = Ok x \<Longrightarrow> leaves (k x) P g) \<Longrightarrow> (\<And>e. r = Err e \<Longrightarrow> leaves (h e) P g) \<Longrightarrow>
   (\<And>p. r = Panic p \<Longrightarrow> P (Panic p) g) \<Longrightarrow> leaves_after h k P r g"
  by (cases r) (simp_all add: leaves_after_def)

lemma leaves_mono: "leaves m P f \<Longrightarrow> (\<And>r g. P r g \<Longrightarrow> Q r g) \<Longrightarrow> leaves m Q f"
  by (simp add: leaves_def)

lemma leavesD: "leaves m P f \<Longrightarrow> m s = (r, s') \<Longrightarrow> files s = f \<Longrightarrow> P r (files s')"
  by (auto simp: leaves_def)

lemma leaves_ret [file_rules]: "P (Ok x) f \<Longrightarrow> leaves (io_ret x) P f"
  by (simp add: leaves_def io_ret_run)

lemma leaves_fail [file_rules]: "P (Err e) f \<Longrightarrow> leaves (io_fail e) P f"
  by (simp add: leaves_def io_fail_run)

lemma leaves_ext [file_rules]: "(\<And>r. P r f) \<Longrightarrow> leaves (io_ext ev x) P f"
  by (simp add: leaves_def io_ext_run split: prod.splits)

lemma leaves_try [file_rules]: "leaves m (leaves_after h k P) f \<Longrightarrow> leaves (io_try m h k) P f"
  unfolding leaves_def
  by (auto simp: io_try_run leaves_after_def leaves_def split: prod.splits res.splits)

lemma leaves_bind [file_rules]: "leaves m (leaves_after io_fail k P) f \<Longrightarrow> leaves (io_bind m k) P f"
  unfolding io_bind_def by (rule leaves_try)

lemma leaves_lift [file_rules]:
  "(\<And>x. r = Inr x \<Longrightarrow> P (Ok x) f) \<Longrightarrow> (\<And>e. r = Inl e \<Longrightarrow> P (Err e) f) \<Longrightarrow> leaves (io_lift r) P f"
  by (cases r) (auto intro: file_rules)

lemma leaves_if [file_rules]:
  "(b \<Longrightarrow> leaves m P f) \<Longrightarrow> (\<not> b \<Longrightarrow> leaves n P f) \<Longrightarrow> leaves (if b then m else n) P f"
  by simp

lemma leaves_finally [file_rules]:
  assumes "leaves m (\<lambda>r. leaves d (\<lambda>r'. P (case r' of Panic p \<Rightarrow> Panic p | _ \<Rightarrow> r))) f"
  shows "leaves (io_finally m d) P f"
  unfolding leaves_def
proof (intro allI impI)
  fix s :: "('a, 'b) sys"
  assume f: "files s = f"
  obtain r s' where run: "m s = (r, s')" by (cases "m s")
  obtain r' s'' where run': "d s' = (r', s'')" by (cases "d s'")
  have "leaves d (\<lambda>r'. P (case r' of Panic p \<Rightarrow> Panic p | _ \<Rightarrow> r)) (files s')"
    by (rule leavesD [OF assms run f])
  from leavesD [OF this run'] have "P (case r' of Panic p \<Rightarrow> Panic p | _ \<Rightarrow> r) (files s'')" by simp
  then show "P (fst (io_finally m d s)) (files (snd (io_finally m d s)))"
    using run run' by (cases r') (simp_all add: io_finally_run)
qed

lemma leaves_for_same [file_rules]:
  assumes "\<And>x. x \<in> set xs \<Longrightarrow> leaves (f x) (\<lambda>r g. g = h) h" and "\<And>r. P r h"
  shows "leaves (io_for xs f) P h"
proof -
  have "leaves (io_for xs f) (\<lambda>r g. g = h) h"
    using assms(1)
  proof (induction xs)
    case Nil
    then show ?case by (auto intro: file_rules)
  next
    case (Cons x xs)
    show ?case unfolding io_for.simps
    proof (rule leaves_bind, rule leaves_mono)
      show "leaves (f x) (\<lambda>r g. g = h) h" using Cons.prems by simp
      fix r :: "unit res" and g
      assume "g = h"
      then show "leaves_after io_fail (\<lambda>_. io_for xs f) (\<lambda>r g. g = h) r g"
        using Cons by (auto intro!: file_rules)
    qed
  qed
  then show ?thesis by (rule leaves_mono) (simp add: assms(2))
qed

section \<open>A part of a larger process\<close>

text \<open>
  \<open>io_on ev get put m\<close> runs \<open>m\<close> inside a process with more kinds of events and a larger world: \<open>get\<close> and
  \<open>put\<close> are the part of the world that \<open>m\<close> works on, \<open>ev\<close> makes its events those of the process.
\<close>

definition io_on :: "('e \<Rightarrow> 'f) \<Rightarrow> ('w \<Rightarrow> 'v) \<Rightarrow> ('v \<Rightarrow> 'w \<Rightarrow> 'w) \<Rightarrow> ('e, 'v, 'a) io \<Rightarrow> ('f, 'w, 'a) io" where
  "io_on ev get put m = (\<lambda>s. case m \<lparr>world = get (world s), files = files s, trace = []\<rparr> of
     (r, t) \<Rightarrow> (r, \<lparr>world = put (world t) (world s), files = files t, trace = trace s @ map ev (trace t)\<rparr>))"

lemma emits_on [emits_rules]:
  fixes m :: "('e, 'v, 'a) io" and ev :: "'e \<Rightarrow> 'f" and put :: "'v \<Rightarrow> 'w \<Rightarrow> 'w"
  assumes "emits m (\<lambda>r ts. P r (map ev ts))"
  shows "emits (io_on ev get put m) P"
proof (rule emitsI)
  fix s :: "('f, 'w) sys"
  obtain r t where run: "m \<lparr>world = get (world s), files = files s, trace = []\<rparr> = (r, t)" by fastforce
  obtain ts where "trace t = ts" and "P r (map ev ts)" using emitsD [OF assms run] by auto
  then show "\<exists>ts. trace (snd (io_on ev get put m s)) = trace s @ ts \<and> P (fst (io_on ev get put m s)) ts"
    by (simp add: io_on_def run)
qed

end
