(* ===== verification/GoStrings.thy ===== *)
theory GoStrings
  imports Prelude
begin

text \<open>
  The parts of Go's \<open>strings\<close>, \<open>strconv\<close>/\<open>fmt\<close> and \<open>path/filepath\<close> packages that the program uses.
  A Go string is a list of bytes.  Case mapping is the ASCII part of Go's.
\<close>

section \<open>strings\<close>

fun contains :: "string \<Rightarrow> string \<Rightarrow> bool" where
  "contains s sub = (prefix sub s \<or> (case s of [] \<Rightarrow> False | _ # s' \<Rightarrow> contains s' sub))"

declare contains.simps [simp del]

definition has_prefix :: "string \<Rightarrow> string \<Rightarrow> bool" where
  "has_prefix s p = prefix p s"

lemma contains_iff: "contains s sub \<longleftrightarrow> sublist sub s"
proof (induction s)
  case Nil
  then show ?case by (simp add: contains.simps)
next
  case (Cons c s)
  then show ?case by (subst contains.simps) (auto simp: sublist_Cons_right)
qed

lemma contains_append: "contains (a @ sub @ b) sub"
  by (auto simp: contains_iff sublist_def)

lemma contains_appendI1: "contains a sub \<Longrightarrow> contains (a @ b) sub"
  by (auto simp: contains_iff sublist_append)

lemma contains_appendI2: "contains b sub \<Longrightarrow> contains (a @ b) sub"
  by (auto simp: contains_iff sublist_append)

lemma contains_self [simp]: "contains s s"
  by (simp add: contains_iff)

text \<open>\<open>strings.Split(s, sep)\<close> for a separator of one byte.\<close>

fun split_on :: "char \<Rightarrow> string \<Rightarrow> string list" where
  "split_on c [] = [[]]"
| "split_on c (x # xs) =
     (if x = c then [] # split_on c xs
      else (case split_on c xs of [] \<Rightarrow> [[x]] | p # ps \<Rightarrow> (x # p) # ps))"

fun join_with :: "string \<Rightarrow> string list \<Rightarrow> string" where
  "join_with sep [] = []"
| "join_with sep [p] = p"
| "join_with sep (p # ps) = p @ sep @ join_with sep ps"

lemma split_on_nonempty [simp]: "split_on c s \<noteq> []"
  by (induction s) (auto split: list.splits)

lemma split_on_parts: "p \<in> set (split_on c s) \<Longrightarrow> c \<notin> set p"
proof (induction s arbitrary: p)
  case Nil
  then show ?case by simp
next
  case (Cons x s)
  obtain q qs where q: "split_on c s = q # qs"
    using split_on_nonempty by (metis neq_Nil_conv)
  have IH: "\<And>r. r = q \<or> r \<in> set qs \<Longrightarrow> c \<notin> set r" using Cons.IH q by auto
  show ?case using Cons.prems IH q by (auto split: if_splits)
qed

lemma join_split: "join_with [c] (split_on c s) = s"
proof (induction s)
  case Nil
  then show ?case by simp
next
  case (Cons x s)
  obtain p ps where p: "split_on c s = p # ps"
    using split_on_nonempty by (metis neq_Nil_conv)
  show ?case using Cons p by (cases ps) auto
qed

lemma split_no_sep: "c \<notin> set s \<Longrightarrow> split_on c s = [s]"
  by (induction s) auto

lemma split_append_sep:
  "c \<notin> set a \<Longrightarrow> split_on c (a @ c # b) = a # split_on c b"
  by (induction a) auto

lemma length_split: "length (split_on c s) = Suc (count_list s c)"
proof (induction s)
  case (Cons x s)
  then show ?case by (cases "split_on c s") auto
qed simp

text \<open>\<open>strings.Replace(s, old, new, 1)\<close> for a nonempty \<open>old\<close>.\<close>

fun replace_first :: "string \<Rightarrow> string \<Rightarrow> string \<Rightarrow> string" where
  "replace_first [] old new = []"
| "replace_first (x # xs) old new =
     (if prefix old (x # xs) then new @ drop (length old) (x # xs)
      else x # replace_first xs old new)"

lemma replace_first_prefix:
  "old \<noteq> [] \<Longrightarrow> replace_first (old @ s) old new = new @ s"
proof -
  assume "old \<noteq> []"
  then obtain c cs where old: "old = c # cs" by (cases old) auto
  have "prefix old (c # (cs @ s))" and "drop (length old) (c # (cs @ s)) = s"
    by (simp_all add: old)
  then have "replace_first (c # (cs @ s)) old new = new @ s" by simp
  then show ?thesis by (simp add: old)
qed

text \<open>\<open>strings.ToLower\<close> on ASCII.\<close>

definition to_lower_char :: "char \<Rightarrow> char" where
  "to_lower_char c = (let n = of_char c :: nat in if 65 \<le> n \<and> n \<le> 90 then char_of (n + 32) else c)"

definition to_lower :: "string \<Rightarrow> string" where
  "to_lower s = map to_lower_char s"

section \<open>Decimal formatting\<close>

text \<open>\<open>fmt.Sprintf("%d", n)\<close> for a Go \<open>int\<close>.\<close>

definition digit_char :: "nat \<Rightarrow> char" where
  "digit_char d = char_of (48 + d)"

fun nat_dec :: "nat \<Rightarrow> string" where
  "nat_dec n = (if n < 10 then [digit_char n] else nat_dec (n div 10) @ [digit_char (n mod 10)])"

declare nat_dec.simps [simp del]

definition int_dec :: "int \<Rightarrow> string" where
  "int_dec n = (if n < 0 then ''-'' @ nat_dec (nat (- n)) else nat_dec (nat n))"

text \<open>Reading the digits back; the formatting loses nothing.\<close>

definition dec_value :: "string \<Rightarrow> nat" where
  "dec_value s = foldl (\<lambda>a c. 10 * a + (of_char c - 48)) 0 s"

lemma digit_char_value: "d < 10 \<Longrightarrow> (of_char (digit_char d) :: nat) = 48 + d"
  by (simp add: digit_char_def)

lemma dec_value_nat_dec [simp]: "dec_value (nat_dec n) = n"
proof (induction n rule: nat_dec.induct)
  case (1 n)
  show ?case
  proof (cases "n < 10")
    case True
    then show ?thesis by (subst nat_dec.simps) (simp add: dec_value_def digit_char_value)
  next
    case False
    then have "dec_value (nat_dec (n div 10)) = n div 10" using "1.IH" by simp
    with False show ?thesis
      by (subst nat_dec.simps) (simp add: dec_value_def digit_char_value)
  qed
qed

lemma nat_dec_inj [simp]: "nat_dec m = nat_dec n \<longleftrightarrow> m = n"
  by (metis dec_value_nat_dec)

lemma nat_dec_digits: "c \<in> set (nat_dec n) \<Longrightarrow> 48 \<le> (of_char c :: nat) \<and> (of_char c :: nat) < 58"
proof (induction n rule: nat_dec.induct)
  case (1 n)
  show ?case
  proof (cases "n < 10")
    case True
    with "1.prems" show ?thesis by (subst (asm) nat_dec.simps) (auto simp: digit_char_value)
  next
    case False
    have "n mod 10 < 10" by simp
    with False "1.prems" show ?thesis
      by (subst (asm) nat_dec.simps) (use "1.IH" in \<open>auto simp: digit_char_value\<close>)
  qed
qed

lemma nat_dec_nonempty [simp]: "nat_dec n \<noteq> []"
  by (subst nat_dec.simps) simp

lemma nat_dec_no_char: "(of_char c :: nat) < 48 \<or> 58 \<le> (of_char c :: nat) \<Longrightarrow> c \<notin> set (nat_dec n)"
  using nat_dec_digits by (meson leD)

lemma int_dec_inj [simp]: "int_dec m = int_dec n \<longleftrightarrow> m = n"
proof -
  have minus: "CHR ''-'' \<notin> set (nat_dec k)" for k by (rule nat_dec_no_char) simp
  have "''-'' @ nat_dec a \<noteq> nat_dec b" for a b
  proof
    assume eq: "''-'' @ nat_dec a = nat_dec b"
    have "CHR ''-'' \<in> set (''-'' @ nat_dec a)" by simp
    then show False unfolding eq using minus by simp
  qed
  then show ?thesis by (auto simp: int_dec_def dest: sym)
qed

section \<open>path/filepath\<close>

text \<open>
  \<open>filepath.Clean\<close>: drop empty and \<open>.\<close> elements, resolve \<open>..\<close> against the element before it (and
  drop it at the root), keep leading \<open>..\<close> of a relative path.
\<close>

fun clean_elems :: "bool \<Rightarrow> string list \<Rightarrow> string list \<Rightarrow> string list" where
  "clean_elems rooted acc [] = rev acc"
| "clean_elems rooted acc (p # ps) =
     (if p = [] \<or> p = ''.'' then clean_elems rooted acc ps
      else if p = ''..'' then
        (case acc of
           [] \<Rightarrow> clean_elems rooted (if rooted then [] else [p]) ps
         | a # as \<Rightarrow> if a = ''..'' then clean_elems rooted (p # acc) ps
                     else clean_elems rooted as ps)
      else clean_elems rooted (p # acc) ps)"

definition path_clean :: "string \<Rightarrow> string" where
  "path_clean p = (let rooted = has_prefix p ''/'';
      body = join_with ''/'' (clean_elems rooted [] (split_on (CHR ''/'') p))
    in if rooted then ''/'' @ body else if body = [] then ''.'' else body)"

text \<open>\<open>filepath.Join(a, b)\<close>: empty elements are ignored, the rest joined and cleaned.\<close>

definition path_join :: "string \<Rightarrow> string \<Rightarrow> string" where
  "path_join a b = (let ps = filter (\<lambda>p. p \<noteq> []) [a, b]
     in if ps = [] then [] else path_clean (join_with ''/'' ps))"

text \<open>\<open>filepath.Dir\<close>: everything up to the last slash, cleaned.\<close>

definition path_dir :: "string \<Rightarrow> string" where
  "path_dir p = path_clean (rev (dropWhile (\<lambda>c. c \<noteq> CHR ''/'') (rev p)))"

definition path_base :: "string \<Rightarrow> string" where
  "path_base p = (if p = [] then ''.'' else
     let q = rev (dropWhile (\<lambda>c. c = CHR ''/'') (rev p));
         b = rev (takeWhile (\<lambda>c. c \<noteq> CHR ''/'') (rev q))
     in if b = [] then ''/'' else b)"

section \<open>Paths with one element more\<close>

text \<open>An identifier that is a single path element.\<close>

definition plain_id :: "string \<Rightarrow> bool" where
  "plain_id s \<longleftrightarrow> s \<noteq> [] \<and> s \<noteq> ''.'' \<and> s \<noteq> ''..'' \<and> CHR ''/'' \<notin> set s"

lemma clean_elems_snoc:
  assumes "plain_id v"
  shows "clean_elems rooted acc (ps @ [v]) = clean_elems rooted acc ps @ [v]"
  using assms by (induction rooted acc ps rule: clean_elems.induct) (auto simp: plain_id_def split: list.splits)

lemma split_snoc: "c \<notin> set v \<Longrightarrow> split_on c (a @ c # v) = split_on c a @ [v]"
proof (induction a)
  case Nil
  then show ?case by (simp add: split_no_sep)
next
  case (Cons x a)
  then show ?case by (cases "split_on c a") (auto simp: Cons)
qed

lemma join_snoc: "ps \<noteq> [] \<Longrightarrow> join_with sep (ps @ [v]) = join_with sep ps @ sep @ v"
  by (induction sep ps rule: join_with.induct) auto

text \<open>A joined path is the cleaned directory, a separator where it needs one, and the last element.\<close>

definition path_prefix :: "string \<Rightarrow> string" where
  "path_prefix base = (if base = [] then [] else
     let rooted = has_prefix base ''/'';
         es = clean_elems rooted [] (split_on (CHR ''/'') base);
         body = (if es = [] then [] else join_with ''/'' es @ ''/'')
     in if rooted then ''/'' @ body else body)"

lemma path_join_plain:
  assumes "plain_id v"
  shows "path_join base v = path_prefix base @ v"
proof (cases "base = []")
  case True
  have "split_on (CHR ''/'') v = [v]" using assms by (simp add: plain_id_def split_no_sep)
  moreover have "\<not> has_prefix v ''/''" using assms by (cases v) (auto simp: plain_id_def has_prefix_def)
  ultimately show ?thesis using assms True
    by (simp add: path_join_def path_clean_def path_prefix_def plain_id_def)
next
  case False
  obtain r where r: "has_prefix base ''/'' = r" by simp
  obtain es where es: "clean_elems r [] (split_on (CHR ''/'') base) = es" by simp
  have rooted: "has_prefix (base @ CHR ''/'' # v) ''/'' = r"
    using False r by (cases base) (auto simp: has_prefix_def)
  have "path_join base v = path_clean (base @ CHR ''/'' # v)"
    using False assms by (simp add: path_join_def plain_id_def)
  moreover have "clean_elems r [] (split_on (CHR ''/'') (base @ CHR ''/'' # v)) = es @ [v]"
    using assms by (simp add: plain_id_def split_snoc clean_elems_snoc es)
  moreover have "join_with ''/'' (es @ [v]) = (if es = [] then [] else join_with ''/'' es @ ''/'') @ v"
    by (simp add: join_snoc)
  moreover have "v \<noteq> []" using assms by (simp add: plain_id_def)
  ultimately show ?thesis
    using False es by (cases r) (simp_all add: path_clean_def path_prefix_def rooted r Let_def)
qed

end
