(* ===== verification/Json.thy ===== *)
theory Json
  imports GoStrings
begin

text \<open>
  The part of Go's \<open>encoding/json\<close> the program relies on: values, \<open>Marshal\<close> with its escaping
  (HTML characters included) and \<open>Unmarshal\<close> into an untyped value, with the theorem that reading
  back what was written gives the value again.  Numbers are integers: the program writes no
  others.  Bytes above 127 pass through both directions unchanged, as valid UTF-8 does in Go.
\<close>

datatype json =
    JNull
  | JBool bool
  | JNum int
  | JStr string
  | JArr "json list"
  | JObj "(string \<times> json) list"

section \<open>Marshal\<close>

definition hex_digit :: "nat \<Rightarrow> char" where
  "hex_digit d = (if d < 10 then char_of (48 + d) else char_of (87 + d))"

definition escape_char :: "char \<Rightarrow> string" where
  "escape_char c = (let n = of_char c :: nat in
     if n = 34 then [CHR 0x5C, CHR 0x22]
     else if n = 92 then [CHR 0x5C, CHR 0x5C]
     else if n = 8 then [CHR 0x5C, CHR ''b'']
     else if n = 12 then [CHR 0x5C, CHR ''f'']
     else if n = 10 then [CHR 0x5C, CHR ''n'']
     else if n = 13 then [CHR 0x5C, CHR ''r'']
     else if n = 9 then [CHR 0x5C, CHR ''t'']
     else if n < 32 \<or> n = 60 \<or> n = 62 \<or> n = 38 then
       [CHR 0x5C, CHR ''u'', CHR ''0'', CHR ''0'', hex_digit (n div 16), hex_digit (n mod 16)]
     else [c])"

definition escape :: "string \<Rightarrow> string" where
  "escape s = concat (map escape_char s)"

definition json_string :: "string \<Rightarrow> string" where
  "json_string s = [CHR 0x22] @ escape s @ [CHR 0x22]"

primrec json_print :: "json \<Rightarrow> string" where
  "json_print JNull = ''null''"
| "json_print (JBool b) = (if b then ''true'' else ''false'')"
| "json_print (JNum n) = int_dec n"
| "json_print (JStr s) = json_string s"
| "json_print (JArr xs) = ''['' @ join_with '','' (map json_print xs) @ '']''"
| "json_print (JObj kvs) = ''{'' @ join_with '',''
     (map (\<lambda>(k, s). json_string k @ '':'' @ s) (map (map_prod id json_print) kvs)) @ ''}''"

section \<open>Unmarshal\<close>

definition is_ws :: "char \<Rightarrow> bool" where
  "is_ws c = (c \<in> {CHR '' '', CHR 0x09, CHR 0x0A, CHR 0x0D})"

definition skip_ws :: "string \<Rightarrow> string" where
  "skip_ws s = dropWhile is_ws s"

definition is_digit :: "char \<Rightarrow> bool" where
  "is_digit c = (let n = of_char c :: nat in 48 \<le> n \<and> n < 58)"

definition hex_value :: "char \<Rightarrow> nat option" where
  "hex_value c = (let n = of_char c :: nat in
     if 48 \<le> n \<and> n < 58 then Some (n - 48)
     else if 97 \<le> n \<and> n < 103 then Some (n - 87)
     else if 65 \<le> n \<and> n < 71 then Some (n - 55) else None)"

text \<open>The UTF-8 bytes of a code point of a \<open>\u\<close> escape; surrogates are not accepted.\<close>

definition utf8 :: "nat \<Rightarrow> string option" where
  "utf8 n = (if n < 128 then Some [char_of n]
     else if n < 2048 then Some [char_of (192 + n div 64), char_of (128 + n mod 64)]
     else if 55296 \<le> n \<and> n < 57344 then None
     else Some [char_of (224 + n div 4096), char_of (128 + n div 64 mod 64), char_of (128 + n mod 64)])"

fun hex4 :: "string \<Rightarrow> (nat \<times> string) option" where
  "hex4 (a # b # c # d # r) = (case (hex_value a, hex_value b, hex_value c, hex_value d) of
      (Some p, Some q, Some s, Some t) \<Rightarrow> Some (4096 * p + 256 * q + 16 * s + t, r)
    | _ \<Rightarrow> None)"
| "hex4 _ = None"

definition simple_escape :: "char \<Rightarrow> char option" where
  "simple_escape c = (if c = CHR 0x22 \<or> c = CHR 0x5C \<or> c = CHR ''/'' then Some c
     else if c = CHR ''b'' then Some (CHR 0x08)
     else if c = CHR ''f'' then Some (CHR 0x0C)
     else if c = CHR ''n'' then Some (CHR 0x0A)
     else if c = CHR ''r'' then Some (CHR 0x0D)
     else if c = CHR ''t'' then Some (CHR 0x09) else None)"

text \<open>The body of a string literal, after its opening quote; \<open>n\<close> bounds the characters read.\<close>

fun parse_string :: "nat \<Rightarrow> string \<Rightarrow> (string \<times> string) option" where
  "parse_string 0 s = None"
| "parse_string (Suc n) [] = None"
| "parse_string (Suc n) (c # s) =
     (if c = CHR 0x22 then Some ([], s)
      else if c = CHR 0x5C then
        (case s of
           [] \<Rightarrow> None
         | e # s' \<Rightarrow>
             if e = CHR ''u'' then
               (case hex4 s' of None \<Rightarrow> None | Some (cp, r) \<Rightarrow>
                 (case utf8 cp of None \<Rightarrow> None | Some b \<Rightarrow>
                   map_option (\<lambda>(t, r'). (b @ t, r')) (parse_string n r)))
             else
               (case simple_escape e of None \<Rightarrow> None | Some b \<Rightarrow>
                 map_option (\<lambda>(t, r'). (b # t, r')) (parse_string n s')))
      else if (of_char c :: nat) < 32 then None
      else map_option (\<lambda>(t, r). (c # t, r)) (parse_string n s))"

definition parse_number :: "string \<Rightarrow> (int \<times> string) option" where
  "parse_number s = (let neg = has_prefix s ''-''; t = (if neg then tl s else s);
      ds = takeWhile is_digit t; r = dropWhile is_digit t
    in if ds = [] \<or> (length ds > 1 \<and> hd ds = CHR ''0'') then None
       else Some (if neg then - int (dec_value ds) else int (dec_value ds), r))"

fun parse_value :: "nat \<Rightarrow> string \<Rightarrow> (json \<times> string) option"
  and parse_elems :: "nat \<Rightarrow> string \<Rightarrow> (json list \<times> string) option"
  and parse_members :: "nat \<Rightarrow> string \<Rightarrow> ((string \<times> json) list \<times> string) option" where
  "parse_value 0 s = None"
| "parse_value (Suc n) s = (let t = skip_ws s in
     if prefix ''null'' t then Some (JNull, drop 4 t)
     else if prefix ''true'' t then Some (JBool True, drop 4 t)
     else if prefix ''false'' t then Some (JBool False, drop 5 t)
     else (case t of
        [] \<Rightarrow> None
      | c # r \<Rightarrow>
          if c = CHR 0x22 then map_option (\<lambda>(x, r'). (JStr x, r')) (parse_string (Suc (length r)) r)
          else if c = CHR ''['' then
            (if prefix '']'' (skip_ws r) then Some (JArr [], tl (skip_ws r))
             else map_option (\<lambda>(xs, r'). (JArr xs, r')) (parse_elems n r))
          else if c = CHR ''{'' then
            (if prefix ''}'' (skip_ws r) then Some (JObj [], tl (skip_ws r))
             else map_option (\<lambda>(kvs, r'). (JObj kvs, r')) (parse_members n r))
          else map_option (\<lambda>(x, r'). (JNum x, r')) (parse_number t)))"
| "parse_elems 0 s = None"
| "parse_elems (Suc n) s = (case parse_value n s of None \<Rightarrow> None | Some (x, r) \<Rightarrow>
     (case skip_ws r of
        [] \<Rightarrow> None
      | c # r' \<Rightarrow>
          if c = CHR '','' then map_option (\<lambda>(xs, q). (x # xs, q)) (parse_elems n r')
          else if c = CHR '']'' then Some ([x], r')
          else None))"
| "parse_members 0 s = None"
| "parse_members (Suc n) s = (case skip_ws s of
      [] \<Rightarrow> None
    | q # s' \<Rightarrow> if q \<noteq> CHR 0x22 then None else
        (case parse_string (Suc (length s')) s' of None \<Rightarrow> None | Some (k, r) \<Rightarrow>
          (case skip_ws r of
             [] \<Rightarrow> None
           | c # r1 \<Rightarrow> if c \<noteq> CHR '':'' then None else
               (case parse_value n r1 of None \<Rightarrow> None | Some (x, r2) \<Rightarrow>
                 (case skip_ws r2 of
                    [] \<Rightarrow> None
                  | d # r3 \<Rightarrow>
                      if d = CHR '','' then map_option (\<lambda>(kvs, q). ((k, x) # kvs, q)) (parse_members n r3)
                      else if d = CHR ''}'' then Some ([(k, x)], r3)
                      else None)))))"

definition json_parse :: "string \<Rightarrow> json option" where
  "json_parse s = (case parse_value (Suc (length s)) s of
      Some (v, r) \<Rightarrow> if skip_ws r = [] then Some v else None
    | None \<Rightarrow> None)"

section \<open>Reading back what was written\<close>

lemma hex_value_digit [simp]: "d < 16 \<Longrightarrow> hex_value (hex_digit d) = Some d"
  by (auto simp: hex_value_def hex_digit_def Let_def)

lemma char_of_codes:
  "char_of (34::nat) = CHR 0x22" "char_of (92::nat) = CHR 0x5C" "char_of (8::nat) = CHR 0x08"
  "char_of (12::nat) = CHR 0x0C" "char_of (10::nat) = CHR 0x0A" "char_of (13::nat) = CHR 0x0D"
  "char_of (9::nat) = CHR 0x09"
  by code_simp+

lemma hex_value_0 [simp]: "hex_value (CHR ''0'') = Some 0"
  by (simp add: hex_value_def)

lemma parse_escape_char:
  "parse_string (Suc n) (escape_char c @ t) = map_option (\<lambda>(x, r). (c # x, r)) (parse_string n t)"
proof -
  define k where "k = (of_char c :: nat)"
  have c: "c = char_of k" by (simp add: k_def)
  have k256: "k < 256" unfolding k_def by simp
  consider "k = 34" | "k = 92" | "k = 8" | "k = 12" | "k = 10" | "k = 13" | "k = 9"
    | "k < 32 \<or> k = 60 \<or> k = 62 \<or> k = 38" "k \<notin> {8, 9, 10, 12, 13}"
    | "\<not> k < 32" "k \<notin> {34, 92, 60, 62, 38}" by auto
  then show ?thesis
  proof cases
    case 8
    have d: "k div 16 < 16" "k mod 16 < 16" "16 * (k div 16) + k mod 16 = k" "k < 128"
      using k256 8 by auto
    have "escape_char c = [CHR 0x5C, CHR ''u'', CHR ''0'', CHR ''0'', hex_digit (k div 16), hex_digit (k mod 16)]"
      using 8 by (auto simp: escape_char_def k_def [symmetric])
    with d show ?thesis by (simp add: utf8_def c)
  next
    case 9
    then have "escape_char c = [c]" and "c \<noteq> CHR 0x22" and "c \<noteq> CHR 0x5C"
      by (auto simp: escape_char_def k_def [symmetric]) (auto simp: k_def)
    with 9 show ?thesis by (simp add: k_def)
  qed (simp_all add: escape_char_def k_def [symmetric] simple_escape_def c char_of_codes)
qed

lemma parse_escape:
  "length s < n \<Longrightarrow> parse_string n (escape s @ CHR 0x22 # rest) = Some (s, rest)"
proof (induction s arbitrary: n)
  case Nil
  then show ?case by (cases n) (auto simp: escape_def)
next
  case (Cons c s)
  then obtain m where n: "n = Suc m" by (cases n) auto
  have "escape (c # s) @ CHR 0x22 # rest = escape_char c @ (escape s @ CHR 0x22 # rest)"
    by (simp add: escape_def)
  then show ?case using Cons n by (simp add: parse_escape_char)
qed

lemma length_escape_char: "1 \<le> length (escape_char c)"
  by (simp add: escape_char_def Let_def)

lemma length_escape: "length s \<le> length (escape s)"
proof (induction s)
  case (Cons c s)
  then show ?case using length_escape_char [of c] by (simp add: escape_def)
qed (simp add: escape_def)

lemma is_digit_nat_dec: "c \<in> set (nat_dec n) \<Longrightarrow> is_digit c"
  using nat_dec_digits by (auto simp: is_digit_def)

definition no_digit_start :: "string \<Rightarrow> bool" where
  "no_digit_start s = (case s of [] \<Rightarrow> True | c # _ \<Rightarrow> \<not> is_digit c)"

lemma takeWhile_nat_dec:
  "no_digit_start rest \<Longrightarrow> takeWhile is_digit (nat_dec n @ rest) = nat_dec n"
  "no_digit_start rest \<Longrightarrow> dropWhile is_digit (nat_dec n @ rest) = rest"
  by (cases rest; auto simp: no_digit_start_def takeWhile_append dropWhile_append is_digit_nat_dec)+

lemma nat_dec_no_leading_zero: "length (nat_dec n) > 1 \<Longrightarrow> hd (nat_dec n) \<noteq> CHR ''0''"
proof (induction n rule: nat_dec.induct)
  case (1 n)
  show ?case
  proof (cases "n < 10")
    case True
    with "1.prems" show ?thesis by (simp add: nat_dec.simps)
  next
    case False
    show ?thesis
    proof (cases "n div 10 < 10")
      case True
      have "hd (nat_dec n) = digit_char (n div 10)"
        using False True by (subst nat_dec.simps, simp) (subst nat_dec.simps, simp)
      moreover have "(of_char (digit_char (n div 10)) :: nat) \<noteq> of_char (CHR ''0'')"
        using False True by (simp add: digit_char_value)
      ultimately show ?thesis by metis
    next
      case big: False
      then have "length (nat_dec (n div 10)) > 1"
        by (subst nat_dec.simps) (simp add: Suc_lessI)
      then have "hd (nat_dec (n div 10)) \<noteq> CHR ''0''" using "1.IH" False by simp
      with False show ?thesis by (subst nat_dec.simps) simp
    qed
  qed
qed

lemma not_minus_nat_dec: "\<not> prefix ''-'' (nat_dec n @ rest)"
proof
  assume "prefix ''-'' (nat_dec n @ rest)"
  then have "CHR ''-'' \<in> set (nat_dec n)" by (cases "nat_dec n") auto
  then show False using nat_dec_no_char by simp
qed

lemma parse_number_dec: "no_digit_start rest \<Longrightarrow> parse_number (int_dec n @ rest) = Some (n, rest)"
  using not_minus_nat_dec [of "nat n" rest] nat_dec_no_leading_zero
  by (auto simp: parse_number_def int_dec_def has_prefix_def takeWhile_nat_dec Let_def)

lemma first_char:
  obtains c t where "json_print v = c # t" "\<not> is_ws c" "c \<noteq> CHR '']''" "c \<noteq> CHR ''}''"
proof -
  have num: "\<exists>c t. int_dec n = c # t \<and> \<not> is_ws c \<and> c \<noteq> CHR '']'' \<and> c \<noteq> CHR ''}''" for n
  proof (cases "n < 0")
    case True
    then show ?thesis by (simp add: int_dec_def is_ws_def)
  next
    case False
    obtain c t where ct: "nat_dec (nat n) = c # t" by (cases "nat_dec (nat n)") auto
    then have "48 \<le> (of_char c :: nat) \<and> (of_char c :: nat) < 58"
      using nat_dec_digits [of c "nat n"] by simp
    then show ?thesis using False ct by (auto simp: int_dec_def is_ws_def)
  qed
  have "\<exists>c t. json_print v = c # t \<and> \<not> is_ws c \<and> c \<noteq> CHR '']'' \<and> c \<noteq> CHR ''}''"
    by (cases v) (use num in \<open>auto simp: is_ws_def json_string_def\<close>)
  then show ?thesis using that by blast
qed

lemma skip_ws_print [simp]: "skip_ws (json_print v @ r) = json_print v @ r"
  by (rule first_char [of v]) (simp add: skip_ws_def)

lemma print_not_close [simp]:
  "\<not> prefix '']'' (json_print v @ r)" "\<not> prefix ''}'' (json_print v @ r)"
  by (rule first_char [of v]; auto)+

lemma parse_number_value:
  assumes "no_digit_start rest"
  shows "parse_value (Suc n) (int_dec k @ rest) = Some (JNum k, rest)"
proof -
  obtain c t where ct: "int_dec k = c # t" and dig: "is_digit c \<or> c = CHR ''-''"
  proof (cases "k < 0")
    case False
    obtain c t where ct: "nat_dec (nat k) = c # t" by (cases "nat_dec (nat k)") auto
    then have "is_digit c" using is_digit_nat_dec [of c "nat k"] by simp
    with ct False that show ?thesis by (simp add: int_dec_def)
  qed (simp add: int_dec_def)
  have "skip_ws (int_dec k @ rest) = int_dec k @ rest"
    using skip_ws_print [of "JNum k" rest] by simp
  moreover have "c \<noteq> CHR ''n''" "c \<noteq> CHR ''t''" "c \<noteq> CHR ''f''" "c \<noteq> CHR 0x22"
    "c \<noteq> CHR ''[''" "c \<noteq> CHR ''{''"
    using dig by (auto simp: is_digit_def)
  ultimately show ?thesis
    using parse_number_dec [OF assms, of k] ct by simp
qed

definition members_print :: "(string \<times> json) list \<Rightarrow> string" where
  "members_print kvs = join_with '','' (map (\<lambda>(k, v). json_string k @ '':'' @ json_print v) kvs)"

lemma json_print_obj: "json_print (JObj kvs) = ''{'' @ members_print kvs @ ''}''"
  by (simp add: members_print_def comp_def case_prod_beta')

lemma join_Cons_nonempty: "ps \<noteq> [] \<Longrightarrow> join_with sep (p # ps) = p @ sep @ join_with sep ps"
  by (cases ps) auto

lemma no_digit_simps [simp]:
  "no_digit_start []" "no_digit_start (CHR '','' # r)" "no_digit_start (CHR '']'' # r)"
  "no_digit_start (CHR ''}'' # r)"
  by (simp_all add: no_digit_start_def is_digit_def)

definition reads_back :: "json \<Rightarrow> bool" where
  "reads_back v \<longleftrightarrow> (\<forall>n rest. length (json_print v) \<le> n \<longrightarrow> no_digit_start rest \<longrightarrow>
     parse_value n (json_print v @ rest) = Some (v, rest))"

lemma reads_backD:
  "reads_back v \<Longrightarrow> length (json_print v) \<le> n \<Longrightarrow> no_digit_start rest \<Longrightarrow>
   parse_value n (json_print v @ rest) = Some (v, rest)"
  by (simp add: reads_back_def)

lemma skip_ws_simps [simp]:
  "skip_ws (CHR '','' # r) = CHR '','' # r" "skip_ws (CHR '']'' # r) = CHR '']'' # r"
  "skip_ws (CHR ''}'' # r) = CHR ''}'' # r" "skip_ws (CHR '':'' # r) = CHR '':'' # r"
  "skip_ws (CHR 0x22 # r) = CHR 0x22 # r"
  by (simp_all add: skip_ws_def is_ws_def)

lemma parse_elems_print:
  assumes "\<And>v. v \<in> set vs \<Longrightarrow> reads_back v" and "vs \<noteq> []"
    and "length (join_with '','' (map json_print vs)) < n"
  shows "parse_elems n (join_with '','' (map json_print vs) @ CHR '']'' # rest) = Some (vs, rest)"
  using assms
proof (induction vs arbitrary: n)
  case Nil
  then show ?case by simp
next
  case (Cons v vs)
  then obtain m where n: "n = Suc m" by (cases n) auto
  have v: "reads_back v" using Cons.prems(1) by simp
  show ?case
  proof (cases "vs = []")
    case True
    have "length (json_print v) \<le> m" using Cons.prems(3) True n by simp
    then show ?thesis using reads_backD [OF v] True n by simp
  next
    case False
    have len: "length (json_print v) + Suc (length (join_with '','' (map json_print vs))) \<le> m"
      using Cons.prems(3) False n by (simp add: join_Cons_nonempty)
    have "parse_elems m (join_with '','' (map json_print vs) @ CHR '']'' # rest) = Some (vs, rest)"
      using Cons.IH Cons.prems(1) False len by simp
    moreover have "parse_value m (json_print v @ CHR '','' # r) = Some (v, CHR '','' # r)" for r
      using reads_backD [OF v] len by simp
    ultimately show ?thesis using False n by (simp add: join_Cons_nonempty)
  qed
qed

lemma parse_members_print:
  assumes "\<And>k v. (k, v) \<in> set kvs \<Longrightarrow> reads_back v" and "kvs \<noteq> []"
    and "length (members_print kvs) < n"
  shows "parse_members n (members_print kvs @ CHR ''}'' # rest) = Some (kvs, rest)"
  using assms
proof (induction kvs arbitrary: n)
  case Nil
  then show ?case by simp
next
  case (Cons kv kvs)
  obtain k v where kv: "kv = (k, v)" by (cases kv)
  from Cons.prems obtain m where n: "n = Suc m" by (cases n) auto
  have v: "reads_back v" using Cons.prems(1) [of k v] kv by simp
  have key: "length (escape k) < j \<Longrightarrow> parse_string j (escape k @ CHR 0x22 # r) = Some (k, r)" for j r
    by (rule parse_escape) (use length_escape [of k] in simp)
  show ?case
  proof (cases "kvs = []")
    case True
    have "length (json_print v) \<le> m"
      using Cons.prems(3) True n kv by (simp add: members_print_def)
    then show ?thesis
      using reads_backD [OF v] True n kv key by (simp add: members_print_def json_string_def)
  next
    case False
    have split: "members_print ((k, v) # kvs) = json_string k @ '':'' @ json_print v @ '','' @ members_print kvs"
      using False by (simp add: members_print_def join_Cons_nonempty)
    have len: "length (json_print v) + Suc (length (members_print kvs)) \<le> m"
      using Cons.prems(3) False n kv split by simp
    have "parse_members m (members_print kvs @ CHR ''}'' # rest) = Some (kvs, rest)"
      using Cons.IH Cons.prems(1) False len by (meson add_leE list.set_intros(2) less_eq_Suc_le)
    moreover have "parse_value m (json_print v @ CHR '','' # r) = Some (v, CHR '','' # r)" for r
      using reads_backD [OF v] len by simp
    ultimately show ?thesis using False n kv split key by (simp add: json_string_def)
  qed
qed

lemma reads_back_all: "reads_back v"
proof (induction v)
  case JNull
  show ?case by (auto simp: reads_back_def Suc_le_eq skip_ws_def is_ws_def gr0_conv_Suc less_Suc_eq_0_disj
      elim!: less_natE)
next
  case (JBool b)
  show ?case by (auto simp: reads_back_def skip_ws_def is_ws_def Suc_le_eq elim!: less_natE)
next
  case (JNum k)
  show ?case unfolding reads_back_def
  proof (intro allI impI)
    fix n rest
    assume "length (json_print (JNum k)) \<le> n" and r: "no_digit_start rest"
    then obtain m where "n = Suc m"
      using first_char [of "JNum k"] by (cases n) auto
    then show "parse_value n (json_print (JNum k) @ rest) = Some (JNum k, rest)"
      using parse_number_value [OF r] by simp
  qed
next
  case (JStr x)
  show ?case unfolding reads_back_def
  proof (intro allI impI)
    fix n rest
    assume "length (json_print (JStr x)) \<le> n"
    then obtain m where "n = Suc m" by (cases n) (auto simp: json_string_def)
    moreover have "parse_string (Suc (length (escape x @ CHR 0x22 # rest))) (escape x @ CHR 0x22 # rest) = Some (x, rest)"
      by (rule parse_escape) (use length_escape [of x] in simp)
    ultimately show "parse_value n (json_print (JStr x) @ rest) = Some (JStr x, rest)"
      by (simp add: json_string_def)
  qed
next
  case (JArr vs)
  show ?case unfolding reads_back_def
  proof (intro allI impI)
    fix n rest
    assume len: "length (json_print (JArr vs)) \<le> n"
    then obtain m where n: "n = Suc m" by (cases n) auto
    show "parse_value n (json_print (JArr vs) @ rest) = Some (JArr vs, rest)"
    proof (cases vs)
      case Nil
      then show ?thesis by (simp add: n skip_ws_def is_ws_def)
    next
      case (Cons w ws)
      have "parse_elems m (join_with '','' (map json_print vs) @ CHR '']'' # rest) = Some (vs, rest)"
        by (rule parse_elems_print) (use JArr Cons len n in auto)
      moreover have "join_with '','' (map json_print vs) @ CHR '']'' # rest
          = json_print w @ (if ws = [] then [] else '','' @ join_with '','' (map json_print ws)) @ CHR '']'' # rest"
        using Cons by (simp add: join_Cons_nonempty)
      then have "\<not> prefix '']'' (skip_ws (join_with '','' (map json_print vs) @ CHR '']'' # rest))"
        by simp
      ultimately show ?thesis by (simp add: n skip_ws_def is_ws_def)
    qed
  qed
next
  case (JObj kvs)
  show ?case unfolding reads_back_def
  proof (intro allI impI)
    fix n rest
    assume len: "length (json_print (JObj kvs)) \<le> n"
    then obtain m where n: "n = Suc m" by (cases n) auto
    show "parse_value n (json_print (JObj kvs) @ rest) = Some (JObj kvs, rest)"
    proof (cases kvs)
      case Nil
      then show ?thesis by (simp add: n skip_ws_def is_ws_def)
    next
      case (Cons w ws)
      have "length (members_print kvs) < m"
        using len n unfolding json_print_obj by simp
      moreover have "reads_back v" if "(k, v) \<in> set kvs" for k v
        using JObj [of "(k, v)" v] that by simp
      ultimately have elems: "parse_members m (members_print kvs @ CHR ''}'' # rest) = Some (kvs, rest)"
        using Cons by (intro parse_members_print) auto
      obtain t where t: "members_print kvs = CHR 0x22 # t"
        using Cons by (cases w; cases "ws = []") (auto simp: members_print_def join_Cons_nonempty json_string_def)
      from elems t show ?thesis unfolding json_print_obj by (simp add: n skip_ws_def is_ws_def)
    qed
  qed
qed

theorem json_parse_print: "json_parse (json_print v) = Some v"
  using reads_backD [OF reads_back_all, of v "Suc (length (json_print v))" "[]"]
  by (simp add: json_parse_def skip_ws_def)

end
