(* ===== verification/World.thy ===== *)
theory World
  imports Json
begin

text \<open>
  What the program sees of the outside: the data types of the LXD/Incus API, the requests its
  client libraries offer (as functions of the world, supplied as parameters), and the events that
  a run of the program leaves in the trace.  The server, the client libraries, the disk-image
  library and the operating system are not part of the program, so nothing is assumed of their
  answers here.
\<close>

section \<open>API data\<close>

text \<open>A client handle: the project and cluster target that \<open>UseProject\<close> and \<open>UseTarget\<close> set.\<close>

record conn =
  conn_project :: string
  conn_target :: string

definition UseProject :: "string \<Rightarrow> conn \<Rightarrow> conn" where
  "UseProject p cn = cn\<lparr>conn_project := p\<rparr>"

definition UseTarget :: "string \<Rightarrow> conn \<Rightarrow> conn" where
  "UseTarget t cn = cn\<lparr>conn_target := t\<rparr>"

record instance_put =
  ip_architecture :: string
  ip_config :: strmap
  ip_devices :: devices
  ip_ephemeral :: bool
  ip_profiles :: "string list"
  ip_restore :: string
  ip_stateful :: bool
  ip_description :: string

record vm_instance =
  ins_put :: instance_put
  ins_name :: string
  ins_location :: string

record instance_source =
  src_type :: string
  src_alias :: string
  src_project :: string

record instances_post =
  ipost_put :: instance_put
  ipost_name :: string
  ipost_instance_type :: string
  ipost_source :: instance_source
  ipost_type :: string

record instance_state_put =
  isp_action :: string
  isp_timeout :: int
  isp_force :: bool
  isp_stateful :: bool

record storage_volume =
  sv_name :: string
  sv_location :: string
  sv_description :: string
  sv_config :: strmap
  sv_used_by :: "string list"

record storage_volume_put =
  svp_config :: strmap
  svp_description :: string
  svp_restore :: string

record storage_volumes_post =
  svpost_name :: string
  svpost_type :: string
  svpost_content_type :: string
  svpost_put :: storage_volume_put

record iso_args =
  iso_name :: string
  iso_backup_file :: string

record copy_args =
  cp_name :: string
  cp_mode :: string
  cp_volume_only :: bool

record snapshot_put =
  snap_description :: string

record snapshots_post =
  snpost_name :: string
  snpost_description :: string

record vm_image =
  img_properties :: strmap
  img_aliases :: "string list"

record alias_entry =
  al_name :: string
  al_description :: string
  al_target :: string

record images_post =
  impost_public :: bool
  impost_auto_update :: bool
  impost_filename :: string

record image_yaml =
  iy_architecture :: string
  iy_creation_date :: int
  iy_properties :: strmap

text \<open>A tar archive is its list of entries.\<close>

record tar_entry =
  te_name :: string
  te_mode :: int
  te_size :: int
  te_data :: string

record image_args =
  ia_meta_file :: "tar_entry list"
  ia_rootfs_file :: string
  ia_type :: string

text \<open>
  A stemcell tarball as its reader delivers it: the entries (size, modification time, content) and
  the error that ends the sequence, \<open>io.EOF\<close> at the regular end.
\<close>

record tar_header =
  th_Size :: int
  th_ModTime :: int
  th_Content :: string

record stemcell_archive =
  sa_entries :: "tar_header list"
  sa_end :: gerr

text \<open>An operation of the server is known to the client by its handle.\<close>

type_synonym op_handle = string
type_synonym etag = string
type_synonym status_code = int

definition api_Started :: status_code where "api_Started = 101"
definition api_Stopped :: status_code where "api_Stopped = 102"
definition api_Running :: status_code where "api_Running = 103"
definition api_Starting :: status_code where "api_Starting = 106"
definition api_Stopping :: status_code where "api_Stopping = 107"

section \<open>Events\<close>

text \<open>
  Requests to the disk-image library (\<open>go-diskfs\<close>) and to the temporary directory while an agent
  settings image is built.  The answer to \<open>DkCreateTemp\<close> is the file name, to \<open>DkCreateFilesystem\<close>
  the concrete type of the file system, to \<open>DkReadImage\<close> the image.
\<close>

record mbr_partition =
  mbr_Bootable :: bool
  mbr_Type :: string
  mbr_Start :: int
  mbr_Size :: int

record filesystem_spec =
  fss_Partition :: int
  fss_FSType :: string
  fss_VolumeLabel :: string

datatype disk_req =
    DkCreateTemp string
  | DkCloseTemp string
  | DkRemoveTemp string
  | DkCreate string int
  | DkPartition int int "mbr_partition list"
  | DkCreateFilesystem int filesystem_spec
  | DkMkdir string
  | DkOpen string
  | DkWrite string string
  | DkClose string
  | DkFinalize bool string
  | DkReadImage string
  | DkRemoveImage string

text \<open>
  The requests that change something on the server.  They are what the safety properties are
  about, so the trace keeps them whole: client handle, object names and bodies.
\<close>

datatype request =
    ReqCreateImage conn images_post image_args
  | ReqCreateImageAlias conn alias_entry
  | ReqDeleteImage conn string
  | ReqCreateInstance conn instances_post
  | ReqDeleteInstance conn string
  | ReqUpdateInstance conn string instance_put etag
  | ReqUpdateInstanceState conn string instance_state_put etag
  | ReqCreateVolume conn string storage_volumes_post
  | ReqCreateVolumeFromISO conn string iso_args
  | ReqUpdateVolume conn string string string storage_volume_put etag
  | ReqDeleteVolume conn string string string
  | ReqCopyVolume conn string conn string storage_volume copy_args
  | ReqCreateSnapshot conn string string string snapshots_post
  | ReqUpdateSnapshot conn string string string string snapshot_put etag
  | ReqDeleteSnapshot conn string string string string

text \<open>
  One event per interaction, with the answer.  \<open>EvReq\<close> is a changing request; its answer is the
  handle of the operation that carries it out.
\<close>

datatype event =
    EvReq request "gerr + op_handle"
  | EvWait op_handle "gerr + unit"
  | EvOpMetadata op_handle "gerr + json gomap"
  | EvGetServer conn "gerr + string"
  | EvGetImages conn "gerr + vm_image list"
  | EvGetImageAlias conn string "gerr + alias_entry \<times> etag"
  | EvGetImage conn string "gerr + vm_image \<times> etag"
  | EvGetInstance conn string "gerr + vm_instance \<times> etag"
  | EvGetInstanceState conn string "gerr + status_code \<times> etag"
  | EvGetNetwork conn string "gerr + bool \<times> etag"
  | EvGetVolume conn string string string "gerr + storage_volume \<times> etag"
  | EvGetVolumes conn string "gerr + storage_volume list"
  | EvGetSnapshot conn string string string string "gerr + snapshot_put \<times> etag"
  | EvConnect string "gerr + unit"
  | EvDisconnect "gerr + unit"
  | EvUuid "gerr + string"
  | EvTryLock "gerr + bool"
  | EvUnlock "gerr + unit"
  | EvReadFile string "gerr + string"
  | EvWriteFile string string "gerr + unit"
  | EvRemoveFile string "gerr + unit"
  | EvDisk disk_req "gerr + string"
  | EvOpenFile string "gerr + unit"
  | EvGzipReader string "gerr + stemcell_archive"

type_synonym ('w, 'a) go = "(event, 'w, 'a) io"

section \<open>The API of the servers, as parameters\<close>

text \<open>
  What the client libraries offer.  \<open>srv_Request\<close> carries every changing request: it is accepted
  with the handle of an operation, or refused with an error.  In the LXD library all of them are
  asynchronous and the handle is waited for; in the Incus library the requests on volumes and on
  an existing snapshot answer directly, and the adapter never looks at a handle.  The last two
  fields are third-party text functions that the image upload uses.
\<close>

record 'w api_server =
  srv_Request :: "request \<Rightarrow> ('w, op_handle) ext"
  srv_Wait :: "op_handle \<Rightarrow> ('w, unit) ext"
  srv_OpMetadata :: "op_handle \<Rightarrow> ('w, json gomap) ext"
  srv_GetServer :: "conn \<Rightarrow> ('w, string) ext"
  srv_GetImages :: "conn \<Rightarrow> ('w, vm_image list) ext"
  srv_GetImageAlias :: "conn \<Rightarrow> string \<Rightarrow> ('w, alias_entry \<times> etag) ext"
  srv_GetImage :: "conn \<Rightarrow> string \<Rightarrow> ('w, vm_image \<times> etag) ext"
  srv_GetInstance :: "conn \<Rightarrow> string \<Rightarrow> ('w, vm_instance \<times> etag) ext"
  srv_GetInstanceState :: "conn \<Rightarrow> string \<Rightarrow> ('w, status_code \<times> etag) ext"
  srv_GetNetwork :: "conn \<Rightarrow> string \<Rightarrow> ('w, bool \<times> etag) ext"
  srv_GetVolume :: "conn \<Rightarrow> string \<Rightarrow> string \<Rightarrow> string \<Rightarrow> ('w, storage_volume \<times> etag) ext"
  srv_GetVolumes :: "conn \<Rightarrow> string \<Rightarrow> ('w, storage_volume list) ext"
  srv_GetSnapshot :: "conn \<Rightarrow> string \<Rightarrow> string \<Rightarrow> string \<Rightarrow> string \<Rightarrow> ('w, snapshot_put \<times> etag) ext"
  srv_Disconnect :: "('w, unit) ext"
  lib_TitleCase :: "string \<Rightarrow> string"
  lib_YamlMarshal :: "image_yaml \<Rightarrow> gerr + string"

text \<open>The calls themselves: one interaction each.\<close>

abbreviation request :: "'w api_server \<Rightarrow> request \<Rightarrow> ('w, op_handle) go" where
  "request S r \<equiv> io_ext (EvReq r) (srv_Request S r)"

abbreviation op_wait :: "'w api_server \<Rightarrow> op_handle \<Rightarrow> ('w, unit) go" where
  "op_wait S h \<equiv> io_ext (EvWait h) (srv_Wait S h)"

abbreviation op_metadata :: "'w api_server \<Rightarrow> op_handle \<Rightarrow> ('w, json gomap) go" where
  "op_metadata S h \<equiv> io_ext (EvOpMetadata h) (srv_OpMetadata S h)"

abbreviation get_server :: "'w api_server \<Rightarrow> conn \<Rightarrow> ('w, string) go" where
  "get_server S cn \<equiv> io_ext (EvGetServer cn) (srv_GetServer S cn)"

abbreviation get_images :: "'w api_server \<Rightarrow> conn \<Rightarrow> ('w, vm_image list) go" where
  "get_images S cn \<equiv> io_ext (EvGetImages cn) (srv_GetImages S cn)"

abbreviation get_image_alias :: "'w api_server \<Rightarrow> conn \<Rightarrow> string \<Rightarrow> ('w, alias_entry \<times> etag) go" where
  "get_image_alias S cn n \<equiv> io_ext (EvGetImageAlias cn n) (srv_GetImageAlias S cn n)"

abbreviation get_image :: "'w api_server \<Rightarrow> conn \<Rightarrow> string \<Rightarrow> ('w, vm_image \<times> etag) go" where
  "get_image S cn n \<equiv> io_ext (EvGetImage cn n) (srv_GetImage S cn n)"

abbreviation get_instance :: "'w api_server \<Rightarrow> conn \<Rightarrow> string \<Rightarrow> ('w, vm_instance \<times> etag) go" where
  "get_instance S cn n \<equiv> io_ext (EvGetInstance cn n) (srv_GetInstance S cn n)"

abbreviation get_instance_state :: "'w api_server \<Rightarrow> conn \<Rightarrow> string \<Rightarrow> ('w, status_code \<times> etag) go" where
  "get_instance_state S cn n \<equiv> io_ext (EvGetInstanceState cn n) (srv_GetInstanceState S cn n)"

abbreviation get_network :: "'w api_server \<Rightarrow> conn \<Rightarrow> string \<Rightarrow> ('w, bool \<times> etag) go" where
  "get_network S cn n \<equiv> io_ext (EvGetNetwork cn n) (srv_GetNetwork S cn n)"

abbreviation get_volume :: "'w api_server \<Rightarrow> conn \<Rightarrow> string \<Rightarrow> string \<Rightarrow> string \<Rightarrow>
    ('w, storage_volume \<times> etag) go" where
  "get_volume S cn p ty n \<equiv> io_ext (EvGetVolume cn p ty n) (srv_GetVolume S cn p ty n)"

abbreviation get_volumes :: "'w api_server \<Rightarrow> conn \<Rightarrow> string \<Rightarrow> ('w, storage_volume list) go" where
  "get_volumes S cn p \<equiv> io_ext (EvGetVolumes cn p) (srv_GetVolumes S cn p)"

abbreviation get_snapshot :: "'w api_server \<Rightarrow> conn \<Rightarrow> string \<Rightarrow> string \<Rightarrow> string \<Rightarrow> string \<Rightarrow>
    ('w, snapshot_put \<times> etag) go" where
  "get_snapshot S cn p ty v n \<equiv> io_ext (EvGetSnapshot cn p ty v n) (srv_GetSnapshot S cn p ty v n)"

abbreviation disconnect :: "'w api_server \<Rightarrow> ('w, unit) go" where
  "disconnect S \<equiv> io_ext EvDisconnect (srv_Disconnect S)"

section \<open>Projections of a trace\<close>

fun effect_of :: "event \<Rightarrow> request option" where
  "effect_of (EvReq r _) = Some r"
| "effect_of _ = None"

text \<open>The changing requests that were sent, in order.\<close>

definition effects :: "event list \<Rightarrow> request list" where
  "effects ts = List.map_filter effect_of ts"

lemma effects_Nil [simp]: "effects [] = []"
  by (simp add: effects_def map_filter_simps)

lemma effects_Cons [simp]:
  "effects (e # ts) = (case effect_of e of None \<Rightarrow> effects ts | Some x \<Rightarrow> x # effects ts)"
  by (simp add: effects_def map_filter_simps split: option.splits)

lemma effects_append [simp]: "effects (ts @ us) = effects ts @ effects us"
  by (induction ts) (auto split: option.splits)

text \<open>A changing request, or the operation it started, that the server reported as failed.\<close>

fun ev_failed :: "event \<Rightarrow> bool" where
  "ev_failed (EvReq r a) = (\<not> is_Inr a)"
| "ev_failed (EvWait h a) = (\<not> is_Inr a)"
| "ev_failed _ = False"

end
