(* ===== verification/Adapter.thy ===== *)
theory Adapter
  imports World
begin

text \<open>
  \<open>adapter/adapter.go\<close> and \<open>adapter/config.go\<close>: the interface \<open>ApiAdapter\<close> between the CPI and the
  two server adapters, the metadata records it passes, and the server configuration.  An interface
  value is a record of its methods.
\<close>

section \<open>Metadata and actions\<close>

record ImageMetadata =
  im_Alias :: string
  im_Description :: string
  im_OsDistro :: string
  im_ImagePath :: string
  im_Architecture :: string
  im_CreateDate :: int
  im_RootDeviceName :: string
  im_DiskInMB :: int
  im_TarFile :: string

record InstanceMetadata =
  meta_Name :: string
  meta_StemcellAlias :: string
  meta_InstanceType :: string
  meta_Project :: string
  meta_Profiles :: "string list"
  meta_Target :: string
  meta_Devices :: devices
  meta_Config :: strmap

datatype action = StartAction | StopAction | RestartAction

fun action_string :: "action \<Rightarrow> string" where
  "action_string StartAction = ''start''"
| "action_string StopAction = ''stop''"
| "action_string RestartAction = ''restart''"

section \<open>The interface\<close>

record 'w ApiAdapter =
  FindExistingImage :: "string \<Rightarrow> ('w, string) go"
  CreateAndUploadImage :: "ImageMetadata \<Rightarrow> ('w, unit) go"
  DeleteImage :: "string \<Rightarrow> ('w, unit) go"
  GetStemcellDescription :: "string \<Rightarrow> ('w, string) go"
  IsManagedNetwork :: "string \<Rightarrow> ('w, bool) go"
  CreateInstance :: "InstanceMetadata \<Rightarrow> ('w, unit) go"
  DeleteInstance :: "string \<Rightarrow> ('w, unit) go"
  GetInstanceLocation :: "string \<Rightarrow> ('w, string) go"
  UpdateInstanceDescription :: "string \<Rightarrow> string \<Rightarrow> ('w, unit) go"
  SetInstanceAction :: "string \<Rightarrow> action \<Rightarrow> ('w, unit) go"
  IsInstanceStopped :: "string \<Rightarrow> ('w, bool) go"
  DeleteStoragePoolVolume :: "string \<Rightarrow> string \<Rightarrow> ('w, unit) go"
  GetStoragePoolVolume :: "string \<Rightarrow> string \<Rightarrow> ('w, string) go"
  GetStoragePoolVolumeUsage :: "string \<Rightarrow> ('w, int gomap) go"
  ResizeStoragePoolVolume :: "string \<Rightarrow> string \<Rightarrow> int \<Rightarrow> ('w, unit) go"
  CreateStoragePoolVolumeFromISO :: "string \<Rightarrow> string \<Rightarrow> string \<Rightarrow> string \<Rightarrow> ('w, unit) go"
  CreateStoragePoolVolume :: "string \<Rightarrow> string \<Rightarrow> string \<Rightarrow> int \<Rightarrow> ('w, unit) go"
  UpdateStoragePoolVolumeDescription :: "string \<Rightarrow> string \<Rightarrow> string \<Rightarrow> ('w, unit) go"
  ColocateStoragePoolVolumeWithInstance :: "string \<Rightarrow> string \<Rightarrow> string \<Rightarrow> ('w, unit) go"
  DeleteStoragePoolVolumeSnapshot :: "string \<Rightarrow> string \<Rightarrow> string \<Rightarrow> ('w, unit) go"
  CreateStoragePoolVolumeSnapshot :: "string \<Rightarrow> string \<Rightarrow> string \<Rightarrow> string \<Rightarrow> ('w, unit) go"
  AttachDevice :: "string \<Rightarrow> string \<Rightarrow> strmap \<Rightarrow> ('w, unit) go"
  DetachDeviceByName :: "string \<Rightarrow> string \<Rightarrow> ('w, unit) go"
  DetachDeviceBySource :: "string \<Rightarrow> string \<Rightarrow> ('w, unit) go"
  GetDevices :: "string \<Rightarrow> ('w, devices) go"
  IsConnected :: "('w, unit) go"
  Disconnect :: "('w, unit) go"

section \<open>Configuration\<close>

record CreateVMLockConfig =
  lock_Enabled :: bool
  lock_Timeout :: string
  lock_Path :: string

record ServerConfig =
  cfg_Type :: string
  cfg_URL :: string
  cfg_TLSClientCert :: string
  cfg_TLSClientKey :: string
  cfg_InsecureSkipVerify :: bool
  cfg_Project :: string
  cfg_Profile :: string
  cfg_Target :: string
  cfg_ManagedNetworkAssignment :: string
  cfg_Network :: string
  cfg_StoragePool :: string
  cfg_PredeployStemcell :: bool
  cfg_CreateVMLock :: CreateVMLockConfig
  cfg_InstanceConfig :: "strmap gomap"

definition server_config_Validate :: "ServerConfig \<Rightarrow> gerr option" where
  "server_config_Validate cfg = None"

text \<open>Quoting as \<open>'%s'\<close> does in the error messages.\<close>

definition quoted :: "string \<Rightarrow> string" where
  "quoted s = [CHR 0x27] @ s @ [CHR 0x27]"

end
