(* ===== verification/LxdAdapter.thy ===== *)
theory LxdAdapter
  imports Adapter
begin

text \<open>
  \<open>adapter/lxd/*.go\<close>: the adapter for LXD.  Every changing request is asynchronous and is waited for
  with \<open>lxd_wait\<close>.
\<close>

record 'w lxdApiAdapter =
  lx_server :: "'w api_server"
  lx_conn :: conn

section \<open>utils.go\<close>

text \<open>A nil error is \<open>None\<close>.\<close>

definition lxd_checkError :: "gerr option \<Rightarrow> gerr option" where
  "lxd_checkError err = (case err of
      Some e \<Rightarrow> if contains (error_string e) ''LXD VM agent'' then None else err
    | None \<Rightarrow> None)"

text \<open>
  \<open>wait(op, err)\<close>.  When the request failed the operation is nil; if \<open>checkError\<close> lets that error
  pass, \<open>op.Wait()\<close> is called on it.
\<close>

definition lxd_wait :: "'w api_server \<Rightarrow> ('w, op_handle) go \<Rightarrow> ('w, unit) go" where
  "lxd_wait S req = io_try req
     (\<lambda>err. if lxd_checkError (Some err) \<noteq> None then io_fail err
            else io_panic ''invalid memory address or nil pointer dereference'')
     (\<lambda>op. io_try (op_wait S op)
        (\<lambda>err. if lxd_checkError (Some err) \<noteq> None then io_fail (WrapError err ''Wait'') else io_ret ())
        (\<lambda>_. io_ret ()))"

section \<open>device.go\<close>

text \<open>\<open>Instance.Writable\<close> of the LXD API keeps everything but the snapshot to restore.\<close>

definition lxd_instance_Writable :: "vm_instance \<Rightarrow> instance_put" where
  "lxd_instance_Writable i = (ins_put i)\<lparr>ip_restore := []\<rparr>"

definition lxd_AttachDevice :: "'w lxdApiAdapter \<Rightarrow> string \<Rightarrow> string \<Rightarrow> strmap \<Rightarrow> ('w, unit) go" where
  "lxd_AttachDevice a instanceName deviceName device =
     io_bind (get_instance (lx_server a) (lx_conn a) instanceName) (\<lambda>(inst, etag).
       if gm_find (ip_devices (ins_put inst)) deviceName \<noteq> None
       then io_fail (GoError (''device already exists: '' @ quoted deviceName))
       else let inst' = inst\<lparr>ins_put := (ins_put inst)
              \<lparr>ip_devices := gm_put deviceName device (ip_devices (ins_put inst))\<rparr>\<rparr>
         in lxd_wait (lx_server a) (request (lx_server a)
              (ReqUpdateInstance (lx_conn a) instanceName (lxd_instance_Writable inst') etag)))"

definition lxd_DetachDeviceByName :: "'w lxdApiAdapter \<Rightarrow> string \<Rightarrow> string \<Rightarrow> ('w, unit) go" where
  "lxd_DetachDeviceByName a instanceName deviceName =
     io_bind (get_instance (lx_server a) (lx_conn a) instanceName) (\<lambda>(inst, _).
       if gm_find (ip_devices (ins_put inst)) deviceName \<noteq> None
       then let inst' = inst\<lparr>ins_put := (ins_put inst)
              \<lparr>ip_devices := gm_del deviceName (ip_devices (ins_put inst))\<rparr>\<rparr>
         in lxd_wait (lx_server a) (request (lx_server a)
              (ReqUpdateInstance (lx_conn a) instanceName (lxd_instance_Writable inst') []))
       else io_ret ())"

text \<open>The loop that looks for the first device whose \<open>source\<close> is the given one.\<close>

fun find_device_by_source :: "devices \<Rightarrow> string \<Rightarrow> string" where
  "find_device_by_source [] sourceName = []"
| "find_device_by_source ((name, device) # ds) sourceName =
     (if gm_get device ''source'' = sourceName then name else find_device_by_source ds sourceName)"

definition lxd_DetachDeviceBySource :: "'w lxdApiAdapter \<Rightarrow> string \<Rightarrow> string \<Rightarrow> ('w, unit) go" where
  "lxd_DetachDeviceBySource a instanceName sourceName =
     io_bind (get_instance (lx_server a) (lx_conn a) instanceName) (\<lambda>(inst, _).
       let deviceName = find_device_by_source (ip_devices (ins_put inst)) sourceName in
       if deviceName = [] then io_ret ()
       else let inst' = inst\<lparr>ins_put := (ins_put inst)
              \<lparr>ip_devices := gm_del deviceName (ip_devices (ins_put inst))\<rparr>\<rparr>
         in lxd_wait (lx_server a) (request (lx_server a)
              (ReqUpdateInstance (lx_conn a) instanceName (lxd_instance_Writable inst') [])))"

definition lxd_GetDevices :: "'w lxdApiAdapter \<Rightarrow> string \<Rightarrow> ('w, devices) go" where
  "lxd_GetDevices a instanceName =
     io_bind (get_instance (lx_server a) (lx_conn a) instanceName) (\<lambda>(inst, _).
       io_ret (ip_devices (ins_put inst)))"

section \<open>image.go\<close>

fun find_image :: "vm_image list \<Rightarrow> string \<Rightarrow> string" where
  "find_image [] description = []"
| "find_image (img # images) description =
     (if description = gm_get (img_properties img) ''description'' \<and> img_aliases img \<noteq> []
      then hd (img_aliases img) else find_image images description)"

definition lxd_FindExistingImage :: "'w lxdApiAdapter \<Rightarrow> string \<Rightarrow> ('w, string) go" where
  "lxd_FindExistingImage a description =
     io_bind (get_images (lx_server a) (lx_conn a)) (\<lambda>images. io_ret (find_image images description))"

definition lxd_GetStemcellDescription :: "'w lxdApiAdapter \<Rightarrow> string \<Rightarrow> ('w, string) go" where
  "lxd_GetStemcellDescription a alias =
     io_bind (get_image_alias (lx_server a) (lx_conn a) alias) (\<lambda>(entry, _).
     io_bind (get_image (lx_server a) (lx_conn a) (al_target entry)) (\<lambda>(img, _).
       case gm_find (img_properties img) ''description'' of
         None \<Rightarrow> io_fail (GoError (''no description for image '' @ quoted (al_target entry)))
       | Some description \<Rightarrow> io_ret description))"

definition image_yaml_of :: "'w api_server \<Rightarrow> ImageMetadata \<Rightarrow> image_yaml" where
  "image_yaml_of S meta = \<lparr>
     iy_architecture = im_Architecture meta,
     iy_creation_date = im_CreateDate meta,
     iy_properties = [
       (''architecture'', im_Architecture meta),
       (''description'', im_Description meta),
       (''os'', lib_TitleCase S (im_OsDistro meta)),
       (''root_device_name'', im_RootDeviceName meta),
       (''root_disk_size'', int_dec (im_DiskInMB meta) @ ''MiB'')]\<rparr>"

definition metadata_tar :: "string \<Rightarrow> tar_entry list" where
  "metadata_tar yaml =
     [\<lparr>te_name = ''metadata.yaml'', te_mode = 384, te_size = int (length yaml), te_data = yaml\<rparr>]"

text \<open>The fingerprint of the new image, from the operation's metadata: a missing or non-string
  entry fails the type assertion.\<close>

definition fingerprint_of :: "json gomap \<Rightarrow> ('w, string) go" where
  "fingerprint_of md = (case gm_find md ''fingerprint'' of
      Some (JStr s) \<Rightarrow> io_ret s
    | _ \<Rightarrow> io_panic ''interface conversion: interface is not string'')"

definition lxd_CreateAndUploadImage :: "'w lxdApiAdapter \<Rightarrow> ImageMetadata \<Rightarrow> ('w, unit) go" where
  "lxd_CreateAndUploadImage a meta = (let S = lx_server a; cn = lx_conn a;
       imagePost = \<lparr>impost_public = False, impost_auto_update = False,
                impost_filename = path_base (im_ImagePath meta)\<rparr>
     in io_bind (io_lift (lib_YamlMarshal S (image_yaml_of S meta))) (\<lambda>yaml.
        let args = \<lparr>ia_meta_file = metadata_tar yaml, ia_rootfs_file = im_TarFile meta,
                    ia_type = ''virtual-machine''\<rparr>
        in io_bind (request S (ReqCreateImage cn imagePost args)) (\<lambda>op.
           io_bind (op_wait S op) (\<lambda>_.
           io_bind (op_metadata S op) (\<lambda>md.
           io_bind (fingerprint_of md) (\<lambda>fingerprint.
           io_bind (request S (ReqCreateImageAlias cn \<lparr>al_name = im_Alias meta,
               al_description = im_Description meta, al_target = fingerprint\<rparr>)) (\<lambda>_.
           io_ret ())))))))"

definition lxd_DeleteImage :: "'w lxdApiAdapter \<Rightarrow> string \<Rightarrow> ('w, unit) go" where
  "lxd_DeleteImage a alias =
     io_bind (get_image_alias (lx_server a) (lx_conn a) alias) (\<lambda>(imageAlias, _).
       lxd_wait (lx_server a) (request (lx_server a) (ReqDeleteImage (lx_conn a) (al_target imageAlias))))"

section \<open>instance.go\<close>

definition instances_post_of :: "InstanceMetadata \<Rightarrow> instances_post" where
  "instances_post_of meta = \<lparr>
     ipost_put = \<lparr>ip_architecture = [], ip_config = meta_Config meta, ip_devices = meta_Devices meta,
       ip_ephemeral = False, ip_profiles = meta_Profiles meta, ip_restore = [], ip_stateful = False,
       ip_description = []\<rparr>,
     ipost_name = meta_Name meta,
     ipost_instance_type = meta_InstanceType meta,
     ipost_source = \<lparr>src_type = ''image'', src_alias = meta_StemcellAlias meta,
       src_project = meta_Project meta\<rparr>,
     ipost_type = ''virtual-machine''\<rparr>"

definition lxd_CreateInstance :: "'w lxdApiAdapter \<Rightarrow> InstanceMetadata \<Rightarrow> ('w, unit) go" where
  "lxd_CreateInstance a meta = (let c = (if meta_Target meta \<noteq> [] then UseTarget (meta_Target meta) (lx_conn a)
       else lx_conn a)
     in lxd_wait (lx_server a) (request (lx_server a) (ReqCreateInstance c (instances_post_of meta))))"

definition lxd_DeleteInstance :: "'w lxdApiAdapter \<Rightarrow> string \<Rightarrow> ('w, unit) go" where
  "lxd_DeleteInstance a name =
     lxd_wait (lx_server a) (request (lx_server a) (ReqDeleteInstance (lx_conn a) name))"

definition lxd_GetInstanceLocation :: "'w lxdApiAdapter \<Rightarrow> string \<Rightarrow> ('w, string) go" where
  "lxd_GetInstanceLocation a name =
     io_bind (get_instance (lx_server a) (lx_conn a) name) (\<lambda>(inst, _). io_ret (ins_location inst))"

definition lxd_UpdateInstanceDescription :: "'w lxdApiAdapter \<Rightarrow> string \<Rightarrow> string \<Rightarrow> ('w, unit) go" where
  "lxd_UpdateInstanceDescription a name newDescription =
     io_bind (get_instance (lx_server a) (lx_conn a) name) (\<lambda>(inst, etag).
       let inst' = inst\<lparr>ins_put := (ins_put inst)\<lparr>ip_description := newDescription\<rparr>\<rparr>
       in lxd_wait (lx_server a) (request (lx_server a)
            (ReqUpdateInstance (lx_conn a) name (lxd_instance_Writable inst') etag)))"

fun hasMatch :: "status_code \<Rightarrow> status_code list \<Rightarrow> bool" where
  "hasMatch actual [] = False"
| "hasMatch actual (expected # vs) = (if actual = expected then True else hasMatch actual vs)"

definition at_requested_state :: "status_code \<Rightarrow> string \<Rightarrow> bool" where
  "at_requested_state code state =
     (if state = ''stop'' then hasMatch code [api_Stopped, api_Stopping]
      else if state = ''start'' then hasMatch code [api_Started, api_Starting, api_Running]
      else False)"

definition lxd_isVMAtRequestedState :: "'w lxdApiAdapter \<Rightarrow> string \<Rightarrow> string \<Rightarrow> ('w, bool) go" where
  "lxd_isVMAtRequestedState a instanceName state =
     io_bind (get_instance_state (lx_server a) (lx_conn a) instanceName) (\<lambda>(code, _).
       io_ret (at_requested_state code state))"

definition state_put_of :: "action \<Rightarrow> instance_state_put" where
  "state_put_of action = \<lparr>isp_action = action_string action, isp_timeout = 30, isp_force = True,
     isp_stateful = False\<rparr>"

definition lxd_SetInstanceAction :: "'w lxdApiAdapter \<Rightarrow> string \<Rightarrow> action \<Rightarrow> ('w, unit) go" where
  "lxd_SetInstanceAction a instanceName action =
     io_bind (lxd_isVMAtRequestedState a instanceName (action_string action)) (\<lambda>atCurrentState.
       if \<not> atCurrentState then
         io_bind (lxd_wait (lx_server a) (request (lx_server a)
           (ReqUpdateInstanceState (lx_conn a) instanceName (state_put_of action) []))) (\<lambda>_. io_ret ())
       else io_ret ())"

definition lxd_IsInstanceStopped :: "'w lxdApiAdapter \<Rightarrow> string \<Rightarrow> ('w, bool) go" where
  "lxd_IsInstanceStopped a instanceName = lxd_isVMAtRequestedState a instanceName ''stop''"

section \<open>misc.go, network.go, snapshot.go\<close>

definition lxd_IsConnected :: "'w lxdApiAdapter \<Rightarrow> ('w, unit) go" where
  "lxd_IsConnected a = io_bind (get_server (lx_server a) (lx_conn a)) (\<lambda>auth.
     if ''trusted'' \<noteq> auth
     then io_fail (GoError (''not connected with trusted connection; using '' @ quoted auth))
     else io_ret ())"

definition lxd_Disconnect :: "'w lxdApiAdapter \<Rightarrow> ('w, unit) go" where
  "lxd_Disconnect a = disconnect (lx_server a)"

definition lxd_IsManagedNetwork :: "'w lxdApiAdapter \<Rightarrow> string \<Rightarrow> ('w, bool) go" where
  "lxd_IsManagedNetwork a name =
     io_bind (get_network (lx_server a) (lx_conn a) name) (\<lambda>(managed, _). io_ret managed)"

definition lxd_DeleteStoragePoolVolumeSnapshot :: "'w lxdApiAdapter \<Rightarrow> string \<Rightarrow> string \<Rightarrow> string \<Rightarrow>
    ('w, unit) go" where
  "lxd_DeleteStoragePoolVolumeSnapshot a pool volumeName snapshotName =
     lxd_wait (lx_server a) (request (lx_server a)
       (ReqDeleteSnapshot (lx_conn a) pool ''custom'' volumeName snapshotName))"

definition lxd_CreateStoragePoolVolumeSnapshot :: "'w lxdApiAdapter \<Rightarrow> string \<Rightarrow> string \<Rightarrow> string \<Rightarrow> string \<Rightarrow>
    ('w, unit) go" where
  "lxd_CreateStoragePoolVolumeSnapshot a pool volumeName snapshotName description =
     lxd_wait (lx_server a) (request (lx_server a) (ReqCreateSnapshot (lx_conn a) pool ''custom'' volumeName
       \<lparr>snpost_name = snapshotName, snpost_description = description\<rparr>))"

section \<open>volume.go\<close>

definition volume_Writable :: "storage_volume \<Rightarrow> storage_volume_put" where
  "volume_Writable v = \<lparr>svp_config = sv_config v, svp_description = sv_description v, svp_restore = []\<rparr>"

definition lxd_DeleteStoragePoolVolume :: "'w lxdApiAdapter \<Rightarrow> string \<Rightarrow> string \<Rightarrow> ('w, unit) go" where
  "lxd_DeleteStoragePoolVolume a pool name =
     lxd_wait (lx_server a) (request (lx_server a) (ReqDeleteVolume (lx_conn a) pool ''custom'' name))"

definition lxd_GetStoragePoolVolume :: "'w lxdApiAdapter \<Rightarrow> string \<Rightarrow> string \<Rightarrow> ('w, string) go" where
  "lxd_GetStoragePoolVolume a pool name =
     io_bind (get_volume (lx_server a) (lx_conn a) pool ''custom'' name) (\<lambda>(_, etag). io_ret etag)"

definition lxd_ResizeStoragePoolVolume :: "'w lxdApiAdapter \<Rightarrow> string \<Rightarrow> string \<Rightarrow> int \<Rightarrow> ('w, unit) go" where
  "lxd_ResizeStoragePoolVolume a pool name newSize =
     io_bind (get_volume (lx_server a) (lx_conn a) pool ''custom'' name) (\<lambda>(volume, etag).
       let writable = volume_Writable volume;
           writable' = writable\<lparr>svp_config := gm_put ''size'' (int_dec newSize @ ''MiB'') (svp_config writable)\<rparr>
       in lxd_wait (lx_server a) (request (lx_server a)
            (ReqUpdateVolume (lx_conn a) pool ''custom'' name writable' etag)))"

definition volume_post_of :: "string \<Rightarrow> int \<Rightarrow> storage_volumes_post" where
  "volume_post_of name sz = \<lparr>svpost_name = name, svpost_type = ''custom'', svpost_content_type = ''block'',
     svpost_put = \<lparr>svp_config = [(''size'', int_dec sz @ ''MiB'')], svp_description = [], svp_restore = []\<rparr>\<rparr>"

definition lxd_CreateStoragePoolVolume :: "'w lxdApiAdapter \<Rightarrow> string \<Rightarrow> string \<Rightarrow> string \<Rightarrow> int \<Rightarrow> ('w, unit) go" where
  "lxd_CreateStoragePoolVolume a target pool name sz =
     (let c = (if target \<noteq> [] then UseTarget target (lx_conn a) else lx_conn a)
      in lxd_wait (lx_server a) (request (lx_server a) (ReqCreateVolume c pool (volume_post_of name sz))))"

definition lxd_CreateStoragePoolVolumeFromISO :: "'w lxdApiAdapter \<Rightarrow> string \<Rightarrow> string \<Rightarrow> string \<Rightarrow> string \<Rightarrow>
    ('w, unit) go" where
  "lxd_CreateStoragePoolVolumeFromISO a target pool diskName backupFile =
     (let c = (if target \<noteq> [] then UseTarget target (lx_conn a) else lx_conn a)
      in lxd_wait (lx_server a) (request (lx_server a)
           (ReqCreateVolumeFromISO c pool \<lparr>iso_name = diskName, iso_backup_file = backupFile\<rparr>)))"

definition lxd_UpdateStoragePoolVolumeDescription :: "'w lxdApiAdapter \<Rightarrow> string \<Rightarrow> string \<Rightarrow> string \<Rightarrow>
    ('w, unit) go" where
  "lxd_UpdateStoragePoolVolumeDescription a pool diskName description =
     io_bind (get_volume (lx_server a) (lx_conn a) pool ''custom'' diskName) (\<lambda>(volume, etag).
       let volume' = volume\<lparr>sv_description := description\<rparr>
       in lxd_wait (lx_server a) (request (lx_server a)
            (ReqUpdateVolume (lx_conn a) pool ''custom'' diskName (volume_Writable volume') etag)))"

text \<open>The usage count of every volume name; a later volume of the same name overwrites an earlier one.\<close>

definition usage_of :: "storage_volume list \<Rightarrow> int gomap" where
  "usage_of volumes = foldl (\<lambda>data v. gm_put (sv_name v) (int (length (sv_used_by v))) data) [] volumes"

definition lxd_GetStoragePoolVolumeUsage :: "'w lxdApiAdapter \<Rightarrow> string \<Rightarrow> ('w, int gomap) go" where
  "lxd_GetStoragePoolVolumeUsage a pool =
     io_bind (get_volumes (lx_server a) (lx_conn a) pool) (\<lambda>volumes. io_ret (usage_of volumes))"

definition lxd_ColocateStoragePoolVolumeWithInstance :: "'w lxdApiAdapter \<Rightarrow> string \<Rightarrow> string \<Rightarrow> string \<Rightarrow>
    ('w, unit) go" where
  "lxd_ColocateStoragePoolVolumeWithInstance a instanceName pool diskName =
     io_bind (lxd_GetInstanceLocation a instanceName) (\<lambda>instanceLoc.
     io_bind (get_volume (lx_server a) (lx_conn a) pool ''custom'' diskName) (\<lambda>(volume, _).
       if instanceLoc = sv_location volume \<or> sv_location volume = [] then io_ret ()
       else let srcServer = UseTarget (sv_location volume) (lx_conn a);
                dstServer = UseTarget instanceLoc (lx_conn a);
                args = \<lparr>cp_name = sv_name volume, cp_mode = ''move'', cp_volume_only = False\<rparr>
         in io_bind (lxd_wait (lx_server a) (request (lx_server a)
                (ReqCopyVolume dstServer pool srcServer pool volume args))) (\<lambda>_.
              lxd_wait (lx_server a) (request (lx_server a)
                (ReqDeleteVolume srcServer pool ''custom'' diskName)))))"

section \<open>The adapter value\<close>

definition lxd_adapter :: "'w lxdApiAdapter \<Rightarrow> 'w ApiAdapter" where
  "lxd_adapter a = \<lparr>
     FindExistingImage = lxd_FindExistingImage a,
     CreateAndUploadImage = lxd_CreateAndUploadImage a,
     DeleteImage = lxd_DeleteImage a,
     GetStemcellDescription = lxd_GetStemcellDescription a,
     IsManagedNetwork = lxd_IsManagedNetwork a,
     CreateInstance = lxd_CreateInstance a,
     DeleteInstance = lxd_DeleteInstance a,
     GetInstanceLocation = lxd_GetInstanceLocation a,
     UpdateInstanceDescription = lxd_UpdateInstanceDescription a,
     SetInstanceAction = lxd_SetInstanceAction a,
     IsInstanceStopped = lxd_IsInstanceStopped a,
     DeleteStoragePoolVolume = lxd_DeleteStoragePoolVolume a,
     GetStoragePoolVolume = lxd_GetStoragePoolVolume a,
     GetStoragePoolVolumeUsage = lxd_GetStoragePoolVolumeUsage a,
     ResizeStoragePoolVolume = lxd_ResizeStoragePoolVolume a,
     CreateStoragePoolVolumeFromISO = lxd_CreateStoragePoolVolumeFromISO a,
     CreateStoragePoolVolume = lxd_CreateStoragePoolVolume a,
     UpdateStoragePoolVolumeDescription = lxd_UpdateStoragePoolVolumeDescription a,
     ColocateStoragePoolVolumeWithInstance = lxd_ColocateStoragePoolVolumeWithInstance a,
     DeleteStoragePoolVolumeSnapshot = lxd_DeleteStoragePoolVolumeSnapshot a,
     CreateStoragePoolVolumeSnapshot = lxd_CreateStoragePoolVolumeSnapshot a,
     AttachDevice = lxd_AttachDevice a,
     DetachDeviceByName = lxd_DetachDeviceByName a,
     DetachDeviceBySource = lxd_DetachDeviceBySource a,
     GetDevices = lxd_GetDevices a,
     IsConnected = lxd_IsConnected a,
     Disconnect = lxd_Disconnect a\<rparr>"

end
