(* ===== verification/IncusAdapter.thy ===== *)
theory IncusAdapter
  imports LxdAdapter
begin

text \<open>
  \<open>adapter/incus/*.go\<close>: the adapter for Incus.  It differs from the LXD one where the client library
  does: requests on storage volumes answer directly, a snapshot gets its description in a second
  request, the agent error has another text, and \<open>Writable\<close> keeps every field of the instance.  The
  helpers that are the same code in both packages are those of the LXD theory.
\<close>

record 'w incusApiAdapter =
  ic_server :: "'w api_server"
  ic_conn :: conn

section \<open>utils.go\<close>

definition incus_checkError :: "gerr option \<Rightarrow> gerr option" where
  "incus_checkError err = (case err of
      Some e \<Rightarrow> if contains (error_string e) ''Incus VM agent'' then None else err
    | None \<Rightarrow> None)"

definition incus_wait :: "'w api_server \<Rightarrow> ('w, op_handle) go \<Rightarrow> ('w, unit) go" where
  "incus_wait S req = io_try req
     (\<lambda>err. if incus_checkError (Some err) \<noteq> None then io_fail err
            else io_panic ''invalid memory address or nil pointer dereference'')
     (\<lambda>op. io_try (op_wait S op)
        (\<lambda>err. if incus_checkError (Some err) \<noteq> None then io_fail (WrapError err ''Wait'') else io_ret ())
        (\<lambda>_. io_ret ()))"

text \<open>A request that the Incus client answers directly with an error or nil.\<close>

definition incus_direct :: "'w api_server \<Rightarrow> request \<Rightarrow> ('w, unit) go" where
  "incus_direct S r = io_bind (request S r) (\<lambda>_. io_ret ())"

section \<open>device.go\<close>

definition incus_instance_Writable :: "vm_instance \<Rightarrow> instance_put" where
  "incus_instance_Writable i = ins_put i"

definition incus_AttachDevice :: "'w incusApiAdapter \<Rightarrow> string \<Rightarrow> string \<Rightarrow> strmap \<Rightarrow> ('w, unit) go" where
  "incus_AttachDevice a instanceName deviceName device =
     io_bind (get_instance (ic_server a) (ic_conn a) instanceName) (\<lambda>(inst, etag).
       if gm_find (ip_devices (ins_put inst)) deviceName \<noteq> None
       then io_fail (GoError (''device already exists: '' @ quoted deviceName))
       else let inst' = inst\<lparr>ins_put := (ins_put inst)
              \<lparr>ip_devices := gm_put deviceName device (ip_devices (ins_put inst))\<rparr>\<rparr>
         in incus_wait (ic_server a) (request (ic_server a)
              (ReqUpdateInstance (ic_conn a) instanceName (incus_instance_Writable inst') etag)))"

definition incus_DetachDeviceByName :: "'w incusApiAdapter \<Rightarrow> string \<Rightarrow> string \<Rightarrow> ('w, unit) go" where
  "incus_DetachDeviceByName a instanceName deviceName =
     io_bind (get_instance (ic_server a) (ic_conn a) instanceName) (\<lambda>(inst, _).
       if gm_find (ip_devices (ins_put inst)) deviceName \<noteq> None
       then let inst' = inst\<lparr>ins_put := (ins_put inst)
              \<lparr>ip_devices := gm_del deviceName (ip_devices (ins_put inst))\<rparr>\<rparr>
         in incus_wait (ic_server a) (request (ic_server a)
              (ReqUpdateInstance (ic_conn a) instanceName (incus_instance_Writable inst') []))
       else io_ret ())"

definition incus_DetachDeviceBySource :: "'w incusApiAdapter \<Rightarrow> string \<Rightarrow> string \<Rightarrow> ('w, unit) go" where
  "incus_DetachDeviceBySource a instanceName sourceName =
     io_bind (get_instance (ic_server a) (ic_conn a) instanceName) (\<lambda>(inst, _).
       let deviceName = find_device_by_source (ip_devices (ins_put inst)) sourceName in
       if deviceName = [] then io_ret ()
       else let inst' = inst\<lparr>ins_put := (ins_put inst)
              \<lparr>ip_devices := gm_del deviceName (ip_devices (ins_put inst))\<rparr>\<rparr>
         in incus_wait (ic_server a) (request (ic_server a)
              (ReqUpdateInstance (ic_conn a) instanceName (incus_instance_Writable inst') [])))"

definition incus_GetDevices :: "'w incusApiAdapter \<Rightarrow> string \<Rightarrow> ('w, devices) go" where
  "incus_GetDevices a instanceName =
     io_bind (get_instance (ic_server a) (ic_conn a) instanceName) (\<lambda>(inst, _).
       io_ret (ip_devices (ins_put inst)))"

section \<open>image.go\<close>

definition incus_FindExistingImage :: "'w incusApiAdapter \<Rightarrow> string \<Rightarrow> ('w, string) go" where
  "incus_FindExistingImage a description =
     io_bind (get_images (ic_server a) (ic_conn a)) (\<lambda>images. io_ret (find_image images description))"

definition incus_GetStemcellDescription :: "'w incusApiAdapter \<Rightarrow> string \<Rightarrow> ('w, string) go" where
  "incus_GetStemcellDescription a alias =
     io_bind (get_image_alias (ic_server a) (ic_conn a) alias) (\<lambda>(entry, _).
     io_bind (get_image (ic_server a) (ic_conn a) (al_target entry)) (\<lambda>(img, _).
       case gm_find (img_properties img) ''description'' of
         None \<Rightarrow> io_fail (GoError (''no description for image '' @ quoted (al_target entry)))
       | Some description \<Rightarrow> io_ret description))"

definition incus_CreateAndUploadImage :: "'w incusApiAdapter \<Rightarrow> ImageMetadata \<Rightarrow> ('w, unit) go" where
  "incus_CreateAndUploadImage a meta = (let S = ic_server a; cn = ic_conn a;
       imagePost = \<lparr>impost_public = False, impost_auto_update = False,
                impost_filename = path_base (im_ImagePath meta)\<rparr>
     in io_bind (io_lift (lib_YamlMarshal S (image_yaml_of S meta))) (\<lambda>yaml.
        let args = \<lparr>ia_meta_file = metadata_tar yaml, ia_rootfs_file = im_TarFile meta,
                    ia_type = ''virtual-machine''\<rparr>
        in io_bind (request S (ReqCreateImage cn imagePost args)) (\<lambda>op.
           io_bind (op_wait S op) (\<lambda>_.
           io_bind (op_metadata S op) (\<lambda>md.
           io_bind (fingerprint_of md) (\<lambda>fingerprint.
           io_bind (request S (ReqCreateImageAlias cn \<lparr>al_name = im_Alias meta,
               al_description = im_Description meta, al_target = fingerprint\<rparr>)) (\<lambda>_.
           io_ret ())))))))"

definition incus_DeleteImage :: "'w incusApiAdapter \<Rightarrow> string \<Rightarrow> ('w, unit) go" where
  "incus_DeleteImage a alias =
     io_bind (get_image_alias (ic_server a) (ic_conn a) alias) (\<lambda>(imageAlias, _).
       incus_wait (ic_server a) (request (ic_server a) (ReqDeleteImage (ic_conn a) (al_target imageAlias))))"

section \<open>instance.go\<close>

definition incus_CreateInstance :: "'w incusApiAdapter \<Rightarrow> InstanceMetadata \<Rightarrow> ('w, unit) go" where
  "incus_CreateInstance a meta = (let c = (if meta_Target meta \<noteq> [] then UseTarget (meta_Target meta) (ic_conn a)
       else ic_conn a)
     in incus_wait (ic_server a) (request (ic_server a) (ReqCreateInstance c (instances_post_of meta))))"

definition incus_DeleteInstance :: "'w incusApiAdapter \<Rightarrow> string \<Rightarrow> ('w, unit) go" where
  "incus_DeleteInstance a name =
     incus_wait (ic_server a) (request (ic_server a) (ReqDeleteInstance (ic_conn a) name))"

definition incus_GetInstanceLocation :: "'w incusApiAdapter \<Rightarrow> string \<Rightarrow> ('w, string) go" where
  "incus_GetInstanceLocation a name =
     io_bind (get_instance (ic_server a) (ic_conn a) name) (\<lambda>(inst, _). io_ret (ins_location inst))"

definition incus_UpdateInstanceDescription :: "'w incusApiAdapter \<Rightarrow> string \<Rightarrow> string \<Rightarrow> ('w, unit) go" where
  "incus_UpdateInstanceDescription a name newDescription =
     io_bind (get_instance (ic_server a) (ic_conn a) name) (\<lambda>(inst, etag).
       let inst' = inst\<lparr>ins_put := (ins_put inst)\<lparr>ip_description := newDescription\<rparr>\<rparr>
       in incus_wait (ic_server a) (request (ic_server a)
            (ReqUpdateInstance (ic_conn a) name (incus_instance_Writable inst') etag)))"

definition incus_isVMAtRequestedState :: "'w incusApiAdapter \<Rightarrow> string \<Rightarrow> string \<Rightarrow> ('w, bool) go" where
  "incus_isVMAtRequestedState a instanceName state =
     io_bind (get_instance_state (ic_server a) (ic_conn a) instanceName) (\<lambda>(code, _).
       io_ret (at_requested_state code state))"

definition incus_SetInstanceAction :: "'w incusApiAdapter \<Rightarrow> string \<Rightarrow> action \<Rightarrow> ('w, unit) go" where
  "incus_SetInstanceAction a instanceName action =
     io_bind (incus_isVMAtRequestedState a instanceName (action_string action)) (\<lambda>atCurrentState.
       if \<not> atCurrentState then
         io_bind (incus_wait (ic_server a) (request (ic_server a)
           (ReqUpdateInstanceState (ic_conn a) instanceName (state_put_of action) []))) (\<lambda>_. io_ret ())
       else io_ret ())"

definition incus_IsInstanceStopped :: "'w incusApiAdapter \<Rightarrow> string \<Rightarrow> ('w, bool) go" where
  "incus_IsInstanceStopped a instanceName = incus_isVMAtRequestedState a instanceName ''stop''"

section \<open>misc.go, network.go, snapshot.go\<close>

definition incus_IsConnected :: "'w incusApiAdapter \<Rightarrow> ('w, unit) go" where
  "incus_IsConnected a = io_bind (get_server (ic_server a) (ic_conn a)) (\<lambda>auth.
     if ''trusted'' \<noteq> auth
     then io_fail (GoError (''not connected with trusted connection; using '' @ quoted auth))
     else io_ret ())"

definition incus_Disconnect :: "'w incusApiAdapter \<Rightarrow> ('w, unit) go" where
  "incus_Disconnect a = disconnect (ic_server a)"

definition incus_IsManagedNetwork :: "'w incusApiAdapter \<Rightarrow> string \<Rightarrow> ('w, bool) go" where
  "incus_IsManagedNetwork a name =
     io_bind (get_network (ic_server a) (ic_conn a) name) (\<lambda>(managed, _). io_ret managed)"

definition incus_DeleteStoragePoolVolumeSnapshot :: "'w incusApiAdapter \<Rightarrow> string \<Rightarrow> string \<Rightarrow> string \<Rightarrow>
    ('w, unit) go" where
  "incus_DeleteStoragePoolVolumeSnapshot a pool volumeName snapshotName =
     incus_wait (ic_server a) (request (ic_server a)
       (ReqDeleteSnapshot (ic_conn a) pool ''custom'' volumeName snapshotName))"

definition incus_CreateStoragePoolVolumeSnapshot :: "'w incusApiAdapter \<Rightarrow> string \<Rightarrow> string \<Rightarrow> string \<Rightarrow> string \<Rightarrow>
    ('w, unit) go" where
  "incus_CreateStoragePoolVolumeSnapshot a pool volumeName snapshotName description =
     io_bind (incus_wait (ic_server a) (request (ic_server a) (ReqCreateSnapshot (ic_conn a) pool ''custom'' volumeName
       \<lparr>snpost_name = snapshotName, snpost_description = []\<rparr>))) (\<lambda>_.
     io_bind (get_snapshot (ic_server a) (ic_conn a) pool ''custom'' volumeName snapshotName) (\<lambda>(snapshot, etag).
       let snapshot' = snapshot\<lparr>snap_description := description\<rparr>
       in incus_direct (ic_server a)
            (ReqUpdateSnapshot (ic_conn a) pool ''custom'' volumeName snapshotName snapshot' etag)))"

section \<open>volume.go\<close>

definition incus_DeleteStoragePoolVolume :: "'w incusApiAdapter \<Rightarrow> string \<Rightarrow> string \<Rightarrow> ('w, unit) go" where
  "incus_DeleteStoragePoolVolume a pool name =
     incus_direct (ic_server a) (ReqDeleteVolume (ic_conn a) pool ''custom'' name)"

definition incus_GetStoragePoolVolume :: "'w incusApiAdapter \<Rightarrow> string \<Rightarrow> string \<Rightarrow> ('w, string) go" where
  "incus_GetStoragePoolVolume a pool name =
     io_bind (get_volume (ic_server a) (ic_conn a) pool ''custom'' name) (\<lambda>(_, etag). io_ret etag)"

definition incus_ResizeStoragePoolVolume :: "'w incusApiAdapter \<Rightarrow> string \<Rightarrow> string \<Rightarrow> int \<Rightarrow> ('w, unit) go" where
  "incus_ResizeStoragePoolVolume a pool name newSize =
     io_bind (get_volume (ic_server a) (ic_conn a) pool ''custom'' name) (\<lambda>(volume, etag).
       let writable = volume_Writable volume;
           writable' = writable\<lparr>svp_config := gm_put ''size'' (int_dec newSize @ ''MiB'') (svp_config writable)\<rparr>
       in incus_direct (ic_server a)
            (ReqUpdateVolume (ic_conn a) pool ''custom'' name writable' etag))"

definition incus_CreateStoragePoolVolume :: "'w incusApiAdapter \<Rightarrow> string \<Rightarrow> string \<Rightarrow> string \<Rightarrow> int \<Rightarrow> ('w, unit) go" where
  "incus_CreateStoragePoolVolume a target pool name sz =
     (let c = (if target \<noteq> [] then UseTarget target (ic_conn a) else ic_conn a)
      in incus_direct (ic_server a) (ReqCreateVolume c pool (volume_post_of name sz)))"

definition incus_CreateStoragePoolVolumeFromISO :: "'w incusApiAdapter \<Rightarrow> string \<Rightarrow> string \<Rightarrow> string \<Rightarrow> string \<Rightarrow>
    ('w, unit) go" where
  "incus_CreateStoragePoolVolumeFromISO a target pool diskName backupFile =
     (let c = (if target \<noteq> [] then UseTarget target (ic_conn a) else ic_conn a)
      in incus_wait (ic_server a) (request (ic_server a)
           (ReqCreateVolumeFromISO c pool \<lparr>iso_name = diskName, iso_backup_file = backupFile\<rparr>)))"

definition incus_UpdateStoragePoolVolumeDescription :: "'w incusApiAdapter \<Rightarrow> string \<Rightarrow> string \<Rightarrow> string \<Rightarrow>
    ('w, unit) go" where
  "incus_UpdateStoragePoolVolumeDescription a pool diskName description =
     io_bind (get_volume (ic_server a) (ic_conn a) pool ''custom'' diskName) (\<lambda>(volume, etag).
       let volume' = volume\<lparr>sv_description := description\<rparr>
       in incus_direct (ic_server a)
            (ReqUpdateVolume (ic_conn a) pool ''custom'' diskName (volume_Writable volume') etag))"

definition incus_GetStoragePoolVolumeUsage :: "'w incusApiAdapter \<Rightarrow> string \<Rightarrow> ('w, int gomap) go" where
  "incus_GetStoragePoolVolumeUsage a pool =
     io_bind (get_volumes (ic_server a) (ic_conn a) pool) (\<lambda>volumes. io_ret (usage_of volumes))"

definition incus_ColocateStoragePoolVolumeWithInstance :: "'w incusApiAdapter \<Rightarrow> string \<Rightarrow> string \<Rightarrow> string \<Rightarrow>
    ('w, unit) go" where
  "incus_ColocateStoragePoolVolumeWithInstance a instanceName pool diskName =
     io_bind (incus_GetInstanceLocation a instanceName) (\<lambda>instanceLoc.
     io_bind (get_volume (ic_server a) (ic_conn a) pool ''custom'' diskName) (\<lambda>(volume, _).
       if instanceLoc = sv_location volume \<or> sv_location volume = [] then io_ret ()
       else let srcServer = UseTarget (sv_location volume) (ic_conn a);
                dstServer = UseTarget instanceLoc (ic_conn a);
                args = \<lparr>cp_name = sv_name volume, cp_mode = ''move'', cp_volume_only = False\<rparr>
         in io_bind (incus_wait (ic_server a) (request (ic_server a)
                (ReqCopyVolume dstServer pool srcServer pool volume args))) (\<lambda>_.
              incus_direct (ic_server a)
                (ReqDeleteVolume srcServer pool ''custom'' diskName))))"

section \<open>The adapter value\<close>

definition incus_adapter :: "'w incusApiAdapter \<Rightarrow> 'w ApiAdapter" where
  "incus_adapter a = \<lparr>
     FindExistingImage = incus_FindExistingImage a,
     CreateAndUploadImage = incus_CreateAndUploadImage a,
     DeleteImage = incus_DeleteImage a,
     GetStemcellDescription = incus_GetStemcellDescription a,
     IsManagedNetwork = incus_IsManagedNetwork a,
     CreateInstance = incus_CreateInstance a,
     DeleteInstance = incus_DeleteInstance a,
     GetInstanceLocation = incus_GetInstanceLocation a,
     UpdateInstanceDescription = incus_UpdateInstanceDescription a,
     SetInstanceAction = incus_SetInstanceAction a,
     IsInstanceStopped = incus_IsInstanceStopped a,
     DeleteStoragePoolVolume = incus_DeleteStoragePoolVolume a,
     GetStoragePoolVolume = incus_GetStoragePoolVolume a,
     GetStoragePoolVolumeUsage = incus_GetStoragePoolVolumeUsage a,
     ResizeStoragePoolVolume = incus_ResizeStoragePoolVolume a,
     CreateStoragePoolVolumeFromISO = incus_CreateStoragePoolVolumeFromISO a,
     CreateStoragePoolVolume = incus_CreateStoragePoolVolume a,
     UpdateStoragePoolVolumeDescription = incus_UpdateStoragePoolVolumeDescription a,
     ColocateStoragePoolVolumeWithInstance = incus_ColocateStoragePoolVolumeWithInstance a,
     DeleteStoragePoolVolumeSnapshot = incus_DeleteStoragePoolVolumeSnapshot a,
     CreateStoragePoolVolumeSnapshot = incus_CreateStoragePoolVolumeSnapshot a,
     AttachDevice = incus_AttachDevice a,
     DetachDeviceByName = incus_DetachDeviceByName a,
     DetachDeviceBySource = incus_DetachDeviceBySource a,
     GetDevices = incus_GetDevices a,
     IsConnected = incus_IsConnected a,
     Disconnect = incus_Disconnect a\<rparr>"

end
