(* ===== verification/AdapterContract.thy ===== *)
theory AdapterContract
  imports IncusAdapter
begin

text \<open>
  What the CPI relies on of an \<open>ApiAdapter\<close>, as a locale: which changing requests a method may send,
  that it sends nothing more once the server refused a request, and how its answer follows from the
  server's.  Both adapters are instances, for every server.
\<close>

section \<open>Orderly runs\<close>

fun is_refusal :: "event \<Rightarrow> bool" where
  "is_refusal (EvReq q a) = (\<not> is_Inr a)"
| "is_refusal _ = False"

text \<open>Some changing request was refused.\<close>

definition refused :: "event list \<Rightarrow> bool" where
  "refused ts = list_ex is_refusal ts"

text \<open>After a refused request no other changing request is sent.\<close>

fun stops :: "event list \<Rightarrow> bool" where
  "stops [] = True"
| "stops (e # ts) = ((is_refusal e \<longrightarrow> effects ts = []) \<and> stops ts)"

lemma refused_simps [simp]:
  "\<not> refused []" "refused (e # ts) \<longleftrightarrow> is_refusal e \<or> refused ts"
  "refused (ts @ us) \<longleftrightarrow> refused ts \<or> refused us"
  by (simp_all add: refused_def)

lemma stops_append [simp]:
  "stops (ts @ us) \<longleftrightarrow> stops ts \<and> stops us \<and> (refused ts \<longrightarrow> effects us = [])"
  by (induction ts) auto

text \<open>The run stops at a refusal and reports it: it does not end well after one.\<close>

definition orderly :: "'a res \<Rightarrow> event list \<Rightarrow> bool" where
  "orderly r ts \<longleftrightarrow> stops ts \<and> (refused ts \<longrightarrow> \<not> is_Ok r)"

lemma orderly_Nil [simp]: "orderly r []"
  by (simp add: orderly_def)

lemma orderly_cases [simp]:
  "orderly (Ok x) ts \<longleftrightarrow> stops ts \<and> \<not> refused ts"
  "orderly (Err e) ts \<longleftrightarrow> stops ts"
  "orderly (Panic p) ts \<longleftrightarrow> stops ts"
  by (auto simp: orderly_def)

lemma orderly_Cons [simp]: "\<not> is_refusal e \<Longrightarrow> orderly r (e # ts) \<longleftrightarrow> orderly r ts"
  by (auto simp: orderly_def)

lemma orderly_append [simp]:
  "\<not> refused ts \<Longrightarrow> stops ts \<Longrightarrow> orderly r (ts @ us) \<longleftrightarrow> orderly r us"
  by (auto simp: orderly_def)

lemma no_effects_not_refused: "effects ts = [] \<Longrightarrow> \<not> refused ts"
proof (induction ts)
  case (Cons e ts)
  then show ?case by (cases e) auto
qed simp

lemma no_effects_stops: "effects ts = [] \<Longrightarrow> stops ts"
proof (induction ts)
  case (Cons e ts)
  then show ?case by (cases e) auto
qed simp

lemma no_effects_orderly: "effects ts = [] \<Longrightarrow> orderly r ts"
  by (simp add: orderly_def no_effects_not_refused no_effects_stops)

text \<open>A method that sends exactly one changing request, and reports a refusal.\<close>

definition sends_one :: "('w, 'a) go \<Rightarrow> request \<Rightarrow> bool" where
  "sends_one m q \<longleftrightarrow> emits m (\<lambda>r ts. effects ts = [q] \<and> orderly r ts)"

text \<open>A method that changes nothing.\<close>

definition only_reads :: "('w, 'a) go \<Rightarrow> bool" where
  "only_reads m \<longleftrightarrow> emits m (\<lambda>r ts. effects ts = [])"

text \<open>A method that asks for one instance and answers from it, changing nothing.\<close>

definition reads_instance :: "('w, 'a) go \<Rightarrow> conn \<Rightarrow> string \<Rightarrow> (vm_instance \<Rightarrow> 'a) \<Rightarrow> bool" where
  "reads_instance m cn n f \<longleftrightarrow> emits m (\<lambda>r ts.
     (\<exists>i t. ts = [EvGetInstance cn n (Inr (i, t))] \<and> r = Ok (f i)) \<or>
     (\<exists>e. ts = [EvGetInstance cn n (Inl e)] \<and> r = Err e))"

text \<open>The instance an update was computed from, and the update: nothing but the given change.\<close>

definition updates_instance :: "event list \<Rightarrow> conn \<Rightarrow> string \<Rightarrow>
    (vm_instance \<Rightarrow> instance_put \<Rightarrow> instance_put) \<Rightarrow> (etag \<Rightarrow> etag) \<Rightarrow> bool" where
  "updates_instance ts cn n f g \<longleftrightarrow> (\<exists>i t put. hd ts = EvGetInstance cn n (Inr (i, t)) \<and>
     effects ts = [ReqUpdateInstance cn n put (g t)] \<and>
     put\<lparr>ip_restore := []\<rparr> = (f i (ins_put i))\<lparr>ip_restore := []\<rparr>)"

definition updates_volume :: "event list \<Rightarrow> conn \<Rightarrow> string \<Rightarrow> string \<Rightarrow>
    (storage_volume_put \<Rightarrow> storage_volume_put) \<Rightarrow> bool" where
  "updates_volume ts cn p v f \<longleftrightarrow> (\<exists>vol t. hd ts = EvGetVolume cn p ''custom'' v (Inr (vol, t)) \<and>
     effects ts = [ReqUpdateVolume cn p ''custom'' v (f (volume_Writable vol)) t])"

definition target_conn :: "string \<Rightarrow> conn \<Rightarrow> conn" where
  "target_conn t cn = (if t \<noteq> [] then UseTarget t cn else cn)"

section \<open>The contract\<close>

locale adapter_contract =
  fixes A :: "'w ApiAdapter" and cn :: conn
  assumes IsConnected_law: "emits (IsConnected A) (\<lambda>r ts. \<exists>a. ts = [EvGetServer cn a] \<and>
      (is_Ok r \<longleftrightarrow> a = Inr ''trusted'') \<and> \<not> is_Panic r)"
    and CreateInstance_law: "sends_one (CreateInstance A m)
      (ReqCreateInstance (target_conn (meta_Target m) cn) (instances_post_of m))"
    and DeleteInstance_law: "sends_one (DeleteInstance A n) (ReqDeleteInstance cn n)"
    and DeleteStoragePoolVolume_law: "sends_one (DeleteStoragePoolVolume A p v)
      (ReqDeleteVolume cn p ''custom'' v)"
    and CreateStoragePoolVolume_law: "sends_one (CreateStoragePoolVolume A t p v sz)
      (ReqCreateVolume (target_conn t cn) p (volume_post_of v sz))"
    and CreateStoragePoolVolumeFromISO_law: "sends_one (CreateStoragePoolVolumeFromISO A t p v b)
      (ReqCreateVolumeFromISO (target_conn t cn) p \<lparr>iso_name = v, iso_backup_file = b\<rparr>)"
    and DeleteStoragePoolVolumeSnapshot_law: "sends_one (DeleteStoragePoolVolumeSnapshot A p v s)
      (ReqDeleteSnapshot cn p ''custom'' v s)"
    and GetInstanceLocation_law: "reads_instance (GetInstanceLocation A n) cn n ins_location"
    and GetDevices_law: "reads_instance (GetDevices A n) cn n (ip_devices \<circ> ins_put)"
    and SetInstanceAction_law: "emits (SetInstanceAction A n act) (\<lambda>r ts. orderly r ts \<and>
      (effects ts = [ReqUpdateInstanceState cn n (state_put_of act) []] \<or>
       effects ts = [] \<and> (is_Ok r \<longrightarrow> (\<exists>c t. ts = [EvGetInstanceState cn n (Inr (c, t))] \<and>
         at_requested_state c (action_string act)))))"
    and IsInstanceStopped_law: "emits (IsInstanceStopped A n) (\<lambda>r ts.
      (\<exists>c t. ts = [EvGetInstanceState cn n (Inr (c, t))] \<and> r = Ok (at_requested_state c ''stop'')) \<or>
      (\<exists>e. ts = [EvGetInstanceState cn n (Inl e)] \<and> r = Err e))"
    and AttachDevice_law: "emits (AttachDevice A n d dev) (\<lambda>r ts. orderly r ts \<and>
      (effects ts = [] \<and> \<not> is_Ok r \<or>
       updates_instance ts cn n (\<lambda>i put. put\<lparr>ip_devices := gm_put d dev (ip_devices put)\<rparr>) id \<and>
       (\<exists>i t. hd ts = EvGetInstance cn n (Inr (i, t)) \<and> gm_find (ip_devices (ins_put i)) d = None)))"
    and DetachDeviceByName_law: "emits (DetachDeviceByName A n d) (\<lambda>r ts. orderly r ts \<and>
      (effects ts = [] \<and> (is_Ok r \<longrightarrow> (\<exists>i t. ts = [EvGetInstance cn n (Inr (i, t))] \<and>
         gm_find (ip_devices (ins_put i)) d = None)) \<or>
       updates_instance ts cn n (\<lambda>i put. put\<lparr>ip_devices := gm_del d (ip_devices put)\<rparr>) (\<lambda>_. [])))"
    and DetachDeviceBySource_law: "emits (DetachDeviceBySource A n src) (\<lambda>r ts. orderly r ts \<and>
      (effects ts = [] \<and> (is_Ok r \<longrightarrow> (\<exists>i t. ts = [EvGetInstance cn n (Inr (i, t))] \<and>
         find_device_by_source (ip_devices (ins_put i)) src = [])) \<or>
       updates_instance ts cn n (\<lambda>i put. put\<lparr>ip_devices :=
         gm_del (find_device_by_source (ip_devices (ins_put i)) src) (ip_devices put)\<rparr>) (\<lambda>_. [])))"
    and UpdateInstanceDescription_law: "emits (UpdateInstanceDescription A n s) (\<lambda>r ts. orderly r ts \<and>
      (effects ts = [] \<and> \<not> is_Ok r \<or>
       updates_instance ts cn n (\<lambda>i put. put\<lparr>ip_description := s\<rparr>) id))"
    and Colocate_law: "emits (ColocateStoragePoolVolumeWithInstance A n p v) (\<lambda>r ts. orderly r ts \<and>
      (effects ts = [] \<or> (\<exists>i t vol u. prefix [EvGetInstance cn n (Inr (i, t)),
          EvGetVolume cn p ''custom'' v (Inr (vol, u))] ts \<and>
        ins_location i \<noteq> sv_location vol \<and> sv_location vol \<noteq> [] \<and>
        prefix (effects ts)
          [ReqCopyVolume (UseTarget (ins_location i) cn) p (UseTarget (sv_location vol) cn) p vol
             \<lparr>cp_name = sv_name vol, cp_mode = ''move'', cp_volume_only = False\<rparr>,
           ReqDeleteVolume (UseTarget (sv_location vol) cn) p ''custom'' v] \<and>
        (is_Ok r \<longrightarrow> length (effects ts) = 2))))"
    and GetStemcellDescription_law: "only_reads (GetStemcellDescription A al)"
    and FindExistingImage_law: "only_reads (FindExistingImage A descr)"
    and IsManagedNetwork_law: "only_reads (IsManagedNetwork A net)"
    and GetStoragePoolVolume_law: "emits (GetStoragePoolVolume A p v) (\<lambda>r ts.
      (\<exists>vol t. ts = [EvGetVolume cn p ''custom'' v (Inr (vol, t))] \<and> r = Ok t) \<or>
      (\<exists>e. ts = [EvGetVolume cn p ''custom'' v (Inl e)] \<and> r = Err e))"
    and GetStoragePoolVolumeUsage_law: "emits (GetStoragePoolVolumeUsage A p) (\<lambda>r ts.
      (\<exists>vs. ts = [EvGetVolumes cn p (Inr vs)] \<and> r = Ok (usage_of vs)) \<or>
      (\<exists>e. ts = [EvGetVolumes cn p (Inl e)] \<and> r = Err e))"
    and ResizeStoragePoolVolume_law: "emits (ResizeStoragePoolVolume A p v sz) (\<lambda>r ts. orderly r ts \<and>
      (effects ts = [] \<and> \<not> is_Ok r \<or> updates_volume ts cn p v
         (\<lambda>put. put\<lparr>svp_config := gm_put ''size'' (int_dec sz @ ''MiB'') (svp_config put)\<rparr>)))"
    and UpdateStoragePoolVolumeDescription_law: "emits (UpdateStoragePoolVolumeDescription A p v descr)
      (\<lambda>r ts. orderly r ts \<and> (effects ts = [] \<and> \<not> is_Ok r \<or>
         updates_volume ts cn p v (\<lambda>put. put\<lparr>svp_description := descr\<rparr>)))"
    and CreateStoragePoolVolumeSnapshot_law: "emits (CreateStoragePoolVolumeSnapshot A p v s descr)
      (\<lambda>r ts. orderly r ts \<and> (\<exists>d us. effects ts =
         ReqCreateSnapshot cn p ''custom'' v \<lparr>snpost_name = s, snpost_description = d\<rparr> # us \<and>
         (us = [] \<or> (\<exists>t. us = [ReqUpdateSnapshot cn p ''custom'' v s \<lparr>snap_description = descr\<rparr> t])) \<and>
         (is_Ok r \<longrightarrow> d = descr \<or> us \<noteq> [])))"
    and CreateAndUploadImage_law: "emits (CreateAndUploadImage A im) (\<lambda>r ts. orderly r ts \<and>
      (\<exists>post args target. prefix (effects ts) [ReqCreateImage cn post args, ReqCreateImageAlias cn
         \<lparr>al_name = im_Alias im, al_description = im_Description im, al_target = target\<rparr>] \<and>
         ia_rootfs_file args = im_TarFile im) \<and>
      (is_Ok r \<longrightarrow> length (effects ts) = 2))"
    and DeleteImage_law: "emits (DeleteImage A al) (\<lambda>r ts. orderly r ts \<and>
      (effects ts = [] \<and> \<not> is_Ok r \<or> (\<exists>e t. hd ts = EvGetImageAlias cn al (Inr (e, t)) \<and>
         effects ts = [ReqDeleteImage cn (al_target e)])))"
    and Disconnect_law: "emits (Disconnect A) (\<lambda>r ts. \<exists>a. ts = [EvDisconnect a] \<and> \<not> is_Panic r)"

section \<open>Both adapters keep it\<close>

lemma ex_image_args [simp]: "\<exists>args::image_args. ia_rootfs_file args = b"
  by (rule exI [of _ "\<lparr>ia_meta_file = [], ia_rootfs_file = b, ia_type = []\<rparr>"]) simp

lemma snap_put_upd: "(x :: snapshot_put)\<lparr>snap_description := d\<rparr> = \<lparr>snap_description = d\<rparr>"
  by (cases x) simp

lemma sends_one_lxd_wait: "sends_one (lxd_wait S (request S q)) q"
  unfolding sends_one_def lxd_wait_def by (auto intro!: emits_rules)

lemma sends_one_incus_wait: "sends_one (incus_wait S (request S q)) q"
  unfolding sends_one_def incus_wait_def by (auto intro!: emits_rules)

lemma sends_one_incus_direct: "sends_one (incus_direct S q) q"
  unfolding sends_one_def incus_direct_def by (auto intro!: emits_rules)

lemmas sends_one_intros = sends_one_lxd_wait sends_one_incus_wait sends_one_incus_direct
lemmas sends_one_use = sends_one_intros [unfolded sends_one_def, THEN emits_mono]

lemmas lxd_defs = lxd_adapter_def lxd_IsConnected_def lxd_CreateInstance_def lxd_DeleteInstance_def
  lxd_DeleteStoragePoolVolume_def lxd_CreateStoragePoolVolume_def lxd_CreateStoragePoolVolumeFromISO_def
  lxd_DeleteStoragePoolVolumeSnapshot_def lxd_GetInstanceLocation_def lxd_GetDevices_def
  lxd_SetInstanceAction_def lxd_isVMAtRequestedState_def lxd_IsInstanceStopped_def lxd_AttachDevice_def
  lxd_DetachDeviceByName_def lxd_DetachDeviceBySource_def lxd_UpdateInstanceDescription_def
  lxd_ColocateStoragePoolVolumeWithInstance_def lxd_GetStemcellDescription_def lxd_FindExistingImage_def
  lxd_IsManagedNetwork_def lxd_GetStoragePoolVolume_def lxd_GetStoragePoolVolumeUsage_def
  lxd_instance_Writable_def lxd_ResizeStoragePoolVolume_def lxd_UpdateStoragePoolVolumeDescription_def
  lxd_CreateStoragePoolVolumeSnapshot_def lxd_CreateAndUploadImage_def lxd_DeleteImage_def lxd_Disconnect_def

interpretation lxd: adapter_contract "lxd_adapter a" "lx_conn a" for a :: "'w lxdApiAdapter"
proof (unfold_locales, goal_cases)
  case 1 show ?case by (auto simp: lxd_defs intro!: emits_rules)
next
  case (2 m) show ?case by (simp add: lxd_defs target_conn_def sends_one_intros Let_def)
next
  case (3 n) show ?case by (simp add: lxd_defs sends_one_intros)
next
  case (4 p v) show ?case by (simp add: lxd_defs sends_one_intros)
next
  case (5 t p v sz) show ?case by (simp add: lxd_defs target_conn_def sends_one_intros Let_def)
next
  case (6 t p v b) show ?case by (simp add: lxd_defs target_conn_def sends_one_intros Let_def)
next
  case (7 p v s) show ?case by (simp add: lxd_defs sends_one_intros)
next
  case (8 n) show ?case by (auto simp: lxd_defs reads_instance_def intro!: emits_rules)
next
  case (9 n) show ?case by (auto simp: lxd_defs reads_instance_def intro!: emits_rules)
next
  case (10 n act) show ?case
    by (auto simp: lxd_defs intro!: emits_rules sends_one_use) 
next
  case (11 n) show ?case by (auto simp: lxd_defs intro!: emits_rules)
next
  case (12 n d dev) show ?case
    by (auto simp: lxd_defs updates_instance_def Let_def intro!: emits_rules sends_one_use)
next
  case (13 n d) show ?case
    by (auto simp: lxd_defs updates_instance_def Let_def intro!: emits_rules sends_one_use)
next
  case (14 n src) show ?case
    by (auto simp: lxd_defs updates_instance_def Let_def intro!: emits_rules sends_one_use)
next
  case (15 n s) show ?case
    by (auto simp: lxd_defs updates_instance_def Let_def intro!: emits_rules sends_one_use)
next
  case (16 n p v) show ?case
    by (auto simp: lxd_defs Let_def intro!: emits_rules sends_one_use)
next
  case (17 x) show ?case by (auto simp: lxd_defs only_reads_def intro!: emits_rules)
next
  case (18 descr) show ?case by (auto simp: lxd_defs only_reads_def intro!: emits_rules)
next
  case (19 nw) show ?case by (auto simp: lxd_defs only_reads_def intro!: emits_rules)
next
  case (20 p v) show ?case by (auto simp: lxd_defs intro!: emits_rules)
next
  case (21 p) show ?case by (auto simp: lxd_defs intro!: emits_rules)
next
  case (22 p v sz) show ?case
    by (auto simp: lxd_defs updates_volume_def Let_def intro!: emits_rules sends_one_use)
next
  case (23 p v descr) show ?case
    by (auto simp: lxd_defs updates_volume_def volume_Writable_def Let_def intro!: emits_rules sends_one_use)
next
  case (24 p v s descr) show ?case
    by (auto simp: lxd_defs Let_def snap_put_upd intro!: emits_rules sends_one_use)
next
  case (25 im) show ?case
    by (auto simp: lxd_defs fingerprint_of_def Let_def split: option.splits json.splits intro!: emits_rules)
next
  case (26 al) show ?case by (auto simp: lxd_defs intro!: emits_rules sends_one_use)
next
  case 27 show ?case by (auto simp: lxd_defs intro!: emits_rules)
qed

lemmas incus_defs = incus_adapter_def incus_IsConnected_def incus_CreateInstance_def incus_DeleteInstance_def
  incus_DeleteStoragePoolVolume_def incus_CreateStoragePoolVolume_def incus_CreateStoragePoolVolumeFromISO_def
  incus_DeleteStoragePoolVolumeSnapshot_def incus_GetInstanceLocation_def incus_GetDevices_def
  incus_SetInstanceAction_def incus_isVMAtRequestedState_def incus_IsInstanceStopped_def incus_AttachDevice_def
  incus_DetachDeviceByName_def incus_DetachDeviceBySource_def incus_UpdateInstanceDescription_def
  incus_ColocateStoragePoolVolumeWithInstance_def incus_GetStemcellDescription_def incus_FindExistingImage_def
  incus_IsManagedNetwork_def incus_GetStoragePoolVolume_def incus_GetStoragePoolVolumeUsage_def
  incus_instance_Writable_def incus_ResizeStoragePoolVolume_def incus_UpdateStoragePoolVolumeDescription_def
  incus_CreateStoragePoolVolumeSnapshot_def incus_CreateAndUploadImage_def incus_DeleteImage_def incus_Disconnect_def

interpretation incus: adapter_contract "incus_adapter a" "ic_conn a" for a :: "'w incusApiAdapter"
proof (unfold_locales, goal_cases)
  case 1 show ?case by (auto simp: incus_defs intro!: emits_rules)
next
  case (2 m) show ?case by (simp add: incus_defs target_conn_def sends_one_intros Let_def)
next
  case (3 n) show ?case by (simp add: incus_defs sends_one_intros)
next
  case (4 p v) show ?case by (simp add: incus_defs sends_one_intros)
next
  case (5 t p v sz) show ?case by (simp add: incus_defs target_conn_def sends_one_intros Let_def)
next
  case (6 t p v b) show ?case by (simp add: incus_defs target_conn_def sends_one_intros Let_def)
next
  case (7 p v s) show ?case by (simp add: incus_defs sends_one_intros)
next
  case (8 n) show ?case by (auto simp: incus_defs reads_instance_def intro!: emits_rules)
next
  case (9 n) show ?case by (auto simp: incus_defs reads_instance_def intro!: emits_rules)
next
  case (10 n act) show ?case
    by (auto simp: incus_defs intro!: emits_rules sends_one_use) 
next
  case (11 n) show ?case by (auto simp: incus_defs intro!: emits_rules)
next
  case (12 n d dev) show ?case
    by (auto simp: incus_defs updates_instance_def Let_def intro!: emits_rules sends_one_use)
next
  case (13 n d) show ?case
    by (auto simp: incus_defs updates_instance_def Let_def intro!: emits_rules sends_one_use)
next
  case (14 n src) show ?case
    by (auto simp: incus_defs updates_instance_def Let_def intro!: emits_rules sends_one_use)
next
  case (15 n s) show ?case
    by (auto simp: incus_defs updates_instance_def Let_def intro!: emits_rules sends_one_use)
next
  case (16 n p v) show ?case
    by (auto simp: incus_defs Let_def intro!: emits_rules sends_one_use)
next
  case (17 x) show ?case by (auto simp: incus_defs only_reads_def intro!: emits_rules)
next
  case (18 descr) show ?case by (auto simp: incus_defs only_reads_def intro!: emits_rules)
next
  case (19 nw) show ?case by (auto simp: incus_defs only_reads_def intro!: emits_rules)
next
  case (20 p v) show ?case by (auto simp: incus_defs intro!: emits_rules)
next
  case (21 p) show ?case by (auto simp: incus_defs intro!: emits_rules)
next
  case (22 p v sz) show ?case
    by (auto simp: incus_defs updates_volume_def Let_def intro!: emits_rules sends_one_use)
next
  case (23 p v descr) show ?case
    by (auto simp: incus_defs updates_volume_def volume_Writable_def Let_def intro!: emits_rules sends_one_use)
next
  case (24 p v s descr) show ?case
    by (auto simp: incus_defs Let_def snap_put_upd intro!: emits_rules sends_one_use)
next
  case (25 im) show ?case
    by (auto simp: incus_defs fingerprint_of_def Let_def split: option.splits json.splits intro!: emits_rules)
next
  case (26 al) show ?case by (auto simp: incus_defs intro!: emits_rules sends_one_use)
next
  case 27 show ?case by (auto simp: incus_defs intro!: emits_rules)
qed

end
