(* ===== verification/AgentEnv.thy ===== *)
theory AgentEnv
  imports Json "HOL-Library.Char_ord" "HOL-Library.List_Lexorder"
begin

text \<open>
  The settings document a VM's agent reads (\<open>apiv1.AgentEnv\<close>) and the network specifications it is
  built from (\<open>apiv1.Networks\<close>), of the vendored \<open>bosh-cpi-go\<close> package the CPI is written against:
  construction, attaching and detaching disks, and the JSON form in both directions.  A nil slice or
  map is \<open>None\<close> and is written as \<open>null\<close>.
\<close>

section \<open>Networks\<close>

record route =
  rt_Destination :: string
  rt_Gateway :: string
  rt_Netmask :: string

record network =
  nw_Type :: string
  nw_IP :: string
  nw_Netmask :: string
  nw_Gateway :: string
  nw_DNS :: "string list option"
  nw_Default :: "string list option"
  nw_Routes :: "route list option"
  nw_Alias :: string
  nw_CloudProps :: "json option"
  nw_mac :: string
  nw_preconfigured :: bool

type_synonym networks = "network gomap"

definition IsDynamic :: "network \<Rightarrow> bool" where
  "IsDynamic n = (nw_Type n = ''dynamic'')"

text \<open>\<open>NewNetwork\<close>: the cloud properties of the options are not copied.\<close>

definition NewNetwork :: "string \<Rightarrow> string \<Rightarrow> string \<Rightarrow> string \<Rightarrow> string list option \<Rightarrow>
    string list option \<Rightarrow> route list option \<Rightarrow> string \<Rightarrow> network" where
  "NewNetwork typ ip netmask gateway dns dflt routes alias = \<lparr>
     nw_Type = typ, nw_IP = ip, nw_Netmask = netmask, nw_Gateway = gateway, nw_DNS = dns,
     nw_Default = dflt, nw_Routes = routes, nw_Alias = alias, nw_CloudProps = None,
     nw_mac = [], nw_preconfigured = False\<rparr>"

section \<open>The settings document\<close>

record network_spec =
  ns_Type :: string
  ns_IP :: string
  ns_Netmask :: string
  ns_Gateway :: string
  ns_DNS :: "string list option"
  ns_Default :: "string list option"
  ns_Routes :: "route list option"
  ns_Alias :: string
  ns_MAC :: string
  ns_Preconfigured :: bool

record agent_env =
  ae_AgentID :: string
  ae_VMName :: string
  ae_VMID :: string
  ae_Mbus :: string
  ae_NTP :: "string list option"
  ae_Networks :: "network_spec gomap option"
  ae_System :: json
  ae_Ephemeral :: json
  ae_Persistent :: "json gomap option"
  ae_Env :: "json gomap option"

record agent_options =
  ao_Mbus :: string
  ao_NTP :: "string list option"

definition network_spec_of :: "network \<Rightarrow> network_spec" where
  "network_spec_of n = \<lparr>ns_Type = nw_Type n, ns_IP = nw_IP n, ns_Netmask = nw_Netmask n,
     ns_Gateway = nw_Gateway n, ns_DNS = nw_DNS n, ns_Default = nw_Default n, ns_Routes = nw_Routes n,
     ns_Alias = nw_Alias n, ns_MAC = nw_mac n, ns_Preconfigured = nw_preconfigured n\<rparr>"

definition ForVM :: "string \<Rightarrow> string \<Rightarrow> networks \<Rightarrow> json gomap option \<Rightarrow> agent_options \<Rightarrow> agent_env" where
  "ForVM agentID cid nets env opts = \<lparr>
     ae_AgentID = agentID, ae_VMName = cid, ae_VMID = cid,
     ae_Mbus = ao_Mbus opts, ae_NTP = ao_NTP opts,
     ae_Networks = Some (map (map_prod id network_spec_of) nets),
     ae_System = JNull, ae_Ephemeral = JNull, ae_Persistent = None, ae_Env = env\<rparr>"

text \<open>Disk hints are arbitrary JSON values.\<close>

definition NewDiskHintFromString :: "string \<Rightarrow> json" where
  "NewDiskHintFromString s = JStr s"

definition NewDiskHintFromMap :: "json gomap \<Rightarrow> json" where
  "NewDiskHintFromMap m = JObj m"

definition AttachSystemDisk :: "json \<Rightarrow> agent_env \<Rightarrow> agent_env" where
  "AttachSystemDisk hint e = e\<lparr>ae_System := hint\<rparr>"

definition AttachEphemeralDisk :: "json \<Rightarrow> agent_env \<Rightarrow> agent_env" where
  "AttachEphemeralDisk hint e = e\<lparr>ae_Ephemeral := hint\<rparr>"

definition persistent_map :: "agent_env \<Rightarrow> json gomap" where
  "persistent_map e = (case ae_Persistent e of None \<Rightarrow> [] | Some m \<Rightarrow> m)"

definition AttachPersistentDisk :: "string \<Rightarrow> json \<Rightarrow> agent_env \<Rightarrow> agent_env" where
  "AttachPersistentDisk cid hint e = e\<lparr>ae_Persistent := Some (gm_put cid hint (persistent_map e))\<rparr>"

definition DetachPersistentDisk :: "string \<Rightarrow> agent_env \<Rightarrow> agent_env" where
  "DetachPersistentDisk cid e = e\<lparr>ae_Persistent := Some (gm_del cid (persistent_map e))\<rparr>"

section \<open>JSON form\<close>

definition opt_json :: "('a \<Rightarrow> json) \<Rightarrow> 'a option \<Rightarrow> json" where
  "opt_json f x = (case x of None \<Rightarrow> JNull | Some y \<Rightarrow> f y)"

definition strings_json :: "string list \<Rightarrow> json" where
  "strings_json xs = JArr (map JStr xs)"

text \<open>A map is written with its keys in byte order.\<close>

definition map_json :: "('a \<Rightarrow> json) \<Rightarrow> 'a gomap \<Rightarrow> json" where
  "map_json f m = JObj (map (map_prod id f) (sort_key fst m))"

definition route_json :: "route \<Rightarrow> json" where
  "route_json r = JObj [(''Destination'', JStr (rt_Destination r)), (''Gateway'', JStr (rt_Gateway r)),
     (''Netmask'', JStr (rt_Netmask r))]"

definition network_spec_json :: "network_spec \<Rightarrow> json" where
  "network_spec_json n = JObj ([(''type'', JStr (ns_Type n)), (''ip'', JStr (ns_IP n)),
     (''netmask'', JStr (ns_Netmask n)), (''gateway'', JStr (ns_Gateway n)),
     (''dns'', opt_json strings_json (ns_DNS n)), (''default'', opt_json strings_json (ns_Default n)),
     (''routes'', opt_json (\<lambda>rs. JArr (map route_json rs)) (ns_Routes n))] @
     (if ns_Alias n = [] then [] else [(''alias'', JStr (ns_Alias n))]) @
     [(''mac'', JStr (ns_MAC n)), (''preconfigured'', JBool (ns_Preconfigured n))])"

definition disks_json :: "agent_env \<Rightarrow> json" where
  "disks_json e = JObj [(''system'', ae_System e), (''ephemeral'', ae_Ephemeral e),
     (''persistent'', opt_json (map_json id) (ae_Persistent e))]"

definition agent_env_json :: "agent_env \<Rightarrow> json" where
  "agent_env_json e = JObj [(''agent_id'', JStr (ae_AgentID e)),
     (''vm'', JObj [(''name'', JStr (ae_VMName e)), (''id'', JStr (ae_VMID e))]),
     (''mbus'', JStr (ae_Mbus e)), (''ntp'', opt_json strings_json (ae_NTP e)),
     (''networks'', opt_json (map_json network_spec_json) (ae_Networks e)),
     (''disks'', disks_json e),
     (''env'', opt_json (map_json id) (ae_Env e))]"

definition AsBytes :: "agent_env \<Rightarrow> string" where
  "AsBytes e = json_print (agent_env_json e)"

section \<open>Reading the JSON form\<close>

definition type_error :: gerr where
  "type_error = GoError ''json: cannot unmarshal value into Go value''"

definition sum_bind :: "gerr + 'a \<Rightarrow> ('a \<Rightarrow> gerr + 'b) \<Rightarrow> gerr + 'b" where
  "sum_bind m f = (case m of Inl e \<Rightarrow> Inl e | Inr x \<Rightarrow> f x)"

lemma sum_bind_simps [simp]: "sum_bind (Inr x) f = f x" "sum_bind (Inl e) f = Inl e"
  by (simp_all add: sum_bind_def)

fun traverse :: "('a \<Rightarrow> gerr + 'b) \<Rightarrow> 'a list \<Rightarrow> gerr + 'b list" where
  "traverse f [] = Inr []"
| "traverse f (x # xs) = sum_bind (f x) (\<lambda>y. sum_bind (traverse f xs) (\<lambda>ys. Inr (y # ys)))"

text \<open>
  The value an object gives to a struct field: keys are compared without regard to case, and a
  repeated key counts with its last value.
\<close>

definition json_field :: "json gomap \<Rightarrow> string \<Rightarrow> json option" where
  "json_field kvs name = (case filter (\<lambda>(k, _). to_lower k = to_lower name) kvs of
     [] \<Rightarrow> None | ms \<Rightarrow> Some (snd (last ms)))"

definition dec_field :: "(json \<Rightarrow> gerr + 'a) \<Rightarrow> 'a \<Rightarrow> json gomap \<Rightarrow> string \<Rightarrow> gerr + 'a" where
  "dec_field dec dflt kvs name = (case json_field kvs name of None \<Rightarrow> Inr dflt | Some v \<Rightarrow> dec v)"

text \<open>Decoders for the Go types of the fields; \<open>null\<close> leaves a string or bool at its old value.\<close>

fun dec_string :: "string \<Rightarrow> json \<Rightarrow> gerr + string" where
  "dec_string old (JStr s) = Inr s"
| "dec_string old JNull = Inr old"
| "dec_string old _ = Inl type_error"

fun dec_bool :: "bool \<Rightarrow> json \<Rightarrow> gerr + bool" where
  "dec_bool old (JBool b) = Inr b"
| "dec_bool old JNull = Inr old"
| "dec_bool old _ = Inl type_error"

text \<open>A Go \<open>int\<close> has 64 bits.\<close>

fun dec_int :: "int \<Rightarrow> json \<Rightarrow> gerr + int" where
  "dec_int old (JNum n) = (if - (2 ^ 63) \<le> n \<and> n < 2 ^ 63 then Inr n else Inl type_error)"
| "dec_int old JNull = Inr old"
| "dec_int old _ = Inl type_error"

fun dec_slice :: "(json \<Rightarrow> gerr + 'a) \<Rightarrow> json \<Rightarrow> gerr + 'a list option" where
  "dec_slice dec (JArr xs) = sum_bind (traverse dec xs) (\<lambda>ys. Inr (Some ys))"
| "dec_slice dec JNull = Inr None"
| "dec_slice dec _ = Inl type_error"

definition gm_of_list :: "'a gomap \<Rightarrow> 'a gomap" where
  "gm_of_list kvs = foldl (\<lambda>m (k, v). gm_put k v m) [] kvs"

fun dec_map :: "(json \<Rightarrow> gerr + 'a) \<Rightarrow> json \<Rightarrow> gerr + 'a gomap option" where
  "dec_map dec (JObj kvs) = sum_bind (traverse (\<lambda>(k, v). sum_bind (dec v) (\<lambda>x. Inr (k, x))) kvs)
     (\<lambda>ys. Inr (Some (gm_of_list ys)))"
| "dec_map dec JNull = Inr None"
| "dec_map dec _ = Inl type_error"

fun dec_struct :: "'a \<Rightarrow> (json gomap \<Rightarrow> gerr + 'a) \<Rightarrow> json \<Rightarrow> gerr + 'a" where
  "dec_struct old dec (JObj kvs) = dec kvs"
| "dec_struct old dec JNull = Inr old"
| "dec_struct old dec _ = Inl type_error"

definition dec_route :: "json \<Rightarrow> gerr + route" where
  "dec_route = dec_struct \<lparr>rt_Destination = [], rt_Gateway = [], rt_Netmask = []\<rparr> (\<lambda>kvs.
     sum_bind (dec_field (dec_string []) [] kvs ''Destination'') (\<lambda>d.
     sum_bind (dec_field (dec_string []) [] kvs ''Gateway'') (\<lambda>g.
     sum_bind (dec_field (dec_string []) [] kvs ''Netmask'') (\<lambda>n.
     Inr \<lparr>rt_Destination = d, rt_Gateway = g, rt_Netmask = n\<rparr>))))"

definition empty_network_spec :: network_spec where
  "empty_network_spec = \<lparr>ns_Type = [], ns_IP = [], ns_Netmask = [], ns_Gateway = [], ns_DNS = None,
     ns_Default = None, ns_Routes = None, ns_Alias = [], ns_MAC = [], ns_Preconfigured = False\<rparr>"

definition dec_network_spec :: "json \<Rightarrow> gerr + network_spec" where
  "dec_network_spec = dec_struct empty_network_spec (\<lambda>kvs.
     sum_bind (dec_field (dec_string []) [] kvs ''type'') (\<lambda>ty.
     sum_bind (dec_field (dec_string []) [] kvs ''ip'') (\<lambda>ip.
     sum_bind (dec_field (dec_string []) [] kvs ''netmask'') (\<lambda>nm.
     sum_bind (dec_field (dec_string []) [] kvs ''gateway'') (\<lambda>gw.
     sum_bind (dec_field (dec_slice (dec_string [])) None kvs ''dns'') (\<lambda>dns.
     sum_bind (dec_field (dec_slice (dec_string [])) None kvs ''default'') (\<lambda>dflt.
     sum_bind (dec_field (dec_slice dec_route) None kvs ''routes'') (\<lambda>rts.
     sum_bind (dec_field (dec_string []) [] kvs ''alias'') (\<lambda>al.
     sum_bind (dec_field (dec_string []) [] kvs ''mac'') (\<lambda>mac.
     sum_bind (dec_field (dec_bool False) False kvs ''preconfigured'') (\<lambda>pre.
     Inr \<lparr>ns_Type = ty, ns_IP = ip, ns_Netmask = nm, ns_Gateway = gw, ns_DNS = dns, ns_Default = dflt,
       ns_Routes = rts, ns_Alias = al, ns_MAC = mac, ns_Preconfigured = pre\<rparr>)))))))))))"

definition empty_agent_env :: agent_env where
  "empty_agent_env = \<lparr>ae_AgentID = [], ae_VMName = [], ae_VMID = [], ae_Mbus = [], ae_NTP = None,
     ae_Networks = None, ae_System = JNull, ae_Ephemeral = JNull, ae_Persistent = None, ae_Env = None\<rparr>"

definition dec_vm :: "json \<Rightarrow> gerr + string \<times> string" where
  "dec_vm = dec_struct ([], []) (\<lambda>kvs.
     sum_bind (dec_field (dec_string []) [] kvs ''name'') (\<lambda>n.
     sum_bind (dec_field (dec_string []) [] kvs ''id'') (\<lambda>i. Inr (n, i))))"

definition dec_disks :: "json \<Rightarrow> gerr + json \<times> json \<times> json gomap option" where
  "dec_disks = dec_struct (JNull, JNull, None) (\<lambda>kvs.
     sum_bind (dec_field Inr JNull kvs ''system'') (\<lambda>s.
     sum_bind (dec_field Inr JNull kvs ''ephemeral'') (\<lambda>ep.
     sum_bind (dec_field (dec_map Inr) None kvs ''persistent'') (\<lambda>p. Inr (s, ep, p)))))"

definition dec_agent_env :: "json \<Rightarrow> gerr + agent_env" where
  "dec_agent_env = dec_struct empty_agent_env (\<lambda>kvs.
     sum_bind (dec_field (dec_string []) [] kvs ''agent_id'') (\<lambda>aid.
     sum_bind (dec_field dec_vm ([], []) kvs ''vm'') (\<lambda>(vn, vi).
     sum_bind (dec_field (dec_string []) [] kvs ''mbus'') (\<lambda>mb.
     sum_bind (dec_field (dec_slice (dec_string [])) None kvs ''ntp'') (\<lambda>ntp.
     sum_bind (dec_field (dec_map dec_network_spec) None kvs ''networks'') (\<lambda>nets.
     sum_bind (dec_field dec_disks (JNull, JNull, None) kvs ''disks'') (\<lambda>(s, ep, p).
     sum_bind (dec_field (dec_map Inr) None kvs ''env'') (\<lambda>env.
     Inr \<lparr>ae_AgentID = aid, ae_VMName = vn, ae_VMID = vi, ae_Mbus = mb, ae_NTP = ntp,
       ae_Networks = nets, ae_System = s, ae_Ephemeral = ep, ae_Persistent = p, ae_Env = env\<rparr>))))))))"

definition FromBytes :: "string \<Rightarrow> gerr + agent_env" where
  "FromBytes bytes = (case json_parse bytes of
      None \<Rightarrow> Inl (WrapError (GoError ''invalid JSON'') ''Unmarshalling agent env'')
    | Some v \<Rightarrow> (case dec_agent_env v of
        Inl e \<Rightarrow> Inl (WrapError e ''Unmarshalling agent env'')
      | Inr e \<Rightarrow> Inr e))"

section \<open>Writing and reading are inverse\<close>

text \<open>The document as it is after a round trip: every map in the byte order of its keys.\<close>

definition sort_map :: "'a gomap \<Rightarrow> 'a gomap" where
  "sort_map m = sort_key fst m"

definition canonical :: "agent_env \<Rightarrow> agent_env" where
  "canonical e = e\<lparr>ae_Networks := map_option sort_map (ae_Networks e),
     ae_Persistent := map_option sort_map (ae_Persistent e), ae_Env := map_option sort_map (ae_Env e)\<rparr>"

definition wf_agent_env :: "agent_env \<Rightarrow> bool" where
  "wf_agent_env e \<longleftrightarrow> pred_option wf_map (ae_Networks e) \<and> pred_option wf_map (ae_Persistent e)
     \<and> pred_option wf_map (ae_Env e)"

lemma wf_sort_map: "wf_map m \<Longrightarrow> wf_map (sort_map m)"
  by (simp add: wf_map_def sort_map_def distinct_map)

lemma foldl_put_fresh:
  "wf_map (acc @ kvs) \<Longrightarrow> foldl (\<lambda>m (k, v). gm_put k v m) acc kvs = acc @ kvs"
proof (induction kvs arbitrary: acc)
  case Nil
  then show ?case by simp
next
  case (Cons kv kvs)
  obtain k v where kv: "kv = (k, v)" by (cases kv)
  have "k \<notin> fst ` set acc" using Cons.prems by (auto simp: kv wf_map_def)
  then have put: "gm_put k v acc = acc @ [(k, v)]"
    by (induction acc) auto
  show ?case using Cons.IH [of "acc @ [(k, v)]"] Cons.prems by (simp add: kv put)
qed

lemma gm_of_list_wf: "wf_map kvs \<Longrightarrow> gm_of_list kvs = kvs"
  using foldl_put_fresh [of "[]" kvs] by (simp add: gm_of_list_def)

lemma traverse_inverse: "(\<And>x. x \<in> set xs \<Longrightarrow> dec (enc x) = Inr x) \<Longrightarrow> traverse dec (map enc xs) = Inr xs"
  by (induction xs) auto

lemma dec_slice_inverse:
  "(\<And>x. dec (enc x) = Inr x) \<Longrightarrow> dec_slice dec (opt_json (\<lambda>xs. JArr (map enc xs)) s) = Inr s"
  by (cases s) (simp_all add: opt_json_def traverse_inverse)

lemma dec_strings_inverse: "dec_slice (dec_string []) (opt_json strings_json s) = Inr s"
  by (cases s) (simp_all add: opt_json_def strings_json_def traverse_inverse)

lemma dec_map_inverse:
  assumes "\<And>x. dec (enc x) = Inr x" and "pred_option wf_map m"
  shows "dec_map dec (opt_json (map_json enc) m) = Inr (map_option sort_map m)"
proof (cases m)
  case (Some kvs)
  have "traverse (\<lambda>(k, v). sum_bind (dec v) (\<lambda>x. Inr (k, x))) (map (map_prod id enc) ys) = Inr ys" for ys
    by (rule traverse_inverse) (auto simp: assms(1))
  from this [of "sort_key fst kvs"] show ?thesis using Some assms(2)
    by (simp add: opt_json_def map_json_def gm_of_list_wf wf_sort_map [unfolded sort_map_def] sort_map_def)
qed (simp add: opt_json_def)

lemma dec_route_inverse: "dec_route (route_json r) = Inr r"
  by (simp add: dec_route_def route_json_def dec_field_def json_field_def to_lower_def to_lower_char_def)

lemma dec_network_spec_inverse: "dec_network_spec (network_spec_json n) = Inr n"
  by (simp add: dec_network_spec_def network_spec_json_def dec_field_def json_field_def
      to_lower_def to_lower_char_def dec_strings_inverse dec_slice_inverse dec_route_inverse)

lemma dec_agent_env_inverse: "wf_agent_env e \<Longrightarrow> dec_agent_env (agent_env_json e) = Inr (canonical e)"
  by (simp add: dec_agent_env_def agent_env_json_def dec_field_def json_field_def dec_vm_def
      dec_disks_def disks_json_def to_lower_def to_lower_char_def dec_strings_inverse wf_agent_env_def
      dec_map_inverse dec_map_inverse [where enc = id, simplified id_apply] dec_network_spec_inverse
      canonical_def)

lemma FromBytes_AsBytes: "wf_agent_env e \<Longrightarrow> FromBytes (AsBytes e) = Inr (canonical e)"
  by (simp add: FromBytes_def AsBytes_def json_parse_print dec_agent_env_inverse)

end
