(* ===== verification/AgentMgr.thy ===== *)
theory AgentMgr
  imports World AgentEnv
begin

text \<open>
  \<open>agentmgr/*.go\<close>: the settings document of every VM is kept in a local file and packed into a disk
  image that the VM reads.  The local files are part of the process state; an operating-system fault
  may hit any access.  The image is built by \<open>go-diskfs\<close>, whose answers are open.
\<close>

section \<open>Configuration and the local machine\<close>

record agent_config =
  ac_SourceType :: string
  ac_Label :: string
  ac_MetadataPath :: string
  ac_UserdataPath :: string
  ac_FileStorePath :: string

text \<open>
  Faults of the operating system: \<open>None\<close> is no fault.  A failed write may leave any content behind.
  \<open>lib_Disk\<close> is the disk-image library.
\<close>

record 'w local_machine =
  os_ReadFault :: "string \<Rightarrow> 'w \<Rightarrow> gerr option \<times> 'w"
  os_WriteFault :: "string \<Rightarrow> string \<Rightarrow> 'w \<Rightarrow> (gerr \<times> string option) option \<times> 'w"
  os_RemoveFault :: "string \<Rightarrow> 'w \<Rightarrow> gerr option \<times> 'w"
  lib_Disk :: "disk_req \<Rightarrow> ('w, string) ext"

definition no_such_file :: "string \<Rightarrow> string \<Rightarrow> gerr" where
  "no_such_file verb path = NotExist (verb @ '' '' @ path @ '': no such file or directory'')"

definition os_IsNotExist :: "gerr \<Rightarrow> bool" where
  "os_IsNotExist e = (case e of NotExist _ \<Rightarrow> True | _ \<Rightarrow> False)"

definition sum_res :: "gerr + 'a \<Rightarrow> 'a res" where
  "sum_res r = (case r of Inl e \<Rightarrow> Err e | Inr x \<Rightarrow> Ok x)"

lemma sum_res_simps [simp]: "sum_res (Inl e) = Err e" "sum_res (Inr x) = Ok x"
  by (simp_all add: sum_res_def)

lemma sum_res_eq [simp]:
  "sum_res r = Ok x \<longleftrightarrow> r = Inr x" "Ok x = sum_res r \<longleftrightarrow> r = Inr x"
  "sum_res r = Err e \<longleftrightarrow> r = Inl e" "Err e = sum_res r \<longleftrightarrow> r = Inl e" "sum_res r \<noteq> Panic p"
  by (auto simp: sum_res_def split: sum.splits)

definition os_ReadFile :: "'w local_machine \<Rightarrow> string \<Rightarrow> ('w, string) go" where
  "os_ReadFile L path = (\<lambda>s. case os_ReadFault L path (world s) of (fault, w) \<Rightarrow>
     (let r = (case fault of Some e \<Rightarrow> Inl e
                | None \<Rightarrow> (case files s path of None \<Rightarrow> Inl (no_such_file ''open'' path) | Some c \<Rightarrow> Inr c))
      in (sum_res r, s\<lparr>world := w, trace := trace s @ [EvReadFile path r]\<rparr>)))"

definition os_WriteFile :: "'w local_machine \<Rightarrow> string \<Rightarrow> string \<Rightarrow> ('w, unit) go" where
  "os_WriteFile L path c = (\<lambda>s. case os_WriteFault L path c (world s) of (fault, w) \<Rightarrow>
     (case fault of
        None \<Rightarrow> (Ok (), s\<lparr>world := w, files := (files s)(path \<mapsto> c),
          trace := trace s @ [EvWriteFile path c (Inr ())]\<rparr>)
      | Some (e, left) \<Rightarrow> (Err e, s\<lparr>world := w,
          files := (case left of None \<Rightarrow> files s | Some d \<Rightarrow> (files s)(path \<mapsto> d)),
          trace := trace s @ [EvWriteFile path c (Inl e)]\<rparr>)))"

definition os_Remove :: "'w local_machine \<Rightarrow> string \<Rightarrow> ('w, unit) go" where
  "os_Remove L path = (\<lambda>s. case os_RemoveFault L path (world s) of (fault, w) \<Rightarrow>
     (case fault of
        Some e \<Rightarrow> (Err e, s\<lparr>world := w, trace := trace s @ [EvRemoveFile path (Inl e)]\<rparr>)
      | None \<Rightarrow> (case files s path of
          None \<Rightarrow> (let e = no_such_file ''remove'' path
            in (Err e, s\<lparr>world := w, trace := trace s @ [EvRemoveFile path (Inl e)]\<rparr>))
        | Some _ \<Rightarrow> (Ok (), s\<lparr>world := w, files := (files s)(path := None),
            trace := trace s @ [EvRemoveFile path (Inr ())]\<rparr>))))"

abbreviation dk :: "'w local_machine \<Rightarrow> disk_req \<Rightarrow> ('w, string) go" where
  "dk L q \<equiv> io_ext (EvDisk q) (lib_Disk L q)"

section \<open>The interface\<close>

record 'w AgentManager =
  am_Read :: "string \<Rightarrow> ('w, agent_env) go"
  am_Write :: "string \<Rightarrow> agent_env \<Rightarrow> ('w, string) go"
  am_Delete :: "string \<Rightarrow> ('w, unit) go"

section \<open>agentFileManager\<close>

definition tempFileName :: "'w local_machine \<Rightarrow> string \<Rightarrow> ('w, string) go" where
  "tempFileName L ext' =
     io_bind (dk L (DkCreateTemp (''config-*.'' @ ext'))) (\<lambda>name.
     io_bind (dk L (DkCloseTemp name)) (\<lambda>_.
     io_bind (dk L (DkRemoveTemp name)) (\<lambda>_.
     io_ret name)))"

definition agentFileName :: "agent_config \<Rightarrow> string \<Rightarrow> string" where
  "agentFileName cfg vmCID = path_join (ac_FileStorePath cfg) vmCID @ ''.json''"

definition afm_Read :: "'w local_machine \<Rightarrow> agent_config \<Rightarrow> string \<Rightarrow> ('w, agent_env) go" where
  "afm_Read L cfg vmCID = (let fileName = agentFileName cfg vmCID
     in io_bind (os_ReadFile L fileName) (\<lambda>data. io_lift (FromBytes data)))"

definition afm_Delete :: "'w local_machine \<Rightarrow> agent_config \<Rightarrow> string \<Rightarrow> ('w, unit) go" where
  "afm_Delete L cfg vmCID = (let fileName = agentFileName cfg vmCID
     in io_try (os_Remove L fileName)
          (\<lambda>err. if os_IsNotExist err then io_ret () else io_fail err)
          (\<lambda>_. io_ret ()))"

definition writeAgentEnv :: "'w local_machine \<Rightarrow> agent_config \<Rightarrow> string \<Rightarrow> agent_env \<Rightarrow> ('w, string) go" where
  "writeAgentEnv L cfg vmCID env = (let fileName = agentFileName cfg vmCID; data = AsBytes env
     in io_bind (os_WriteFile L fileName data) (\<lambda>_. io_ret data))"

definition writeFile :: "'w local_machine \<Rightarrow> string \<Rightarrow> string \<Rightarrow> ('w, unit) go" where
  "writeFile L path contents = (if path = [] then io_ret ()
     else let path' = (if \<not> has_prefix path ''/'' then ''/'' @ path else path)
       in io_bind (dk L (DkOpen path')) (\<lambda>_.
          io_bind (dk L (DkWrite path' contents)) (\<lambda>_.
          io_bind (dk L (DkClose path')) (\<lambda>_. io_ret ()))))"

text \<open>The directories that \<open>mkdirAll\<close> creates, in order.\<close>

fun mkdir_dirs :: "string \<Rightarrow> string list \<Rightarrow> string list" where
  "mkdir_dirs dir [] = []"
| "mkdir_dirs dir (path # paths) =
     (let dir' = (if dir \<noteq> [] then dir @ ''/'' else dir) @ path in dir' # mkdir_dirs dir' paths)"

definition mkdirAll :: "'w local_machine \<Rightarrow> string \<Rightarrow> ('w, unit) go" where
  "mkdirAll L fullPath =
     io_for (mkdir_dirs [] (split_on (CHR ''/'') fullPath)) (\<lambda>dir. io_bind (dk L (DkMkdir dir)) (\<lambda>_. io_ret ()))"

text \<open>\<open>json.Marshal(metadataContentsType{})\<close>: the key map is nil.\<close>

definition metadata_json :: string where
  "metadata_json = json_print (JObj [(''public-keys'', JNull)])"

section \<open>The two image formats\<close>

definition fat32_Write :: "'w local_machine \<Rightarrow> agent_config \<Rightarrow> string \<Rightarrow> agent_env \<Rightarrow> ('w, string) go" where
  "fat32_Write L cfg vmCID env =
     io_bind (tempFileName L ''fat32'') (\<lambda>diskFileName.
     io_bind (dk L (DkCreate diskFileName (35 * 1024 * 1024))) (\<lambda>_.
     io_finally
      (io_bind (dk L (DkPartition 512 512
         [\<lparr>mbr_Bootable = False, mbr_Type = ''Fat32LBA'', mbr_Start = 2048, mbr_Size = 68000\<rparr>])) (\<lambda>_.
       io_bind (dk L (DkCreateFilesystem 0
         \<lparr>fss_Partition = 1, fss_FSType = ''fat32'', fss_VolumeLabel = ac_Label cfg\<rparr>)) (\<lambda>_.
       let configPath = path_dir (ac_UserdataPath cfg);
           configPath' = (if \<not> has_prefix configPath ''/'' then ''/'' @ configPath else configPath)
       in io_bind (dk L (DkMkdir configPath')) (\<lambda>_.
          io_bind (writeFile L (ac_MetadataPath cfg) metadata_json) (\<lambda>_.
          io_bind (writeAgentEnv L cfg vmCID env) (\<lambda>userDataContent.
          io_bind (writeFile L (ac_UserdataPath cfg) userDataContent) (\<lambda>_.
          dk L (DkReadImage diskFileName))))))))
      (dk L (DkRemoveImage diskFileName))))"

definition cdrom_Write :: "'w local_machine \<Rightarrow> agent_config \<Rightarrow> string \<Rightarrow> agent_env \<Rightarrow> ('w, string) go" where
  "cdrom_Write L cfg vmCID env =
     io_bind (tempFileName L ''iso'') (\<lambda>cdromFileName.
     io_bind (dk L (DkCreate cdromFileName (5 * 1024 * 1024))) (\<lambda>_.
     io_finally
      (io_bind (dk L (DkCreateFilesystem 2048
         \<lparr>fss_Partition = 0, fss_FSType = ''iso9660'', fss_VolumeLabel = ac_Label cfg\<rparr>)) (\<lambda>fs.
       io_bind (writeAgentEnv L cfg vmCID env) (\<lambda>buf.
       io_bind (mkdirAll L (path_dir (ac_UserdataPath cfg))) (\<lambda>_.
       io_bind (writeFile L (ac_UserdataPath cfg) buf) (\<lambda>_.
       io_bind (mkdirAll L (path_dir (ac_MetadataPath cfg))) (\<lambda>_.
       io_bind (writeFile L (ac_MetadataPath cfg) metadata_json) (\<lambda>_.
       if fs \<noteq> ''iso9660'' then io_fail (GoError ''not an iso9660 filesystem'')
       else io_bind (dk L (DkFinalize True (ac_Label cfg))) (\<lambda>_.
            dk L (DkReadImage cdromFileName)))))))))
      (dk L (DkRemoveImage cdromFileName))))"

definition NewFAT32Manager :: "'w local_machine \<Rightarrow> agent_config \<Rightarrow> 'w AgentManager" where
  "NewFAT32Manager L cfg = \<lparr>am_Read = afm_Read L cfg, am_Write = fat32_Write L cfg, am_Delete = afm_Delete L cfg\<rparr>"

definition NewCDROMManager :: "'w local_machine \<Rightarrow> agent_config \<Rightarrow> 'w AgentManager" where
  "NewCDROMManager L cfg = \<lparr>am_Read = afm_Read L cfg, am_Write = cdrom_Write L cfg, am_Delete = afm_Delete L cfg\<rparr>"

definition NewAgentManager :: "'w local_machine \<Rightarrow> agent_config \<Rightarrow> gerr + 'w AgentManager" where
  "NewAgentManager L cfg =
     (if ac_SourceType cfg = ''FAT32'' then Inr (NewFAT32Manager L cfg)
      else if ac_SourceType cfg = ''CDROM'' then Inr (NewCDROMManager L cfg)
      else Inl (GoError (''unknown stemcell configuration type '' @ [CHR 0x27] @ ac_SourceType cfg @ [CHR 0x27])))"

section \<open>Trace rules of the file operations\<close>

lemma emits_os_ReadFile [emits_rules]:
  assumes "\<And>c. P (Ok c) [EvReadFile path (Inr c)]" and "\<And>e. P (Err e) [EvReadFile path (Inl e)]"
  shows "emits (os_ReadFile L path) P"
  by (rule emitsI) (use assms in \<open>auto simp: os_ReadFile_def Let_def split: prod.splits option.splits\<close>)

lemma emits_os_WriteFile [emits_rules]:
  assumes "P (Ok ()) [EvWriteFile path c (Inr ())]" and "\<And>e. P (Err e) [EvWriteFile path c (Inl e)]"
  shows "emits (os_WriteFile L path c) P"
  by (rule emitsI) (use assms in \<open>auto simp: os_WriteFile_def split: prod.splits option.splits\<close>)

lemma emits_os_Remove [emits_rules]:
  assumes "P (Ok ()) [EvRemoveFile path (Inr ())]" and "\<And>e. P (Err e) [EvRemoveFile path (Inl e)]"
  shows "emits (os_Remove L path) P"
  by (rule emitsI) (use assms in \<open>auto simp: os_Remove_def Let_def split: prod.splits option.splits\<close>)


section \<open>File rules of the file operations\<close>

lemma leaves_os_ReadFile [file_rules]:
  "(\<And>e. P (Err e) f) \<Longrightarrow> (\<And>c. f path = Some c \<Longrightarrow> P (Ok c) f) \<Longrightarrow> leaves (os_ReadFile L path) P f"
  by (auto simp: leaves_def os_ReadFile_def Let_def split: prod.splits option.splits)

lemma leaves_os_WriteFile [file_rules]:
  "P (Ok ()) (f(path \<mapsto> c)) \<Longrightarrow> (\<And>e. P (Err e) f) \<Longrightarrow> (\<And>e d. P (Err e) (f(path \<mapsto> d))) \<Longrightarrow>
   leaves (os_WriteFile L path c) P f"
  by (auto simp: leaves_def os_WriteFile_def split: prod.splits option.splits)

lemma leaves_os_Remove [file_rules]:
  "(\<And>e. P (Err e) f) \<Longrightarrow> (f path \<noteq> None \<Longrightarrow> P (Ok ()) (f(path := None))) \<Longrightarrow>
   (f path = None \<Longrightarrow> P (Err (no_such_file ''remove'' path)) f) \<Longrightarrow> leaves (os_Remove L path) P f"
  by (auto simp: leaves_def os_Remove_def Let_def split: prod.splits option.splits)

section \<open>The contract of an agent manager\<close>

text \<open>
  \<open>path\<close> is where the manager keeps a VM's settings.  A manager touches no other file and nothing on
  the server; what it wrote is what it reads.
\<close>

fun settings_writes :: "event list \<Rightarrow> (string \<times> string) list" where
  "settings_writes [] = []"
| "settings_writes (EvWriteFile p c r # ts) = (p, c) # settings_writes ts"
| "settings_writes (_ # ts) = settings_writes ts"

lemma settings_writes_append [simp]: "settings_writes (ts @ us) = settings_writes ts @ settings_writes us"
  by (induction ts rule: settings_writes.induct) auto

locale agent_manager_contract =
  fixes M :: "'w AgentManager" and path :: "string \<Rightarrow> string"
  assumes Read_trace: "emits (am_Read M vm) (\<lambda>r ts. (\<exists>c. ts = [EvReadFile (path vm) (Inr c)] \<and> r = sum_res (FromBytes c))
      \<or> (\<exists>e. ts = [EvReadFile (path vm) (Inl e)] \<and> r = Err e))"
    and Read_files: "leaves (am_Read M vm) (\<lambda>r g. g = f \<and>
      (is_Ok r \<longrightarrow> (\<exists>c. f (path vm) = Some c \<and> r = sum_res (FromBytes c)))) f"
    and Write_trace: "emits (am_Write M vm e) (\<lambda>r ts. effects ts = [] \<and>
      prefix (settings_writes ts) [(path vm, AsBytes e)] \<and>
      (is_Ok r \<longrightarrow> EvWriteFile (path vm) (AsBytes e) (Inr ()) \<in> set ts))"
    and Write_files: "leaves (am_Write M vm e) (\<lambda>r g. (\<forall>p. p \<noteq> path vm \<longrightarrow> g p = f p) \<and>
      (is_Ok r \<longrightarrow> g (path vm) = Some (AsBytes e))) f"
    and Delete_trace: "emits (am_Delete M vm) (\<lambda>r ts. \<exists>a. ts = [EvRemoveFile (path vm) a] \<and>
      (is_Ok r \<longleftrightarrow> a = Inr () \<or> (\<exists>s. a = Inl (NotExist s))))"
    and Delete_files: "leaves (am_Delete M vm) (\<lambda>r g. g = f \<or> g = f(path vm := None)) f"
begin

text \<open>Reading gives back what the last successful write stored.\<close>

lemma Read_after_Write:
  assumes "am_Write M vm e s = (Ok img, s')" and "wf_agent_env e"
    and "am_Read M vm s' = (Ok e', s'')"
  shows "e' = canonical e"
proof -
  from leavesD [OF Write_files assms(1) refl] have "files s' (path vm) = Some (AsBytes e)" by simp
  with leavesD [OF Read_files assms(3) refl] have "Ok e' = sum_res (FromBytes (AsBytes e))" by auto
  then show ?thesis using FromBytes_AsBytes [OF assms(2)] by simp
qed

text \<open>The settings of another VM, kept in another file, are not touched.\<close>

lemma Write_other:
  assumes "am_Write M vm e s = (r, s')" and "path vm' \<noteq> path vm"
  shows "files s' (path vm') = files s (path vm')"
  using leavesD [OF Write_files assms(1) refl] assms(2) by simp

lemma Delete_other:
  assumes "am_Delete M vm s = (r, s')" and "path vm' \<noteq> path vm"
  shows "files s' (path vm') = files s (path vm')"
  using leavesD [OF Delete_files assms(1) refl] assms(2) by auto

end

section \<open>Both managers keep it\<close>

lemma emits_dk_for:
  "(\<And>r ts. effects ts = [] \<Longrightarrow> settings_writes ts = [] \<Longrightarrow> P r ts) \<Longrightarrow> emits (mkdirAll L p) P"
  unfolding mkdirAll_def
  by (rule emits_for [where I = "\<lambda>_ ts. effects ts = [] \<and> settings_writes ts = []"])
     (auto intro!: emits_rules)

lemma emits_writeFile:
  "(\<And>r ts. effects ts = [] \<Longrightarrow> settings_writes ts = [] \<Longrightarrow> P r ts) \<Longrightarrow> emits (writeFile L p c) P"
  unfolding writeFile_def by (auto simp: Let_def intro!: emits_rules)

lemma emits_tempFileName:
  "(\<And>r ts. effects ts = [] \<Longrightarrow> settings_writes ts = [] \<Longrightarrow> P r ts) \<Longrightarrow> emits (tempFileName L p) P"
  unfolding tempFileName_def by (auto intro!: emits_rules)

lemma emits_writeAgentEnv:
  "(\<And>ts. ts = [EvWriteFile (agentFileName cfg vm) (AsBytes e) (Inr ())] \<Longrightarrow> P (Ok (AsBytes e)) ts) \<Longrightarrow>
   (\<And>ts er. ts = [EvWriteFile (agentFileName cfg vm) (AsBytes e) (Inl er)] \<Longrightarrow> P (Err er) ts) \<Longrightarrow>
   emits (writeAgentEnv L cfg vm e) P"
  unfolding writeAgentEnv_def by (auto simp: Let_def intro!: emits_rules)

lemma leaves_mkdirAll [file_rules]: "(\<And>r. P r f) \<Longrightarrow> leaves (mkdirAll L p) P f"
  unfolding mkdirAll_def by (auto intro!: file_rules)

lemma leaves_writeFile [file_rules]: "(\<And>r. P r f) \<Longrightarrow> leaves (writeFile L p c) P f"
  unfolding writeFile_def by (auto simp: Let_def intro!: file_rules)

lemma leaves_tempFileName [file_rules]: "(\<And>r. P r f) \<Longrightarrow> leaves (tempFileName L p) P f"
  unfolding tempFileName_def by (auto intro!: file_rules)

lemma leaves_writeAgentEnv [file_rules]:
  "P (Ok (AsBytes e)) (f(agentFileName cfg vm \<mapsto> AsBytes e)) \<Longrightarrow> (\<And>er. P (Err er) f) \<Longrightarrow>
   (\<And>er d. P (Err er) (f(agentFileName cfg vm \<mapsto> d))) \<Longrightarrow> leaves (writeAgentEnv L cfg vm e) P f"
  unfolding writeAgentEnv_def by (auto simp: Let_def intro!: file_rules)

lemmas image_rules = emits_dk_for emits_writeFile emits_tempFileName emits_writeAgentEnv

lemma afm_Read_trace: "emits (afm_Read L cfg vm) (\<lambda>r ts.
    (\<exists>c. ts = [EvReadFile (agentFileName cfg vm) (Inr c)] \<and> r = sum_res (FromBytes c))
    \<or> (\<exists>e. ts = [EvReadFile (agentFileName cfg vm) (Inl e)] \<and> r = Err e))"
  unfolding afm_Read_def by (auto simp: Let_def intro!: emits_rules)

lemma afm_Read_files: "leaves (afm_Read L cfg vm) (\<lambda>r g. g = f \<and>
    (is_Ok r \<longrightarrow> (\<exists>c. f (agentFileName cfg vm) = Some c \<and> r = sum_res (FromBytes c)))) f"
  unfolding afm_Read_def by (auto simp: Let_def intro!: file_rules)

lemma afm_Delete_trace: "emits (afm_Delete L cfg vm) (\<lambda>r ts. \<exists>a. ts = [EvRemoveFile (agentFileName cfg vm) a] \<and>
    (is_Ok r \<longleftrightarrow> a = Inr () \<or> (\<exists>s. a = Inl (NotExist s))))"
  unfolding afm_Delete_def
  by (auto simp: Let_def os_IsNotExist_def split: gerr.splits intro!: emits_rules)

lemma afm_Delete_files: "leaves (afm_Delete L cfg vm) (\<lambda>r g. g = f \<or> g = f(agentFileName cfg vm := None)) f"
  unfolding afm_Delete_def by (auto simp: Let_def intro!: file_rules)

lemma fat32_Write_trace: "emits (fat32_Write L cfg vm e) (\<lambda>r ts. effects ts = [] \<and>
    prefix (settings_writes ts) [(agentFileName cfg vm, AsBytes e)] \<and>
    (is_Ok r \<longrightarrow> EvWriteFile (agentFileName cfg vm) (AsBytes e) (Inr ()) \<in> set ts))"
  unfolding fat32_Write_def
  by (auto simp: Let_def intro!: emits_rules image_rules split: res.splits)

lemma cdrom_Write_trace: "emits (cdrom_Write L cfg vm e) (\<lambda>r ts. effects ts = [] \<and>
    prefix (settings_writes ts) [(agentFileName cfg vm, AsBytes e)] \<and>
    (is_Ok r \<longrightarrow> EvWriteFile (agentFileName cfg vm) (AsBytes e) (Inr ()) \<in> set ts))"
  unfolding cdrom_Write_def
  by (auto simp: Let_def intro!: emits_rules image_rules split: res.splits)

lemma fat32_Write_files: "leaves (fat32_Write L cfg vm e) (\<lambda>r g. (\<forall>p. p \<noteq> agentFileName cfg vm \<longrightarrow> g p = f p) \<and>
    (is_Ok r \<longrightarrow> g (agentFileName cfg vm) = Some (AsBytes e))) f"
  unfolding fat32_Write_def by (auto simp: Let_def intro!: file_rules split: res.splits)

lemma cdrom_Write_files: "leaves (cdrom_Write L cfg vm e) (\<lambda>r g. (\<forall>p. p \<noteq> agentFileName cfg vm \<longrightarrow> g p = f p) \<and>
    (is_Ok r \<longrightarrow> g (agentFileName cfg vm) = Some (AsBytes e))) f"
  unfolding cdrom_Write_def by (auto simp: Let_def intro!: file_rules split: res.splits)

lemmas manager_laws = afm_Read_trace afm_Read_files afm_Delete_trace afm_Delete_files
  fat32_Write_trace fat32_Write_files cdrom_Write_trace cdrom_Write_files

interpretation fat32: agent_manager_contract "NewFAT32Manager L cfg" "agentFileName cfg"
  for L :: "'w local_machine" and cfg
  by unfold_locales (simp_all add: NewFAT32Manager_def manager_laws)

interpretation cdrom: agent_manager_contract "NewCDROMManager L cfg" "agentFileName cfg"
  for L :: "'w local_machine" and cfg
  by unfold_locales (simp_all add: NewCDROMManager_def manager_laws)

end
