(* ===== verification/Throttle.thy ===== *)
theory Throttle
  imports World
begin

text \<open>
  \<open>throttle/config.go\<close> and \<open>throttle/server.go\<close>: the service that hands out transaction reservations.
  It first gives the handlers as sequential functions of the server state, then the server as a
  state machine in which the handlers of different connections interleave: \<open>net/http\<close> runs every
  connection in its own goroutine, the expiry loop runs in another one, and nothing synchronises
  them, so a POST looks at the number of reservations in one step and adds its own in a later step.
\<close>

record throttle_config =
  tc_Enabled :: bool
  tc_Path :: string
  tc_Limit :: int
  tc_Hold :: string

section \<open>Server state and responses\<close>

text \<open>Times and durations are in nanoseconds.\<close>

record ThrottleServer =
  ts_path :: string
  ts_holdDuration :: int
  ts_limit :: int
  ts_transactions :: "int gomap"

record http_response =
  hr_Status :: int
  hr_Body :: string

definition StatusOK :: int where "StatusOK = 200"
definition StatusCreated :: int where "StatusCreated = 201"
definition StatusNoContent :: int where "StatusNoContent = 204"
definition StatusBadRequest :: int where "StatusBadRequest = 400"
definition StatusNotFound :: int where "StatusNotFound = 404"
definition StatusMethodNotAllowed :: int where "StatusMethodNotAllowed = 405"
definition StatusTooManyRequests :: int where "StatusTooManyRequests = 429"
definition StatusInternalServerError :: int where "StatusInternalServerError = 500"

lemmas status_defs = StatusOK_def StatusCreated_def StatusNoContent_def StatusBadRequest_def
  StatusNotFound_def StatusMethodNotAllowed_def StatusTooManyRequests_def StatusInternalServerError_def

text \<open>\<open>http.Error\<close> ends the text with a newline.\<close>

definition http_Error :: "string \<Rightarrow> int \<Rightarrow> http_response" where
  "http_Error msg code = \<lparr>hr_Status = code, hr_Body = msg @ [CHR 0x0A]\<rparr>"

definition http_status :: "int \<Rightarrow> http_response" where
  "http_status code = \<lparr>hr_Status = code, hr_Body = []\<rparr>"

section \<open>The handlers\<close>

text \<open>
  A socket left over from an earlier run is removed, if the operating system lets it (\<open>removes\<close>); the
  error is ignored.  \<open>parse_duration\<close> stands for \<open>time.ParseDuration\<close>.
\<close>

definition NewThrottleServer :: "(string \<Rightarrow> gerr + int) \<Rightarrow> (string \<Rightarrow> bool) \<Rightarrow> throttle_config \<Rightarrow>
    (string \<rightharpoonup> string) \<Rightarrow> (gerr + ThrottleServer) \<times> (string \<rightharpoonup> string)" where
  "NewThrottleServer parse_duration removes cfg fs = (case parse_duration (tc_Hold cfg) of
      Inl e \<Rightarrow> (Inl e, fs)
    | Inr hold \<Rightarrow> (Inr \<lparr>ts_path = tc_Path cfg, ts_holdDuration = hold, ts_limit = tc_Limit cfg,
          ts_transactions = []\<rparr>,
        if fs (tc_Path cfg) \<noteq> None \<and> removes (tc_Path cfg) then fs(tc_Path cfg := None) else fs))"

text \<open>One round of the expiry loop at time \<open>now\<close>.\<close>

definition expireTransactions :: "int \<Rightarrow> ThrottleServer \<Rightarrow> ThrottleServer" where
  "expireTransactions now ts = ts\<lparr>ts_transactions :=
     filter (\<lambda>(k, v). \<not> now > v + ts_holdDuration ts) (ts_transactions ts)\<rparr>"

definition handleTransactionWithId :: "string \<Rightarrow> string \<Rightarrow> ThrottleServer \<Rightarrow> http_response \<times> ThrottleServer" where
  "handleTransactionWithId method transactionId ts =
     (if method = ''DELETE'' then
        (if transactionId = [] then (http_status StatusBadRequest, ts)
         else (case gm_find (ts_transactions ts) transactionId of
             None \<Rightarrow> (http_status StatusNotFound, ts)
           | Some startTime \<Rightarrow> (http_status StatusNoContent,
               ts\<lparr>ts_transactions := gm_del transactionId (ts_transactions ts)\<rparr>)))
      else (http_Error ''Method not allowed'' StatusMethodNotAllowed, ts))"

text \<open>A POST in two parts: the test of the limit, and the reservation.\<close>

definition post_admitted :: "ThrottleServer \<Rightarrow> bool" where
  "post_admitted ts = (\<not> int (length (ts_transactions ts)) \<ge> ts_limit ts)"

definition post_refusal :: http_response where
  "post_refusal = http_Error ''Too many requests'' StatusTooManyRequests"

definition post_reserve :: "int \<Rightarrow> gerr + string \<Rightarrow> ThrottleServer \<Rightarrow> http_response \<times> ThrottleServer" where
  "post_reserve now uuid ts = (case uuid of
      Inl e \<Rightarrow> (http_Error (error_string e) StatusInternalServerError, ts)
    | Inr transactionId \<Rightarrow> (\<lparr>hr_Status = StatusCreated, hr_Body = transactionId\<rparr>,
        ts\<lparr>ts_transactions := gm_put transactionId now (ts_transactions ts)\<rparr>))"

text \<open>
  The whole handler, undisturbed.  \<open>marshal\<close> writes the table with its times, a function of the time
  package.
\<close>

definition handleTransactions :: "(int gomap \<Rightarrow> gerr + string) \<Rightarrow> string \<Rightarrow> int \<Rightarrow> gerr + string \<Rightarrow>
    ThrottleServer \<Rightarrow> http_response \<times> ThrottleServer" where
  "handleTransactions marshal method now uuid ts =
     (if method = ''GET'' then
        (case marshal (ts_transactions ts) of
           Inl e \<Rightarrow> (http_Error (error_string e) StatusInternalServerError, ts)
         | Inr data \<Rightarrow> (\<lparr>hr_Status = StatusOK, hr_Body = data\<rparr>, ts))
      else if method = ''POST'' then
        (if \<not> post_admitted ts then (post_refusal, ts) else post_reserve now uuid ts)
      else (http_Error ''Method not allowed'' StatusMethodNotAllowed, ts))"

section \<open>The sequential server\<close>

text \<open>The number of reservations never exceeds the limit when every handler runs undisturbed.\<close>

definition within_limit :: "ThrottleServer \<Rightarrow> bool" where
  "within_limit ts \<longleftrightarrow> wf_map (ts_transactions ts) \<and>
     int (length (ts_transactions ts)) \<le> max 0 (ts_limit ts)"

lemma length_put_le: "length (gm_put k v m) \<le> Suc (length m)"
  by (induction m) auto

lemma length_del_le: "length (gm_del k m) \<le> length m"
  by (simp add: length_delete_le)

lemma length_expire_le:
  "length (ts_transactions (expireTransactions now ts)) \<le> length (ts_transactions ts)"
  by (simp add: expireTransactions_def)

lemma expire_simps [simp]:
  "ts_limit (expireTransactions now ts) = ts_limit ts"
  "ts_holdDuration (expireTransactions now ts) = ts_holdDuration ts"
  by (simp_all add: expireTransactions_def)

lemma wf_map_filter: "wf_map m \<Longrightarrow> wf_map (filter P m)"
  by (simp add: wf_map_def distinct_map_filter)

lemma within_limit_new:
  "fst (NewThrottleServer pd rm cfg fs) = Inr ts \<Longrightarrow> within_limit ts"
  by (auto simp: NewThrottleServer_def within_limit_def split: sum.splits)

lemma within_limit_expire: "within_limit ts \<Longrightarrow> within_limit (expireTransactions now ts)"
  using length_expire_le [of now ts]
  by (auto simp: within_limit_def) (simp add: expireTransactions_def wf_map_filter)

lemma within_limit_delete: "within_limit ts \<Longrightarrow> within_limit (snd (handleTransactionWithId m tid ts))"
  using length_del_le [of tid "ts_transactions ts"]
  by (auto simp: within_limit_def handleTransactionWithId_def split: option.splits)

lemma within_limit_post: "within_limit ts \<Longrightarrow> within_limit (snd (handleTransactions ms m now u ts))"
  using length_put_le [of "projr u" now "ts_transactions ts"]
  by (cases u) (auto simp: within_limit_def handleTransactions_def post_admitted_def post_reserve_def
      split: sum.splits)

section \<open>The interleaved server\<close>

text \<open>
  \<open>tw_posting\<close> counts the POST handlers that have passed the test and have not yet reserved.
\<close>

record throttle_world =
  tw_server :: ThrottleServer
  tw_posting :: nat

inductive throttle_step :: "throttle_world \<Rightarrow> throttle_world \<Rightarrow> bool" where
  post_test: "post_admitted (tw_server w) \<Longrightarrow>
    throttle_step w (w\<lparr>tw_posting := Suc (tw_posting w)\<rparr>)"
| post_add: "tw_posting w = Suc n \<Longrightarrow>
    throttle_step w \<lparr>tw_server = snd (post_reserve now uuid (tw_server w)), tw_posting = n\<rparr>"
| delete: "throttle_step w (w\<lparr>tw_server := snd (handleTransactionWithId m tid (tw_server w))\<rparr>)"
| expire: "throttle_step w (w\<lparr>tw_server := expireTransactions now (tw_server w)\<rparr>)"

inductive_cases throttle_stepE: "throttle_step w w'"

text \<open>Runs in which at most \<open>c\<close> POST handlers are between their test and their reservation.\<close>

inductive throttle_reach :: "nat \<Rightarrow> throttle_world \<Rightarrow> throttle_world \<Rightarrow> bool" for c w0 where
  start: "throttle_reach c w0 w0"
| step: "throttle_reach c w0 w \<Longrightarrow> throttle_step w w' \<Longrightarrow> tw_posting w' \<le> c \<Longrightarrow> throttle_reach c w0 w'"

definition idle :: "ThrottleServer \<Rightarrow> throttle_world" where
  "idle ts = \<lparr>tw_server = ts, tw_posting = 0\<rparr>"

text \<open>
  What does hold: reservations and pending reservations together stay below the limit plus the
  number of handlers that may be pending at once.
\<close>

definition overshoot_bound :: "nat \<Rightarrow> throttle_world \<Rightarrow> bool" where
  "overshoot_bound c w \<longleftrightarrow>
     int (length (ts_transactions (tw_server w))) + int (tw_posting w) \<le> max 0 (ts_limit (tw_server w) - 1 + int c)"

lemma step_limit: "throttle_step w w' \<Longrightarrow> ts_limit (tw_server w') = ts_limit (tw_server w)"
  by (erule throttle_stepE)
     (auto simp: post_reserve_def handleTransactionWithId_def split: sum.splits option.splits)

lemma step_bound:
  assumes "throttle_step w w'" and "overshoot_bound c w" and "tw_posting w' \<le> c"
  shows "overshoot_bound c w'"
  using assms
proof (cases rule: throttle_step.cases)
  case post_test
  then show ?thesis using assms(3) by (auto simp: overshoot_bound_def post_admitted_def)
next
  case (post_add n now uuid)
  then show ?thesis using assms(2) length_put_le [of "projr uuid" now "ts_transactions (tw_server w)"]
    by (cases uuid) (auto simp: overshoot_bound_def post_reserve_def)
next
  case (delete m tid)
  then show ?thesis using assms(2) length_del_le [of tid "ts_transactions (tw_server w)"]
    by (auto simp: overshoot_bound_def handleTransactionWithId_def split: option.splits)
next
  case (expire now)
  then show ?thesis using assms(2) length_expire_le [of now "tw_server w"]
    by (auto simp: overshoot_bound_def)
qed

lemma reach_bound:
  "throttle_reach c w0 w \<Longrightarrow> overshoot_bound c w0 \<Longrightarrow> overshoot_bound c w"
  by (induction rule: throttle_reach.induct) (auto intro: step_bound)

end
