(* ===== verification/CpiBase.thy ===== *)
theory CpiBase
  imports AdapterContract AgentMgr Throttle
begin

text \<open>
  \<open>config/config.go\<close>, \<open>cpi/cpi.go\<close> and the helpers of \<open>cpi/utils_*.go\<close> that all CPI calls share: the CPI
  value, the disk helpers, the error filter and the replacement of a VM's settings disk.
\<close>

section \<open>The CPI value\<close>

record Config =
  conf_Server :: ServerConfig
  conf_Agent :: agent_options
  conf_AgentConfig :: agent_config
  conf_ThrottleConfig :: throttle_config

text \<open>
  The lock library answers \<open>TryLockContext\<close> with a flag or an error (never both); \<open>cpi_OpenFile\<close> and
  \<open>cpi_GzipReader\<close> read a stemcell tarball.
\<close>

record 'w CPI =
  cpi_adapter :: "'w ApiAdapter"
  cpi_uuidGen :: "('w, string) ext"
  cpi_config :: Config
  cpi_agentMgr :: "'w AgentManager"
  cpi_TryLock :: "('w, bool) ext"
  cpi_Unlock :: "('w, unit) ext"
  cpi_OpenFile :: "string \<Rightarrow> ('w, unit) ext"
  cpi_GzipReader :: "string \<Rightarrow> ('w, stemcell_archive) ext"

abbreviation cpi_pool :: "'w CPI \<Rightarrow> string" where
  "cpi_pool c \<equiv> cfg_StoragePool (conf_Server (cpi_config c))"

abbreviation gen_uuid :: "'w CPI \<Rightarrow> ('w, string) go" where
  "gen_uuid c \<equiv> io_ext EvUuid (cpi_uuidGen c)"

text \<open>\<open>NewVMCID\<close>, \<open>NewDiskCID\<close> and their kin panic on an empty string.\<close>

definition new_cid :: "string \<Rightarrow> ('w, string) go" where
  "new_cid s = (if s = [] then io_panic ''Internal incosistency: CID must not be empty'' else io_ret s)"

lemma new_cid_nonempty [simp]: "s \<noteq> [] \<Longrightarrow> new_cid s = io_ret s"
  by (simp add: new_cid_def)

text \<open>\<open>bosherr.WrapErrorf\<close> with the message already formatted.\<close>

definition io_outerf :: "string \<Rightarrow> string \<Rightarrow> string" where
  "io_outerf vm step = ''writeAgentFileToVm('' @ vm @ '') - '' @ step"

section \<open>utils_disk.go\<close>

definition DISK_EPHEMERAL_PREFIX :: string where "DISK_EPHEMERAL_PREFIX = ''vol-e-''"
definition DISK_PERSISTENT_PREFIX :: string where "DISK_PERSISTENT_PREFIX = ''vol-p-''"
definition DISK_CONFIGURATION_PREFIX :: string where "DISK_CONFIGURATION_PREFIX = ''vol-c-''"
definition SNAPSHOT_PREFIX :: string where "SNAPSHOT_PREFIX = ''snap-''"
definition DISK_DEVICE_CONFIG :: string where "DISK_DEVICE_CONFIG = ''config''"
definition DISK_DEVICE_EPHEMERAL :: string where "DISK_DEVICE_EPHEMERAL = ''ephemeral''"
definition DISK_DEVICE_PERSISTENT1 :: string where "DISK_DEVICE_PERSISTENT1 = ''persistent-1''"
definition DISK_DEVICE_PERSISTENT2 :: string where "DISK_DEVICE_PERSISTENT2 = ''persistent-2''"

definition disk_device :: "'w CPI \<Rightarrow> string \<Rightarrow> strmap" where
  "disk_device c diskId = [(''type'', ''disk''), (''pool'', cpi_pool c), (''source'', diskId)]"

definition attachDiskDeviceToVM :: "'w CPI \<Rightarrow> string \<Rightarrow> string \<Rightarrow> string \<Rightarrow> ('w, unit) go" where
  "attachDiskDeviceToVM c vmCID name diskId = AttachDevice (cpi_adapter c) vmCID name (disk_device c diskId)"

definition disks_of :: "devices \<Rightarrow> devices" where
  "disks_of ds = filter (\<lambda>(name, device). gm_get device ''type'' = ''disk'') ds"

definition findDisksAttachedToVm :: "'w CPI \<Rightarrow> string \<Rightarrow> ('w, devices) go" where
  "findDisksAttachedToVm c vmCID =
     io_bind (GetDevices (cpi_adapter c) vmCID) (\<lambda>devices. io_ret (disks_of devices))"

section \<open>utils_error.go\<close>

definition CleanInstanceNotFoundError :: "gerr option \<Rightarrow> gerr option" where
  "CleanInstanceNotFoundError err = (case err of
      None \<Rightarrow> None
    | Some e \<Rightarrow> if contains (to_lower (error_string e)) ''instance not found'' then None else Some e)"

section \<open>utils_agent.go\<close>

text \<open>
  The new settings image becomes a fresh volume; the old \<open>config\<close> device, if there is one, is detached
  and its volume deleted when the VM is stopped; then the new volume is attached.
\<close>

definition writeAgentFileToVM :: "'w CPI \<Rightarrow> string \<Rightarrow> agent_env \<Rightarrow> ('w, unit) go" where
  "writeAgentFileToVM c vmCID agentEnv = (let A = cpi_adapter c; msg = io_outerf vmCID in
     io_wrap (gen_uuid c) (msg ''UUID'') (\<lambda>uuid.
     io_wrap (am_Write (cpi_agentMgr c) vmCID agentEnv) (msg ''Write'') (\<lambda>diskImage.
     if length diskImage = 0 then io_fail (GoError ''ISO image is empty'')
     else io_wrap (GetInstanceLocation A vmCID) (msg ''Location'') (\<lambda>target.
       let diskName = DISK_CONFIGURATION_PREFIX @ uuid in
       io_wrap (CreateStoragePoolVolumeFromISO A target (cpi_pool c) diskName diskImage) (msg ''Create'') (\<lambda>_.
       io_wrap (findDisksAttachedToVm c vmCID) (msg ''Find'') (\<lambda>disks.
       io_bind
        (case gm_find disks DISK_DEVICE_CONFIG of
           None \<Rightarrow> io_ret ()
         | Some disk \<Rightarrow>
             io_wrap (DetachDeviceByName A vmCID DISK_DEVICE_CONFIG) (msg ''Remove'') (\<lambda>_.
             io_wrap (IsInstanceStopped A vmCID) (msg ''Check State'') (\<lambda>stopped.
             if stopped
             then io_wrap (DeleteStoragePoolVolume A (cpi_pool c) (gm_get disk ''source'')) (msg ''Delete'')
                    (\<lambda>_. io_ret ())
             else io_ret ())))
        (\<lambda>_. io_wrap (attachDiskDeviceToVM c vmCID DISK_DEVICE_CONFIG diskName) (msg ''Attach'')
               (\<lambda>_. io_ret ()))))))))"

section \<open>NewCPI\<close>

text \<open>
  \<open>NewCPI\<close> checks the agent configuration and the lock timeout.  \<open>parse_duration\<close> stands for
  \<open>time.ParseDuration\<close>; the timeout itself only reaches the lock library.
\<close>

definition NewCPI :: "'w local_machine \<Rightarrow> (string \<Rightarrow> gerr + int) \<Rightarrow>
    (string \<Rightarrow> int \<Rightarrow> ('w, bool) ext) \<Rightarrow> (string \<Rightarrow> ('w, unit) ext) \<Rightarrow> ('w, string) ext \<Rightarrow>
    (string \<Rightarrow> ('w, unit) ext) \<Rightarrow> (string \<Rightarrow> ('w, stemcell_archive) ext) \<Rightarrow>
    'w ApiAdapter \<Rightarrow> Config \<Rightarrow> gerr + 'w CPI" where
  "NewCPI L parse_duration trylock unlock uuid openf gz adapter cfg =
     sum_bind (NewAgentManager L (conf_AgentConfig cfg)) (\<lambda>am.
     sum_bind (parse_duration (lock_Timeout (cfg_CreateVMLock (conf_Server cfg)))) (\<lambda>timeout.
     let path = lock_Path (cfg_CreateVMLock (conf_Server cfg)) in
     Inr \<lparr>cpi_adapter = adapter, cpi_uuidGen = uuid, cpi_config = cfg, cpi_agentMgr = am,
       cpi_TryLock = trylock path timeout, cpi_Unlock = unlock path, cpi_OpenFile = openf,
       cpi_GzipReader = gz\<rparr>))"

end
