(* ===== verification/CpiDisk.thy ===== *)
theory CpiDisk
  imports CpiBase
begin

text \<open>
  The CPI calls on disks and snapshots: \<open>cpi/create_disk.go\<close>, \<open>delete_disk.go\<close>, \<open>has_disk.go\<close>,
  \<open>resize_disk.go\<close>, \<open>attach_disk.go\<close>, \<open>detach_disk.go\<close>, \<open>get_disks.go\<close>, \<open>set_disk_metadata.go\<close>,
  \<open>snapshot_disk.go\<close> and \<open>delete_snapshot.go\<close>.
\<close>

section \<open>Disks\<close>

text \<open>The VM the disk is for is a pointer; its CID is read without a nil check.\<close>

definition CreateDisk :: "'w CPI \<Rightarrow> int \<Rightarrow> string option \<Rightarrow> ('w, string) go" where
  "CreateDisk c sz associatedVMCID =
     io_bind (IsConnected (cpi_adapter c)) (\<lambda>_.
     io_wrap (gen_uuid c) ''Creating Disk id'' (\<lambda>uuid.
     let theCid = DISK_PERSISTENT_PREFIX @ uuid in
     io_bind (new_cid theCid) (\<lambda>diskCid.
     case associatedVMCID of
       None \<Rightarrow> io_panic ''invalid memory address or nil pointer dereference''
     | Some vm \<Rightarrow>
         io_wrap (GetInstanceLocation (cpi_adapter c) vm) ''Finding disk location'' (\<lambda>target.
         io_wrap (CreateStoragePoolVolume (cpi_adapter c) target (cpi_pool c) theCid sz) ''Creating volume'' (\<lambda>_.
         io_ret diskCid)))))"

definition DeleteDisk :: "'w CPI \<Rightarrow> string \<Rightarrow> ('w, unit) go" where
  "DeleteDisk c cid =
     io_bind (IsConnected (cpi_adapter c)) (\<lambda>_.
     io_wrap (DeleteStoragePoolVolume (cpi_adapter c) (cpi_pool c) cid) ''Deleting volume'' (\<lambda>_.
     io_ret ()))"

definition HasDisk :: "'w CPI \<Rightarrow> string \<Rightarrow> ('w, bool) go" where
  "HasDisk c cid =
     io_bind (IsConnected (cpi_adapter c)) (\<lambda>_.
     io_wrap (GetStoragePoolVolume (cpi_adapter c) (cpi_pool c) cid) ''Locating storage volume'' (\<lambda>etag.
     io_ret (length etag > 0)))"

definition ResizeDisk :: "'w CPI \<Rightarrow> string \<Rightarrow> int \<Rightarrow> ('w, unit) go" where
  "ResizeDisk c cid sz =
     io_bind (IsConnected (cpi_adapter c)) (\<lambda>_.
     ResizeStoragePoolVolume (cpi_adapter c) (cpi_pool c) cid sz)"

text \<open>The first free device path, found by searching the settings document.\<close>

definition choose_slot :: "string \<Rightarrow> (string \<times> string) option" where
  "choose_slot js =
     (if \<not> contains js ''/dev/sdc'' then Some (''/dev/sdc'', DISK_DEVICE_PERSISTENT1)
      else if \<not> contains js ''/dev/sdd'' then Some (''/dev/sdd'', DISK_DEVICE_PERSISTENT2)
      else None)"

definition AttachDiskV2 :: "'w CPI \<Rightarrow> string \<Rightarrow> string \<Rightarrow> ('w, json) go" where
  "AttachDiskV2 c vmCID diskCID =
     io_bind (IsConnected (cpi_adapter c)) (\<lambda>_.
     io_wrap (am_Read (cpi_agentMgr c) vmCID) ''Read AgentEnv'' (\<lambda>agentEnv.
     case choose_slot (AsBytes agentEnv) of
       None \<Rightarrow> io_fail (GoError ''Unable to find device for persistent disk'')
     | Some (path, name) \<Rightarrow>
         io_wrap (ColocateStoragePoolVolumeWithInstance (cpi_adapter c) vmCID (cpi_pool c) diskCID) ''Colocate disk'' (\<lambda>_.
         io_wrap (attachDiskDeviceToVM c vmCID name diskCID) ''Attach disk'' (\<lambda>_.
         let diskHint = NewDiskHintFromMap [(''path'', JStr path)] in
         io_wrap (writeAgentFileToVM c vmCID (AttachPersistentDisk diskCID diskHint agentEnv)) ''Write AgentEnv'' (\<lambda>_.
         io_ret diskHint)))))"

definition AttachDisk :: "'w CPI \<Rightarrow> string \<Rightarrow> string \<Rightarrow> ('w, unit) go" where
  "AttachDisk c vmCID diskCID = io_bind (AttachDiskV2 c vmCID diskCID) (\<lambda>_. io_ret ())"

definition DetachDisk :: "'w CPI \<Rightarrow> string \<Rightarrow> string \<Rightarrow> ('w, unit) go" where
  "DetachDisk c vmCID diskCID =
     io_bind (IsConnected (cpi_adapter c)) (\<lambda>_.
     io_wrap (DetachDeviceBySource (cpi_adapter c) vmCID diskCID) ''Detach Device'' (\<lambda>_.
     io_wrap (am_Read (cpi_agentMgr c) vmCID) ''Retrieve AgentEnv'' (\<lambda>agentEnv.
     io_wrap (writeAgentFileToVM c vmCID (DetachPersistentDisk diskCID agentEnv)) ''Write AgentEnv'' (\<lambda>_.
     io_ret ()))))"

text \<open>The names of the disk devices, each as a disk CID.\<close>

fun disk_cids :: "string list \<Rightarrow> ('w, string list) go" where
  "disk_cids [] = io_ret []"
| "disk_cids (name # names) =
     io_bind (new_cid name) (\<lambda>cid. io_bind (disk_cids names) (\<lambda>cids. io_ret (cid # cids)))"

definition GetDisks :: "'w CPI \<Rightarrow> string \<Rightarrow> ('w, string list) go" where
  "GetDisks c cid =
     io_bind (IsConnected (cpi_adapter c)) (\<lambda>_.
     io_wrap (findDisksAttachedToVm c cid) ''GetDisks - locating disks'' (\<lambda>disks.
     disk_cids (map fst disks)))"

section \<open>Snapshots\<close>

definition SnapshotDisk :: "'w CPI \<Rightarrow> string \<Rightarrow> ('w, string) go" where
  "SnapshotDisk c diskCID =
     io_bind (IsConnected (cpi_adapter c)) (\<lambda>_.
     io_bind (gen_uuid c) (\<lambda>uuid.
     let snapshotID = SNAPSHOT_PREFIX @ uuid in
     io_bind (CreateStoragePoolVolumeSnapshot (cpi_adapter c) (cpi_pool c) diskCID snapshotID diskCID) (\<lambda>_.
     new_cid (diskCID @ ''_'' @ snapshotID))))"

definition DeleteSnapshot :: "'w CPI \<Rightarrow> string \<Rightarrow> ('w, unit) go" where
  "DeleteSnapshot c snapshotCID =
     io_bind (IsConnected (cpi_adapter c)) (\<lambda>_.
     let parts = split_on (CHR ''_'') snapshotCID in
     if length parts \<noteq> 2
     then io_fail (GoError (''expecting snapshot CID to be two parts separated by '' @ quoted ''/''))
     else let volumeName = parts ! 0; snapshotName = parts ! 1 in
       if volumeName = [] \<or> snapshotName = []
       then io_fail (GoError ''expecting snapshot CID to include both volume and snapshot names'')
       else DeleteStoragePoolVolumeSnapshot (cpi_adapter c) (cpi_pool c) volumeName snapshotName)"

end
