(* ===== verification/CpiVm.thy ===== *)
theory CpiVm
  imports CpiBase
begin

text \<open>
  The CPI calls on VMs: \<open>cpi/has_vm.go\<close>, \<open>delete_vm.go\<close>, \<open>create_vm.go\<close>, \<open>reboot_vm.go\<close> and
  \<open>calculate_vm_cloud_properties.go\<close>.
\<close>

section \<open>HasVM, RebootVM\<close>

text \<open>A lookup error that says the instance does not exist counts as an empty location.\<close>

definition HasVM :: "'w CPI \<Rightarrow> string \<Rightarrow> ('w, bool) go" where
  "HasVM c cid =
     io_bind (IsConnected (cpi_adapter c)) (\<lambda>_.
     io_try (GetInstanceLocation (cpi_adapter c) cid)
       (\<lambda>err. if CleanInstanceNotFoundError (Some err) \<noteq> None then io_fail (WrapError err ''HasVM'')
              else io_ret False)
       (\<lambda>location. io_ret (length location \<noteq> 0)))"

definition RebootVM :: "'w CPI \<Rightarrow> string \<Rightarrow> ('w, unit) go" where
  "RebootVM c cid =
     io_bind (IsConnected (cpi_adapter c)) (\<lambda>_. SetInstanceAction (cpi_adapter c) cid RestartAction)"

section \<open>DeleteVM\<close>

definition delete_vm_disk :: "'w CPI \<Rightarrow> string \<times> strmap \<Rightarrow> ('w, unit) go" where
  "delete_vm_disk c nd = (case nd of (name, disk) \<Rightarrow>
     if name = DISK_DEVICE_CONFIG \<or> name = DISK_DEVICE_EPHEMERAL then
       (let diskId = gm_get disk ''source'' in
        io_wrap (DeleteStoragePoolVolume (cpi_adapter c) (cpi_pool c) diskId)
          (''Delete VM - attached disk - '' @ diskId) (\<lambda>_. io_ret ()))
     else io_ret ())"

definition DeleteVM :: "'w CPI \<Rightarrow> string \<Rightarrow> ('w, unit) go" where
  "DeleteVM c vmCID =
     io_bind (IsConnected (cpi_adapter c)) (\<lambda>_.
     io_bind (HasVM c vmCID) (\<lambda>exists.
     if \<not> exists then am_Delete (cpi_agentMgr c) vmCID
     else io_wrap (SetInstanceAction (cpi_adapter c) vmCID StopAction) ''Delete VM - stop'' (\<lambda>_.
       io_wrap (findDisksAttachedToVm c vmCID) ''Delete VM - enumerate disks'' (\<lambda>disks.
       io_wrap (DeleteInstance (cpi_adapter c) vmCID) ''Delete VM'' (\<lambda>_.
       io_bind (io_for disks (delete_vm_disk c)) (\<lambda>_.
       am_Delete (cpi_agentMgr c) vmCID))))))"

section \<open>CreateVM\<close>

record LXDVMCloudProperties =
  vp_InstanceType :: string
  vp_EphemeralDisk :: int
  vp_Target :: string
  vp_Network :: string

text \<open>\<open>cloudProps.As(&vmProps)\<close>: fields the document does not give keep their defaults.\<close>

definition dec_vm_props :: "LXDVMCloudProperties \<Rightarrow> json \<Rightarrow> gerr + LXDVMCloudProperties" where
  "dec_vm_props old = dec_struct old (\<lambda>kvs.
     sum_bind (dec_field (dec_string (vp_InstanceType old)) (vp_InstanceType old) kvs ''instance_type'') (\<lambda>it.
     sum_bind (dec_field (dec_int (vp_EphemeralDisk old)) (vp_EphemeralDisk old) kvs ''ephemeral_disk'') (\<lambda>ed.
     sum_bind (dec_field (dec_string (vp_Target old)) (vp_Target old) kvs ''target'') (\<lambda>tg.
     sum_bind (dec_field (dec_string (vp_Network old)) (vp_Network old) kvs ''network'') (\<lambda>nw.
     Inr \<lparr>vp_InstanceType = it, vp_EphemeralDisk = ed, vp_Target = tg, vp_Network = nw\<rparr>)))))"

record LXDNetworkCloudProperties =
  np_Target :: string

definition dec_network_props :: "json \<Rightarrow> gerr + LXDNetworkCloudProperties" where
  "dec_network_props = dec_struct \<lparr>np_Target = []\<rparr> (\<lambda>kvs.
     sum_bind (dec_field (dec_string []) [] kvs ''target'') (\<lambda>t. Inr \<lparr>np_Target = t\<rparr>))"

text \<open>The target of a network; an unreadable document counts as none.\<close>

definition network_target :: "network \<Rightarrow> string" where
  "network_target net = (case nw_CloudProps net of
      None \<Rightarrow> []
    | Some js \<Rightarrow> (case dec_network_props js of Inl _ \<Rightarrow> [] | Inr netProps \<Rightarrow> np_Target netProps))"

definition eth_name :: "nat \<Rightarrow> string" where
  "eth_name n = ''eth'' @ nat_dec n"

definition planned_ip :: "network \<Rightarrow> string" where
  "planned_ip net = (if IsDynamic net then [] else nw_IP net)"

definition nic_settings :: "string \<Rightarrow> bool \<Rightarrow> network \<Rightarrow> nat \<Rightarrow> strmap" where
  "nic_settings parent managed net n =
     [(''name'', eth_name n), (''nictype'', ''bridged''), (''parent'', parent), (''type'', ''nic'')] @
     (if managed \<and> planned_ip net \<noteq> [] then [(''ipv4.address'', planned_ip net)] else [])"

text \<open>With DHCP assignment on a managed network, BOSH sees the network as a dynamic one.\<close>

definition reported_network :: "string \<Rightarrow> bool \<Rightarrow> network \<Rightarrow> network" where
  "reported_network assignment managed net =
     (if managed \<and> assignment = ''dhcp''
      then NewNetwork ''dynamic'' (planned_ip net) (nw_Netmask net) (nw_Gateway net) (nw_DNS net)
             (nw_Default net) None []
      else net)"

definition target_conflict :: "string \<Rightarrow> string \<Rightarrow> gerr" where
  "target_conflict t u = GoError (''VM target ('' @ t @ '') and nework target ('' @ u @
     '') differ and cannot be reconciled'')"

text \<open>The loop over the networks, in the order the map delivers them.\<close>

fun network_loop :: "string \<Rightarrow> string \<Rightarrow> bool \<Rightarrow> networks \<Rightarrow> nat \<Rightarrow> devices \<Rightarrow> networks \<Rightarrow> string \<Rightarrow>
    gerr + devices \<times> networks \<times> string" where
  "network_loop parent assignment managed [] eth devices newNetworks target =
     Inr (devices, newNetworks, target)"
| "network_loop parent assignment managed ((key, net) # nets) eth devices newNetworks target =
     (let newNetworks' = gm_put key (reported_network assignment managed net) newNetworks;
          netTarget = (if managed then network_target net else [])
      in if netTarget \<noteq> [] \<and> target \<noteq> [] \<and> target \<noteq> netTarget
         then Inl (target_conflict target netTarget)
         else let target' = (if netTarget \<noteq> [] then netTarget else target);
                  devices' = gm_put (eth_name eth) (nic_settings parent managed net eth) devices
           in network_loop parent assignment managed nets (Suc eth) devices' newNetworks' target')"

definition root_device :: "string \<Rightarrow> strmap" where
  "root_device pool = [(''type'', ''disk''), (''pool'', pool), (''path'', ''/'')]"

text \<open>The instance configuration for a stemcell: the last matching key in map order, else the default.\<close>

fun config_loop :: "string \<Rightarrow> strmap gomap \<Rightarrow> strmap \<Rightarrow> strmap \<Rightarrow> strmap \<times> strmap" where
  "config_loop description [] instanceConfig defaultConfig = (instanceConfig, defaultConfig)"
| "config_loop description ((k, v) # kvs) instanceConfig defaultConfig =
     (if k = ''default'' then config_loop description kvs instanceConfig v
      else if contains description k then config_loop description kvs v defaultConfig
      else config_loop description kvs instanceConfig defaultConfig)"

definition select_config :: "string \<Rightarrow> strmap gomap \<Rightarrow> gerr + strmap" where
  "select_config description cfgs = (case config_loop description cfgs [] [] of (ic, dc) \<Rightarrow>
     let cfg = (if length ic = 0 then dc else ic)
     in if length cfg = 0 then Inl (GoError ''no matching stemcell configuration found'') else Inr cfg)"

text \<open>
  The lock is held while the instance is created, if it could be taken in time; running out of time
  is not an error.
\<close>

definition createVMWithLock :: "'w CPI \<Rightarrow> InstanceMetadata \<Rightarrow> ('w, unit) go" where
  "createVMWithLock c meta =
     (if lock_Enabled (cfg_CreateVMLock (conf_Server (cpi_config c))) then
        io_try (io_ext EvTryLock (cpi_TryLock c))
          (\<lambda>err. if err \<noteq> DeadlineExceeded then io_fail err else CreateInstance (cpi_adapter c) meta)
          (\<lambda>locked. if locked
             then io_finally (CreateInstance (cpi_adapter c) meta) (io_ext EvUnlock (cpi_Unlock c))
             else CreateInstance (cpi_adapter c) meta)
      else CreateInstance (cpi_adapter c) meta)"

text \<open>
  The part of \<open>CreateVMV2\<close> after the instance exists.  A deferred function looks at the variable
  \<open>err\<close> of the outer scope when the call returns: \<open>OuterErr\<close> is a return with that variable set,
  \<open>InnerErr\<close> one with the error in the variable \<open>err\<close> that the ephemeral-disk block declares anew.
\<close>

datatype 'a scoped = Returned 'a | OuterErr gerr | InnerErr gerr

definition outer :: "('w, 'a) go \<Rightarrow> string \<Rightarrow> ('a \<Rightarrow> ('w, 'b scoped) go) \<Rightarrow> ('w, 'b scoped) go" where
  "outer m msg k = io_try m (\<lambda>e. io_ret (OuterErr (WrapError e msg))) k"

definition inner :: "('w, 'a) go \<Rightarrow> string \<Rightarrow> ('a \<Rightarrow> ('w, 'b scoped) go) \<Rightarrow> ('w, 'b scoped) go" where
  "inner m msg k = io_try m (\<lambda>e. io_ret (InnerErr (WrapError e msg))) k"

definition finish_vm :: "'w CPI \<Rightarrow> string \<Rightarrow> networks \<Rightarrow> agent_env \<Rightarrow> ('w, (string \<times> networks) scoped) go" where
  "finish_vm c vmCID newNetworks agentEnv =
     outer (writeAgentFileToVM c vmCID agentEnv) ''Write AgentEnv'' (\<lambda>_.
     io_try (SetInstanceAction (cpi_adapter c) vmCID StartAction)
       (\<lambda>err. io_ret (OuterErr err))
       (\<lambda>_. io_ret (Returned (vmCID, newNetworks))))"

definition setup_vm :: "'w CPI \<Rightarrow> string \<Rightarrow> string \<Rightarrow> LXDVMCloudProperties \<Rightarrow> networks \<Rightarrow> json gomap option \<Rightarrow>
    ('w, (string \<times> networks) scoped) go" where
  "setup_vm c agentID vmCID vmProps newNetworks env =
     outer (GetInstanceLocation (cpi_adapter c) vmCID) ''VM Location'' (\<lambda>target.
     let agentEnv = AttachSystemDisk (NewDiskHintFromString ''/dev/sda'')
           (ForVM agentID vmCID newNetworks env (conf_Agent (cpi_config c)))
     in if vp_EphemeralDisk vmProps > 0 then
          inner (gen_uuid c) ''Creating Disk id'' (\<lambda>diskId.
          let diskCid = DISK_EPHEMERAL_PREFIX @ diskId in
          inner (CreateStoragePoolVolume (cpi_adapter c) target (cpi_pool c) diskCid (vp_EphemeralDisk vmProps))
            ''Create ephemeral disk'' (\<lambda>_.
          inner (attachDiskDeviceToVM c vmCID DISK_DEVICE_EPHEMERAL diskCid) ''Attach ephemeral disk'' (\<lambda>_.
          finish_vm c vmCID newNetworks
            (AttachEphemeralDisk (NewDiskHintFromString ''/dev/sdb'') agentEnv))))
        else finish_vm c vmCID newNetworks agentEnv)"

text \<open>The deferred clean-up and the return.\<close>

definition with_cleanup :: "'w CPI \<Rightarrow> string \<Rightarrow> ('w, 'a scoped) go \<Rightarrow> ('w, 'a) go" where
  "with_cleanup c vmCID body = io_bind body (\<lambda>r. case r of
      Returned x \<Rightarrow> io_ret x
    | InnerErr e \<Rightarrow> io_fail e
    | OuterErr e \<Rightarrow> io_try (DeleteVM c vmCID) (\<lambda>_. io_fail e) (\<lambda>_. io_fail e))"

definition vm_metadata :: "'w CPI \<Rightarrow> string \<Rightarrow> string \<Rightarrow> LXDVMCloudProperties \<Rightarrow> string \<Rightarrow> devices \<Rightarrow> strmap \<Rightarrow>
    InstanceMetadata" where
  "vm_metadata c vmCID stemcellCID vmProps target devices cfg = \<lparr>
     meta_Name = vmCID, meta_StemcellAlias = stemcellCID, meta_InstanceType = vp_InstanceType vmProps,
     meta_Project = cfg_Project (conf_Server (cpi_config c)),
     meta_Profiles = [cfg_Profile (conf_Server (cpi_config c))],
     meta_Target = target, meta_Devices = devices, meta_Config = cfg\<rparr>"

definition CreateVMV2 :: "'w CPI \<Rightarrow> string \<Rightarrow> string \<Rightarrow> json \<Rightarrow> networks \<Rightarrow> json gomap option \<Rightarrow>
    ('w, string \<times> networks) go" where
  "CreateVMV2 c agentID stemcellCID cloudProps nets env =
     (let A = cpi_adapter c; cfg = conf_Server (cpi_config c) in
      io_bind (IsConnected A) (\<lambda>_.
      io_wrap (gen_uuid c) ''Creating VM id'' (\<lambda>uuid.
      io_bind (new_cid (''vm-'' @ uuid)) (\<lambda>vmCID.
      io_wrap (io_lift (dec_vm_props \<lparr>vp_InstanceType = [], vp_EphemeralDisk = 0,
          vp_Target = cfg_Target cfg, vp_Network = cfg_Network cfg\<rparr> cloudProps)) ''Cloud Props'' (\<lambda>vmProps.
      io_wrap (IsManagedNetwork A (vp_Network vmProps)) ''Managed Network'' (\<lambda>managed.
      io_bind (io_lift (network_loop (vp_Network vmProps) (cfg_ManagedNetworkAssignment cfg) managed nets 0
          [] [] (vp_Target vmProps))) (\<lambda>(nics, newNetworks, target).
      let devices = gm_put ''root'' (root_device (cpi_pool c)) nics in
      io_wrap (GetStemcellDescription A stemcellCID)
          (''find stemcell description for '' @ quoted stemcellCID) (\<lambda>imageDescription.
      io_bind (io_lift (select_config imageDescription (cfg_InstanceConfig cfg))) (\<lambda>instanceConfig.
      io_wrap (createVMWithLock c (vm_metadata c vmCID stemcellCID vmProps target devices instanceConfig))
          ''Creating VM'' (\<lambda>_.
      with_cleanup c vmCID (setup_vm c agentID vmCID vmProps newNetworks env)))))))))))"

definition CreateVM :: "'w CPI \<Rightarrow> string \<Rightarrow> string \<Rightarrow> json \<Rightarrow> networks \<Rightarrow> json gomap option \<Rightarrow> ('w, string) go" where
  "CreateVM c agentID stemcellCID cloudProps nets env =
     io_bind (CreateVMV2 c agentID stemcellCID cloudProps nets env) (\<lambda>(vmCID, _). io_ret vmCID)"

section \<open>CalculateVMCloudProperties\<close>

text \<open>Go's integer division truncates.\<close>

definition go_div :: "int \<Rightarrow> int \<Rightarrow> int" where
  "go_div a b = sgn a * sgn b * (\<bar>a\<bar> div \<bar>b\<bar>)"

definition CalculateVMCloudProperties :: "int \<Rightarrow> int \<Rightarrow> int \<Rightarrow> json gomap" where
  "CalculateVMCloudProperties ram cpu ephemeralDiskSize =
     [(''instance_type'', JStr (''c'' @ int_dec cpu @ ''-m'' @ int_dec (go_div ram 1024))),
      (''ephemeral_disk'', JNum ephemeralDiskSize)]"

end
