(* ===== verification/CpiStemcell.thy ===== *)
theory CpiStemcell
  imports CpiVm
begin

text \<open>
  The CPI calls on stemcells, \<open>cpi/create_stemcell.go\<close> and \<open>cpi/delete_stemcell.go\<close>, and \<open>cpi/info.go\<close>.
  A stemcell becomes an image whose alias is the stemcell CID; with predeployment on, a VM that is
  never started makes the server unpack the image once.
\<close>

section \<open>Cloud properties\<close>

record LXDCloudProperties =
  sp_Architecture :: string
  sp_ContainerFormat :: string
  sp_Disk :: int
  sp_DiskFormat :: string
  sp_Hypervisor :: string
  sp_Infrastructure :: string
  sp_Name :: string
  sp_OsDistro :: string
  sp_OsType :: string
  sp_RootDeviceName :: string
  sp_Version :: string

definition empty_stemcell_props :: LXDCloudProperties where
  "empty_stemcell_props = \<lparr>sp_Architecture = [], sp_ContainerFormat = [], sp_Disk = 0, sp_DiskFormat = [],
     sp_Hypervisor = [], sp_Infrastructure = [], sp_Name = [], sp_OsDistro = [], sp_OsType = [],
     sp_RootDeviceName = [], sp_Version = []\<rparr>"

definition dec_stemcell_props :: "json \<Rightarrow> gerr + LXDCloudProperties" where
  "dec_stemcell_props = dec_struct empty_stemcell_props (\<lambda>kvs. let str = (\<lambda>f. dec_field (dec_string []) [] kvs f) in
     sum_bind (str ''architecture'') (\<lambda>arch.
     sum_bind (str ''container_format'') (\<lambda>cf.
     sum_bind (dec_field (dec_int 0) 0 kvs ''disk'') (\<lambda>disk.
     sum_bind (str ''disk_format'') (\<lambda>df.
     sum_bind (str ''hypervisor'') (\<lambda>hv.
     sum_bind (str ''infrastructure'') (\<lambda>inf.
     sum_bind (str ''name'') (\<lambda>name.
     sum_bind (str ''os_distro'') (\<lambda>od.
     sum_bind (str ''os_type'') (\<lambda>ot.
     sum_bind (str ''root_device_name'') (\<lambda>rdn.
     sum_bind (str ''version'') (\<lambda>v.
     Inr \<lparr>sp_Architecture = arch, sp_ContainerFormat = cf, sp_Disk = disk, sp_DiskFormat = df,
       sp_Hypervisor = hv, sp_Infrastructure = inf, sp_Name = name, sp_OsDistro = od, sp_OsType = ot,
       sp_RootDeviceName = rdn, sp_Version = v\<rparr>))))))))))))"

section \<open>CreateStemcell\<close>

text \<open>
  The first entry above 100 MiB is taken for the disk image.  The loop leaves only with such an entry
  or with the reader's error, so the test after it never fires.
\<close>

fun find_root_image :: "tar_header list \<Rightarrow> gerr \<Rightarrow> gerr + tar_header" where
  "find_root_image [] end_err = Inl end_err"
| "find_root_image (h # hs) end_err =
     (if th_Size h > 104857600 then Inr h else find_root_image hs end_err)"

definition makeStemcellPredeployVMName :: "string \<Rightarrow> string" where
  "makeStemcellPredeployVMName alias = replace_first ''img-'' ''vm-'' alias @ ''-predeploy''"

definition stemcell_description :: "LXDCloudProperties \<Rightarrow> string" where
  "stemcell_description props = sp_Name props @ ''-'' @ sp_Version props"

definition image_metadata :: "string \<Rightarrow> string \<Rightarrow> LXDCloudProperties \<Rightarrow> tar_header \<Rightarrow> ImageMetadata" where
  "image_metadata alias imagePath props h = \<lparr>
     im_Alias = alias, im_Description = stemcell_description props, im_OsDistro = sp_OsDistro props,
     im_ImagePath = imagePath, im_Architecture = sp_Architecture props, im_CreateDate = th_ModTime h,
     im_RootDeviceName = (if sp_RootDeviceName props = [] then ''/'' else sp_RootDeviceName props),
     im_DiskInMB = sp_Disk props, im_TarFile = th_Content h\<rparr>"

definition predeploy_metadata :: "'w CPI \<Rightarrow> string \<Rightarrow> InstanceMetadata" where
  "predeploy_metadata c alias = \<lparr>
     meta_Name = makeStemcellPredeployVMName alias, meta_StemcellAlias = alias,
     meta_InstanceType = ''c2-m4'', meta_Project = cfg_Project (conf_Server (cpi_config c)),
     meta_Profiles = [cfg_Profile (conf_Server (cpi_config c))],
     meta_Target = cfg_Target (conf_Server (cpi_config c)),
     meta_Devices = [(''root'', root_device (cpi_pool c))], meta_Config = []\<rparr>"

definition predeploy :: "'w CPI \<Rightarrow> string \<Rightarrow> string \<Rightarrow> ('w, unit) go" where
  "predeploy c alias description =
     (if cfg_PredeployStemcell (conf_Server (cpi_config c)) then
        io_wrap (CreateInstance (cpi_adapter c) (predeploy_metadata c alias)) ''Creating predeploy VM'' (\<lambda>_.
        io_wrap (UpdateInstanceDescription (cpi_adapter c) (makeStemcellPredeployVMName alias)
            (''predeploy vm for '' @ description)) ''Updating description on predeploy VM'' (\<lambda>_.
        io_ret ()))
      else io_ret ())"

definition CreateStemcell :: "'w CPI \<Rightarrow> string \<Rightarrow> json \<Rightarrow> ('w, string) go" where
  "CreateStemcell c imagePath scprops =
     io_bind (IsConnected (cpi_adapter c)) (\<lambda>_.
     io_wrap (gen_uuid c) ''Generating stemcell id'' (\<lambda>id'.
     io_wrap (io_lift (dec_stemcell_props scprops)) ''error while reading stemcell cloud properties'' (\<lambda>props.
     let description = stemcell_description props in
     io_wrap (FindExistingImage (cpi_adapter c) description) ''error while locating image'' (\<lambda>existing.
     if existing \<noteq> [] then new_cid existing
     else let alias = ''img-'' @ id' in
       io_wrap (io_ext (EvOpenFile imagePath) (cpi_OpenFile c imagePath)) ''tgz open'' (\<lambda>_.
       io_wrap (io_ext (EvGzipReader imagePath) (cpi_GzipReader c imagePath)) ''gzip open'' (\<lambda>archive.
       io_wrap (io_lift (find_root_image (sa_entries archive) (sa_end archive)))
           (''tar.next for imagePath '' @ quoted imagePath) (\<lambda>h.
       io_wrap (CreateAndUploadImage (cpi_adapter c) (image_metadata alias imagePath props h))
           ''error while creating and uploading image'' (\<lambda>_.
       io_bind (predeploy c alias description) (\<lambda>_.
       new_cid alias)))))))))"

section \<open>DeleteStemcell\<close>

text \<open>An error of the search for the predeployed VM ends the call without an error.\<close>

definition DeleteStemcell :: "'w CPI \<Rightarrow> string \<Rightarrow> ('w, unit) go" where
  "DeleteStemcell c alias =
     io_bind (IsConnected (cpi_adapter c)) (\<lambda>_.
     let predeployVMName = makeStemcellPredeployVMName alias in
     io_try (HasVM c predeployVMName) (\<lambda>_. io_ret ()) (\<lambda>exists.
     io_bind (if exists then DeleteInstance (cpi_adapter c) predeployVMName else io_ret ()) (\<lambda>_.
     DeleteImage (cpi_adapter c) alias)))"

section \<open>Info\<close>

record cpi_info =
  info_StemcellFormats :: "string list"
  info_APIVersion :: int

definition Info :: cpi_info where
  "Info = \<lparr>info_StemcellFormats = [''openstack-qcow2''], info_APIVersion = 0\<rparr>"

end
