(* ===== verification/CpiMeta.thy ===== *)
theory CpiMeta
  imports CpiBase
begin

text \<open>
  \<open>cpi/meta.go\<close>, \<open>cpi/set_vm_metadata.go\<close> and \<open>cpi/set_disk_metadata.go\<close>: the metadata the director
  sends is written out as JSON and read back into a struct with a timestamp, and becomes the
  description of the VM or the disk.
\<close>

section \<open>Timestamps\<close>

text \<open>
  \<open>time.Time\<close> accepts exactly the strict RFC 3339 timestamps; only their acceptance matters here.
\<close>

definition uint_in :: "string \<Rightarrow> nat \<Rightarrow> nat \<Rightarrow> bool" where
  "uint_in s lo hi = (s \<noteq> [] \<and> list_all is_digit s \<and> lo \<le> dec_value s \<and> dec_value s \<le> hi)"

definition is_leap :: "nat \<Rightarrow> bool" where
  "is_leap year = (year mod 4 = 0 \<and> (year mod 100 \<noteq> 0 \<or> year mod 400 = 0))"

definition days_in :: "nat \<Rightarrow> nat \<Rightarrow> nat" where
  "days_in month year = (if month = 2 then (if is_leap year then 29 else 28)
     else if month = 4 \<or> month = 6 \<or> month = 9 \<or> month = 11 then 30 else 31)"

definition sub :: "nat \<Rightarrow> nat \<Rightarrow> string \<Rightarrow> string" where
  "sub i j s = take (j - i) (drop i s)"

definition zone_ok :: "string \<Rightarrow> bool" where
  "zone_ok s = (s = ''Z'' \<or> (length s = 6 \<and> (hd s = CHR ''-'' \<or> hd s = CHR ''+'') \<and> s ! 3 = CHR '':'' \<and>
     uint_in (sub 1 3 s) 0 23 \<and> uint_in (sub 4 6 s) 0 59))"

definition strip_fraction :: "string \<Rightarrow> string" where
  "strip_fraction s = (if length s \<ge> 2 \<and> hd s = CHR ''.'' \<and> is_digit (s ! 1)
     then dropWhile is_digit (tl s) else s)"

definition rfc3339 :: "string \<Rightarrow> bool" where
  "rfc3339 s = (length s \<ge> 19 \<and> uint_in (sub 0 4 s) 0 9999 \<and> uint_in (sub 5 7 s) 1 12 \<and>
     uint_in (sub 8 10 s) 1 (days_in (dec_value (sub 5 7 s)) (dec_value (sub 0 4 s))) \<and>
     uint_in (sub 11 13 s) 0 23 \<and> uint_in (sub 14 16 s) 0 59 \<and> uint_in (sub 17 19 s) 0 59 \<and>
     s ! 4 = CHR ''-'' \<and> s ! 7 = CHR ''-'' \<and> s ! 10 = CHR ''T'' \<and> s ! 13 = CHR '':'' \<and> s ! 16 = CHR '':'' \<and>
     zone_ok (strip_fraction (drop 19 s)))"

text \<open>The value is kept as its text; \<open>null\<close> leaves the zero time.\<close>

fun dec_time :: "json \<Rightarrow> gerr + string option" where
  "dec_time (JStr s) = (if rfc3339 s then Inr (Some s)
     else Inl (GoError (''parsing time '' @ json_string s)))"
| "dec_time JNull = Inr None"
| "dec_time _ = Inl (GoError ''Time.UnmarshalJSON: input is not a JSON string'')"

section \<open>meta.go\<close>

record ActualVMMeta =
  vmm_InstanceGroup :: string
  vmm_Job :: string
  vmm_Director :: string
  vmm_Deployment :: string
  vmm_Index :: string
  vmm_CreatedAt :: "string option"

record ActualDiskMeta =
  dm_Director :: string
  dm_Deployment :: string
  dm_InstanceID :: string
  dm_InstanceIndex :: string
  dm_InstanceGroup :: string
  dm_AttachedAt :: "string option"

text \<open>A metadata value is a map of JSON values (or nil); \<open>MarshalJSON\<close> writes its keys in byte order.\<close>

definition meta_json :: "json gomap option \<Rightarrow> json" where
  "meta_json m = opt_json (map_json id) m"

definition NewActualVMMeta :: "json gomap option \<Rightarrow> gerr + ActualVMMeta" where
  "NewActualVMMeta metadata = dec_struct
     \<lparr>vmm_InstanceGroup = [], vmm_Job = [], vmm_Director = [], vmm_Deployment = [], vmm_Index = [],
       vmm_CreatedAt = None\<rparr> (\<lambda>kvs. let str = (\<lambda>f. dec_field (dec_string []) [] kvs f) in
     sum_bind (str ''instance_group'') (\<lambda>ig.
     sum_bind (str ''job'') (\<lambda>job.
     sum_bind (str ''director'') (\<lambda>dir.
     sum_bind (str ''deployment'') (\<lambda>dep.
     sum_bind (str ''index'') (\<lambda>ix.
     sum_bind (dec_field dec_time None kvs ''created_at'') (\<lambda>t.
     Inr \<lparr>vmm_InstanceGroup = ig, vmm_Job = job, vmm_Director = dir, vmm_Deployment = dep,
       vmm_Index = ix, vmm_CreatedAt = t\<rparr>))))))) (meta_json metadata)"

definition NewActualDiskMeta :: "json gomap option \<Rightarrow> gerr + ActualDiskMeta" where
  "NewActualDiskMeta metadata = dec_struct
     \<lparr>dm_Director = [], dm_Deployment = [], dm_InstanceID = [], dm_InstanceIndex = [],
       dm_InstanceGroup = [], dm_AttachedAt = None\<rparr> (\<lambda>kvs. let str = (\<lambda>f. dec_field (dec_string []) [] kvs f) in
     sum_bind (str ''director'') (\<lambda>dir.
     sum_bind (str ''deployment'') (\<lambda>dep.
     sum_bind (str ''instance_id'') (\<lambda>iid.
     sum_bind (str ''instance_index'') (\<lambda>iix.
     sum_bind (str ''instance_group'') (\<lambda>ig.
     sum_bind (dec_field dec_time None kvs ''attached_at'') (\<lambda>t.
     Inr \<lparr>dm_Director = dir, dm_Deployment = dep, dm_InstanceID = iid, dm_InstanceIndex = iix,
       dm_InstanceGroup = ig, dm_AttachedAt = t\<rparr>))))))) (meta_json metadata)"

section \<open>SetVMMetadata, SetDiskMetadata\<close>

definition SetVMMetadata :: "'w CPI \<Rightarrow> string \<Rightarrow> json gomap option \<Rightarrow> ('w, unit) go" where
  "SetVMMetadata c cid metadata = (let A = cpi_adapter c in
     io_bind (IsConnected A) (\<lambda>_.
     io_wrap (io_lift (NewActualVMMeta metadata)) ''SetVMMetadata - Unmarshal VMMeta to ActualVMMeta'' (\<lambda>actual.
     let description = vmm_Job actual @ ''/'' @ vmm_Index actual in
     io_wrap (UpdateInstanceDescription A cid description) ''SetVMMetadata - update instance description'' (\<lambda>_.
     io_wrap (findDisksAttachedToVm c cid) ''SetVMMetadata - enumerate disks'' (\<lambda>disks.
     case gm_find disks DISK_DEVICE_EPHEMERAL of
       None \<Rightarrow> io_ret ()
     | Some device \<Rightarrow>
         io_wrap (UpdateStoragePoolVolumeDescription A (cpi_pool c) (gm_get device ''source'') description)
           ''SetVMMetadata - Update storage volume description'' (\<lambda>_. io_ret ()))))))"

definition SetDiskMetadata :: "'w CPI \<Rightarrow> string \<Rightarrow> json gomap option \<Rightarrow> ('w, unit) go" where
  "SetDiskMetadata c cid metadata =
     io_bind (IsConnected (cpi_adapter c)) (\<lambda>_.
     io_wrap (io_lift (NewActualDiskMeta metadata)) ''Unmarshalling DiskMeta'' (\<lambda>actual.
     let description = dm_InstanceGroup actual @ ''/'' @ dm_InstanceIndex actual in
     io_wrap (UpdateStoragePoolVolumeDescription (cpi_adapter c) (cpi_pool c) cid description)
       ''Update storage volume description'' (\<lambda>_. io_ret ())))"

end
