(* ===== verification/CpiContract.thy ===== *)
theory CpiContract
  imports CpiDisk CpiStemcell CpiMeta
begin

text \<open>
  The CPI rests on two interfaces, the API adapter and the agent manager.  The locale \<open>cpi_contract\<close>
  joins their contracts for one CPI value; the lemmas about CPI calls are proved in it once.  It is
  interpreted on every CPI the program can build: \<open>cpi_on\<close> puts one of the two adapters and one of
  the two managers into a CPI value.
\<close>

section \<open>The CPIs the program builds\<close>

datatype 'w some_adapter = Lxd "'w lxdApiAdapter" | Incus "'w incusApiAdapter"

primrec adapter_of :: "'w some_adapter \<Rightarrow> 'w ApiAdapter" where
  "adapter_of (Lxd a) = lxd_adapter a"
| "adapter_of (Incus a) = incus_adapter a"

primrec conn_of :: "'w some_adapter \<Rightarrow> conn" where
  "conn_of (Lxd a) = lx_conn a"
| "conn_of (Incus a) = ic_conn a"

datatype image_format = FAT32 | CDROM

primrec manager_of :: "image_format \<Rightarrow> 'w local_machine \<Rightarrow> agent_config \<Rightarrow> 'w AgentManager" where
  "manager_of FAT32 = NewFAT32Manager"
| "manager_of CDROM = NewCDROMManager"

definition cpi_on :: "'w some_adapter \<Rightarrow> image_format \<Rightarrow> 'w local_machine \<Rightarrow> 'w CPI \<Rightarrow> 'w CPI" where
  "cpi_on a k L c = c\<lparr>cpi_adapter := adapter_of a,
     cpi_agentMgr := manager_of k L (conf_AgentConfig (cpi_config c))\<rparr>"

definition settings_path :: "'w CPI \<Rightarrow> string \<Rightarrow> string" where
  "settings_path c = agentFileName (conf_AgentConfig (cpi_config c))"

lemma cpi_on_simps [simp]:
  "cpi_adapter (cpi_on a k L c) = adapter_of a"
  "cpi_agentMgr (cpi_on a k L c) = manager_of k L (conf_AgentConfig (cpi_config c))"
  "cpi_config (cpi_on a k L c) = cpi_config c"
  "cpi_uuidGen (cpi_on a k L c) = cpi_uuidGen c"
  "settings_path (cpi_on a k L c) = settings_path c"
  by (simp_all add: cpi_on_def settings_path_def)

lemma cpi_on_libraries [simp]:
  "cpi_TryLock (cpi_on a k L c) = cpi_TryLock c" "cpi_Unlock (cpi_on a k L c) = cpi_Unlock c"
  "cpi_OpenFile (cpi_on a k L c) = cpi_OpenFile c" "cpi_GzipReader (cpi_on a k L c) = cpi_GzipReader c"
  by (simp_all add: cpi_on_def)

section \<open>What a CPI rests on\<close>

interpretation any: adapter_contract "adapter_of a" "conn_of a" for a :: "'w some_adapter"
  by (cases a) (simp_all add: lxd.adapter_contract_axioms incus.adapter_contract_axioms)

interpretation any_manager: agent_manager_contract "manager_of k L cfg" "agentFileName cfg"
  for k and L :: "'w local_machine" and cfg
  by (cases k) (simp_all add: fat32.agent_manager_contract_axioms cdrom.agent_manager_contract_axioms)

locale cpi_contract = adapter_contract "cpi_adapter c" cn + agent_manager_contract "cpi_agentMgr c" path
  for c :: "'w CPI" and cn :: conn and path :: "string \<Rightarrow> string"
begin

lemmas sends_law = CreateInstance_law DeleteInstance_law DeleteStoragePoolVolume_law
  CreateStoragePoolVolume_law CreateStoragePoolVolumeFromISO_law DeleteStoragePoolVolumeSnapshot_law

text \<open>The laws as introduction rules.\<close>

lemmas law_rules = sends_law [unfolded sends_one_def, THEN emits_mono]
  GetInstanceLocation_law [unfolded reads_instance_def, THEN emits_mono]
  GetDevices_law [unfolded reads_instance_def, THEN emits_mono]
  IsConnected_law [THEN emits_mono] SetInstanceAction_law [THEN emits_mono]
  IsInstanceStopped_law [THEN emits_mono] AttachDevice_law [THEN emits_mono]
  DetachDeviceByName_law [THEN emits_mono] DetachDeviceBySource_law [THEN emits_mono]
  UpdateInstanceDescription_law [THEN emits_mono] Colocate_law [THEN emits_mono]
  GetStemcellDescription_law [unfolded only_reads_def, THEN emits_mono]
  FindExistingImage_law [unfolded only_reads_def, THEN emits_mono]
  IsManagedNetwork_law [unfolded only_reads_def, THEN emits_mono]
  GetStoragePoolVolume_law [THEN emits_mono]
  Read_trace [THEN emits_mono] Write_trace [THEN emits_mono] Delete_trace [THEN emits_mono]

end

interpretation built: cpi_contract "cpi_on a k L c" "conn_of a" "settings_path c"
  for a :: "'w some_adapter" and k L c
  by (simp add: cpi_contract_def any.adapter_contract_axioms any_manager.agent_manager_contract_axioms
      settings_path_def)

section \<open>Every call first asks whether the server trusts the client\<close>

text \<open>
  A run that begins with the trust question and, unless the answer is \<open>trusted\<close>, is over with an error.
\<close>

definition gated :: "conn \<Rightarrow> 'a res \<Rightarrow> event list \<Rightarrow> bool" where
  "gated cn r ts \<longleftrightarrow> (\<exists>a us. ts = EvGetServer cn a # us \<and>
     (a \<noteq> Inr ''trusted'' \<longrightarrow> us = [] \<and> \<not> is_Ok r \<and> \<not> is_Panic r))"

text \<open>Anything at all may happen, as long as the trace only grows.\<close>

definition grows :: "('e, 'w, 'a) io \<Rightarrow> bool" where
  "grows m \<longleftrightarrow> emits m (\<lambda>r ts. True)"

lemma emits_grows: "emits m P \<Longrightarrow> grows m"
  unfolding grows_def by (erule emits_mono) simp

named_theorems grows_rules \<open>every combinator keeps growth\<close>

lemma grows_basic [grows_rules]:
  "grows (io_ret x)" "grows (io_fail e)" "grows (io_panic p)" "grows (io_ext ev f)" "grows (io_lift q)"
  unfolding grows_def by (auto intro!: emits_rules)

lemma grows_try [grows_rules]:
  "grows m \<Longrightarrow> (\<And>e. grows (h e)) \<Longrightarrow> (\<And>x. grows (k x)) \<Longrightarrow> grows (io_try m h k)"
  unfolding grows_def by (rule emits_try, erule emits_mono) (auto intro: emits_afterI)

lemma grows_bind [grows_rules]: "grows m \<Longrightarrow> (\<And>x. grows (k x)) \<Longrightarrow> grows (io_bind m k)"
  unfolding io_bind_def by (auto intro!: grows_rules)

lemma grows_wrap [grows_rules]: "grows m \<Longrightarrow> (\<And>x. grows (k x)) \<Longrightarrow> grows (io_wrap m msg k)"
  unfolding io_wrap_def by (auto intro!: grows_rules)

lemma grows_finally [grows_rules]: "grows m \<Longrightarrow> grows d \<Longrightarrow> grows (io_finally m d)"
  unfolding grows_def by (rule emits_finally) (auto elim: emits_mono)

lemma grows_for [grows_rules]: "(\<And>x. grows (f x)) \<Longrightarrow> grows (io_for xs f)"
  by (induction xs) (auto intro!: grows_rules)

lemma grows_branch [grows_rules]:
  "grows m \<Longrightarrow> grows n \<Longrightarrow> grows (if b then m else n)"
  "grows m \<Longrightarrow> (\<And>y. grows (k y)) \<Longrightarrow> grows (case o' of None \<Rightarrow> m | Some y \<Rightarrow> k y)"
  "(\<And>x y. grows (g x y)) \<Longrightarrow> grows (case p of (x, y) \<Rightarrow> g x y)"
  by (auto split: option.split prod.split)

context cpi_contract
begin

lemma gate:
  assumes "grows (k ())"
  shows "emits (io_bind (IsConnected (cpi_adapter c)) k) (gated cn)"
proof (rule emits_bind, rule emits_mono [OF IsConnected_law])
  fix r :: "unit res" and ts
  assume law: "\<exists>a. ts = [EvGetServer cn a] \<and> is_Ok r = (a = Inr ''trusted'') \<and> \<not> is_Panic r"
  have rest: "emits (k ()) (\<lambda>r us. gated cn r (EvGetServer cn (Inr ''trusted'') # us))"
    using assms unfolding grows_def by (rule emits_mono) (simp add: gated_def)
  show "emits_after io_fail k (gated cn) r ts"
  proof (cases r)
    case (Ok x)
    then show ?thesis using law rest by auto
  qed (use law in \<open>auto simp: gated_def intro!: emits_fail\<close>)
qed

lemmas adapter_grows [grows_rules] =
  sends_law [unfolded sends_one_def, THEN emits_grows]
  GetInstanceLocation_law [unfolded reads_instance_def, THEN emits_grows]
  GetDevices_law [unfolded reads_instance_def, THEN emits_grows]
  IsConnected_law [THEN emits_grows] SetInstanceAction_law [THEN emits_grows]
  IsInstanceStopped_law [THEN emits_grows] AttachDevice_law [THEN emits_grows]
  DetachDeviceByName_law [THEN emits_grows] DetachDeviceBySource_law [THEN emits_grows]
  UpdateInstanceDescription_law [THEN emits_grows] Colocate_law [THEN emits_grows]
  GetStemcellDescription_law [unfolded only_reads_def, THEN emits_grows]
  FindExistingImage_law [unfolded only_reads_def, THEN emits_grows]
  IsManagedNetwork_law [unfolded only_reads_def, THEN emits_grows]
  GetStoragePoolVolume_law [THEN emits_grows] ResizeStoragePoolVolume_law [THEN emits_grows]
  UpdateStoragePoolVolumeDescription_law [THEN emits_grows]
  CreateStoragePoolVolumeSnapshot_law [THEN emits_grows] CreateAndUploadImage_law [THEN emits_grows]
  DeleteImage_law [THEN emits_grows]
  Read_trace [THEN emits_grows] Write_trace [THEN emits_grows] Delete_trace [THEN emits_grows]

lemma grows_helpers [grows_rules]:
  "grows (new_cid s)" "grows (findDisksAttachedToVm c vm)" "grows (attachDiskDeviceToVM c vm n d)"
  "grows (disk_cids names)"
  by (auto simp: new_cid_def findDisksAttachedToVm_def attachDiskDeviceToVM_def intro!: grows_rules)
     (induction names, auto simp: new_cid_def intro!: grows_rules)

lemma grows_writeAgentFileToVM [grows_rules]: "grows (writeAgentFileToVM c vm env)"
  by (auto simp: writeAgentFileToVM_def Let_def intro!: grows_rules)

lemma grows_HasVM [grows_rules]: "grows (HasVM c vm)"
  by (auto simp: HasVM_def intro!: grows_rules)

lemma grows_DeleteVM [grows_rules]: "grows (DeleteVM c vm)"
  by (auto simp: DeleteVM_def delete_vm_disk_def Let_def intro!: grows_rules)

lemma grows_createVMWithLock [grows_rules]: "grows (createVMWithLock c m)"
  by (auto simp: createVMWithLock_def intro!: grows_rules)

lemma grows_with_cleanup [grows_rules]: "grows m \<Longrightarrow> grows (with_cleanup c vm m)"
  by (auto simp: with_cleanup_def intro!: grows_rules split: scoped.split)

lemma grows_setup_vm [grows_rules]: "grows (setup_vm c agent vm props nets env)"
  by (auto simp: setup_vm_def finish_vm_def outer_def inner_def Let_def intro!: grows_rules)

lemma grows_predeploy [grows_rules]: "grows (predeploy c alias descr)"
  by (auto simp: predeploy_def intro!: grows_rules)

lemma gated_bind:
  fixes m :: "('w, 'b) go"
  assumes "emits m (gated cn)" and "\<And>x. grows (k x)"
  shows "emits (io_bind m k) (gated cn)"
proof (rule emits_bind, rule emits_mono [OF assms(1)])
  fix r :: "'b res" and ts
  assume g: "gated cn r ts"
  show "emits_after io_fail k (gated cn) r ts"
  proof (cases r)
    case (Ok x)
    have "emits (k x) (\<lambda>r us. True)" using assms(2) by (simp add: grows_def)
    then have "emits (k x) (\<lambda>r us. gated cn r (ts @ us))"
      by (rule emits_mono) (use g Ok in \<open>auto simp: gated_def\<close>)
    then show ?thesis using Ok by simp
  qed (use g in \<open>auto simp: gated_def intro!: emits_fail\<close>)
qed

text \<open>Every call that reaches the server starts at the gate.\<close>

lemma all_gated:
  "emits (CreateStemcell c path' props) (gated cn)" "emits (DeleteStemcell c alias) (gated cn)"
  "emits (CreateVMV2 c agent stemcell cprops nets env) (gated cn)"
  "emits (CreateVM c agent stemcell cprops nets env) (gated cn)"
  "emits (DeleteVM c vm) (gated cn)" "emits (HasVM c vm) (gated cn)" "emits (RebootVM c vm) (gated cn)"
  "emits (SetVMMetadata c vm meta) (gated cn)" "emits (CreateDisk c sz assoc) (gated cn)"
  "emits (DeleteDisk c disk) (gated cn)" "emits (HasDisk c disk) (gated cn)"
  "emits (ResizeDisk c disk sz) (gated cn)" "emits (AttachDiskV2 c vm disk) (gated cn)"
  "emits (AttachDisk c vm disk) (gated cn)" "emits (DetachDisk c vm disk) (gated cn)"
  "emits (GetDisks c vm) (gated cn)" "emits (SetDiskMetadata c disk meta) (gated cn)"
  "emits (SnapshotDisk c disk) (gated cn)" "emits (DeleteSnapshot c snap) (gated cn)"
proof -
  show v2: "emits (CreateVMV2 c agent stemcell cprops nets env) (gated cn)"
    by (auto simp: CreateVMV2_def Let_def intro!: gate grows_rules)
  then show "emits (CreateVM c agent stemcell cprops nets env) (gated cn)"
    by (auto simp: CreateVM_def intro!: gated_bind grows_rules)
  show a2: "emits (AttachDiskV2 c vm disk) (gated cn)"
    by (auto simp: AttachDiskV2_def Let_def intro!: gate grows_rules)
  then show "emits (AttachDisk c vm disk) (gated cn)"
    by (auto simp: AttachDisk_def intro!: gated_bind grows_rules)
qed (auto simp: CreateStemcell_def DeleteStemcell_def DeleteVM_def HasVM_def RebootVM_def SetVMMetadata_def
    CreateDisk_def DeleteDisk_def HasDisk_def ResizeDisk_def DetachDisk_def GetDisks_def SetDiskMetadata_def
    SnapshotDisk_def DeleteSnapshot_def delete_vm_disk_def Let_def intro!: gate grows_rules)

end

section \<open>Properties\<close>

text \<open>
  Every CPI call begins by asking the server whether it trusts the client.  Unless the answer is
  \<open>trusted\<close>, the call is over: it returns an error and nothing else has been asked, sent or touched.
  This holds of all nineteen calls, for both adapters and both settings-image formats.
\<close>

theorem every_call_is_gated:
  "emits (CreateStemcell (cpi_on a k L c) img props) (gated (conn_of a)) \<and>
   emits (DeleteStemcell (cpi_on a k L c) alias) (gated (conn_of a)) \<and>
   emits (CreateVMV2 (cpi_on a k L c) agent stemcell cprops nets env) (gated (conn_of a)) \<and>
   emits (CreateVM (cpi_on a k L c) agent stemcell cprops nets env) (gated (conn_of a)) \<and>
   emits (DeleteVM (cpi_on a k L c) vm) (gated (conn_of a)) \<and>
   emits (HasVM (cpi_on a k L c) vm) (gated (conn_of a)) \<and>
   emits (RebootVM (cpi_on a k L c) vm) (gated (conn_of a)) \<and>
   emits (SetVMMetadata (cpi_on a k L c) vm meta) (gated (conn_of a)) \<and>
   emits (CreateDisk (cpi_on a k L c) sz assoc) (gated (conn_of a)) \<and>
   emits (DeleteDisk (cpi_on a k L c) disk) (gated (conn_of a)) \<and>
   emits (HasDisk (cpi_on a k L c) disk) (gated (conn_of a)) \<and>
   emits (ResizeDisk (cpi_on a k L c) disk sz) (gated (conn_of a)) \<and>
   emits (AttachDiskV2 (cpi_on a k L c) vm disk) (gated (conn_of a)) \<and>
   emits (AttachDisk (cpi_on a k L c) vm disk) (gated (conn_of a)) \<and>
   emits (DetachDisk (cpi_on a k L c) vm disk) (gated (conn_of a)) \<and>
   emits (GetDisks (cpi_on a k L c) vm) (gated (conn_of a)) \<and>
   emits (SetDiskMetadata (cpi_on a k L c) disk meta) (gated (conn_of a)) \<and>
   emits (SnapshotDisk (cpi_on a k L c) disk) (gated (conn_of a)) \<and>
   emits (DeleteSnapshot (cpi_on a k L c) snap) (gated (conn_of a))"
  by (intro conjI built.all_gated)

end
