(* ===== verification/Steps.thy ===== *)
theory Steps
  imports CpiContract
begin

text \<open>
  Runs as walks: when every single answer of the libraries moves the world along a step relation, so
  does every call of the CPI, event by event of its trace.  Together with the contracts on traces this
  turns assumptions about a server into statements about what a call makes of it.
\<close>

section \<open>Walks\<close>

inductive walk :: "('e \<Rightarrow> 'w \<Rightarrow> 'w \<Rightarrow> bool) \<Rightarrow> 'w \<Rightarrow> 'e list \<Rightarrow> 'w \<Rightarrow> bool" for R where
  stay: "walk R w [] w"
| step: "R e w w1 \<Longrightarrow> walk R w1 ts w' \<Longrightarrow> walk R w (e # ts) w'"

inductive_simps walk_Nil [simp]: "walk R w [] w'"
inductive_simps walk_Cons [simp]: "walk R w (e # ts) w'"

lemma walk_append: "walk R w (ts @ us) w' \<longleftrightarrow> (\<exists>w1. walk R w ts w1 \<and> walk R w1 us w')"
  by (induction ts arbitrary: w) auto

text \<open>Every run of \<open>m\<close> is a walk.\<close>

definition follows :: "('e \<Rightarrow> 'w \<Rightarrow> 'w \<Rightarrow> bool) \<Rightarrow> ('e, 'w, 'a) io \<Rightarrow> bool" where
  "follows R m \<longleftrightarrow> (\<forall>s. \<exists>ts. trace (snd (m s)) = trace s @ ts \<and> walk R (world s) ts (world (snd (m s))))"

lemma followsD:
  assumes "follows R m" and "m s = (r, s')"
  obtains ts where "trace s' = trace s @ ts" and "walk R (world s) ts (world s')"
  using assms unfolding follows_def by (metis snd_conv)

lemma followsI:
  "(\<And>s r s'. m s = (r, s') \<Longrightarrow> \<exists>ts. trace s' = trace s @ ts \<and> walk R (world s) ts (world s')) \<Longrightarrow> follows R m"
  unfolding follows_def by (metis prod.collapse)

text \<open>The events of the walk are those the contracts speak of.\<close>

lemma follows_emits:
  assumes "follows R m" and "emits m P" and "m s = (r, s')"
  obtains ts where "trace s' = trace s @ ts" and "P r ts" and "walk R (world s) ts (world s')"
  using followsD [OF assms(1,3)] emitsD [OF assms(2,3)] by (metis same_append_eq)

named_theorems follow_rules \<open>every combinator keeps to the step relation\<close>

lemma follows_basic [follow_rules]:
  "follows R (io_ret x)" "follows R (io_fail e)" "follows R (io_panic p)" "follows R (io_lift q)"
  by (cases q; simp add: follows_def io_run)+

text \<open>Every answer of a library function is a step.\<close>

definition answers :: "('e \<Rightarrow> 'w \<Rightarrow> 'w \<Rightarrow> bool) \<Rightarrow> (gerr + 'a \<Rightarrow> 'e) \<Rightarrow> ('w, 'a) ext \<Rightarrow> bool" where
  "answers R ev f \<longleftrightarrow> (\<forall>w. R (ev (fst (f w))) w (snd (f w)))"

lemma follows_ext [follow_rules]:
  assumes "answers R ev f"
  shows "follows R (io_ext ev f)"
proof (rule followsI)
  fix s r s' assume "io_ext ev f s = (r, s')"
  moreover have "R (ev (fst (f (world s)))) (world s) (snd (f (world s)))" using assms by (simp add: answers_def)
  ultimately show "\<exists>ts. trace s' = trace s @ ts \<and> walk R (world s) ts (world s')"
    by (auto simp: io_ext_run split: prod.splits)
qed

lemma follows_try [follow_rules]:
  assumes "follows R m" and "\<And>e. follows R (h e)" and "\<And>x. follows R (k x)"
  shows "follows R (io_try m h k)"
proof (rule followsI)
  fix s r s' assume run: "io_try m h k s = (r, s')"
  obtain q s1 where m: "m s = (q, s1)" by (cases "m s")
  obtain ts where ts: "trace s1 = trace s @ ts" "walk R (world s) ts (world s1)"
    using followsD [OF assms(1) m] .
  show "\<exists>ts. trace s' = trace s @ ts \<and> walk R (world s) ts (world s')"
  proof (cases q)
    case (Ok x)
    then have "k x s1 = (r, s')" using run m by (simp add: io_try_run)
    from followsD [OF assms(3) this] ts show ?thesis by (metis append.assoc walk_append)
  next
    case (Err e)
    then have "h e s1 = (r, s')" using run m by (simp add: io_try_run)
    from followsD [OF assms(2) this] ts show ?thesis by (metis append.assoc walk_append)
  next
    case (Panic p)
    then show ?thesis using run m ts by (auto simp: io_try_run)
  qed
qed

lemma follows_bind [follow_rules]: "follows R m \<Longrightarrow> (\<And>x. follows R (k x)) \<Longrightarrow> follows R (io_bind m k)"
  unfolding io_bind_def by (auto intro!: follow_rules)

lemma follows_wrap [follow_rules]: "follows R m \<Longrightarrow> (\<And>x. follows R (k x)) \<Longrightarrow> follows R (io_wrap m msg k)"
  unfolding io_wrap_def by (auto intro!: follow_rules)

text \<open>What the first part can return may be used for the rest.\<close>

definition yields :: "('e, 'w, 'a) io \<Rightarrow> ('a \<Rightarrow> bool) \<Rightarrow> bool" where
  "yields m Q \<longleftrightarrow> (\<forall>s x. fst (m s) = Ok x \<longrightarrow> Q x)"

lemma follows_yields:
  assumes "follows R m" and "yields m Q" and "\<And>x. Q x \<Longrightarrow> follows R (k x)"
  shows "follows R (io_bind m k)" and "follows R (io_wrap m msg k)"
proof -
  let ?k = "\<lambda>x. if Q x then k x else io_panic []"
  have same: "io_try m h ?k = io_try m h k" for h
  proof (rule ext)
    fix s
    obtain r s' where run: "m s = (r, s')" by (cases "m s")
    then have "r = Ok x \<Longrightarrow> Q x" for x using assms(2) unfolding yields_def by (metis fst_conv)
    then show "io_try m h ?k s = io_try m h k s" using run by (cases r) (auto simp: io_try_run)
  qed
  have "follows R (?k x)" for x using assms(3) by (auto intro: follow_rules)
  then show "follows R (io_bind m k)" and "follows R (io_wrap m msg k)"
    unfolding io_bind_def io_wrap_def same [symmetric] by (auto intro!: follow_rules assms(1))
qed

lemma yields_lift: "yields (io_lift q) (\<lambda>x. q = Inr x)"
  by (cases q) (auto simp: yields_def io_run)

lemmas follows_lift [follow_rules] = follows_yields [OF follows_basic(4) yields_lift]

lemma follows_finally [follow_rules]:
  assumes "follows R m" and "follows R d"
  shows "follows R (io_finally m d)"
proof (rule followsI)
  fix s r s' assume run: "io_finally m d s = (r, s')"
  obtain q s1 where m: "m s = (q, s1)" by (cases "m s")
  obtain q' s2 where d: "d s1 = (q', s2)" by (cases "d s1")
  obtain ts where "trace s1 = trace s @ ts" "walk R (world s) ts (world s1)" using followsD [OF assms(1) m] .
  moreover obtain us where "trace s2 = trace s1 @ us" "walk R (world s1) us (world s2)" using followsD [OF assms(2) d] .
  moreover have "s' = s2" using run m d by (cases q') (auto simp: io_finally_run)
  ultimately show "\<exists>ts. trace s' = trace s @ ts \<and> walk R (world s) ts (world s')"
    by (intro exI [of _ "ts @ us"]) (auto simp: walk_append)
qed

lemma follows_for [follow_rules]: "(\<And>x. follows R (f x)) \<Longrightarrow> follows R (io_for xs f)"
  by (induction xs) (auto intro!: follow_rules)

lemma follows_branch [follow_rules]:
  "follows R m \<Longrightarrow> follows R n \<Longrightarrow> follows R (if b then m else n)"
  "follows R m \<Longrightarrow> (\<And>y. follows R (k y)) \<Longrightarrow> follows R (case o' of None \<Rightarrow> m | Some y \<Rightarrow> k y)"
  "(\<And>x y. follows R (g x y)) \<Longrightarrow> follows R (case p of (x, y) \<Rightarrow> g x y)"
  by (auto split: option.split prod.split)

section \<open>Servers and their adapters\<close>

definition server_steps :: "(event \<Rightarrow> 'w \<Rightarrow> 'w \<Rightarrow> bool) \<Rightarrow> 'w api_server \<Rightarrow> bool" where
  "server_steps R S \<longleftrightarrow> (\<forall>q. answers R (EvReq q) (srv_Request S q)) \<and> (\<forall>h. answers R (EvWait h) (srv_Wait S h)) \<and>
     (\<forall>h. answers R (EvOpMetadata h) (srv_OpMetadata S h)) \<and>
     (\<forall>cn. answers R (EvGetServer cn) (srv_GetServer S cn)) \<and> (\<forall>cn. answers R (EvGetImages cn) (srv_GetImages S cn)) \<and>
     (\<forall>cn n. answers R (EvGetImageAlias cn n) (srv_GetImageAlias S cn n)) \<and>
     (\<forall>cn n. answers R (EvGetImage cn n) (srv_GetImage S cn n)) \<and>
     (\<forall>cn n. answers R (EvGetInstance cn n) (srv_GetInstance S cn n)) \<and>
     (\<forall>cn n. answers R (EvGetInstanceState cn n) (srv_GetInstanceState S cn n)) \<and>
     (\<forall>cn n. answers R (EvGetNetwork cn n) (srv_GetNetwork S cn n)) \<and>
     (\<forall>cn p ty v. answers R (EvGetVolume cn p ty v) (srv_GetVolume S cn p ty v)) \<and>
     (\<forall>cn p. answers R (EvGetVolumes cn p) (srv_GetVolumes S cn p)) \<and>
     (\<forall>cn p ty v n. answers R (EvGetSnapshot cn p ty v n) (srv_GetSnapshot S cn p ty v n)) \<and>
     answers R EvDisconnect (srv_Disconnect S)"

primrec server_of :: "'w some_adapter \<Rightarrow> 'w api_server" where
  "server_of (Lxd a) = lx_server a"
| "server_of (Incus a) = ic_server a"

lemma server_stepsD:
  assumes "server_steps R S"
  shows "answers R (EvReq q) (srv_Request S q)" and "answers R (EvWait h) (srv_Wait S h)"
    and "answers R (EvOpMetadata h) (srv_OpMetadata S h)" and "answers R (EvGetServer cn) (srv_GetServer S cn)"
    and "answers R (EvGetImages cn) (srv_GetImages S cn)" and "answers R (EvGetImageAlias cn n) (srv_GetImageAlias S cn n)"
    and "answers R (EvGetImage cn n) (srv_GetImage S cn n)" and "answers R (EvGetInstance cn n) (srv_GetInstance S cn n)"
    and "answers R (EvGetInstanceState cn n) (srv_GetInstanceState S cn n)"
    and "answers R (EvGetNetwork cn n) (srv_GetNetwork S cn n)"
    and "answers R (EvGetVolume cn p ty v) (srv_GetVolume S cn p ty v)"
    and "answers R (EvGetVolumes cn p) (srv_GetVolumes S cn p)"
    and "answers R (EvGetSnapshot cn p ty v n) (srv_GetSnapshot S cn p ty v n)"
    and "answers R EvDisconnect (srv_Disconnect S)"
  using assms by (simp_all add: server_steps_def)

lemma follows_waits:
  assumes "server_steps R S"
  shows "follows R (lxd_wait S (request S q))" and "follows R (incus_wait S (request S q))"
    and "follows R (incus_direct S q)"
  by (auto simp: lxd_wait_def incus_wait_def incus_direct_def intro!: follow_rules server_stepsD [OF assms])

lemma follows_fingerprint: "follows R (fingerprint_of md)"
  by (auto simp: fingerprint_of_def intro!: follow_rules split: option.split json.split)

lemma follows_adapter:
  assumes "server_steps R (server_of a)"
  defines "A \<equiv> adapter_of a"
  shows "follows R (FindExistingImage A descr)" "follows R (CreateAndUploadImage A im)" "follows R (DeleteImage A al)"
    "follows R (GetStemcellDescription A al)" "follows R (IsManagedNetwork A net)" "follows R (CreateInstance A meta)"
    "follows R (DeleteInstance A n)" "follows R (GetInstanceLocation A n)" "follows R (UpdateInstanceDescription A n descr)"
    "follows R (SetInstanceAction A n act)" "follows R (IsInstanceStopped A n)" "follows R (DeleteStoragePoolVolume A p v)"
    "follows R (GetStoragePoolVolume A p v)" "follows R (GetStoragePoolVolumeUsage A p)"
    "follows R (ResizeStoragePoolVolume A p v sz)" "follows R (CreateStoragePoolVolumeFromISO A tg p v img)"
    "follows R (CreateStoragePoolVolume A tg p v sz)" "follows R (UpdateStoragePoolVolumeDescription A p v descr)"
    "follows R (ColocateStoragePoolVolumeWithInstance A n p v)" "follows R (DeleteStoragePoolVolumeSnapshot A p v sn)"
    "follows R (CreateStoragePoolVolumeSnapshot A p v sn descr)"
    "follows R (AttachDevice A n d dev)" "follows R (DetachDeviceByName A n d)" "follows R (DetachDeviceBySource A n src)"
    "follows R (GetDevices A n)" "follows R (IsConnected A)" "follows R (Disconnect A)"
  unfolding assms(2)
  using assms(1)
  by (cases a; simp add: lxd_defs incus_defs Let_def; auto intro!: follow_rules follows_waits follows_fingerprint server_stepsD)+

section \<open>The local machine\<close>

text \<open>Documents read from a file have maps with distinct keys, as every Go map.\<close>

lemma wf_gm_of_list: "wf_map (gm_of_list kvs)"
proof -
  have "wf_map acc \<Longrightarrow> wf_map (foldl (\<lambda>m (k, v). gm_put k v m) acc kvs)" for acc :: "'a gomap"
    by (induction kvs arbitrary: acc) auto
  then show ?thesis by (simp add: gm_of_list_def)
qed

lemma dec_map_wf: "dec_map dec v = Inr m \<Longrightarrow> pred_option wf_map m"
  by (cases v) (auto simp: wf_gm_of_list sum_bind_def split: sum.splits)

lemma dec_field_map_wf: "dec_field (dec_map dec) None kvs f = Inr m \<Longrightarrow> pred_option wf_map m"
  by (auto simp: dec_field_def dec_map_wf split: option.splits)

lemma sum_bind_Inr: "sum_bind m f = Inr y \<longleftrightarrow> (\<exists>x. m = Inr x \<and> f x = Inr y)"
  by (auto simp: sum_bind_def split: sum.splits)

lemma dec_struct_Inr: "dec_struct old dec v = Inr x \<longleftrightarrow> (\<exists>kvs. v = JObj kvs \<and> dec kvs = Inr x) \<or> v = JNull \<and> x = old"
  by (cases v) auto

lemma dec_disks_wf: "dec_field dec_disks (JNull, JNull, None) kvs f = Inr (s, ep, p) \<Longrightarrow> pred_option wf_map p"
  by (cases "json_field kvs f")
     (auto simp: dec_field_def [of _ _ kvs f] dec_disks_def dec_struct_Inr sum_bind_Inr dec_field_map_wf)

lemma FromBytes_wf: "FromBytes b = Inr e \<Longrightarrow> wf_agent_env e"
  by (auto simp: FromBytes_def dec_agent_env_def dec_struct_Inr sum_bind_Inr wf_agent_env_def empty_agent_env_def
      dec_field_map_wf dec_disks_wf split: option.splits sum.splits)

lemma wf_documents [simp]:
  "wf_agent_env e \<Longrightarrow> wf_agent_env (AttachPersistentDisk d h e)"
  "wf_agent_env e \<Longrightarrow> wf_agent_env (DetachPersistentDisk d e)"
  "wf_agent_env e \<Longrightarrow> wf_agent_env (AttachSystemDisk h e)"
  "wf_agent_env e \<Longrightarrow> wf_agent_env (AttachEphemeralDisk h e)"
  by (auto simp: wf_agent_env_def AttachPersistentDisk_def DetachPersistentDisk_def AttachSystemDisk_def
      AttachEphemeralDisk_def persistent_map_def split: option.splits)

lemma wf_ForVM [simp]: "wf_map nets \<Longrightarrow> pred_option wf_map env \<Longrightarrow> wf_agent_env (ForVM aid vm nets env opts)"
  by (simp add: wf_agent_env_def ForVM_def wf_map_def comp_def)

lemma network_loop_wf:
  "network_loop parent asg managed nets n ds acc t = Inr (ds', nets', t') \<Longrightarrow> wf_map acc \<Longrightarrow> wf_map nets'"
  by (induction parent asg managed nets n ds acc t rule: network_loop.induct) (auto simp: Let_def split: if_splits)

text \<open>Every answer of the operating system and of the image library is a step, as far as it is asked for.\<close>

definition machine_steps :: "(event \<Rightarrow> 'w \<Rightarrow> 'w \<Rightarrow> bool) \<Rightarrow> 'w local_machine \<Rightarrow> bool" where
  "machine_steps R L \<longleftrightarrow> (\<forall>p x w. R (EvReadFile p x) w (snd (os_ReadFault L p w))) \<and>
     (\<forall>p e a w. wf_agent_env e \<longrightarrow> R (EvWriteFile p (AsBytes e) a) w (snd (os_WriteFault L p (AsBytes e) w))) \<and>
     (\<forall>p a w. R (EvRemoveFile p a) w (snd (os_RemoveFault L p w))) \<and> (\<forall>q. answers R (EvDisk q) (lib_Disk L q))"

lemma follows_os:
  assumes "machine_steps R L"
  shows "follows R (os_ReadFile L p)" and "follows R (os_Remove L p)" and "follows R (dk L q)"
    and "wf_agent_env e \<Longrightarrow> follows R (os_WriteFile L p (AsBytes e))"
proof -
  show "follows R (os_ReadFile L p)"
    by (rule followsI) (use assms in \<open>auto simp: os_ReadFile_def Let_def machine_steps_def split: prod.splits; metis snd_conv\<close>)
  show "follows R (os_Remove L p)"
    by (rule followsI) (use assms in \<open>auto simp: os_Remove_def Let_def machine_steps_def split: prod.splits option.splits; metis snd_conv\<close>)
  show "follows R (dk L q)" using assms by (auto simp: machine_steps_def intro!: follow_rules)
  show "wf_agent_env e \<Longrightarrow> follows R (os_WriteFile L p (AsBytes e))"
    by (rule followsI) (use assms in \<open>auto simp: os_WriteFile_def machine_steps_def split: prod.splits option.splits; metis snd_conv\<close>)
qed

lemma follows_manager:
  assumes "machine_steps R L"
  shows "follows R (am_Read (manager_of k L cfg) v)" and "follows R (am_Delete (manager_of k L cfg) v)"
    and "wf_agent_env e \<Longrightarrow> follows R (am_Write (manager_of k L cfg) v e)"
  by (cases k; auto simp: NewFAT32Manager_def NewCDROMManager_def afm_Read_def afm_Delete_def fat32_Write_def
      cdrom_Write_def tempFileName_def writeFile_def writeAgentEnv_def mkdirAll_def Let_def
      intro!: follow_rules follows_os assms)+

lemma yields_Read: "yields (am_Read (manager_of k L cfg) v) wf_agent_env"
  using any_manager.Read_trace [of k L cfg v] FromBytes_wf unfolding yields_def emits_def
  by (metis res.distinct(1) sum_res_eq(2))

section \<open>The calls of the CPI\<close>

definition library_steps :: "(event \<Rightarrow> 'w \<Rightarrow> 'w \<Rightarrow> bool) \<Rightarrow> 'w CPI \<Rightarrow> bool" where
  "library_steps R c \<longleftrightarrow> answers R EvUuid (cpi_uuidGen c) \<and> answers R EvTryLock (cpi_TryLock c) \<and>
     answers R EvUnlock (cpi_Unlock c) \<and> (\<forall>p. answers R (EvOpenFile p) (cpi_OpenFile c p)) \<and>
     (\<forall>p. answers R (EvGzipReader p) (cpi_GzipReader c p))"

definition world_steps :: "(event \<Rightarrow> 'w \<Rightarrow> 'w \<Rightarrow> bool) \<Rightarrow> 'w some_adapter \<Rightarrow> 'w local_machine \<Rightarrow> 'w CPI \<Rightarrow> bool" where
  "world_steps R a L c \<longleftrightarrow> server_steps R (server_of a) \<and> machine_steps R L \<and> library_steps R c"

locale stepping =
  fixes R :: "event \<Rightarrow> 'w \<Rightarrow> 'w \<Rightarrow> bool" and a :: "'w some_adapter" and L :: "'w local_machine" and c0 :: "'w CPI"
    and k :: image_format
  assumes steps: "world_steps R a L c0"
begin

lemma parts: "server_steps R (server_of a)" "machine_steps R L" "answers R EvUuid (cpi_uuidGen c0)"
  "answers R EvTryLock (cpi_TryLock c0)" "answers R EvUnlock (cpi_Unlock c0)"
  "answers R (EvOpenFile p) (cpi_OpenFile c0 p)" "answers R (EvGzipReader p) (cpi_GzipReader c0 p)"
  using steps by (simp_all add: world_steps_def library_steps_def)

lemmas adapter_follows [follow_rules] = follows_adapter [OF parts(1)] follows_manager [OF parts(2)]
  parts(3) parts(4) parts(5) parts(6) parts(7)

lemmas read_follows [follow_rules] = follows_yields [OF follows_manager(1) [OF parts(2)] yields_Read]

lemma follows_new_cid [follow_rules]: "follows R (new_cid x)"
  by (auto simp: new_cid_def intro!: follow_rules)

lemma follows_disk_cids [follow_rules]: "follows R (disk_cids names)"
  by (induction names) (auto intro!: follow_rules)

lemma follows_helpers [follow_rules]:
  "follows R (findDisksAttachedToVm (cpi_on a k L c0) v)"
  "follows R (attachDiskDeviceToVM (cpi_on a k L c0) v n d)"
  "wf_agent_env e \<Longrightarrow> follows R (writeAgentFileToVM (cpi_on a k L c0) v e)"
  by (auto simp: findDisksAttachedToVm_def attachDiskDeviceToVM_def writeAgentFileToVM_def Let_def intro!: follow_rules)

lemma follows_HasVM [follow_rules]: "follows R (HasVM (cpi_on a k L c0) v)"
  by (auto simp: HasVM_def intro!: follow_rules)

lemma follows_DeleteVM [follow_rules]: "follows R (DeleteVM (cpi_on a k L c0) v)"
  by (auto simp: DeleteVM_def delete_vm_disk_def Let_def intro!: follow_rules)

lemma follows_CreateVMV2 [follow_rules]:
  assumes "pred_option wf_map env"
  shows "follows R (CreateVMV2 (cpi_on a k L c0) aid sc props nets env)"
  using assms
  by (auto simp: CreateVMV2_def createVMWithLock_def with_cleanup_def setup_vm_def finish_vm_def outer_def inner_def
      Let_def network_loop_wf intro!: follow_rules split: scoped.split)

lemma follows_calls:
  "follows R (CreateStemcell (cpi_on a k L c0) img sprops)" "follows R (DeleteStemcell (cpi_on a k L c0) al)"
  "follows R (RebootVM (cpi_on a k L c0) v)" "follows R (SetVMMetadata (cpi_on a k L c0) v meta)"
  "follows R (CreateDisk (cpi_on a k L c0) sz assoc)" "follows R (DeleteDisk (cpi_on a k L c0) d)"
  "follows R (HasDisk (cpi_on a k L c0) d)" "follows R (ResizeDisk (cpi_on a k L c0) d sz)"
  "follows R (AttachDiskV2 (cpi_on a k L c0) v d)" "follows R (DetachDisk (cpi_on a k L c0) v d)"
  "follows R (GetDisks (cpi_on a k L c0) v)" "follows R (SetDiskMetadata (cpi_on a k L c0) d meta)"
  "follows R (SnapshotDisk (cpi_on a k L c0) d)" "follows R (DeleteSnapshot (cpi_on a k L c0) sn)"
  by (auto simp: CreateStemcell_def predeploy_def DeleteStemcell_def RebootVM_def SetVMMetadata_def CreateDisk_def
      DeleteDisk_def HasDisk_def ResizeDisk_def AttachDiskV2_def DetachDisk_def GetDisks_def SetDiskMetadata_def
      SnapshotDisk_def DeleteSnapshot_def Let_def intro!: follow_rules)

end

text \<open>
  The calls, for every step relation: where the libraries do not follow it, there is nothing to show.
\<close>

lemma any_steps: "world_steps (\<lambda>e w w'. True) a L c"
  by (simp add: world_steps_def server_steps_def machine_steps_def library_steps_def answers_def)

interpretation walked: stepping "\<lambda>e w w'. world_steps R a L c \<longrightarrow> R e w w'" a L c k
  for R :: "event \<Rightarrow> 'w \<Rightarrow> 'w \<Rightarrow> bool" and a L c k
proof (unfold_locales, cases "world_steps R a L c")
  case False
  then show "world_steps (\<lambda>e w w'. world_steps R a L c \<longrightarrow> R e w w') a L c"
    by (simp add: any_steps)
qed simp

end
