(* ===== verification/CpiAgentProps.thy ===== *)
theory CpiAgentProps
  imports CpiContract
begin

text \<open>
  What \<open>writeAgentFileToVM\<close> promises: one new settings volume, at most two updates of the instance, and
  no volume deleted but the one the old \<open>config\<close> device refers to, and that only when the server has
  reported the VM as stopped.
\<close>

text \<open>A list of devices that the server reported for the VM during the run.\<close>

definition reports :: "event list \<Rightarrow> conn \<Rightarrow> string \<Rightarrow> devices \<Rightarrow> bool" where
  "reports ts cn vm ds \<longleftrightarrow> (\<exists>i t. EvGetInstance cn vm (Inr (i, t)) \<in> set ts \<and> ip_devices (ins_put i) = ds)"

lemma reports_simps [simp]:
  "\<not> reports [] cn vm ds"
  "reports (ts @ us) cn vm ds \<longleftrightarrow> reports ts cn vm ds \<or> reports us cn vm ds"
  "reports (EvGetInstance cn vm (Inr (i, t)) # ts) cn vm (ip_devices (ins_put i))"
  "reports ts cn vm ds \<Longrightarrow> reports (e # ts) cn vm ds"
  by (auto simp: reports_def)

text \<open>The server reported the VM as stopped (or stopping) during the run.\<close>

definition seen_stopped :: "event list \<Rightarrow> conn \<Rightarrow> string \<Rightarrow> bool" where
  "seen_stopped ts cn vm \<longleftrightarrow>
     (\<exists>code t. EvGetInstanceState cn vm (Inr (code, t)) \<in> set ts \<and> at_requested_state code ''stop'')"

lemma seen_stopped_simps [simp]:
  "\<not> seen_stopped [] cn vm"
  "seen_stopped (ts @ us) cn vm \<longleftrightarrow> seen_stopped ts cn vm \<or> seen_stopped us cn vm"
  "at_requested_state code ''stop'' \<Longrightarrow> seen_stopped (EvGetInstanceState cn vm (Inr (code, t)) # ts) cn vm"
  "seen_stopped ts cn vm \<Longrightarrow> seen_stopped (e # ts) cn vm"
  by (auto simp: seen_stopped_def)

text \<open>An update of the VM's configuration.\<close>

fun is_update :: "conn \<Rightarrow> string \<Rightarrow> request \<Rightarrow> bool" where
  "is_update cn vm (ReqUpdateInstance cn' vm' put t) = (cn' = cn \<and> vm' = vm)"
| "is_update cn vm _ = False"

text \<open>The deletion of the volume behind the VM's present \<open>config\<close> device.\<close>

definition old_settings_deletion :: "conn \<Rightarrow> string \<Rightarrow> string \<Rightarrow> event list \<Rightarrow> request \<Rightarrow> bool" where
  "old_settings_deletion cn pool vm ts q \<longleftrightarrow> seen_stopped ts cn vm \<and>
     (\<exists>ds d. reports ts cn vm ds \<and> gm_find (disks_of ds) DISK_DEVICE_CONFIG = Some d \<and>
       q = ReqDeleteVolume cn pool ''custom'' (gm_get d ''source''))"

lemma old_settings_deletion_append:
  "old_settings_deletion cn pool vm us q \<Longrightarrow> old_settings_deletion cn pool vm (ts @ us) q"
  "old_settings_deletion cn pool vm us q \<Longrightarrow> old_settings_deletion cn pool vm (e # us) q"
  unfolding old_settings_deletion_def using reports_simps(2,4) seen_stopped_simps(2,4) by metis+

text \<open>The creation of a settings volume.\<close>

definition new_settings_volume :: "string \<Rightarrow> request \<Rightarrow> bool" where
  "new_settings_volume pool q \<longleftrightarrow> (\<exists>cn iso. q = ReqCreateVolumeFromISO cn pool iso \<and>
     prefix DISK_CONFIGURATION_PREFIX (iso_name iso) \<and> iso_backup_file iso \<noteq> [])"

datatype step = NewVolume | Update | DropVolume | OtherStep

fun step_of :: "request \<Rightarrow> step" where
  "step_of (ReqCreateVolumeFromISO _ _ _) = NewVolume"
| "step_of (ReqUpdateInstance _ _ _ _) = Update"
| "step_of (ReqDeleteVolume _ _ _ _) = DropVolume"
| "step_of _ = OtherStep"

text \<open>The orders in which the steps may come; the run may stop after any of them.\<close>

definition agent_steps :: "step list \<Rightarrow> bool" where
  "agent_steps ss \<longleftrightarrow> prefix ss [NewVolume, Update, DropVolume, Update] \<or> prefix ss [NewVolume, Update, Update] \<or>
     prefix ss [NewVolume, DropVolume, Update]"

definition write_agent_contract :: "conn \<Rightarrow> string \<Rightarrow> string \<Rightarrow> 'a res \<Rightarrow> event list \<Rightarrow> bool" where
  "write_agent_contract cn pool vm r ts \<longleftrightarrow> orderly r ts \<and> agent_steps (map step_of (effects ts)) \<and>
     list_all (\<lambda>q. new_settings_volume pool q \<or> is_update cn vm q \<or> old_settings_deletion cn pool vm ts q) (effects ts) \<and>
     (is_Ok r \<longrightarrow> length (effects ts) \<ge> 2 \<and> step_of (last (effects ts)) = Update)"

lemma updates_instance_is_update:
  "updates_instance ts cn vm f g \<Longrightarrow> \<exists>q. effects ts = [q] \<and> is_update cn vm q \<and> step_of q = Update"
  by (auto simp: updates_instance_def)

text \<open>The part that finds the old settings disk and puts the new one in its place.\<close>

definition swaps :: "conn \<Rightarrow> string \<Rightarrow> string \<Rightarrow> unit res \<Rightarrow> event list \<Rightarrow> event list \<Rightarrow> bool" where
  "swaps cn pool vm r pre us \<longleftrightarrow> orderly r us \<and> agent_steps (NewVolume # map step_of (effects us)) \<and>
     list_all (\<lambda>q. is_update cn vm q \<or> old_settings_deletion cn pool vm (pre @ us) q) (effects us) \<and>
     (is_Ok r \<longrightarrow> effects us \<noteq> [] \<and> step_of (last (effects us)) = Update)"

lemma swaps_failed: "\<not> is_Ok r \<Longrightarrow> effects us = [] \<Longrightarrow> swaps cn pool vm r pre us"
  by (simp add: swaps_def agent_steps_def no_effects_orderly)

lemma swaps_attached:
  assumes "orderly r us" and "\<not> refused us" and "orderly r' vs"
    and steps: "prefix (map step_of (effects us)) [Update, DropVolume] \<or> map step_of (effects us) = [DropVolume]"
    and old: "list_all (\<lambda>q. is_update cn vm q \<or> old_settings_deletion cn pool vm (pre @ us) q) (effects us)"
    and att: "effects vs = [] \<and> \<not> is_Ok r' \<or> (\<exists>q. effects vs = [q] \<and> is_update cn vm q \<and> step_of q = Update)"
  shows "swaps cn pool vm r' pre (us @ vs)"
proof -
  have "old_settings_deletion cn pool vm (pre @ us @ vs) q"
    if "old_settings_deletion cn pool vm (pre @ us) q" for q
    using that unfolding old_settings_deletion_def by auto
  then have "list_all (\<lambda>q. is_update cn vm q \<or> old_settings_deletion cn pool vm (pre @ us @ vs) q) (effects us)"
    using old by (auto simp: list_all_iff)
  moreover have "stops us" using assms(1) by (simp add: orderly_def)
  ultimately show ?thesis using assms(2,3) steps att
    by (auto simp: swaps_def agent_steps_def prefix_Cons)
qed

lemma swaps_stopped:
  assumes "orderly r us" and "\<not> is_Ok r"
    and "prefix (map step_of (effects us)) [Update, DropVolume] \<or> map step_of (effects us) = [DropVolume]"
    and "list_all (\<lambda>q. is_update cn vm q \<or> old_settings_deletion cn pool vm (pre @ us) q) (effects us)"
  shows "swaps cn pool vm r pre us"
  using assms by (auto simp: swaps_def agent_steps_def prefix_Cons)

lemma write_agent_failed:
  assumes "\<not> is_Ok r" and "orderly r ts"
    and "effects ts = [] \<or> (\<exists>q. effects ts = [q] \<and> new_settings_volume pool q)"
  shows "write_agent_contract cn pool vm r ts"
  using assms by (auto simp: write_agent_contract_def agent_steps_def new_settings_volume_def)

lemma write_agent_swapped:
  assumes swap: "swaps cn pool vm r [] us" and pre: "stops ts" "\<not> refused ts" "effects ts = [q]"
    "new_settings_volume pool q"
  shows "write_agent_contract cn pool vm r (ts @ us)"
proof -
  have "step_of q = NewVolume" using pre(4) by (auto simp: new_settings_volume_def)
  moreover have "list_all (\<lambda>q. is_update cn vm q \<or> old_settings_deletion cn pool vm (ts @ us) q) (effects us)"
    using swap old_settings_deletion_append(1) by (fastforce simp: swaps_def list_all_iff)
  moreover have "length (effects us) \<ge> 1" if "effects us \<noteq> []" using that by (cases "effects us") auto
  ultimately show ?thesis using swap pre
    by (auto simp: write_agent_contract_def swaps_def list_all_iff)
qed

lemma write_agent_read:
  "effects us = [] \<Longrightarrow> write_agent_contract cn pool vm r ts \<Longrightarrow> write_agent_contract cn pool vm r (us @ ts)"
  using old_settings_deletion_append(1)
  by (fastforce simp: write_agent_contract_def list_all_iff no_effects_stops no_effects_not_refused)

context cpi_contract
begin

lemma detach_config:
  "emits (case gm_find disks DISK_DEVICE_CONFIG of
      None \<Rightarrow> io_ret ()
    | Some disk \<Rightarrow>
        io_wrap (DetachDeviceByName (cpi_adapter c) vm DISK_DEVICE_CONFIG) m1 (\<lambda>_.
        io_wrap (IsInstanceStopped (cpi_adapter c) vm) m2 (\<lambda>stopped.
        if stopped
        then io_wrap (DeleteStoragePoolVolume (cpi_adapter c) (cpi_pool c) (gm_get disk ''source'')) m3
               (\<lambda>_. io_ret ())
        else io_ret ())))
   (\<lambda>r ts. orderly r ts \<and>
      (prefix (map step_of (effects ts)) [Update, DropVolume] \<or> map step_of (effects ts) = [DropVolume]) \<and>
      list_all (\<lambda>q. is_update cn vm q \<or> seen_stopped ts cn vm \<and> (\<exists>d. gm_find disks DISK_DEVICE_CONFIG = Some d \<and>
         q = ReqDeleteVolume cn (cpi_pool c) ''custom'' (gm_get d ''source''))) (effects ts))"
  apply (rule emits_option)
   apply simp
  apply (rule emits_wrap, rule DetachDeviceByName_law [THEN emits_mono], rule emits_afterI)
    apply (rule emits_wrap, rule IsInstanceStopped_law [THEN emits_mono])
    apply (auto dest!: updates_instance_is_update intro!: emits_rules law_rules)
  done

lemma attach_disk_device:
  "emits (attachDiskDeviceToVM c vm name d) (\<lambda>r ts. orderly r ts \<and>
     (effects ts = [] \<and> \<not> is_Ok r \<or> (\<exists>q. effects ts = [q] \<and> is_update cn vm q \<and> step_of q = Update)))"
  unfolding attachDiskDeviceToVM_def
  by (rule AttachDevice_law [THEN emits_mono]) (auto dest!: updates_instance_is_update)

lemma replace_found:
  fixes i :: vm_instance
  defines "disks \<equiv> disks_of (ip_devices (ins_put i))"
  shows "emits (io_bind
        (case gm_find disks DISK_DEVICE_CONFIG of
           None \<Rightarrow> io_ret ()
         | Some disk \<Rightarrow>
             io_wrap (DetachDeviceByName (cpi_adapter c) vm DISK_DEVICE_CONFIG) m1 (\<lambda>_.
             io_wrap (IsInstanceStopped (cpi_adapter c) vm) m2 (\<lambda>stopped.
             if stopped
             then io_wrap (DeleteStoragePoolVolume (cpi_adapter c) (cpi_pool c) (gm_get disk ''source'')) m3
                    (\<lambda>_. io_ret ())
             else io_ret ())))
        (\<lambda>_. io_wrap (attachDiskDeviceToVM c vm DISK_DEVICE_CONFIG d) m4 (\<lambda>_. io_ret ())))
     (\<lambda>r us. swaps cn (cpi_pool c) vm r [] (EvGetInstance cn vm (Inr (i, t)) # us))"
proof (rule emits_bind, rule detach_config [THEN emits_mono], elim conjE)
  fix r :: "unit res" and us
  let ?pre = "EvGetInstance cn vm (Inr (i, t)) # us"
  assume ord: "orderly r us"
    and steps: "prefix (map step_of (effects us)) [Update, DropVolume] \<or> map step_of (effects us) = [DropVolume]"
    and old: "list_all (\<lambda>q. is_update cn vm q \<or> seen_stopped us cn vm \<and> (\<exists>d. gm_find disks DISK_DEVICE_CONFIG = Some d \<and>
         q = ReqDeleteVolume cn (cpi_pool c) ''custom'' (gm_get d ''source''))) (effects us)"
  have old': "list_all (\<lambda>q. is_update cn vm q \<or> old_settings_deletion cn (cpi_pool c) vm ?pre q) (effects us)"
    using old by (rule list.pred_mono_strong)
      (auto simp: old_settings_deletion_def disks_def intro!: exI [of _ "ip_devices (ins_put i)"])
  show "emits_after io_fail (\<lambda>_. io_wrap (attachDiskDeviceToVM c vm DISK_DEVICE_CONFIG d) m4 (\<lambda>_. io_ret ()))
     (\<lambda>r us. swaps cn (cpi_pool c) vm r [] (EvGetInstance cn vm (Inr (i, t)) # us)) r us"
  proof (cases r)
    case (Ok x)
    have "swaps cn (cpi_pool c) vm r' [] (?pre @ vs)"
      if "orderly r' vs" "effects vs = [] \<and> \<not> is_Ok r' \<or> (\<exists>q. effects vs = [q] \<and> is_update cn vm q \<and> step_of q = Update)"
      for r' vs
      by (rule swaps_attached [where r = r]) (use that ord Ok steps old' in simp_all)
    then show ?thesis using Ok
      by (auto intro!: emits_wrap attach_disk_device [THEN emits_mono] emits_afterI)
  next
    case (Err e)
    then show ?thesis using swaps_stopped [of r "?pre"] ord steps old' by simp
  next
    case (Panic q)
    then show ?thesis using swaps_stopped [of r "?pre"] ord steps old' by simp
  qed
qed

lemma find_and_replace:
  "emits (io_wrap (findDisksAttachedToVm c vm) m0 (\<lambda>disks. io_bind
        (case gm_find disks DISK_DEVICE_CONFIG of
           None \<Rightarrow> io_ret ()
         | Some disk \<Rightarrow>
             io_wrap (DetachDeviceByName (cpi_adapter c) vm DISK_DEVICE_CONFIG) m1 (\<lambda>_.
             io_wrap (IsInstanceStopped (cpi_adapter c) vm) m2 (\<lambda>stopped.
             if stopped
             then io_wrap (DeleteStoragePoolVolume (cpi_adapter c) (cpi_pool c) (gm_get disk ''source'')) m3
                    (\<lambda>_. io_ret ())
             else io_ret ())))
        (\<lambda>_. io_wrap (attachDiskDeviceToVM c vm DISK_DEVICE_CONFIG d) m4 (\<lambda>_. io_ret ()))))
     (\<lambda>r us. swaps cn (cpi_pool c) vm r [] us)"
  unfolding findDisksAttachedToVm_def
proof (rule emits_wrap, rule emits_bind, rule GetDevices_law [unfolded reads_instance_def, THEN emits_mono], elim disjE exE conjE, goal_cases)
  case (1 r ts i t)
  then show ?case using replace_found by simp
next
  case 2
  then show ?case by (simp add: swaps_failed)
qed

lemma writeAgentFileToVM_contract:
  "emits (writeAgentFileToVM c vm env) (write_agent_contract cn (cpi_pool c) vm)"
  unfolding writeAgentFileToVM_def Let_def
  apply (rule emits_wrap, rule emits_ext, simp_all)
   prefer 2 apply (simp add: write_agent_failed)
  apply (rule emits_wrap, rule Write_trace [THEN emits_mono], rule emits_afterI)
    apply (rule emits_if, simp add: write_agent_failed no_effects_stops)
    apply (rule emits_wrap, rule GetInstanceLocation_law [unfolded reads_instance_def, THEN emits_mono], rule emits_afterI)
    apply (rule emits_wrap, rule CreateStoragePoolVolumeFromISO_law [unfolded sends_one_def, THEN emits_mono], rule emits_afterI)
    apply (rule find_and_replace [THEN emits_mono])
  subgoal for x r ts xa ra tsa xb rb tsb xc rc tsc
    using write_agent_swapped [of cn "cpi_pool c" vm rc tsc "EvUuid (Inr x) # ts @ tsa @ tsb"]
    by (auto simp: no_effects_stops no_effects_not_refused new_settings_volume_def)
  by (auto simp: no_effects_stops no_effects_not_refused new_settings_volume_def write_agent_failed)

text \<open>After a success the new settings are in the local file.\<close>

lemma writeAgentFileToVM_stores:
  "emits (writeAgentFileToVM c vm env) (\<lambda>r ts. is_Ok r \<longrightarrow> EvWriteFile (path vm) (AsBytes env) (Inr ()) \<in> set ts)"
proof -
  have stored: "emits m (\<lambda>r us. is_Ok r \<longrightarrow> EvWriteFile (path vm) (AsBytes env) (Inr ()) \<in> set (ts @ us))"
    if "grows m" "EvWriteFile (path vm) (AsBytes env) (Inr ()) \<in> set ts" for m :: "('w, unit) go" and ts
    using that(1) unfolding grows_def by (rule emits_mono) (use that(2) in auto)
  show ?thesis
    unfolding writeAgentFileToVM_def Let_def
    apply (rule emits_wrap, rule emits_ext, simp_all)
    apply (rule emits_wrap, rule Write_trace [THEN emits_mono], rule emits_afterI)
      apply (rule stored; (intro grows_rules)?; simp)
    by simp_all
qed

lemma write_and_return:
  "emits (io_wrap (writeAgentFileToVM c vm env) msg (\<lambda>_. io_ret x)) (\<lambda>r ts.
     write_agent_contract cn (cpi_pool c) vm r ts \<and> \<not> is_Ok r \<or>
     write_agent_contract cn (cpi_pool c) vm r ts \<and> r = Ok x \<and> EvWriteFile (path vm) (AsBytes env) (Inr ()) \<in> set ts)"
  by (rule emits_wrap, rule emits_mono [OF emits_conj [OF writeAgentFileToVM_contract writeAgentFileToVM_stores]],
      rule emits_afterI) (auto simp: write_agent_contract_def)

end

section \<open>Properties\<close>

text \<open>
  C14.  Replacing a VM's settings disk sends, in this order and possibly cut short: the creation of one
  settings volume (named \<open>vol-c-\<close>, with a non-empty image), the detachment of the old \<open>config\<close> device,
  the deletion of that device's volume, the attachment of the new one.  A volume is deleted only if it
  is the source of the \<open>config\<close> disk the server reported for this VM, and only after the server
  reported the VM as stopped; a success ends with the attachment.  After a refused request nothing more
  is sent.
\<close>

theorem settings_disk_replacement:
  "emits (writeAgentFileToVM (cpi_on a k L c) vm env) (write_agent_contract (conn_of a) (cpi_pool c) vm)"
  using built.writeAgentFileToVM_contract by simp

end
