(* ===== verification/CpiVmProps.thy ===== *)
theory CpiVmProps
  imports CpiAgentProps
begin

text \<open>
  What the VM calls promise: which requests \<open>DeleteVM\<close> and \<open>CreateVM\<close> send, when a failed creation is
  cleaned up and when not, and the network and configuration planning of \<open>CreateVM\<close>.
\<close>

section \<open>HasVM\<close>

text \<open>The answer to an instance lookup that counts as a missing VM.\<close>

definition vm_absent :: "gerr + vm_instance \<times> etag \<Rightarrow> bool" where
  "vm_absent a = (case a of
      Inl e \<Rightarrow> CleanInstanceNotFoundError (Some e) = None
    | Inr (i, _) \<Rightarrow> ins_location i = [])"

lemma vm_absent_simps [simp]:
  "vm_absent (Inl e) \<longleftrightarrow> CleanInstanceNotFoundError (Some e) = None"
  "vm_absent (Inr (i, t)) \<longleftrightarrow> ins_location i = []"
  by (simp_all add: vm_absent_def)

definition has_vm_contract :: "conn \<Rightarrow> string \<Rightarrow> bool res \<Rightarrow> event list \<Rightarrow> bool" where
  "has_vm_contract cn vm r ts \<longleftrightarrow> effects ts = [] \<and> \<not> is_Panic r \<and>
     (\<forall>b. r = Ok b \<longrightarrow> (\<exists>s a. ts = [EvGetServer cn s, EvGetInstance cn vm a] \<and> (b \<longleftrightarrow> \<not> vm_absent a)))"

section \<open>DeleteVM\<close>

text \<open>The volumes that belong to the VM itself: its settings disk and its ephemeral disk.\<close>

definition owned_disks :: "devices \<Rightarrow> string list" where
  "owned_disks ds = map (\<lambda>(name, d). gm_get d ''source'')
     (filter (\<lambda>(name, d). gm_get d ''type'' = ''disk'' \<and>
        (name = DISK_DEVICE_CONFIG \<or> name = DISK_DEVICE_EPHEMERAL)) ds)"

definition stop_request :: "conn \<Rightarrow> string \<Rightarrow> request" where
  "stop_request cn vm = ReqUpdateInstanceState cn vm (state_put_of StopAction) []"

text \<open>The requests that remove a VM: the instance, then its own volumes.\<close>

definition removal :: "conn \<Rightarrow> string \<Rightarrow> string \<Rightarrow> devices \<Rightarrow> request list" where
  "removal cn pool vm ds =
     ReqDeleteInstance cn vm # map (ReqDeleteVolume cn pool ''custom'') (owned_disks ds)"

definition removes :: "conn \<Rightarrow> string \<Rightarrow> string \<Rightarrow> string \<Rightarrow> devices \<Rightarrow> unit res \<Rightarrow> event list \<Rightarrow> bool" where
  "removes cn pool path vm ds r ts \<longleftrightarrow> orderly r ts \<and> prefix (effects ts) (removal cn pool vm ds) \<and>
     (is_Ok r \<longrightarrow> effects ts = removal cn pool vm ds \<and> (\<exists>a us. ts = us @ [EvRemoveFile path a]))"

definition delete_vm_contract :: "conn \<Rightarrow> string \<Rightarrow> string \<Rightarrow> string \<Rightarrow> unit res \<Rightarrow> event list \<Rightarrow> bool" where
  "delete_vm_contract cn pool path vm r ts \<longleftrightarrow> orderly r ts \<and>
     (effects ts = [] \<and> (is_Ok r \<longrightarrow> (\<exists>a. EvGetInstance cn vm a \<in> set ts \<and> vm_absent a)) \<or>
      effects ts = [stop_request cn vm] \<and> \<not> is_Ok r \<or>
      (\<exists>ds stop. reports ts cn vm ds \<and> (stop = [] \<or> stop = [stop_request cn vm]) \<and>
         prefix (effects ts) (stop @ removal cn pool vm ds) \<and>
         (is_Ok r \<longrightarrow> effects ts = stop @ removal cn pool vm ds))) \<and>
     (is_Ok r \<longrightarrow> (\<exists>a us. ts = us @ [EvRemoveFile path a]))"

context cpi_contract
begin

lemma HasVM_contract: "emits (HasVM c vm) (has_vm_contract cn vm)"
  unfolding HasVM_def has_vm_contract_def
  by (auto intro!: emits_rules law_rules)

lemmas HasVM_rule = HasVM_contract [THEN emits_mono]

lemma delete_disks: "emits (io_for (disks_of ds) (delete_vm_disk c)) (\<lambda>r ts. orderly r ts \<and>
    prefix (effects ts) (map (ReqDeleteVolume cn (cpi_pool c) ''custom'') (owned_disks ds)) \<and>
    (is_Ok r \<longrightarrow> effects ts = map (ReqDeleteVolume cn (cpi_pool c) ''custom'') (owned_disks ds)))"
proof (induction ds)
  case Nil
  then show ?case by (auto simp: disks_of_def owned_disks_def intro!: emits_rules)
next
  case (Cons nd ds)
  obtain n d where nd: "nd = (n, d)" by (cases nd)
  show ?case using Cons.IH [THEN emits_mono]
    by (auto simp: nd disks_of_def owned_disks_def delete_vm_disk_def Let_def intro!: emits_rules law_rules)
qed

lemma delete_instance_and_disks:
  "emits (io_wrap (DeleteInstance (cpi_adapter c) vm) msg (\<lambda>_.
     io_bind (io_for (disks_of ds) (delete_vm_disk c)) (\<lambda>_. am_Delete (cpi_agentMgr c) vm))) (removes cn (cpi_pool c) (path vm) vm ds)"
  by (rule emits_rules law_rules delete_disks [THEN emits_mono])+ (auto simp: removal_def removes_def)

lemma enumerate_and_remove:
  "emits (io_wrap (findDisksAttachedToVm c vm) msg1 (\<lambda>disks.
     io_wrap (DeleteInstance (cpi_adapter c) vm) msg (\<lambda>_.
     io_bind (io_for disks (delete_vm_disk c)) (\<lambda>_. am_Delete (cpi_agentMgr c) vm))))
   (\<lambda>r ts. effects ts = [] \<and> \<not> is_Ok r \<or> (\<exists>ds. reports ts cn vm ds \<and> removes cn (cpi_pool c) (path vm) vm ds r ts))"
  unfolding findDisksAttachedToVm_def
proof (rule emits_wrap, rule emits_bind, rule GetDevices_law [unfolded reads_instance_def, THEN emits_mono], elim disjE exE conjE)
  fix r ts i t
  assume "ts = [EvGetInstance cn vm (Inr (i, t))]" and "r = Ok ((ip_devices \<circ> ins_put) i)"
  then show "emits_after io_fail (\<lambda>devices. io_ret (disks_of devices))
     (emits_after (\<lambda>e. io_fail (WrapError e msg1)) (\<lambda>disks. io_wrap (DeleteInstance (cpi_adapter c) vm) msg (\<lambda>_.
        io_bind (io_for disks (delete_vm_disk c)) (\<lambda>_. am_Delete (cpi_agentMgr c) vm)))
      (\<lambda>r ts. effects ts = [] \<and> \<not> is_Ok r \<or>
         (\<exists>ds. reports ts cn vm ds \<and> removes cn (cpi_pool c) (path vm) vm ds r ts))) r ts"
    by (auto intro!: delete_instance_and_disks [THEN emits_mono] disjI2 exI [of _ "ip_devices (ins_put i)"]
        simp: removes_def)
qed auto

lemma delete_vm_contract_removes:
  assumes "removes cn pool p vm ds r us" and "reports us cn vm ds" and "stops ts" and "\<not> refused ts"
    and "effects ts = [] \<or> effects ts = [stop_request cn vm]"
  shows "delete_vm_contract cn pool p vm r (ts @ us)"
proof -
  have "\<exists>ds' stop. reports (ts @ us) cn vm ds' \<and> (stop = [] \<or> stop = [stop_request cn vm]) \<and>
      prefix (effects (ts @ us)) (stop @ removal cn pool vm ds') \<and>
      (is_Ok r \<longrightarrow> effects (ts @ us) = stop @ removal cn pool vm ds')"
    using assms by (intro exI [of _ ds] exI [of _ "effects ts"]) (auto simp: removes_def)
  moreover have "orderly r (ts @ us) \<and> (is_Ok r \<longrightarrow> (\<exists>a vs. ts @ us = vs @ [EvRemoveFile p a]))"
    using assms by (auto simp: removes_def)
  ultimately show ?thesis by (simp add: delete_vm_contract_def)
qed

lemma delete_vm_contract_failed:
  "\<not> is_Ok r \<Longrightarrow> orderly r ts \<Longrightarrow> effects ts = [] \<or> effects ts = [stop_request cn vm] \<Longrightarrow>
   delete_vm_contract cn pool p vm r ts"
  by (auto simp: delete_vm_contract_def)

lemma delete_vm_contract_read:
  assumes none: "effects [e] = []" and rest: "delete_vm_contract cn pool p vm r ts"
  shows "delete_vm_contract cn pool p vm r (e # ts)"
proof -
  have "\<not> is_refusal e" using no_effects_not_refused [OF none] by simp
  then have "orderly r (e # ts) = orderly r ts" and "effects (e # ts) = effects ts"
    and "\<And>a us. ts = us @ [a] \<Longrightarrow> \<exists>us. e # ts = us @ [a]"
    using none by (auto split: option.splits)
  moreover have "\<And>ds. reports ts cn vm ds \<Longrightarrow> reports (e # ts) cn vm ds" by simp
  moreover have "\<And>x. x \<in> set ts \<Longrightarrow> x \<in> set (e # ts)" by simp
  ultimately show ?thesis using rest unfolding delete_vm_contract_def by metis
qed

lemma stop_and_remove:
  "emits (io_wrap (SetInstanceAction (cpi_adapter c) vm StopAction) msg (\<lambda>_.
     io_wrap (findDisksAttachedToVm c vm) msg1 (\<lambda>disks.
     io_wrap (DeleteInstance (cpi_adapter c) vm) msg2 (\<lambda>_.
     io_bind (io_for disks (delete_vm_disk c)) (\<lambda>_. am_Delete (cpi_agentMgr c) vm)))))
   (delete_vm_contract cn (cpi_pool c) (path vm) vm)"
  apply (rule emits_wrap, rule SetInstanceAction_law [THEN emits_mono], rule emits_afterI)
    apply (rule enumerate_and_remove [THEN emits_mono])
    apply (auto simp: stop_request_def no_effects_orderly intro: delete_vm_contract_failed delete_vm_contract_removes)
  done

lemma DeleteVM_contract: "emits (DeleteVM c vm) (delete_vm_contract cn (cpi_pool c) (path vm) vm)"
  unfolding DeleteVM_def
  apply (rule emits_bind, rule IsConnected_law [THEN emits_mono], rule emits_afterI)
    apply (rule emits_bind, rule HasVM_rule, rule emits_afterI)
      apply (rule emits_if)
  subgoal for r ts x ra tsa xa
   apply (rule Delete_trace [THEN emits_mono])
   apply (auto simp: delete_vm_contract_def has_vm_contract_def; fail)
   done
  apply (rule stop_and_remove [THEN emits_mono])
     apply (auto simp: has_vm_contract_def no_effects_stops delete_vm_contract_failed delete_vm_contract_read)
  done

end

section \<open>CreateVM\<close>

subsection \<open>The lock around the creation\<close>

text \<open>
  With the lock enabled, the attempt to take it comes first; a lock that was taken is given back at the
  very end; any failure other than running out of time stops the creation.
\<close>

definition lock_bracket :: "bool \<Rightarrow> request \<Rightarrow> unit res \<Rightarrow> event list \<Rightarrow> bool" where
  "lock_bracket enabled q r ts \<longleftrightarrow> orderly r ts \<and> (effects ts = [q] \<or> effects ts = [] \<and> \<not> is_Ok r) \<and>
     (enabled \<longrightarrow> (\<exists>a us. ts = EvTryLock a # us \<and>
        (a = Inr True \<longrightarrow> (\<exists>vs b. us = vs @ [EvUnlock b] \<and> effects vs = [q])) \<and>
        (effects us = [] \<longrightarrow> us = [] \<and> (\<exists>e. a = Inl e \<and> e \<noteq> DeadlineExceeded \<and> r = Err e))))"

subsection \<open>The steps that set a new VM up\<close>

fun is_new_volume :: "request \<Rightarrow> bool" where
  "is_new_volume (ReqCreateVolume _ _ _) = True" | "is_new_volume _ = False"

fun is_settings_volume :: "request \<Rightarrow> bool" where
  "is_settings_volume (ReqCreateVolumeFromISO _ _ _) = True" | "is_settings_volume _ = False"

fun refused_request :: "(request \<Rightarrow> bool) \<Rightarrow> event \<Rightarrow> bool" where
  "refused_request P (EvReq q a) = (P q \<and> \<not> is_Inr a)"
| "refused_request P _ = False"

text \<open>A request of the given kind was refused.\<close>

definition refused_of :: "(request \<Rightarrow> bool) \<Rightarrow> event list \<Rightarrow> bool" where
  "refused_of P ts = list_ex (refused_request P) ts"

lemma refused_of_simps [simp]:
  "\<not> refused_of P []" "refused_of P (e # ts) \<longleftrightarrow> refused_request P e \<or> refused_of P ts"
  "refused_of P (ts @ us) \<longleftrightarrow> refused_of P ts \<or> refused_of P us"
  by (simp_all add: refused_of_def)

lemma refused_of_refused: "refused_of P ts \<Longrightarrow> refused ts"
proof (induction ts)
  case (Cons e ts)
  then show ?case by (cases e) auto
qed simp

lemma refused_of_effect: "refused_of P ts \<Longrightarrow> list_ex P (effects ts)"
proof (induction ts)
  case (Cons e ts)
  then show ?case by (cases e) auto
qed simp

lemma not_refused_of: "list_all (\<lambda>q. \<not> P q) (effects ts) \<Longrightarrow> \<not> refused_of P ts"
  using refused_of_effect by (fastforce simp: list_all_iff list_ex_iff)

text \<open>A request that setting up the VM may send: none of them deletes the instance.\<close>

definition setup_step :: "conn \<Rightarrow> string \<Rightarrow> string \<Rightarrow> event list \<Rightarrow> request \<Rightarrow> bool" where
  "setup_step cn pool vm ts q \<longleftrightarrow>
     (\<exists>cn' u sz. q = ReqCreateVolume cn' pool (volume_post_of (DISK_EPHEMERAL_PREFIX @ u) sz)) \<or>
     is_update cn vm q \<or> new_settings_volume pool q \<or> old_settings_deletion cn pool vm ts q \<or>
     q = ReqUpdateInstanceState cn vm (state_put_of StartAction) []"

lemma setup_step_simps [simp]:
  "setup_step cn pool vm ts (ReqCreateVolume cn' pool (volume_post_of (DISK_EPHEMERAL_PREFIX @ u) sz))"
  "is_update cn vm q \<Longrightarrow> setup_step cn pool vm ts q"
  by (auto simp: setup_step_def)

lemma is_update_kind [simp]:
  "is_update cn vm q \<Longrightarrow> \<not> is_settings_volume q" "is_update cn vm q \<Longrightarrow> \<not> is_new_volume q"
  by (cases q; simp)+

lemma setup_step_append:
  "setup_step cn pool vm us q \<Longrightarrow> setup_step cn pool vm (ts @ us) q"
  "setup_step cn pool vm us q \<Longrightarrow> setup_step cn pool vm (e # us) q"
  using old_settings_deletion_append by (auto simp: setup_step_def)

lemma setup_steps_append:
  "list_all (setup_step cn pool vm us) xs \<Longrightarrow> list_all (setup_step cn pool vm (ts @ us)) xs"
  "list_all (setup_step cn pool vm us) xs \<Longrightarrow> list_all (setup_step cn pool vm (us @ ts)) xs"
  by (auto simp: list_all_iff setup_step_def old_settings_deletion_def) (metis reports_simps(2))+

definition setup_contract :: "conn \<Rightarrow> string \<Rightarrow> string \<Rightarrow> 'a \<Rightarrow> 'a scoped res \<Rightarrow> event list \<Rightarrow> bool" where
  "setup_contract cn pool vm x r ts \<longleftrightarrow> list_all (setup_step cn pool vm ts) (effects ts) \<and>
     (case r of
        Ok (Returned y) \<Rightarrow> y = x \<and> \<not> refused ts
      | Ok (InnerErr e) \<Rightarrow> \<not> refused_of is_settings_volume ts
      | Ok (OuterErr e) \<Rightarrow> \<not> refused_of is_new_volume ts
      | Err e \<Rightarrow> False
      | Panic p \<Rightarrow> True)"

lemma setup_contract_prepend:
  assumes "list_all (setup_step cn pool vm ts) (effects ts)" and "\<not> refused ts"
    and "setup_contract cn pool vm x r us"
  shows "setup_contract cn pool vm x r (ts @ us)"
  using assms refused_of_refused [of _ ts]
  by (auto simp: setup_contract_def setup_steps_append split: res.splits scoped.splits)

text \<open>The set-up followed, or not, by the removal of the VM.\<close>

definition cleanup_contract :: "conn \<Rightarrow> string \<Rightarrow> string \<Rightarrow> string \<Rightarrow> 'a \<Rightarrow> 'a res \<Rightarrow> event list \<Rightarrow> event list \<Rightarrow> bool" where
  "cleanup_contract cn pool path vm x r pre suf \<longleftrightarrow> list_all (setup_step cn pool vm pre) (effects pre) \<and>
     (suf = [] \<or> (\<exists>r'. gated cn r' suf \<and> delete_vm_contract cn pool path vm r' suf)) \<and>
     (\<forall>y. r = Ok y \<longrightarrow> y = x \<and> suf = [] \<and> \<not> refused pre) \<and>
     (refused_of is_new_volume pre \<longrightarrow> suf = []) \<and>
     (refused_of is_settings_volume pre \<longrightarrow> suf \<noteq> [] \<or> is_Panic r)"

text \<open>
  What creating a VM may do: nothing at all; or the request for one instance under a fresh name, then
  steps that set it up, then possibly the removal of the VM.  A refused ephemeral volume is never
  followed by the removal; a refused settings volume always is, unless the program crashes.
\<close>

definition create_vm_contract :: "conn \<Rightarrow> string \<Rightarrow> (string \<Rightarrow> string) \<Rightarrow> (string \<times> networks) res \<Rightarrow> event list \<Rightarrow> bool" where
  "create_vm_contract cn pool path r ts \<longleftrightarrow> effects ts = [] \<and> \<not> is_Ok r \<or>
     (\<exists>u m rest pre suf. EvUuid (Inr u) \<in> set ts \<and> meta_Name m = ''vm-'' @ u \<and> ts = pre @ suf \<and>
        effects pre = ReqCreateInstance (target_conn (meta_Target m) cn) (instances_post_of m) # rest \<and>
        list_all (setup_step cn pool (''vm-'' @ u) pre) rest \<and>
        (suf = [] \<or> (\<exists>r'. gated cn r' suf \<and> delete_vm_contract cn pool (path (''vm-'' @ u)) (''vm-'' @ u) r' suf)) \<and>
        (\<forall>vm nets. r = Ok (vm, nets) \<longrightarrow> vm = ''vm-'' @ u \<and> suf = [] \<and> \<not> refused pre) \<and>
        (refused_of is_new_volume pre \<longrightarrow> suf = []) \<and>
        (refused_of is_settings_volume pre \<longrightarrow> suf \<noteq> [] \<or> is_Panic r))"

lemma create_vm_nothing: "effects ts = [] \<Longrightarrow> \<not> is_Ok r \<Longrightarrow> create_vm_contract cn pool path r ts"
  by (simp add: create_vm_contract_def)

lemma create_vm_unfinished:
  assumes "effects ts = [ReqCreateInstance (target_conn (meta_Target m) cn) (instances_post_of m)]"
    and "EvUuid (Inr u) \<in> set ts" and "meta_Name m = ''vm-'' @ u" and "\<not> is_Ok r"
  shows "create_vm_contract cn pool path r ts"
proof -
  have "\<not> refused_of is_new_volume ts" "\<not> refused_of is_settings_volume ts"
    using assms(1) by (intro not_refused_of; simp)+
  then show ?thesis unfolding create_vm_contract_def using assms
    by (intro disjI2 exI [of _ u] exI [of _ m] exI [of _ "[]"] exI [of _ ts]) auto
qed

context cpi_contract
begin

lemma createVMWithLock_contract:
  "emits (createVMWithLock c m) (lock_bracket (lock_Enabled (cfg_CreateVMLock (conf_Server (cpi_config c))))
     (ReqCreateInstance (target_conn (meta_Target m) cn) (instances_post_of m)))"
  unfolding createVMWithLock_def lock_bracket_def
  apply (rule emits_if)
   apply (rule emits_try, rule emits_ext)
    apply (auto simp: orderly_def intro!: emits_rules law_rules)
  done

lemma write_agent_setup:
  assumes "write_agent_contract cn pool vm r ts"
  shows "list_all (setup_step cn pool vm ts) (effects ts)" and "\<not> refused_of is_new_volume ts"
    and "orderly r ts"
proof -
  show "orderly r ts" using assms by (simp add: write_agent_contract_def)
  show "list_all (setup_step cn pool vm ts) (effects ts)"
    using assms by (auto simp: write_agent_contract_def setup_step_def list_all_iff)
  have "\<not> is_new_volume q" if "new_settings_volume pool q \<or> is_update cn vm q \<or> old_settings_deletion cn pool vm ts q" for q
    using that by (cases q) (auto simp: new_settings_volume_def old_settings_deletion_def)
  then show "\<not> refused_of is_new_volume ts"
    using assms by (intro not_refused_of) (auto simp: write_agent_contract_def list_all_iff)
qed

lemma start_vm_contract:
  "emits (io_try (SetInstanceAction (cpi_adapter c) vm StartAction) (\<lambda>err. io_ret (OuterErr err))
      (\<lambda>_. io_ret (Returned x)))
    (\<lambda>r ts. setup_contract cn (cpi_pool c) vm x r ts \<and> \<not> refused_of is_new_volume ts \<and> (\<forall>e. r \<noteq> Ok (InnerErr e)))"
  apply (rule emits_try, rule SetInstanceAction_law [THEN emits_mono], rule emits_afterI)
  using not_refused_of [of is_new_volume]
    apply (auto simp: setup_contract_def setup_step_def)
  done

lemma finish_vm_contract:
  "emits (finish_vm c vm nets env) (\<lambda>r ts. setup_contract cn (cpi_pool c) vm (vm, nets) r ts \<and>
     \<not> refused_of is_new_volume ts \<and> (\<forall>e. r \<noteq> Ok (InnerErr e)))"
  unfolding finish_vm_def outer_def
  apply (rule emits_try, rule writeAgentFileToVM_contract [THEN emits_mono], rule emits_afterI)
    apply (rule start_vm_contract [THEN emits_mono])
  subgoal for r ts x ra tsa
    using write_agent_setup [of "cpi_pool c" vm r ts] setup_contract_prepend [of cn "cpi_pool c" vm ts "(vm, nets)" ra tsa]
    by auto
  subgoal for r ts e using write_agent_setup [of "cpi_pool c" vm r ts] by (auto simp: setup_contract_def)
  subgoal for r ts p using write_agent_setup [of "cpi_pool c" vm r ts] by (auto simp: setup_contract_def)
  done

lemma finish_after_read:
  assumes "effects ts = []"
  shows "emits (finish_vm c vm nets env) (\<lambda>r us. setup_contract cn (cpi_pool c) vm (vm, nets) r (ts @ us))"
  using assms by (intro finish_vm_contract [THEN emits_mono] setup_contract_prepend)
    (auto simp: no_effects_not_refused)

lemma setup_vm_contract:
  "emits (setup_vm c agent vm props nets env) (setup_contract cn (cpi_pool c) vm (vm, nets))"
  unfolding setup_vm_def outer_def inner_def attachDiskDeviceToVM_def Let_def
  apply (rule emits_try, rule GetInstanceLocation_law [unfolded reads_instance_def, THEN emits_mono], rule emits_afterI)
    apply (rule emits_if)
     apply (rule emits_try, rule emits_ext)
     apply (simp)
     apply (rule emits_try, rule CreateStoragePoolVolume_law [unfolded sends_one_def, THEN emits_mono], rule emits_afterI)
     apply (rule emits_try, rule attach_disk_device [unfolded attachDiskDeviceToVM_def, THEN emits_mono], rule emits_afterI)
     apply (rule finish_vm_contract [THEN emits_mono])
  subgoal for r ts x u ra tsa xa rb tsb xb rc us
    using setup_contract_prepend [of cn "cpi_pool c" vm "ts @ EvUuid (Inr u) # tsa @ tsb" "(vm, nets)" rc us]
    by auto
  subgoal using not_refused_of [of is_settings_volume] by (auto simp: setup_contract_def)
  subgoal using not_refused_of [of is_settings_volume] by (auto simp: setup_contract_def)
  subgoal using not_refused_of [of is_settings_volume] by (auto simp: setup_contract_def)
  subgoal using not_refused_of [of is_settings_volume] by (auto simp: setup_contract_def)
  subgoal by (auto simp: setup_contract_def)
  subgoal by (rule finish_after_read) auto
  by (auto simp: setup_contract_def)

lemma gated_nonempty: "gated cn r ts \<Longrightarrow> ts \<noteq> []"
  by (auto simp: gated_def)

lemma with_cleanup_contract:
  fixes x :: 'b
  assumes "emits body (setup_contract cn (cpi_pool c) vm x)"
  shows "emits (with_cleanup c vm body) (\<lambda>r ts. \<exists>pre suf. ts = pre @ suf \<and>
    cleanup_contract cn (cpi_pool c) (path vm) vm x r pre suf)"
  unfolding with_cleanup_def
proof (rule emits_bind, rule emits_mono [OF assms], rule emits_afterI)
  fix r and ts y assume s: "setup_contract cn (cpi_pool c) vm x r ts" and r: "r = Ok y"
  have stay: "\<exists>pre suf. ts @ us = pre @ suf \<and> cleanup_contract cn (cpi_pool c) (path vm) vm x r' pre suf"
    if "us = []" "cleanup_contract cn (cpi_pool c) (path vm) vm x r' ts []" for us and r' :: "'b res"
    using that by auto
  show "emits (case y of Returned x \<Rightarrow> io_ret x | OuterErr e \<Rightarrow> io_try (DeleteVM c vm) (\<lambda>_. io_fail e) (\<lambda>_. io_fail e)
      | InnerErr e \<Rightarrow> io_fail e) (\<lambda>r' us. \<exists>pre suf. ts @ us = pre @ suf \<and>
        cleanup_contract cn (cpi_pool c) (path vm) vm x r' pre suf)"
  proof (cases y)
    case (Returned z)
    then show ?thesis using s r stay [of "[]" "Ok z"] refused_of_refused
      by (auto simp: setup_contract_def cleanup_contract_def)
  next
    case (InnerErr e)
    then show ?thesis using s r stay [of "[]" "Err e"] by (auto simp: setup_contract_def cleanup_contract_def)
  next
    case (OuterErr e)
    have "emits (io_try (DeleteVM c vm) (\<lambda>_. io_fail e) (\<lambda>_. io_fail e)) (\<lambda>r' us.
        cleanup_contract cn (cpi_pool c) (path vm) vm x r' ts us)"
      apply (rule emits_try, rule emits_mono [OF emits_conj [OF all_gated(5) DeleteVM_contract]], rule emits_afterI)
      using s r OuterErr gated_nonempty by (auto simp: setup_contract_def cleanup_contract_def)
    then show ?thesis unfolding OuterErr scoped.case by (rule emits_mono) blast
  qed
next
  fix r and ts e assume "setup_contract cn (cpi_pool c) vm x r ts" "r = Err e"
  then show "emits (io_fail e) (\<lambda>r' us. \<exists>pre suf. ts @ us = pre @ suf \<and>
    cleanup_contract cn (cpi_pool c) (path vm) vm x r' pre suf)" by (simp add: setup_contract_def)
next
  fix r and ts p assume "setup_contract cn (cpi_pool c) vm x r ts" "r = Panic p"
  then show "\<exists>pre suf. ts = pre @ suf \<and> cleanup_contract cn (cpi_pool c) (path vm) vm x (Panic p) pre suf"
    by (intro exI [of _ ts] exI [of _ "[]"]) (auto simp: setup_contract_def cleanup_contract_def)
qed

lemma create_then_setup:
  assumes "meta_Name m = ''vm-'' @ u" and "effects us = []" and "EvUuid (Inr u) \<in> set us"
  shows "emits (io_wrap (createVMWithLock c m) msg (\<lambda>_. with_cleanup c (''vm-'' @ u) (setup_vm c agent (''vm-'' @ u) props nets env)))
    (\<lambda>r ts. create_vm_contract cn (cpi_pool c) path r (us @ ts))"
proof (rule emits_wrap, rule createVMWithLock_contract [THEN emits_mono], rule emits_afterI)
  fix r :: "unit res" and ts x
  let ?q = "ReqCreateInstance (target_conn (meta_Target m) cn) (instances_post_of m)"
  assume "lock_bracket (lock_Enabled (cfg_CreateVMLock (conf_Server (cpi_config c)))) ?q r ts" and "r = Ok x"
  then have ts: "effects ts = [?q]" "\<not> refused ts" by (auto simp: lock_bracket_def)
  show "emits (with_cleanup c (''vm-'' @ u) (setup_vm c agent (''vm-'' @ u) props nets env))
     (\<lambda>r' vs. create_vm_contract cn (cpi_pool c) path r' (us @ ts @ vs))"
  proof (rule with_cleanup_contract [OF setup_vm_contract, THEN emits_mono], elim exE conjE)
    fix r' :: "(string \<times> networks) res" and vs pre suf
    assume vs: "vs = pre @ suf" and cl: "cleanup_contract cn (cpi_pool c) (path (''vm-'' @ u)) (''vm-'' @ u) (''vm-'' @ u, nets) r' pre suf"
    have quiet: "\<not> refused us" using no_effects_not_refused [OF assms(2)] .
    have "\<not> refused_of P us" "\<not> refused_of P ts" for P using quiet ts refused_of_refused by blast+
    moreover have "effects (us @ ts @ pre) = ?q # effects pre" using assms(2) ts(1) by simp
    moreover have "list_all (setup_step cn (cpi_pool c) (''vm-'' @ u) (us @ ts @ pre)) (effects pre)"
      using cl setup_steps_append(1) [where ts = "us @ ts" and us = pre] by (simp add: cleanup_contract_def)
    moreover have "EvUuid (Inr u) \<in> set (us @ ts @ vs)" "us @ ts @ vs = (us @ ts @ pre) @ suf"
      using assms(3) vs by simp_all
    ultimately show "create_vm_contract cn (cpi_pool c) path r' (us @ ts @ vs)"
      unfolding create_vm_contract_def using cl assms(1) quiet ts(2)
      by (intro disjI2 exI [of _ u] exI [of _ m] exI [of _ "effects pre"] exI [of _ "us @ ts @ pre"] exI [of _ suf])
         (simp add: cleanup_contract_def)
  qed
next
  fix r :: "unit res" and ts e
  assume "lock_bracket (lock_Enabled (cfg_CreateVMLock (conf_Server (cpi_config c))))
    (ReqCreateInstance (target_conn (meta_Target m) cn) (instances_post_of m)) r ts" and "r = Err e"
  then show "emits (io_fail (WrapError e msg)) (\<lambda>r' vs. create_vm_contract cn (cpi_pool c) path r' (us @ ts @ vs))"
    using assms create_vm_unfinished [where ts = "us @ ts" and u = u and m = m and r = "Err (WrapError e msg)"]
    by (auto simp: lock_bracket_def create_vm_nothing)
next
  fix r :: "unit res" and ts p
  assume "lock_bracket (lock_Enabled (cfg_CreateVMLock (conf_Server (cpi_config c))))
    (ReqCreateInstance (target_conn (meta_Target m) cn) (instances_post_of m)) r ts" and "r = Panic p"
  then show "create_vm_contract cn (cpi_pool c) path (Panic p) (us @ ts)"
    using assms create_vm_unfinished [where ts = "us @ ts" and u = u and m = m and r = "Panic p"]
    by (auto simp: lock_bracket_def create_vm_nothing)
qed

lemma new_vm_cid: "new_cid (''vm-'' @ u) = io_ret (''vm-'' @ u)"
  by simp

lemma io_bind_ret_left: "io_bind (io_ret x) k = k x"
  by (simp add: io_bind_def)

lemma CreateVMV2_contract:
  "emits (CreateVMV2 c agent stemcell cprops nets env) (create_vm_contract cn (cpi_pool c) path)"
  unfolding CreateVMV2_def Let_def new_vm_cid io_bind_ret_left
  apply (rule emits_bind, rule IsConnected_law [THEN emits_mono], rule emits_afterI)
    apply (rule emits_wrap, rule emits_ext, rule emits_afterI)
     apply (rule emits_wrap, rule emits_lift, rule emits_afterI)
     apply (rule emits_wrap, rule IsManagedNetwork_law [unfolded only_reads_def, THEN emits_mono], rule emits_afterI)
     apply (rule emits_bind, rule emits_lift, rule emits_afterI)
     apply (rule emits_prod, rule emits_prod)
     apply (rule emits_wrap, rule GetStemcellDescription_law [unfolded only_reads_def, THEN emits_mono], rule emits_afterI)
     apply (rule emits_bind, rule emits_lift, rule emits_afterI)
  subgoal for r ts x xa u xc props ra tsa xe xf xg nics b newNetworks target rb tsb xh xi cfg
    using create_then_setup [where m = "vm_metadata c (''vm-'' @ u) stemcell props target
        (gm_put ''root'' (root_device (cpi_pool c)) nics) cfg" and u = u and us = "ts @ EvUuid (Inr u) # tsa @ tsb"]
    by (auto simp: vm_metadata_def)
  by (auto simp: create_vm_nothing)

end

section \<open>Properties\<close>

text \<open>
  C1.  Creating a VM sends nothing, or first the request for one instance under a fresh name \<open>vm-\<close>
  plus a generated identifier, and then only requests that set this VM up: its ephemeral volume, updates
  of its configuration, its settings volume, its start.  A success names that VM, and none of its
  requests was refused.  If the run goes on to remove the VM, the removal is a complete run of
  \<open>DeleteVM\<close>.  A refused settings volume leads to the removal (or a crash); a refused ephemeral volume
  never does.
\<close>

theorem create_vm_requests:
  "emits (CreateVMV2 (cpi_on a k L c) agent stemcell cprops nets env)
     (create_vm_contract (conn_of a) (cpi_pool c) (settings_path c))"
  using built.CreateVMV2_contract by simp

text \<open>
  C2.  Deleting a VM deletes exactly one instance, the VM itself, and after it only the volumes behind the
  VM's own \<open>config\<close> and \<open>ephemeral\<close> disk devices as the server reported them; never a persistent disk.
  A success means that either the server does not know the VM, or all of these were requested in order;
  in both cases the settings file was removed last.  After a refused request nothing more is sent, and
  the call does not succeed.
\<close>

theorem delete_vm_requests:
  "emits (DeleteVM (cpi_on a k L c) vm) (delete_vm_contract (conn_of a) (cpi_pool c) (settings_path c vm) vm)"
  using built.DeleteVM_contract by simp


end
