(* ===== verification/Cloud.thy ===== *)
theory Cloud
  imports Steps CpiVmProps
begin

text \<open>
  An abstract cloud: which instances exist with which devices, and which volumes exist where.  Its steps
  say what an accepted request makes of it.  \<open>shows_cloud view a L c\<close> is the assumption that a world
  shows such a cloud through \<open>view\<close>: accepted requests are carried out, refused ones change nothing, and
  the instances and volumes the server reports are those of the cloud.
\<close>

section \<open>The cloud\<close>

text \<open>A volume is known by its location and its name; there is one storage pool.\<close>

record cloud =
  cl_devices :: "string \<rightharpoonup> devices"
  cl_volumes :: "(string \<times> string) set"

text \<open>A request with a target is about that location; without one the server chooses.\<close>

definition at_target :: "conn \<Rightarrow> string \<Rightarrow> bool" where
  "at_target cn l \<longleftrightarrow> conn_target cn = [] \<or> conn_target cn = l"

fun is_quiet :: "request \<Rightarrow> bool" where
  "is_quiet (ReqCreateInstance _ _) = False"
| "is_quiet (ReqDeleteInstance _ _) = False"
| "is_quiet (ReqUpdateInstance _ _ _ _) = False"
| "is_quiet (ReqCreateVolume _ _ _) = False"
| "is_quiet (ReqCreateVolumeFromISO _ _ _) = False"
| "is_quiet (ReqDeleteVolume _ _ _ _) = False"
| "is_quiet (ReqCopyVolume _ _ _ _ _ _) = False"
| "is_quiet _ = True"

inductive cloud_step :: "request \<Rightarrow> cloud \<Rightarrow> cloud \<Rightarrow> bool" where
  create_instance: "cloud_step (ReqCreateInstance cn post) c
     (c\<lparr>cl_devices := (cl_devices c)(ipost_name post \<mapsto> ip_devices (ipost_put post))\<rparr>)"
| delete_instance: "cloud_step (ReqDeleteInstance cn n) c (c\<lparr>cl_devices := (cl_devices c)(n := None)\<rparr>)"
| update_instance: "cl_devices c n \<noteq> None \<Longrightarrow>
     cloud_step (ReqUpdateInstance cn n put t) c (c\<lparr>cl_devices := (cl_devices c)(n \<mapsto> ip_devices put)\<rparr>)"
| create_volume: "at_target cn l \<Longrightarrow> (l, svpost_name post) \<notin> cl_volumes c \<Longrightarrow>
     cloud_step (ReqCreateVolume cn p post) c (c\<lparr>cl_volumes := insert (l, svpost_name post) (cl_volumes c)\<rparr>)"
| create_from_iso: "at_target cn l \<Longrightarrow> (l, iso_name args) \<notin> cl_volumes c \<Longrightarrow>
     cloud_step (ReqCreateVolumeFromISO cn p args) c (c\<lparr>cl_volumes := insert (l, iso_name args) (cl_volumes c)\<rparr>)"
| delete_volume: "cloud_step (ReqDeleteVolume cn p ty v) c
     (c\<lparr>cl_volumes := cl_volumes c - {(l, u). u = v \<and> at_target cn l}\<rparr>)"
| copy_volume: "at_target cn l \<Longrightarrow> (l, cp_name args) \<notin> cl_volumes c \<Longrightarrow>
     cloud_step (ReqCopyVolume cn p cn' p' vol args) c (c\<lparr>cl_volumes := insert (l, cp_name args) (cl_volumes c)\<rparr>)"
| quiet: "is_quiet q \<Longrightarrow> cloud_step q c c"

inductive_cases cloud_stepE: "cloud_step q c c'"
inductive_simps delete_volume_step: "cloud_step (ReqDeleteVolume cn p ty v) c c'"
inductive_simps delete_instance_step: "cloud_step (ReqDeleteInstance cn n) c c'"
inductive_simps stop_step: "cloud_step (ReqUpdateInstanceState cn n put t) c c'"
inductive_simps update_instance_step: "cloud_step (ReqUpdateInstance cn n put t) c c'"
inductive_simps copy_volume_step: "cloud_step (ReqCopyVolume cn p cn' p' vol args) c c'"

fun cloud_event :: "event \<Rightarrow> cloud \<Rightarrow> cloud \<Rightarrow> bool" where
  "cloud_event (EvReq q (Inr h)) c c' = cloud_step q c c'"
| "cloud_event (EvGetInstance cn n (Inr x)) c c' =
     (c' = c \<and> cl_devices c n = Some (ip_devices (ins_put (fst x))))"
| "cloud_event (EvGetVolume cn p ty v (Inr x)) c c' =
     (c' = c \<and> sv_name (fst x) = v \<and> (sv_location (fst x), v) \<in> cl_volumes c)"
| "cloud_event e c c' = (c' = c)"

definition cloud_world :: "('w \<Rightarrow> cloud) \<Rightarrow> event \<Rightarrow> 'w \<Rightarrow> 'w \<Rightarrow> bool" where
  "cloud_world view e w w' = cloud_event e (view w) (view w')"

definition shows_cloud :: "('w \<Rightarrow> cloud) \<Rightarrow> 'w some_adapter \<Rightarrow> 'w local_machine \<Rightarrow> 'w CPI \<Rightarrow> bool" where
  "shows_cloud view a L c = world_steps (cloud_world view) a L c"

lemma quiet_event: "cloud_event e c c' \<Longrightarrow> effect_of e = None \<Longrightarrow> c' = c"
  by (cases "(e, c, c')" rule: cloud_event.cases) auto

text \<open>A walk of the world on which nothing was refused is a walk of the cloud over its requests.\<close>

lemma walk_requests:
  "walk (cloud_world view) w ts w' \<Longrightarrow> \<not> refused ts \<Longrightarrow> walk cloud_step (view w) (effects ts) (view w')"
proof (induction rule: walk.induct)
  case (step e w w1 ts w')
  then have rest: "walk cloud_step (view w1) (effects ts) (view w')" by simp
  show ?case
  proof (cases "effect_of e")
    case None
    then have "view w1 = view w" using step.hyps(1) quiet_event by (auto simp: cloud_world_def)
    then show ?thesis using rest None by simp
  next
    case (Some q)
    then obtain x where e: "e = EvReq q x" by (cases e) auto
    then obtain h where "x = Inr h" using step.prems by (cases x) auto
    then show ?thesis using rest step.hyps(1) e by (auto simp: cloud_world_def intro: walk.step)
  qed
qed (simp add: walk.stay)

section \<open>Deleting a VM\<close>

text \<open>What deleting a VM means: the instance is gone, and its own volumes, and nothing else is.\<close>

definition vm_removed :: "conn \<Rightarrow> string \<Rightarrow> cloud \<Rightarrow> cloud \<Rightarrow> bool" where
  "vm_removed cn vm c c' \<longleftrightarrow> (\<exists>ds. cl_devices c vm = Some ds \<and>
     c' = c\<lparr>cl_devices := (cl_devices c)(vm := None),
       cl_volumes := cl_volumes c - {(l, v). v \<in> set (owned_disks ds) \<and> at_target cn l}\<rparr>)"

lemma walk_deletions:
  "walk cloud_step c (map (ReqDeleteVolume cn p ty) vs) c' \<longleftrightarrow>
     c' = c\<lparr>cl_volumes := cl_volumes c - {(l, v). v \<in> set vs \<and> at_target cn l}\<rparr>"
proof (induction vs arbitrary: c)
  case (Cons v vs)
  have "cl_volumes c - {(l, u). u = v \<and> at_target cn l} - {(l, u). u \<in> set vs \<and> at_target cn l} =
      cl_volumes c - {(l, u). u \<in> set (v # vs) \<and> at_target cn l}" by auto
  then show ?case using Cons.IH by (simp add: delete_volume_step)
qed auto

lemma walk_removal:
  assumes "walk cloud_step c (stop @ removal cn p vm ds) c'" and "stop = [] \<or> stop = [stop_request cn vm]"
    and "cl_devices c vm = Some ds"
  shows "vm_removed cn vm c c'"
  using assms
  by (auto simp: vm_removed_def removal_def delete_instance_step stop_request_def stop_step walk_append walk_deletions)

text \<open>While a VM is being removed, what is reported of it are the devices it had.\<close>

fun keeps_devices :: "string \<Rightarrow> request \<Rightarrow> bool" where
  "keeps_devices vm (ReqCreateInstance cn post) = (ipost_name post \<noteq> vm)"
| "keeps_devices vm (ReqUpdateInstance cn n put t) = (n \<noteq> vm)"
| "keeps_devices vm q = True"

lemma step_keeps_devices:
  "cloud_step q c c' \<Longrightarrow> keeps_devices vm q \<Longrightarrow> cl_devices c' vm = cl_devices c vm \<or> cl_devices c' vm = None"
  by (cases rule: cloud_step.cases) (auto split: if_splits)

lemma reported_devices:
  "walk (cloud_world view) w ts w' \<Longrightarrow> list_all (keeps_devices vm) (effects ts) \<Longrightarrow> reports ts cn vm ds \<Longrightarrow>
   cl_devices (view w) vm = Some ds"
proof (induction rule: walk.induct)
  case (step e w w1 ts w')
  show ?case
  proof (cases "reports ts cn vm ds")
    case True
    have "list_all (keeps_devices vm) (effects ts)" using step.prems(1) by (auto split: option.splits)
    then have w1: "cl_devices (view w1) vm = Some ds" using step.IH True by simp
    show ?thesis
    proof (cases "(e, view w, view w1)" rule: cloud_event.cases)
      case (1 q h c c')
      then show ?thesis using w1 step.hyps(1) step.prems(1) step_keeps_devices [of q "view w" "view w1" vm]
        by (auto simp: cloud_world_def)
    qed (use w1 step.hyps(1) in \<open>auto simp: cloud_world_def\<close>)
  next
    case False
    then show ?thesis using step.prems(2) step.hyps(1) by (auto simp: cloud_world_def reports_def)
  qed
qed simp

lemma DeleteVM_removes:
  assumes "shows_cloud view a L c" and "DeleteVM (cpi_on a k L c) vm s = (Ok (), s')"
  shows "vm_removed (conn_of a) vm (view (world s)) (view (world s')) \<or>
    view (world s') = view (world s) \<and>
    (\<exists>ts x. trace s' = trace s @ ts \<and> EvGetInstance (conn_of a) vm x \<in> set ts \<and> vm_absent x)"
proof -
  have "follows (cloud_world view) (DeleteVM (cpi_on a k L c) vm)"
    using walked.follows_DeleteVM [of "cloud_world view" a L c k vm] assms(1) by (simp add: shows_cloud_def)
  then obtain ts where ts: "trace s' = trace s @ ts" "walk (cloud_world view) (world s) ts (world s')"
    and con: "delete_vm_contract (conn_of a) (cpi_pool c) (settings_path c vm) vm (Ok ()) ts"
    using follows_emits [OF _ built.DeleteVM_contract assms(2)] by (metis cpi_on_simps(3))
  have "\<not> refused ts" using con by (simp add: delete_vm_contract_def)
  then have run: "walk cloud_step (view (world s)) (effects ts) (view (world s'))" using walk_requests [OF ts(2)] by blast
  consider "effects ts = []" "\<exists>x. EvGetInstance (conn_of a) vm x \<in> set ts \<and> vm_absent x"
    | ds stop where "reports ts (conn_of a) vm ds" "stop = [] \<or> stop = [stop_request (conn_of a) vm]"
        "effects ts = stop @ removal (conn_of a) (cpi_pool c) vm ds"
    using con by (auto simp: delete_vm_contract_def)
  then show ?thesis
  proof cases
    case 1
    then show ?thesis using run ts(1) by auto
  next
    case 2
    then have "list_all (keeps_devices vm) (effects ts)" by (auto simp: removal_def stop_request_def list_all_iff)
    then have "cl_devices (view (world s)) vm = Some ds" using reported_devices [OF ts(2)] 2(1) by blast
    then show ?thesis using walk_removal 2 run by metis
  qed
qed

text \<open>
  C6.  Deleting a VM refines the abstract removal.  On a world that shows a cloud, a successful \<open>DeleteVM\<close>
  has removed exactly the instance and the volumes behind its settings and ephemeral devices; or it has
  changed nothing, and the server had answered that there is no such VM.
\<close>

theorem delete_vm_refines_removal:
  assumes "shows_cloud view a L c" and "DeleteVM (cpi_on a k L c) vm s = (Ok (), s')"
  shows "vm_removed (conn_of a) vm (view (world s)) (view (world s')) \<or>
    view (world s') = view (world s) \<and>
    (\<exists>ts x. trace s' = trace s @ ts \<and> EvGetInstance (conn_of a) vm x \<in> set ts \<and> vm_absent x)"
  by (rule DeleteVM_removes [OF assms])

end
