(* ===== verification/DiskSafety.thy ===== *)
theory DiskSafety
  imports Cloud
begin

text \<open>
  No call of the CPI loses a persistent disk, except the one that is asked to delete it: an invariant of
  every call, and of every sequence of calls, on a world that shows a cloud.
\<close>

section \<open>Keeping an invariant of the world\<close>

text \<open>From a world with \<open>I\<close>, \<open>m\<close> leads to a world with \<open>I\<close>, and what it returns satisfies \<open>Q\<close>.\<close>

definition keeps :: "('w \<Rightarrow> bool) \<Rightarrow> ('e, 'w, 'a) io \<Rightarrow> ('a \<Rightarrow> bool) \<Rightarrow> bool" where
  "keeps I m Q \<longleftrightarrow> (\<forall>s. I (world s) \<longrightarrow> I (world (snd (m s))) \<and> (\<forall>x. fst (m s) = Ok x \<longrightarrow> Q x))"

abbreviation maintains :: "('w \<Rightarrow> bool) \<Rightarrow> ('e, 'w, 'a) io \<Rightarrow> bool" where
  "maintains I m \<equiv> keeps I m (\<lambda>_. True)"

named_theorems keep_rules \<open>every combinator keeps the invariant\<close>

lemma keepsI:
  "(\<And>s r s'. m s = (r, s') \<Longrightarrow> I (world s) \<Longrightarrow> I (world s') \<and> (\<forall>x. r = Ok x \<longrightarrow> Q x)) \<Longrightarrow> keeps I m Q"
  unfolding keeps_def by (metis prod.collapse)

lemma keepsD: "keeps I m Q \<Longrightarrow> m s = (r, s') \<Longrightarrow> I (world s) \<Longrightarrow> I (world s') \<and> (\<forall>x. r = Ok x \<longrightarrow> Q x)"
  unfolding keeps_def by (metis fst_conv snd_conv)

lemma keeps_weaken: "keeps I m P \<Longrightarrow> (\<And>x. P x \<Longrightarrow> Q x) \<Longrightarrow> keeps I m Q"
  unfolding keeps_def by blast

lemma keeps_basic [keep_rules]:
  "maintains I (io_ret x)" "maintains I (io_fail e)" "maintains I (io_panic p)" "maintains I (io_lift q)"
  by (cases q; simp add: keeps_def io_run)+

lemma keeps_try:
  assumes "keeps I m P" and "\<And>e. keeps I (h e) Q" and "\<And>x. P x \<Longrightarrow> keeps I (k x) Q"
  shows "keeps I (io_try m h k) Q"
proof (rule keepsI)
  fix s r s' assume run: "io_try m h k s = (r, s')" and "I (world s)"
  obtain q s1 where m: "m s = (q, s1)" by (cases "m s")
  have s1: "I (world s1)" and P: "\<And>x. q = Ok x \<Longrightarrow> P x" using keepsD [OF assms(1) m] \<open>I (world s)\<close> by auto
  then show "I (world s') \<and> (\<forall>x. r = Ok x \<longrightarrow> Q x)"
    using run m keepsD [OF assms(2) _ s1] keepsD [OF assms(3) [OF P] _ s1] by (cases q) (auto simp: io_try_run)
qed

lemma keeps_bind: "keeps I m P \<Longrightarrow> (\<And>x. P x \<Longrightarrow> keeps I (k x) Q) \<Longrightarrow> keeps I (io_bind m k) Q"
  unfolding io_bind_def by (rule keeps_try) (auto simp: keeps_def io_run)

lemma keeps_wrap: "keeps I m P \<Longrightarrow> (\<And>x. P x \<Longrightarrow> keeps I (k x) Q) \<Longrightarrow> keeps I (io_wrap m msg k) Q"
  unfolding io_wrap_def by (rule keeps_try) (auto simp: keeps_def io_run)

lemmas keeps_sequence [keep_rules] = keeps_try [where P = "\<lambda>_. True", simplified]
  keeps_bind [where P = "\<lambda>_. True", simplified] keeps_wrap [where P = "\<lambda>_. True", simplified]

lemma keeps_lift: "keeps I (io_lift q) (\<lambda>x. q = Inr x)"
  by (cases q) (simp_all add: keeps_def io_run)

lemmas keeps_lifted [keep_rules] = keeps_bind [OF keeps_lift] keeps_wrap [OF keeps_lift]

lemma keeps_finally [keep_rules]:
  assumes "maintains I m" and "maintains I d"
  shows "maintains I (io_finally m d)"
proof (rule keepsI)
  fix s r s' assume run: "io_finally m d s = (r, s')" and "I (world s)"
  obtain q s1 where m: "m s = (q, s1)" by (cases "m s")
  obtain q' s2 where d: "d s1 = (q', s2)" by (cases "d s1")
  have "I (world s1)" using keepsD [OF assms(1) m] \<open>I (world s)\<close> by blast
  then have "I (world s2)" using keepsD [OF assms(2) d] by blast
  moreover have "s' = s2" using run m d by (cases q') (auto simp: io_finally_run)
  ultimately show "I (world s') \<and> (\<forall>x. r = Ok x \<longrightarrow> True)" by simp
qed

lemma keeps_for: "(\<And>x. x \<in> set xs \<Longrightarrow> maintains I (f x)) \<Longrightarrow> maintains I (io_for xs f)"
  by (induction xs) (auto intro!: keep_rules)

lemma keeps_branch [keep_rules]:
  "(b \<Longrightarrow> keeps I m Q) \<Longrightarrow> (\<not> b \<Longrightarrow> keeps I n Q) \<Longrightarrow> keeps I (if b then m else n) Q"
  "(o' = None \<Longrightarrow> keeps I m Q) \<Longrightarrow> (\<And>y. o' = Some y \<Longrightarrow> keeps I (k y) Q) \<Longrightarrow>
     keeps I (case o' of None \<Rightarrow> m | Some y \<Rightarrow> k y) Q"
  "(\<And>x y. p = (x, y) \<Longrightarrow> keeps I (g x y) Q) \<Longrightarrow> keeps I (case p of (x, y) \<Rightarrow> g x y) Q"
  by (auto split: option.split prod.split)

text \<open>Whatever the walk of a run is shown to keep, the run keeps.\<close>

lemma keeps_walk:
  assumes "follows R m" and "emits m P"
    and "\<And>w r ts w'. P r ts \<Longrightarrow> walk R w ts w' \<Longrightarrow> I w \<Longrightarrow> I w' \<and> (\<forall>x. r = Ok x \<longrightarrow> Q x)"
  shows "keeps I m Q"
proof (rule keepsI)
  fix s r s' assume run: "m s = (r, s')" and "I (world s)"
  obtain ts where "P r ts" and "walk R (world s) ts (world s')" using follows_emits [OF assms(1,2) run] .
  then show "I (world s') \<and> (\<forall>x. r = Ok x \<longrightarrow> Q x)" using assms(3) \<open>I (world s)\<close> by blast
qed

section \<open>A safe disk\<close>

text \<open>
  The disk exists somewhere, and no instance has it for its settings or ephemeral disk: those are the
  volumes the CPI deletes on its own.
\<close>

definition safe_disk :: "string \<Rightarrow> cloud \<Rightarrow> bool" where
  "safe_disk p c \<longleftrightarrow> (\<exists>l. (l, p) \<in> cl_volumes c) \<and> (\<forall>vm ds. cl_devices c vm = Some ds \<longrightarrow> p \<notin> set (owned_disks ds))"

fun harmless :: "string \<Rightarrow> request \<Rightarrow> bool" where
  "harmless p (ReqCreateInstance cn post) = (p \<notin> set (owned_disks (ip_devices (ipost_put post))))"
| "harmless p (ReqUpdateInstance cn n put t) = (p \<notin> set (owned_disks (ip_devices put)))"
| "harmless p (ReqDeleteVolume cn pool ty v) = (v \<noteq> p)"
| "harmless p q = True"

lemma harmless_step: "cloud_step q c c' \<Longrightarrow> harmless p q \<Longrightarrow> safe_disk p c \<Longrightarrow> safe_disk p c'"
  by (cases rule: cloud_step.cases) (auto simp: safe_disk_def split: if_splits)

lemma harmless_walk:
  "walk (cloud_world view) w ts w' \<Longrightarrow> list_all (harmless p) (effects ts) \<Longrightarrow> safe_disk p (view w) \<Longrightarrow> safe_disk p (view w')"
proof (induction rule: walk.induct)
  case (step e w w1 ts w')
  have "safe_disk p (view w1)"
  proof (cases "(e, view w, view w1)" rule: cloud_event.cases)
    case (1 q h c c')
    then show ?thesis using step.hyps(1) step.prems harmless_step by (auto simp: cloud_world_def)
  qed (use step.hyps(1) step.prems in \<open>auto simp: cloud_world_def\<close>)
  moreover have "list_all (harmless p) (effects ts)" using step.prems(1) by (auto split: option.splits)
  ultimately show ?case using step.IH by blast
qed simp

text \<open>The devices of an instance, edited.\<close>

lemma owned_member: "v \<in> set (owned_disks ds) \<longleftrightarrow> (\<exists>n d. (n, d) \<in> set ds \<and> gm_get d ''type'' = ''disk'' \<and>
    (n = DISK_DEVICE_CONFIG \<or> n = DISK_DEVICE_EPHEMERAL) \<and> v = gm_get d ''source'')"
  by (force simp: owned_disks_def)

lemma set_put: "set (gm_put k v m) \<subseteq> insert (k, v) (set m)"
  by (induction m) auto

lemma set_del: "set (gm_del k m) \<subseteq> set m"
  by (auto simp: AList.delete_eq)

lemma owned_put:
  "v \<in> set (owned_disks (gm_put n d ds)) \<Longrightarrow> v \<in> set (owned_disks ds) \<or>
     (n = DISK_DEVICE_CONFIG \<or> n = DISK_DEVICE_EPHEMERAL) \<and> v = gm_get d ''source''"
  using set_put [of n d ds] by (fastforce simp: owned_member)

lemma owned_del: "v \<in> set (owned_disks (gm_del n ds)) \<Longrightarrow> v \<in> set (owned_disks ds)"
  using set_del [of n ds] by (fastforce simp: owned_member)

lemma owned_find: "gm_find (disks_of ds) DISK_DEVICE_CONFIG = Some d \<Longrightarrow> gm_get d ''source'' \<in> set (owned_disks ds)"
  by (auto simp: owned_member disks_of_def dest!: map_of_SomeD) blast

lemma root_not_owned: "owned_disks [(''root'', d)] = []"
  by (simp add: owned_disks_def DISK_DEVICE_CONFIG_def DISK_DEVICE_EPHEMERAL_def)

lemma network_devices_owned:
  "network_loop parent asg managed nets n ds acc t = Inr (ds', nets', t') \<Longrightarrow> owned_disks ds = [] \<Longrightarrow> owned_disks ds' = []"
proof (induction parent asg managed nets n ds acc t rule: network_loop.induct)
  case (2 parent asg managed key net nets n ds acc t)
  have eth: "eth_name n \<noteq> DISK_DEVICE_CONFIG \<and> eth_name n \<noteq> DISK_DEVICE_EPHEMERAL"
    by (simp add: eth_name_def DISK_DEVICE_CONFIG_def DISK_DEVICE_EPHEMERAL_def)
  have "v \<notin> set (owned_disks (gm_put (eth_name n) (nic_settings parent managed net n) ds))" for v
    using owned_put [of v "eth_name n" "nic_settings parent managed net n" ds] "2.prems"(2) eth by auto
  then have "owned_disks (gm_put (eth_name n) (nic_settings parent managed net n) ds) = []"
    by (metis hd_in_set)
  then show ?case using "2.IH" "2.prems"(1) by (auto simp: Let_def split: if_splits)
qed simp

section \<open>What the CPI needs for a safe disk\<close>

definition attaches_safely :: "string \<Rightarrow> string \<Rightarrow> strmap \<Rightarrow> bool" where
  "attaches_safely p d dev \<longleftrightarrow>
     (d = DISK_DEVICE_CONFIG \<or> d = DISK_DEVICE_EPHEMERAL \<longrightarrow> gm_get dev ''source'' \<noteq> p)"

locale disk_keeper =
  fixes I :: "'w \<Rightarrow> bool" and c :: "'w CPI" and p :: string
  assumes persistent: "I w \<Longrightarrow> prefix DISK_PERSISTENT_PREFIX p"
    and safe_delete: "v \<noteq> p \<Longrightarrow> maintains I (DeleteStoragePoolVolume (cpi_adapter c) pool v)"
    and safe_create: "p \<notin> set (owned_disks (meta_Devices m)) \<Longrightarrow> maintains I (CreateInstance (cpi_adapter c) m)"
    and safe_attach: "attaches_safely p d dev \<Longrightarrow> maintains I (AttachDevice (cpi_adapter c) vm d dev)"
    and safe_devices: "keeps I (GetDevices (cpi_adapter c) vm) (\<lambda>ds. p \<notin> set (owned_disks ds))"
    and safe_others: "maintains I (IsConnected (cpi_adapter c))" "maintains I (GetStemcellDescription (cpi_adapter c) al)"
      "maintains I (FindExistingImage (cpi_adapter c) descr)" "maintains I (IsManagedNetwork (cpi_adapter c) net)"
      "maintains I (GetInstanceLocation (cpi_adapter c) vm)" "maintains I (GetStoragePoolVolume (cpi_adapter c) pool v)"
      "maintains I (IsInstanceStopped (cpi_adapter c) vm)" "maintains I (SetInstanceAction (cpi_adapter c) vm act)"
      "maintains I (UpdateInstanceDescription (cpi_adapter c) vm descr)"
      "maintains I (ResizeStoragePoolVolume (cpi_adapter c) pool v sz)"
      "maintains I (UpdateStoragePoolVolumeDescription (cpi_adapter c) pool v descr)"
      "maintains I (CreateStoragePoolVolume (cpi_adapter c) tg pool v sz)"
      "maintains I (CreateStoragePoolVolumeFromISO (cpi_adapter c) tg pool v img)"
      "maintains I (DeleteStoragePoolVolumeSnapshot (cpi_adapter c) pool v sn)"
      "maintains I (CreateStoragePoolVolumeSnapshot (cpi_adapter c) pool v sn descr)"
      "maintains I (CreateAndUploadImage (cpi_adapter c) im)" "maintains I (DeleteImage (cpi_adapter c) al)"
      "maintains I (DeleteInstance (cpi_adapter c) vm)" "maintains I (DetachDeviceByName (cpi_adapter c) vm d)"
      "maintains I (DetachDeviceBySource (cpi_adapter c) vm v)"
      "maintains I (ColocateStoragePoolVolumeWithInstance (cpi_adapter c) vm pool v)"
      "maintains I (am_Read (cpi_agentMgr c) vm)" "maintains I (am_Delete (cpi_agentMgr c) vm)"
    and safe_read: "keeps I (am_Read (cpi_agentMgr c) vm) wf_agent_env"
    and safe_write: "wf_agent_env e \<Longrightarrow> maintains I (am_Write (cpi_agentMgr c) vm e)"
    and safe_libraries: "maintains I (gen_uuid c)" "maintains I (io_ext EvTryLock (cpi_TryLock c))"
      "maintains I (io_ext EvUnlock (cpi_Unlock c))" "maintains I (io_ext (EvOpenFile f) (cpi_OpenFile c f))"
      "maintains I (io_ext (EvGzipReader f) (cpi_GzipReader c f))"
begin

lemmas keeper_rules [keep_rules] = safe_delete safe_create safe_attach safe_others safe_write safe_libraries
  keeps_bind [OF safe_read] keeps_wrap [OF safe_read]

lemma keeps_new_cid [keep_rules]: "maintains I (new_cid x)"
  by (auto simp: new_cid_def intro!: keep_rules)

lemma keeps_disk_cids [keep_rules]: "maintains I (disk_cids names)"
  by (induction names) (auto intro!: keep_rules)

lemma disk_device_source: "gm_get (disk_device c v) ''source'' = v"
  by (simp add: disk_device_def gm_get_def)

text \<open>The volumes that the CPI makes for a VM are not persistent disks.\<close>

lemma own_prefixes:
  "\<not> prefix DISK_PERSISTENT_PREFIX (DISK_CONFIGURATION_PREFIX @ u)"
  "\<not> prefix DISK_PERSISTENT_PREFIX (DISK_EPHEMERAL_PREFIX @ u)"
  by (simp_all add: DISK_PERSISTENT_PREFIX_def DISK_CONFIGURATION_PREFIX_def DISK_EPHEMERAL_PREFIX_def)

lemma other_attaches:
  assumes "\<not> prefix DISK_PERSISTENT_PREFIX v"
  shows "maintains I (attachDiskDeviceToVM c vm d v)"
proof (cases "\<exists>w. I w")
  case True
  then have "v \<noteq> p" using assms persistent by blast
  then show ?thesis by (auto simp: attachDiskDeviceToVM_def attaches_safely_def disk_device_source intro!: keep_rules)
qed (simp add: keeps_def)

lemmas own_attaches [keep_rules] = own_prefixes [THEN other_attaches]

lemma persistent_attaches [keep_rules]:
  "maintains I (attachDiskDeviceToVM c vm DISK_DEVICE_PERSISTENT1 v)"
  "maintains I (attachDiskDeviceToVM c vm DISK_DEVICE_PERSISTENT2 v)"
  by (auto simp: attachDiskDeviceToVM_def attaches_safely_def DISK_DEVICE_CONFIG_def DISK_DEVICE_EPHEMERAL_def
      DISK_DEVICE_PERSISTENT1_def DISK_DEVICE_PERSISTENT2_def intro!: keep_rules)

lemma disks_found:
  "keeps I (findDisksAttachedToVm c vm) (\<lambda>disks. \<exists>ds. disks = disks_of ds \<and> p \<notin> set (owned_disks ds))"
  unfolding findDisksAttachedToVm_def
  by (rule keeps_bind [OF safe_devices]) (auto simp: keeps_def io_run)

lemmas find_rules [keep_rules] = keeps_bind [OF disks_found] keeps_wrap [OF disks_found]

lemma keeps_writeAgentFile [keep_rules]:
  "wf_agent_env e \<Longrightarrow> maintains I (writeAgentFileToVM c vm e)"
  by (auto simp: writeAgentFileToVM_def Let_def dest!: owned_find intro!: keep_rules)

lemma keeps_HasVM [keep_rules]: "maintains I (HasVM c vm)"
  by (auto simp: HasVM_def intro!: keep_rules)

lemma keeps_delete_disks [keep_rules]:
  "p \<notin> set (owned_disks ds) \<Longrightarrow> maintains I (io_for (disks_of ds) (delete_vm_disk c))"
proof (rule keeps_for)
  fix nd assume nd: "nd \<in> set (disks_of ds)" and p: "p \<notin> set (owned_disks ds)"
  obtain n d where n: "nd = (n, d)" by (cases nd)
  have "n = DISK_DEVICE_CONFIG \<or> n = DISK_DEVICE_EPHEMERAL \<Longrightarrow> gm_get d ''source'' \<in> set (owned_disks ds)"
    using nd unfolding n owned_member disks_of_def by auto
  then have "n = DISK_DEVICE_CONFIG \<or> n = DISK_DEVICE_EPHEMERAL \<Longrightarrow> gm_get d ''source'' \<noteq> p" using p by auto
  then show "maintains I (delete_vm_disk c nd)" by (auto simp: n delete_vm_disk_def Let_def intro!: keep_rules)
qed

lemma keeps_DeleteVM [keep_rules]: "maintains I (DeleteVM c vm)"
  by (auto simp: DeleteVM_def intro!: keep_rules)

lemma keeps_CreateVMV2:
  assumes "pred_option wf_map env"
  shows "maintains I (CreateVMV2 c aid sc props nets env)"
proof -
  have planned: "p \<notin> set (owned_disks (gm_put ''root'' (root_device pool) nics))"
    if "network_loop parent asg managed nets' 0 [] [] t = Inr (nics, nets'', t')" for parent asg managed nets' t nics nets'' t' pool
    using network_devices_owned [OF that]
    by (auto simp: DISK_DEVICE_CONFIG_def DISK_DEVICE_EPHEMERAL_def owned_disks_def [of "[]"] dest!: owned_put)
  show ?thesis using assms
    by (auto simp: CreateVMV2_def createVMWithLock_def vm_metadata_def with_cleanup_def setup_vm_def finish_vm_def
        outer_def inner_def Let_def network_loop_wf planned intro!: keep_rules split: scoped.split)
qed

lemma keeps_calls:
  "maintains I (CreateStemcell c img sprops)" "maintains I (DeleteStemcell c al)" "maintains I (RebootVM c vm)"
  "maintains I (SetVMMetadata c vm meta)" "maintains I (CreateDisk c sz assoc)" "maintains I (HasDisk c d)"
  "d \<noteq> p \<Longrightarrow> maintains I (DeleteDisk c d)" "maintains I (ResizeDisk c d sz)" "maintains I (AttachDiskV2 c vm d)"
  "maintains I (DetachDisk c vm d)" "maintains I (GetDisks c vm)" "maintains I (SetDiskMetadata c d meta)"
  "maintains I (SnapshotDisk c d)" "maintains I (DeleteSnapshot c sn)"
  by (auto simp: CreateStemcell_def predeploy_def predeploy_metadata_def root_not_owned DeleteStemcell_def RebootVM_def
      SetVMMetadata_def CreateDisk_def DeleteDisk_def HasDisk_def ResizeDisk_def AttachDiskV2_def choose_slot_def
      DetachDisk_def GetDisks_def SetDiskMetadata_def SnapshotDisk_def DeleteSnapshot_def Let_def
      intro!: keep_rules split: if_splits)

end

section \<open>Both adapters provide it on a cloud\<close>

definition disk_invariant :: "('w \<Rightarrow> cloud) \<Rightarrow> 'w some_adapter \<Rightarrow> 'w local_machine \<Rightarrow> 'w CPI \<Rightarrow> string \<Rightarrow> 'w \<Rightarrow> bool" where
  "disk_invariant view a L c p w \<longleftrightarrow>
     shows_cloud view a L c \<and> prefix DISK_PERSISTENT_PREFIX p \<and> safe_disk p (view w)"

lemma keeps_invariant:
  "(shows_cloud view a L c \<Longrightarrow> keeps (\<lambda>w. safe_disk p (view w)) m Q) \<Longrightarrow> keeps (disk_invariant view a L c p) m Q"
  by (auto simp: keeps_def disk_invariant_def)

lemma keeps_harmless:
  assumes "follows (cloud_world view) m" and "emits m (\<lambda>r ts. list_all (harmless p) (effects ts))"
  shows "maintains (\<lambda>w. safe_disk p (view w)) m"
  by (rule keeps_walk [OF assms]) (auto intro: harmless_walk)

text \<open>An update is computed from the devices the cloud has.\<close>

lemma updated_devices:
  assumes "updates_instance ts cn n f g" and "walk (cloud_world view) w ts w'"
  obtains i put t where "cl_devices (view w) n = Some (ip_devices (ins_put i))"
    and "effects ts = [ReqUpdateInstance cn n put (g t)]" and "ip_devices put = ip_devices (f i (ins_put i))"
proof -
  obtain i t put where *: "hd ts = EvGetInstance cn n (Inr (i, t))" "effects ts = [ReqUpdateInstance cn n put (g t)]"
      "put\<lparr>ip_restore := []\<rparr> = (f i (ins_put i))\<lparr>ip_restore := []\<rparr>"
    using assms(1) unfolding updates_instance_def by blast
  then obtain us where "ts = EvGetInstance cn n (Inr (i, t)) # us" by (cases ts) auto
  then have "cl_devices (view w) n = Some (ip_devices (ins_put i))" using assms(2) by (auto simp: cloud_world_def)
  moreover have "ip_devices put = ip_devices (f i (ins_put i))"
    using arg_cong [OF *(3), of ip_devices] by simp
  ultimately show ?thesis using that *(2) by blast
qed

lemma keeps_update:
  assumes "follows (cloud_world view) m"
    and "emits m (\<lambda>r ts. effects ts = [] \<or> updates_instance ts cn n f g)"
    and "\<And>i. p \<notin> set (owned_disks (ip_devices (ins_put i))) \<Longrightarrow> p \<notin> set (owned_disks (ip_devices (f i (ins_put i))))"
  shows "maintains (\<lambda>w. safe_disk p (view w)) m"
proof (rule keeps_walk [OF assms(1,2)])
  fix w r ts w'
  assume ts: "effects ts = [] \<or> updates_instance ts cn n f g" and walk: "walk (cloud_world view) w ts w'"
    and safe: "safe_disk p (view w)"
  have "list_all (harmless p) (effects ts)"
  proof (cases "effects ts = []")
    case False
    then obtain i put t where "cl_devices (view w) n = Some (ip_devices (ins_put i))"
        "effects ts = [ReqUpdateInstance cn n put (g t)]" "ip_devices put = ip_devices (f i (ins_put i))"
      using updated_devices [OF _ walk] ts by metis
    then show ?thesis using safe assms(3) [of i] by (simp add: safe_disk_def)
  qed simp
  then show "safe_disk p (view w') \<and> (\<forall>x. r = Ok x \<longrightarrow> True)" using harmless_walk [OF walk] safe by simp
qed

text \<open>Moving a volume: the copy is there before the source is deleted, and is not where the source is.\<close>

lemma walk_accepted:
  "walk (cloud_world view) w ts w' \<Longrightarrow> stops ts \<Longrightarrow> \<exists>qs. prefix qs (effects ts) \<and> walk cloud_step (view w) qs (view w')"
proof (induction rule: walk.induct)
  case (step e w w1 ts w')
  then obtain qs where qs: "prefix qs (effects ts)" "walk cloud_step (view w1) qs (view w')" by auto
  show ?case
  proof (cases "effect_of e")
    case None
    then have "view w1 = view w" using step.hyps(1) quiet_event by (auto simp: cloud_world_def)
    then show ?thesis using qs None by auto
  next
    case (Some q)
    then obtain x where e: "e = EvReq q x" by (cases e) auto
    show ?thesis
    proof (cases x)
      case (Inl er)
      then have "qs = []" and "view w1 = view w" using step.prems step.hyps(1) qs(1) e by (auto simp: cloud_world_def)
      then show ?thesis using qs e by (intro exI [of _ "[]"]) auto
    next
      case (Inr h)
      then have "cloud_step q (view w) (view w1)" using step.hyps(1) e by (simp add: cloud_world_def)
      then show ?thesis using qs e by (intro exI [of _ "q # qs"]) auto
    qed
  qed
qed (auto simp: walk.stay)

lemma move_keeps:
  assumes "safe_disk p c" and "(loc, v) \<in> cl_volumes c" and "sv_name vol = v" and "loc \<noteq> []" and "il \<noteq> loc"
    and "walk cloud_step c qs c'"
    and "prefix qs [ReqCopyVolume (UseTarget il cn) pool cn' pool' vol \<lparr>cp_name = sv_name vol, cp_mode = md, cp_volume_only = b\<rparr>,
      ReqDeleteVolume (UseTarget loc cn) pool ''custom'' v]"
  shows "safe_disk p c'"
proof -
  consider "qs = []" | q where "qs = [q]" "harmless p q"
    | q where "qs = [q, ReqDeleteVolume (UseTarget loc cn) pool ''custom'' v]"
        "q = ReqCopyVolume (UseTarget il cn) pool cn' pool' vol \<lparr>cp_name = sv_name vol, cp_mode = md, cp_volume_only = b\<rparr>"
    using assms(7) by (auto simp: prefix_Cons)
  then show ?thesis
  proof cases
    case 3
    then obtain l where l: "(l, v) \<notin> cl_volumes c" "c' = c\<lparr>cl_volumes := insert (l, v) (cl_volumes c) -
        {(l, u). u = v \<and> at_target (UseTarget loc cn) l}\<rparr>"
      using assms(3,6) by (auto simp: copy_volume_step delete_volume_step)
    then have "l \<noteq> loc" using assms(2) by blast
    then show ?thesis using assms(1,4) l(2) by (auto simp: safe_disk_def at_target_def UseTarget_def)
  qed (use assms(1,6) in \<open>auto intro: harmless_step\<close>)
qed

lemma keeps_colocation:
  assumes "follows (cloud_world view) (ColocateStoragePoolVolumeWithInstance (adapter_of a) n pool v)"
  shows "maintains (\<lambda>w. safe_disk p (view w)) (ColocateStoragePoolVolumeWithInstance (adapter_of a) n pool v)"
proof (rule keeps_walk [OF assms any.Colocate_law], elim conjE disjE exE)
  fix w r ts w' i t vol u
  assume walk: "walk (cloud_world view) w ts w'" and safe: "safe_disk p (view w)" and "orderly r ts"
    and reads: "prefix [EvGetInstance (conn_of a) n (Inr (i, t)), EvGetVolume (conn_of a) pool ''custom'' v (Inr (vol, u))] ts"
    and differ: "ins_location i \<noteq> sv_location vol" "sv_location vol \<noteq> []"
    and moves: "prefix (effects ts) [ReqCopyVolume (UseTarget (ins_location i) (conn_of a)) pool
        (UseTarget (sv_location vol) (conn_of a)) pool vol \<lparr>cp_name = sv_name vol, cp_mode = ''move'', cp_volume_only = False\<rparr>,
        ReqDeleteVolume (UseTarget (sv_location vol) (conn_of a)) pool ''custom'' v]"
  have "stops ts" using \<open>orderly r ts\<close> by (simp add: orderly_def)
  then obtain qs where "prefix qs (effects ts)" "walk cloud_step (view w) qs (view w')"
    using walk_accepted [OF walk] by blast
  moreover have "(sv_location vol, v) \<in> cl_volumes (view w)" and "sv_name vol = v"
    using reads walk by (auto simp: prefix_def cloud_world_def)
  ultimately show "safe_disk p (view w') \<and> (\<forall>x. r = Ok x \<longrightarrow> True)"
    using move_keeps [OF safe _ _ differ(2,1)] moves prefix_order.trans by blast
qed (auto intro: harmless_walk)

lemma keeps_devices_read:
  assumes "follows (cloud_world view) (GetDevices (adapter_of a) n)"
  shows "keeps (\<lambda>w. safe_disk p (view w)) (GetDevices (adapter_of a) n) (\<lambda>ds. p \<notin> set (owned_disks ds))"
  by (rule keeps_walk [OF assms any.GetDevices_law [unfolded reads_instance_def]])
     (auto simp: cloud_world_def safe_disk_def)

lemmas any_laws = any.IsConnected_law any.GetStemcellDescription_law any.FindExistingImage_law any.IsManagedNetwork_law
  any.GetInstanceLocation_law any.GetStoragePoolVolume_law any.IsInstanceStopped_law any.SetInstanceAction_law
  any.ResizeStoragePoolVolume_law any.UpdateStoragePoolVolumeDescription_law any.CreateStoragePoolVolume_law
  any.CreateStoragePoolVolumeFromISO_law any.DeleteStoragePoolVolumeSnapshot_law any.CreateStoragePoolVolumeSnapshot_law
  any.CreateAndUploadImage_law any.DeleteImage_law any.DeleteInstance_law any.DeleteStoragePoolVolume_law
  any.CreateInstance_law

lemmas any_rules = any_laws [unfolded sends_one_def only_reads_def reads_instance_def, THEN emits_mono]

lemma adapter_harmless:
  fixes a :: "'w some_adapter" and p :: string
  defines "A \<equiv> adapter_of a" and "H \<equiv> \<lambda>ts. list_all (harmless p) (effects ts)"
  shows "emits (IsConnected A) (\<lambda>r. H)" "emits (GetStemcellDescription A al) (\<lambda>r. H)"
    "emits (FindExistingImage A descr) (\<lambda>r. H)" "emits (IsManagedNetwork A net) (\<lambda>r. H)"
    "emits (GetInstanceLocation A n) (\<lambda>r. H)" "emits (GetStoragePoolVolume A pool v) (\<lambda>r. H)"
    "emits (IsInstanceStopped A n) (\<lambda>r. H)" "emits (SetInstanceAction A n act) (\<lambda>r. H)"
    "emits (ResizeStoragePoolVolume A pool v sz) (\<lambda>r. H)"
    "emits (UpdateStoragePoolVolumeDescription A pool v descr) (\<lambda>r. H)"
    "emits (CreateStoragePoolVolume A tg pool v sz) (\<lambda>r. H)"
    "emits (CreateStoragePoolVolumeFromISO A tg pool v img) (\<lambda>r. H)"
    "emits (DeleteStoragePoolVolumeSnapshot A pool v sn) (\<lambda>r. H)"
    "emits (CreateStoragePoolVolumeSnapshot A pool v sn descr) (\<lambda>r. H)"
    "emits (CreateAndUploadImage A im) (\<lambda>r. H)" "emits (DeleteImage A al) (\<lambda>r. H)"
    "emits (DeleteInstance A n) (\<lambda>r. H)"
    "v \<noteq> p \<Longrightarrow> emits (DeleteStoragePoolVolume A pool v) (\<lambda>r. H)"
    "p \<notin> set (owned_disks (meta_Devices m)) \<Longrightarrow> emits (CreateInstance A m) (\<lambda>r. H)"
  unfolding assms
  by (auto intro!: any_rules simp: updates_volume_def instances_post_of_def prefix_Cons)

lemma manager_harmless:
  "emits (am_Read (manager_of k L cfg) v) (\<lambda>r ts. list_all (harmless p) (effects ts))"
  "emits (am_Write (manager_of k L cfg) v e) (\<lambda>r ts. list_all (harmless p) (effects ts))"
  "emits (am_Delete (manager_of k L cfg) v) (\<lambda>r ts. list_all (harmless p) (effects ts))"
  by (auto intro!: any_manager.Read_trace [THEN emits_mono] any_manager.Write_trace [THEN emits_mono]
      any_manager.Delete_trace [THEN emits_mono])

lemma cloud_parts:
  assumes "shows_cloud view a L c"
  shows "server_steps (cloud_world view) (server_of a)" and "machine_steps (cloud_world view) L"
    and "answers (cloud_world view) EvUuid (cpi_uuidGen c)" and "answers (cloud_world view) EvTryLock (cpi_TryLock c)"
    and "answers (cloud_world view) EvUnlock (cpi_Unlock c)" and "answers (cloud_world view) (EvOpenFile f) (cpi_OpenFile c f)"
    and "answers (cloud_world view) (EvGzipReader f) (cpi_GzipReader c f)"
  using assms by (simp_all add: shows_cloud_def world_steps_def library_steps_def)

lemmas cloud_follows = follows_adapter [OF cloud_parts(1)] follows_manager [OF cloud_parts(2)]
  cloud_parts(3-7) [THEN follows_ext]

lemma keeps_edits:
  assumes "shows_cloud view a L c"
  shows "maintains (\<lambda>w. safe_disk p (view w)) (UpdateInstanceDescription (adapter_of a) n descr)"
    and "maintains (\<lambda>w. safe_disk p (view w)) (DetachDeviceByName (adapter_of a) n d)"
    and "maintains (\<lambda>w. safe_disk p (view w)) (DetachDeviceBySource (adapter_of a) n src)"
    and "attaches_safely p d dev \<Longrightarrow> maintains (\<lambda>w. safe_disk p (view w)) (AttachDevice (adapter_of a) n d dev)"
proof -
  note follows = cloud_follows [OF assms]
  show "maintains (\<lambda>w. safe_disk p (view w)) (UpdateInstanceDescription (adapter_of a) n descr)"
    by (rule keeps_update [OF follows(9), where f = "\<lambda>i put. put\<lparr>ip_description := descr\<rparr>" and g = id
         and cn = "conn_of a" and n = n], rule any.UpdateInstanceDescription_law [THEN emits_mono]) auto
  show "maintains (\<lambda>w. safe_disk p (view w)) (DetachDeviceByName (adapter_of a) n d)"
    by (rule keeps_update [OF follows(23), where f = "\<lambda>i put. put\<lparr>ip_devices := gm_del d (ip_devices put)\<rparr>"
         and g = "\<lambda>_. []" and cn = "conn_of a" and n = n], rule any.DetachDeviceByName_law [THEN emits_mono]) (auto dest: owned_del)
  show "maintains (\<lambda>w. safe_disk p (view w)) (DetachDeviceBySource (adapter_of a) n src)"
    by (rule keeps_update [OF follows(24), where f = "\<lambda>i put. put\<lparr>ip_devices := gm_del (find_device_by_source (ip_devices (ins_put i)) src) (ip_devices put)\<rparr>"
         and g = "\<lambda>_. []" and cn = "conn_of a" and n = n], rule any.DetachDeviceBySource_law [THEN emits_mono]) (auto dest: owned_del)
  show "maintains (\<lambda>w. safe_disk p (view w)) (AttachDevice (adapter_of a) n d dev)" if "attaches_safely p d dev"
    by (rule keeps_update [OF follows(22), where f = "\<lambda>i put. put\<lparr>ip_devices := gm_put d dev (ip_devices put)\<rparr>"
         and g = "id" and cn = "conn_of a" and n = n], rule any.AttachDevice_law [THEN emits_mono])
       (use that in \<open>auto simp: attaches_safely_def dest!: owned_put\<close>)
qed

interpretation safe: disk_keeper "disk_invariant view a L c p" "cpi_on a k L c" p
  for view and a :: "'w some_adapter" and L c k p
proof -
  note rules = keeps_invariant keeps_harmless adapter_harmless manager_harmless cloud_follows keeps_edits
    keeps_colocation keeps_devices_read
  show "disk_keeper (disk_invariant view a L c p) (cpi_on a k L c) p"
  proof (unfold_locales, goal_cases)
    case (29 vm)
    have "yields (am_Read (cpi_agentMgr (cpi_on a k L c)) vm) wf_agent_env" by (simp add: yields_Read)
    moreover have "maintains (disk_invariant view a L c p) (am_Read (cpi_agentMgr (cpi_on a k L c)) vm)"
      by (auto intro!: rules)
    ultimately show ?case by (auto simp: keeps_def yields_def)
  qed (auto simp: disk_invariant_def [of view a L c p] intro!: rules emits_rules)
qed

section \<open>Any sequence of calls\<close>

text \<open>The calls a director can make that reach the server, and what the state is after one.\<close>

datatype cpi_call =
    CallCreateStemcell string json
  | CallDeleteStemcell string
  | CallCreateVM string string json networks "json gomap option"
  | CallDeleteVM string
  | CallHasVM string
  | CallRebootVM string
  | CallSetVMMetadata string "json gomap option"
  | CallCreateDisk int "string option"
  | CallDeleteDisk string
  | CallHasDisk string
  | CallResizeDisk string int
  | CallAttachDisk string string
  | CallDetachDisk string string
  | CallGetDisks string
  | CallSetDiskMetadata string "json gomap option"
  | CallSnapshotDisk string
  | CallDeleteSnapshot string

primrec after_call :: "'w CPI \<Rightarrow> cpi_call \<Rightarrow> (event, 'w) sys \<Rightarrow> (event, 'w) sys" where
  "after_call c (CallCreateStemcell img props) s = snd (CreateStemcell c img props s)"
| "after_call c (CallDeleteStemcell al) s = snd (DeleteStemcell c al s)"
| "after_call c (CallCreateVM agent sc props nets env) s = snd (CreateVMV2 c agent sc props nets env s)"
| "after_call c (CallDeleteVM vm) s = snd (DeleteVM c vm s)"
| "after_call c (CallHasVM vm) s = snd (HasVM c vm s)"
| "after_call c (CallRebootVM vm) s = snd (RebootVM c vm s)"
| "after_call c (CallSetVMMetadata vm meta) s = snd (SetVMMetadata c vm meta s)"
| "after_call c (CallCreateDisk sz vm) s = snd (CreateDisk c sz vm s)"
| "after_call c (CallDeleteDisk d) s = snd (DeleteDisk c d s)"
| "after_call c (CallHasDisk d) s = snd (HasDisk c d s)"
| "after_call c (CallResizeDisk d sz) s = snd (ResizeDisk c d sz s)"
| "after_call c (CallAttachDisk vm d) s = snd (AttachDiskV2 c vm d s)"
| "after_call c (CallDetachDisk vm d) s = snd (DetachDisk c vm d s)"
| "after_call c (CallGetDisks vm) s = snd (GetDisks c vm s)"
| "after_call c (CallSetDiskMetadata d meta) s = snd (SetDiskMetadata c d meta s)"
| "after_call c (CallSnapshotDisk d) s = snd (SnapshotDisk c d s)"
| "after_call c (CallDeleteSnapshot sn) s = snd (DeleteSnapshot c sn s)"

text \<open>A call that does not ask for the deletion of the disk; the environment of a VM is a Go map.\<close>

fun spares :: "string \<Rightarrow> cpi_call \<Rightarrow> bool" where
  "spares p (CallDeleteDisk d) = (d \<noteq> p)"
| "spares p (CallCreateVM agent sc props nets env) = pred_option wf_map env"
| "spares p _ = True"

lemma call_keeps_disk:
  assumes "spares p q" and "disk_invariant view a L c p (world s)"
  shows "disk_invariant view a L c p (world (after_call (cpi_on a k L c) q s))"
proof -
  have "disk_invariant view a L c p (world (snd (m s)))" if "maintains (disk_invariant view a L c p) m" for m :: "('a, 'b) go"
    using that assms(2) by (simp add: keeps_def)
  note this [intro!]
  show ?thesis using assms(1)
    by (cases q) (auto intro!: safe.keeps_calls safe.keeps_CreateVMV2 safe.keeps_DeleteVM safe.keeps_HasVM)
qed

text \<open>
  C3.  No sequence of CPI calls loses a persistent disk that nobody asked to delete.  On a world that
  shows a cloud, for either adapter and image format: a volume named \<open>vol-p-...\<close> that exists and is no
  VM's settings or ephemeral disk still exists, and is still none of those, after any calls other than
  \<open>DeleteDisk\<close> of it, whether they succeed or fail half-way, and although attaching a disk may move it
  to another server.
\<close>

theorem persistent_disk_survives:
  assumes "shows_cloud view a L c" and "prefix ''vol-p-'' p" and "safe_disk p (view (world s))"
    and "list_all (spares p) calls"
  shows "safe_disk p (view (world (fold (after_call (cpi_on a k L c)) calls s)))"
proof -
  have "disk_invariant view a L c p (world s) \<Longrightarrow>
      disk_invariant view a L c p (world (fold (after_call (cpi_on a k L c)) calls s))"
    using assms(4) by (induction calls arbitrary: s) (auto intro: call_keeps_disk)
  moreover have "disk_invariant view a L c p (world s)"
    using assms(1-3) by (simp add: disk_invariant_def DISK_PERSISTENT_PREFIX_def)
  ultimately show ?thesis by (simp add: disk_invariant_def)
qed

end
