(* ===== verification/EditProps.thy ===== *)
theory EditProps
  imports DiskSafety
begin

text \<open>
  The small calls: waiting for operations, editing the devices of an instance, and the disk and VM calls
  that change one thing.
\<close>

section \<open>Waiting for an operation\<close>

text \<open>What the answers to a request and to the wait for it amount to; \<open>agent\<close> is the text that marks an
  error about the agent in the VM.\<close>

definition waited :: "string \<Rightarrow> request \<Rightarrow> unit res \<Rightarrow> event list \<Rightarrow> bool" where
  "waited agent q r ts \<longleftrightarrow>
     (\<exists>e. ts = [EvReq q (Inl e)] \<and> r = (if contains (error_string e) agent
        then Panic ''invalid memory address or nil pointer dereference'' else Err e)) \<or>
     (\<exists>h. ts = [EvReq q (Inr h), EvWait h (Inr ())] \<and> r = Ok ()) \<or>
     (\<exists>h e. ts = [EvReq q (Inr h), EvWait h (Inl e)] \<and>
        r = (if contains (error_string e) agent then Ok () else Err (WrapError e ''Wait'')))"

text \<open>
  C33.  Waiting for an operation, on LXD and on Incus: a request that is accepted is waited for once, and
  the outcome is that of the operation, except that an operation failing with an error about the agent
  in the VM counts as done.  A refusal is returned as it is; but a refusal with such an error text
  crashes the program, because there is no operation to wait for.
\<close>

theorem wait_outcomes:
  "emits (lxd_wait S (request S q)) (waited ''LXD VM agent'' q) \<and>
   emits (incus_wait S (request S q)) (waited ''Incus VM agent'' q)"
  by (auto simp: lxd_wait_def incus_wait_def lxd_checkError_def incus_checkError_def waited_def intro!: emits_rules
      split: if_splits)

section \<open>Devices\<close>

lemma instance_update_run:
  assumes "walk (cloud_world view) w ts w'" and "\<not> refused ts" and "updates_instance ts cn n f g"
  obtains i where "cl_devices (view w) n = Some (ip_devices (ins_put i))"
    and "view w' = (view w)\<lparr>cl_devices := (cl_devices (view w))(n \<mapsto> ip_devices (f i (ins_put i)))\<rparr>"
proof -
  obtain i put t where "cl_devices (view w) n = Some (ip_devices (ins_put i))"
    and "effects ts = [ReqUpdateInstance cn n put (g t)]" and "ip_devices put = ip_devices (f i (ins_put i))"
    using updated_devices [OF assms(3,1)] .
  moreover from this walk_requests [OF assms(1,2)]
  have "view w' = (view w)\<lparr>cl_devices := (cl_devices (view w))(n \<mapsto> ip_devices put)\<rparr>"
    by (auto simp: update_instance_step)
  ultimately show ?thesis using that by simp
qed

text \<open>
  Attaching a device and detaching it again, by its name, leaves the instance with the devices it
  had, and every other instance and every volume untouched; in between the instance has exactly one
  more device.  This holds for both adapters on a world that shows a cloud.
\<close>

theorem attach_detach_restores:
  assumes "shows_cloud view a L c" and "AttachDevice (adapter_of a) n d dev s = (Ok (), s1)"
    and "DetachDeviceByName (adapter_of a) n d s1 = (Ok (), s2)"
  shows "view (world s2) = view (world s) \<and>
    (\<exists>ds. cl_devices (view (world s)) n = Some ds \<and> gm_find ds d = None \<and>
       cl_devices (view (world s1)) n = Some (ds @ [(d, dev)]))"
proof -
  let ?cn = "conn_of a"
  obtain ts where att: "walk (cloud_world view) (world s) ts (world s1)" "\<not> refused ts"
      "updates_instance ts ?cn n (\<lambda>i put. put\<lparr>ip_devices := gm_put d dev (ip_devices put)\<rparr>) id"
      "\<exists>i t. hd ts = EvGetInstance ?cn n (Inr (i, t)) \<and> gm_find (ip_devices (ins_put i)) d = None"
    by (rule follows_emits [OF cloud_follows(22) [OF assms(1)] any.AttachDevice_law assms(2)]) auto
  obtain i :: vm_instance where old: "cl_devices (view (world s)) n = Some (ip_devices (ins_put i))" and
    "view (world s1) = (view (world s))\<lparr>cl_devices := (cl_devices (view (world s)))
      (n \<mapsto> ip_devices ((ins_put i)\<lparr>ip_devices := gm_put d dev (ip_devices (ins_put i))\<rparr>))\<rparr>"
    by (rule instance_update_run [OF att(1-3)]) blast
  then have new: "view (world s1) = (view (world s))\<lparr>cl_devices := (cl_devices (view (world s)))
      (n \<mapsto> gm_put d dev (ip_devices (ins_put i)))\<rparr>" by simp
  note i = old new
  have free: "gm_find (ip_devices (ins_put i)) d = None" using att(1,4) i(1) att(3)
    by (cases ts) (auto simp: cloud_world_def updates_instance_def)
  then have fresh: "d \<notin> fst ` set (ip_devices (ins_put i))" by (simp add: map_of_eq_None_iff)
  obtain us where det: "walk (cloud_world view) (world s1) us (world s2)" "\<not> refused us"
      "effects us = [] \<and> (\<exists>i t. us = [EvGetInstance ?cn n (Inr (i, t))] \<and> gm_find (ip_devices (ins_put i)) d = None) \<or>
       updates_instance us ?cn n (\<lambda>i put. put\<lparr>ip_devices := gm_del d (ip_devices put)\<rparr>) (\<lambda>_. [])"
    by (rule follows_emits [OF cloud_follows(23) [OF assms(1)] any.DetachDeviceByName_law assms(3)]) auto
  have "updates_instance us ?cn n (\<lambda>i put. put\<lparr>ip_devices := gm_del d (ip_devices put)\<rparr>) (\<lambda>_. [])"
  proof (rule ccontr)
    assume "\<not> ?thesis"
    then obtain i' t where us: "us = [EvGetInstance ?cn n (Inr (i', t))]" "gm_find (ip_devices (ins_put i')) d = None"
      using det(3) by blast
    then have "ip_devices (ins_put i') = gm_put d dev (ip_devices (ins_put i))"
      using det(1) i(2) by (simp add: cloud_world_def)
    then show False using us(2) by simp
  qed
  then obtain i2 :: vm_instance where i2: "cl_devices (view (world s1)) n = Some (ip_devices (ins_put i2))"
    "view (world s2) = (view (world s1))\<lparr>cl_devices := (cl_devices (view (world s1)))
      (n \<mapsto> ip_devices ((ins_put i2)\<lparr>ip_devices := gm_del d (ip_devices (ins_put i2))\<rparr>))\<rparr>"
    by (rule instance_update_run [OF det(1,2)]) blast
  then have "ip_devices (ins_put i2) = gm_put d dev (ip_devices (ins_put i))" using i(2) by simp
  then have "gm_del d (ip_devices (ins_put i2)) = ip_devices (ins_put i)" by (simp add: del_put_absent [OF fresh])
  then have "view (world s2) = (view (world s))\<lparr>cl_devices := (cl_devices (view (world s)))(n \<mapsto> ip_devices (ins_put i))\<rparr>"
    unfolding i2(2) new by simp
  also have "\<dots> = view (world s)" using i(1) by (cases "view (world s)") (auto simp: fun_upd_idem)
  finally show ?thesis using i free put_fresh [OF fresh] by simp
qed

section \<open>Calls that change one thing\<close>

definition edit_contract :: "conn \<Rightarrow> 'a res \<Rightarrow> event list \<Rightarrow> (event list \<Rightarrow> bool) \<Rightarrow> bool" where
  "edit_contract cn r ts edit \<longleftrightarrow> orderly r ts \<and>
     (effects ts = [] \<and> \<not> is_Ok r \<or> (\<exists>us. ts = EvGetServer cn (Inr ''trusted'') # us \<and> edit us))"

text \<open>
  \<open>DeleteDisk\<close>, \<open>ResizeDisk\<close>, \<open>SetDiskMetadata\<close> and \<open>RebootVM\<close> send one request, or fail without
  one: the deletion of that volume; that volume's configuration with only the size changed, and its
  description as it was; that volume with only the description changed, its configuration as it was; a
  forced restart of that VM.
\<close>

theorem single_edits:
  "emits (DeleteDisk (cpi_on a k L c) disk) (\<lambda>r ts. edit_contract (conn_of a) r ts
     (\<lambda>us. effects us = [ReqDeleteVolume (conn_of a) (cpi_pool c) ''custom'' disk])) \<and>
   emits (ResizeDisk (cpi_on a k L c) disk sz) (\<lambda>r ts. edit_contract (conn_of a) r ts
     (\<lambda>us. updates_volume us (conn_of a) (cpi_pool c) disk
        (\<lambda>put. put\<lparr>svp_config := gm_put ''size'' (int_dec sz @ ''MiB'') (svp_config put)\<rparr>))) \<and>
   emits (SetDiskMetadata (cpi_on a k L c) disk meta) (\<lambda>r ts. edit_contract (conn_of a) r ts
     (\<lambda>us. \<exists>m. NewActualDiskMeta meta = Inr m \<and> updates_volume us (conn_of a) (cpi_pool c) disk
        (\<lambda>put. put\<lparr>svp_description := dm_InstanceGroup m @ ''/'' @ dm_InstanceIndex m\<rparr>))) \<and>
   emits (RebootVM (cpi_on a k L c) vm) (\<lambda>r ts. edit_contract (conn_of a) r ts
     (\<lambda>us. effects us = [ReqUpdateInstanceState (conn_of a) vm
        \<lparr>isp_action = ''restart'', isp_timeout = 30, isp_force = True, isp_stateful = False\<rparr> []]))"
proof (intro conjI)
  note rules = emits_rules built.law_rules [unfolded cpi_on_simps] any_rules
  show "emits (DeleteDisk (cpi_on a k L c) disk) (\<lambda>r ts. edit_contract (conn_of a) r ts
     (\<lambda>us. effects us = [ReqDeleteVolume (conn_of a) (cpi_pool c) ''custom'' disk]))"
    unfolding DeleteDisk_def edit_contract_def by (auto intro!: rules)
  show "emits (ResizeDisk (cpi_on a k L c) disk sz) (\<lambda>r ts. edit_contract (conn_of a) r ts
     (\<lambda>us. updates_volume us (conn_of a) (cpi_pool c) disk
        (\<lambda>put. put\<lparr>svp_config := gm_put ''size'' (int_dec sz @ ''MiB'') (svp_config put)\<rparr>)))"
    unfolding ResizeDisk_def edit_contract_def by (auto intro!: rules)
  show "emits (SetDiskMetadata (cpi_on a k L c) disk meta) (\<lambda>r ts. edit_contract (conn_of a) r ts
     (\<lambda>us. \<exists>m. NewActualDiskMeta meta = Inr m \<and> updates_volume us (conn_of a) (cpi_pool c) disk
        (\<lambda>put. put\<lparr>svp_description := dm_InstanceGroup m @ ''/'' @ dm_InstanceIndex m\<rparr>)))"
    unfolding SetDiskMetadata_def edit_contract_def by (auto simp: Let_def intro!: rules)
  show "emits (RebootVM (cpi_on a k L c) vm) (\<lambda>r ts. edit_contract (conn_of a) r ts
     (\<lambda>us. effects us = [ReqUpdateInstanceState (conn_of a) vm
        \<lparr>isp_action = ''restart'', isp_timeout = 30, isp_force = True, isp_stateful = False\<rparr> []]))"
    unfolding RebootVM_def edit_contract_def by (auto simp: state_put_of_def at_requested_state_def intro!: rules)
qed

end
