(* ===== verification/CpiDiskProps.thy ===== *)
theory CpiDiskProps
  imports CpiVmProps
begin

text \<open>
  What the disk and snapshot calls promise: which requests attaching and detaching send, how device
  paths of persistent disks are chosen, and what the answers of the listing calls say.
\<close>

section \<open>Device paths of persistent disks\<close>

definition path_hint :: "string \<Rightarrow> json" where
  "path_hint p = NewDiskHintFromMap [(''path'', JStr p)]"

text \<open>
  The settings of a VM whose persistent disks were all attached by this CPI: each has one of the two
  device paths, and no two have the same.
\<close>

definition slots_ok :: "agent_env \<Rightarrow> bool" where
  "slots_ok e \<longleftrightarrow> wf_map (persistent_map e) \<and> distinct (map snd (persistent_map e)) \<and>
     set (map snd (persistent_map e)) \<subseteq> {path_hint ''/dev/sdc'', path_hint ''/dev/sdd''}"

lemma contains_join: "x \<in> set xs \<Longrightarrow> contains x t \<Longrightarrow> contains (join_with sep xs) t"
  by (induction sep xs rule: join_with.induct) (auto intro: contains_appendI1 contains_appendI2)

lemma contains_json_member:
  assumes "(k, v) \<in> set kvs" and "contains (json_print v) t"
  shows "contains (json_print (JObj kvs)) t"
proof -
  have "json_string k @ '':'' @ json_print v \<in>
      set (map (\<lambda>(k, s). json_string k @ '':'' @ s) (map (map_prod id json_print) kvs))"
    using assms(1) by force
  moreover have "contains (json_string k @ '':'' @ json_print v) t"
    by (intro contains_appendI2 assms(2))
  ultimately show ?thesis by (simp only: json_print.simps) (intro contains_appendI2 contains_appendI1 contains_join)
qed

lemma settings_contain_hint:
  assumes "(cid, h) \<in> set (persistent_map e)" and "contains (json_print h) t"
  shows "contains (AsBytes e) t"
proof -
  obtain m where m: "ae_Persistent e = Some m" "(cid, h) \<in> set m"
    using assms(1) by (cases "ae_Persistent e") (auto simp: persistent_map_def)
  then have "(cid, h) \<in> set (map (map_prod id id) (sort_key fst m))" by force
  then have "contains (json_print (opt_json (map_json id) (ae_Persistent e))) t"
    using m assms(2) by (simp only: opt_json_def map_json_def option.case) (rule contains_json_member)
  then have "contains (json_print (disks_json e)) t"
    unfolding disks_json_def by (rule contains_json_member [rotated, where k = "''persistent''"]) simp
  then show ?thesis
    unfolding AsBytes_def agent_env_json_def by (rule contains_json_member [rotated, where k = "''disks''"]) simp
qed

lemma hint_contains_path:
  "p = ''/dev/sdc'' \<or> p = ''/dev/sdd'' \<Longrightarrow> contains (json_print (path_hint p)) p"
  by (auto simp: path_hint_def NewDiskHintFromMap_def json_string_def escape_def escape_char_def Let_def
      contains_iff sublist_code)

lemma choose_slot_fresh:
  assumes "choose_slot (AsBytes e) = Some (p, name)"
  shows "path_hint p \<notin> snd ` set (persistent_map e)" and "p = ''/dev/sdc'' \<or> p = ''/dev/sdd''"
proof -
  show p: "p = ''/dev/sdc'' \<or> p = ''/dev/sdd''"
    using assms by (auto simp: choose_slot_def split: if_splits)
  have "\<not> contains (AsBytes e) p" using assms by (auto simp: choose_slot_def split: if_splits)
  then show "path_hint p \<notin> snd ` set (persistent_map e)"
    using settings_contain_hint hint_contains_path [OF p] by fastforce
qed

lemma persistent_map_simps [simp]:
  "persistent_map (AttachPersistentDisk cid h e) = gm_put cid h (persistent_map e)"
  "persistent_map (DetachPersistentDisk cid e) = gm_del cid (persistent_map e)"
  by (simp_all add: persistent_map_def AttachPersistentDisk_def DetachPersistentDisk_def)

lemma snd_put_subset: "snd ` set (gm_put k v m) \<subseteq> insert v (snd ` set m)"
  by (induction m) auto

lemma snd_del_subset: "snd ` set (gm_del k m) \<subseteq> snd ` set m"
  by (auto simp: AList.delete_eq)

lemma distinct_snd_put:
  "distinct (map snd m) \<Longrightarrow> v \<notin> snd ` set m \<Longrightarrow> distinct (map snd (gm_put k v m))"
proof (induction m)
  case (Cons kv m)
  then show ?case using snd_put_subset [of k v m] by (cases kv) auto
qed simp

lemma distinct_snd_del: "distinct (map snd m) \<Longrightarrow> distinct (map snd (gm_del k m))"
  by (simp add: AList.delete_eq distinct_map_filter)

lemma slots_ok_attach:
  assumes "slots_ok e" and "choose_slot (AsBytes e) = Some (p, name)"
  shows "slots_ok (AttachPersistentDisk cid (path_hint p) e)"
proof -
  have p: "path_hint p \<in> {path_hint ''/dev/sdc'', path_hint ''/dev/sdd''}"
    using choose_slot_fresh(2) [OF assms(2)] by auto
  have "snd ` set (gm_put cid (path_hint p) (persistent_map e)) \<subseteq>
      insert (path_hint p) (snd ` set (persistent_map e))" by (rule snd_put_subset)
  also have "\<dots> \<subseteq> {path_hint ''/dev/sdc'', path_hint ''/dev/sdd''}"
    using p assms(1) by (simp only: slots_ok_def set_map insert_subset simp_thms)
  finally have "snd ` set (gm_put cid (path_hint p) (persistent_map e)) \<subseteq>
      {path_hint ''/dev/sdc'', path_hint ''/dev/sdd''}" .
  then show ?thesis using assms(1) choose_slot_fresh(1) [OF assms(2)]
    by (simp add: slots_ok_def distinct_snd_put)
qed

lemma slots_ok_detach: "slots_ok e \<Longrightarrow> slots_ok (DetachPersistentDisk cid e)"
  using snd_del_subset [of cid "persistent_map e"] by (auto simp: slots_ok_def distinct_snd_del)

lemma slots_ok_length:
  assumes "slots_ok e"
  shows "length (persistent_map e) \<le> 2"
proof -
  have "length (persistent_map e) = card (set (map snd (persistent_map e)))"
    using assms distinct_card [of "map snd (persistent_map e)"] by (simp add: slots_ok_def)
  also have "\<dots> \<le> card {path_hint ''/dev/sdc'', path_hint ''/dev/sdd''}"
    using assms by (intro card_mono) (auto simp: slots_ok_def)
  also have "\<dots> \<le> 2" by (simp add: card_insert_if)
  finally show ?thesis .
qed

section \<open>AttachDisk, DetachDisk\<close>

text \<open>Moving a disk to the VM's server: a copy, and after an accepted copy the removal of its source.\<close>

definition colocation_step :: "conn \<Rightarrow> string \<Rightarrow> string \<Rightarrow> event list \<Rightarrow> request \<Rightarrow> bool" where
  "colocation_step cn pool disk ts q \<longleftrightarrow> (\<exists>src dst vol args. src \<noteq> dst \<and>
     ReqCopyVolume (UseTarget dst cn) pool (UseTarget src cn) pool vol args \<in> set (effects ts) \<and>
     (q = ReqCopyVolume (UseTarget dst cn) pool (UseTarget src cn) pool vol args \<or>
      q = ReqDeleteVolume (UseTarget src cn) pool ''custom'' disk))"

lemma colocation_step_append:
  "colocation_step cn pool disk us q \<Longrightarrow> colocation_step cn pool disk (us @ vs) q"
  "colocation_step cn pool disk us q \<Longrightarrow> colocation_step cn pool disk (vs @ us) q"
  "colocation_step cn pool disk us q \<Longrightarrow> colocation_step cn pool disk (e # us) q"
  by (auto simp: colocation_step_def split: option.splits)

text \<open>The settings that were read, the slot they leave free, and the settings that were written.\<close>

definition attached_settings :: "string \<Rightarrow> string \<Rightarrow> json \<Rightarrow> event list \<Rightarrow> bool" where
  "attached_settings path disk hint ts \<longleftrightarrow> (\<exists>doc env p name. EvReadFile path (Inr doc) \<in> set ts \<and>
     FromBytes doc = Inr env \<and> choose_slot (AsBytes env) = Some (p, name) \<and> hint = path_hint p \<and>
     EvWriteFile path (AsBytes (AttachPersistentDisk disk hint env)) (Inr ()) \<in> set ts)"

definition attach_disk_contract :: "conn \<Rightarrow> string \<Rightarrow> string \<Rightarrow> string \<Rightarrow> string \<Rightarrow> json res \<Rightarrow> event list \<Rightarrow> bool" where
  "attach_disk_contract cn pool path vm disk r ts \<longleftrightarrow> orderly r ts \<and>
     list_all (\<lambda>q. colocation_step cn pool disk ts q \<or> is_update cn vm q \<or> new_settings_volume pool q \<or>
       old_settings_deletion cn pool vm ts q) (effects ts) \<and>
     (\<forall>hint. r = Ok hint \<longrightarrow> attached_settings path disk hint ts)"

definition detached_settings :: "string \<Rightarrow> string \<Rightarrow> event list \<Rightarrow> bool" where
  "detached_settings path disk ts \<longleftrightarrow> (\<exists>doc env. EvReadFile path (Inr doc) \<in> set ts \<and> FromBytes doc = Inr env \<and>
     EvWriteFile path (AsBytes (DetachPersistentDisk disk env)) (Inr ()) \<in> set ts)"

definition detach_disk_contract :: "conn \<Rightarrow> string \<Rightarrow> string \<Rightarrow> string \<Rightarrow> string \<Rightarrow> unit res \<Rightarrow> event list \<Rightarrow> bool" where
  "detach_disk_contract cn pool path vm disk r ts \<longleftrightarrow> orderly r ts \<and>
     list_all (\<lambda>q. is_update cn vm q \<or> new_settings_volume pool q \<or> old_settings_deletion cn pool vm ts q)
       (effects ts) \<and>
     (is_Ok r \<longrightarrow> detached_settings path disk ts)"

lemma old_settings_deletion_mono:
  "list_all (\<lambda>q. P q \<or> old_settings_deletion cn pool vm us q) xs \<Longrightarrow>
   list_all (\<lambda>q. P q \<or> old_settings_deletion cn pool vm (ts @ us) q) xs"
  using old_settings_deletion_append(1) by (fastforce simp: list_all_iff)

context cpi_contract
begin

lemma write_allowed:
  assumes "write_agent_contract cn pool vm r us"
  shows "list_all (\<lambda>q. is_update cn vm q \<or> new_settings_volume pool q \<or>
     old_settings_deletion cn pool vm (ts @ us) q) (effects us)" and "orderly r us"
  using assms old_settings_deletion_append(1)
  by (fastforce simp: write_agent_contract_def list_all_iff)+

lemma DetachDisk_contract:
  "emits (DetachDisk c vm disk) (detach_disk_contract cn (cpi_pool c) (path vm) vm disk)"
  unfolding DetachDisk_def
  apply (rule emits_bind, rule IsConnected_law [THEN emits_mono], rule emits_afterI)
  apply (rule emits_wrap, rule DetachDeviceBySource_law [THEN emits_mono], rule emits_afterI)
  apply (rule emits_wrap, rule Read_trace [THEN emits_mono], rule emits_afterI)
  apply (rule write_and_return [THEN emits_mono])
  subgoal for r ts x ra tsa xa rb tsb env rc us
    using write_allowed(1) [of "cpi_pool c" vm rc us "ts @ tsa @ tsb"] write_allowed(2) [of "cpi_pool c" vm rc us]
    by (auto simp: detach_disk_contract_def detached_settings_def dest!: updates_instance_is_update)
  by (auto simp: detach_disk_contract_def no_effects_stops dest!: updates_instance_is_update)

lemma colocates:
  "emits (ColocateStoragePoolVolumeWithInstance (cpi_adapter c) vm pool disk) (\<lambda>r ts. orderly r ts \<and>
     list_all (colocation_step cn pool disk ts) (effects ts))"
proof (rule Colocate_law [THEN emits_mono], elim conjE disjE exE)
  fix r :: "unit res" and ts i t vol u
  assume "orderly r ts" and ne: "ins_location i \<noteq> sv_location vol"
    and pre: "prefix (effects ts) [ReqCopyVolume (UseTarget (ins_location i) cn) pool (UseTarget (sv_location vol) cn) pool vol
             \<lparr>cp_name = sv_name vol, cp_mode = ''move'', cp_volume_only = False\<rparr>,
           ReqDeleteVolume (UseTarget (sv_location vol) cn) pool ''custom'' disk]"
  have "colocation_step cn pool disk ts q" if "q \<in> set (effects ts)" for q
    unfolding colocation_step_def
    using that pre ne by (intro exI [of _ "sv_location vol"] exI [of _ "ins_location i"]) (auto simp: prefix_Cons)
  with \<open>orderly r ts\<close> show "orderly r ts \<and> list_all (colocation_step cn pool disk ts) (effects ts)"
    by (simp add: list_all_iff)
qed simp

lemma attach_steps:
  "emits (io_wrap (ColocateStoragePoolVolumeWithInstance (cpi_adapter c) vm (cpi_pool c) disk) m1 (\<lambda>_.
         io_wrap (attachDiskDeviceToVM c vm name disk) m2 (\<lambda>_.
         io_wrap (writeAgentFileToVM c vm env) m3 (\<lambda>_. io_ret x))))
   (\<lambda>r ts. orderly r ts \<and>
     list_all (\<lambda>q. colocation_step cn (cpi_pool c) disk ts q \<or> is_update cn vm q \<or> new_settings_volume (cpi_pool c) q \<or>
       old_settings_deletion cn (cpi_pool c) vm ts q) (effects ts) \<and>
     (is_Ok r \<longrightarrow> r = Ok x \<and> EvWriteFile (path vm) (AsBytes env) (Inr ()) \<in> set ts))"
  apply (rule emits_wrap, rule colocates [THEN emits_mono], rule emits_afterI)
  apply (rule emits_wrap, rule attach_disk_device [THEN emits_mono], rule emits_afterI)
  apply (rule write_and_return [THEN emits_mono])
  subgoal for r ts y ra tsa z rb us
    using write_allowed(1) [of "cpi_pool c" vm rb us "ts @ tsa"] write_allowed(2) [of "cpi_pool c" vm rb us]
    by (auto simp: list_all_iff colocation_step_append)
  by (auto simp: list_all_iff colocation_step_append)

lemma AttachDiskV2_contract:
  "emits (AttachDiskV2 c vm disk) (attach_disk_contract cn (cpi_pool c) (path vm) vm disk)"
  unfolding AttachDiskV2_def Let_def
  apply (rule emits_bind, rule IsConnected_law [THEN emits_mono], rule emits_afterI)
  apply (rule emits_wrap, rule Read_trace [THEN emits_mono], rule emits_afterI)
   apply (rule emits_option)
    apply (force simp: attach_disk_contract_def)
   apply (rule emits_prod)
   apply (rule attach_steps [THEN emits_mono])
  subgoal for r ts x ra tsa env y path' name rb us
    apply (auto simp: attach_disk_contract_def list_all_iff colocation_step_append old_settings_deletion_append)
    apply (force simp: attached_settings_def path_hint_def)
    done
  by (auto simp: attach_disk_contract_def no_effects_stops)

lemma AttachDisk_contract:
  "emits (AttachDisk c vm disk) (\<lambda>r ts. \<exists>r'. attach_disk_contract cn (cpi_pool c) (path vm) vm disk r' ts \<and>
     (is_Ok r \<longleftrightarrow> is_Ok r'))"
  unfolding AttachDisk_def
  by (rule emits_bind, rule AttachDiskV2_contract [THEN emits_mono], rule emits_afterI) fastforce+

end

section \<open>The other disk calls\<close>

definition get_disks_contract :: "conn \<Rightarrow> string \<Rightarrow> string list res \<Rightarrow> event list \<Rightarrow> bool" where
  "get_disks_contract cn vm r ts \<longleftrightarrow> effects ts = [] \<and>
     (\<forall>cids. r = Ok cids \<longrightarrow> (\<exists>ds. reports ts cn vm ds \<and> cids = map fst (disks_of ds)))"

definition has_disk_contract :: "conn \<Rightarrow> string \<Rightarrow> string \<Rightarrow> bool res \<Rightarrow> event list \<Rightarrow> bool" where
  "has_disk_contract cn pool disk r ts \<longleftrightarrow> effects ts = [] \<and> \<not> is_Panic r \<and>
     (\<forall>b. r = Ok b \<longrightarrow> (\<exists>vol t. last ts = EvGetVolume cn pool ''custom'' disk (Inr (vol, t)) \<and> b = (t \<noteq> []))) \<and>
     (\<forall>e. EvGetVolume cn pool ''custom'' disk (Inl e) \<in> set ts \<longrightarrow> \<not> is_Ok r)"

text \<open>The disk is created where the VM it is for was found.\<close>

definition create_disk_contract :: "conn \<Rightarrow> string \<Rightarrow> int \<Rightarrow> string option \<Rightarrow> string res \<Rightarrow> event list \<Rightarrow> bool" where
  "create_disk_contract cn pool sz assoc r ts \<longleftrightarrow> orderly r ts \<and>
     (effects ts = [] \<and> \<not> is_Ok r \<or>
      (\<exists>vm i t u. assoc = Some vm \<and> EvGetInstance cn vm (Inr (i, t)) \<in> set ts \<and> EvUuid (Inr u) \<in> set ts \<and>
         effects ts = [ReqCreateVolume (target_conn (ins_location i) cn) pool
           (volume_post_of (DISK_PERSISTENT_PREFIX @ u) sz)] \<and>
         (is_Ok r \<longrightarrow> r = Ok (DISK_PERSISTENT_PREFIX @ u))))"

section \<open>Snapshots\<close>

definition snapshot_cid :: "string \<Rightarrow> string \<Rightarrow> string" where
  "snapshot_cid disk u = disk @ ''_'' @ SNAPSHOT_PREFIX @ u"

definition snapshot_contract :: "conn \<Rightarrow> string \<Rightarrow> string \<Rightarrow> string res \<Rightarrow> event list \<Rightarrow> bool" where
  "snapshot_contract cn pool disk r ts \<longleftrightarrow> orderly r ts \<and> (effects ts = [] \<and> \<not> is_Ok r \<or>
     (\<exists>u d us. EvUuid (Inr u) \<in> set ts \<and> effects ts = ReqCreateSnapshot cn pool ''custom'' disk
         \<lparr>snpost_name = SNAPSHOT_PREFIX @ u, snpost_description = d\<rparr> # us \<and>
       (is_Ok r \<longrightarrow> r = Ok (snapshot_cid disk u))))"

definition delete_snapshot_contract :: "conn \<Rightarrow> string \<Rightarrow> string \<Rightarrow> string \<Rightarrow> unit res \<Rightarrow> event list \<Rightarrow> bool" where
  "delete_snapshot_contract cn pool vol snap r ts \<longleftrightarrow> orderly r ts \<and>
     (effects ts = [] \<and> \<not> is_Ok r \<or> effects ts = [ReqDeleteSnapshot cn pool ''custom'' vol snap])"

lemma split_snapshot_cid:
  assumes "CHR ''_'' \<notin> set disk" and "CHR ''_'' \<notin> set u"
  shows "split_on (CHR ''_'') (snapshot_cid disk u) = [disk, SNAPSHOT_PREFIX @ u]"
  using assms by (simp add: snapshot_cid_def SNAPSHOT_PREFIX_def split_append_sep split_no_sep)

context cpi_contract
begin

lemma disk_cids_emits: "emits (disk_cids names) (\<lambda>r ts. ts = [] \<and> (\<forall>cids. r = Ok cids \<longrightarrow> cids = names))"
  by (induction names) (auto simp: new_cid_def intro!: emits_rules elim: emits_mono)

lemma GetDisks_contract: "emits (GetDisks c vm) (get_disks_contract cn vm)"
  unfolding GetDisks_def findDisksAttachedToVm_def get_disks_contract_def
  by (auto intro!: emits_rules law_rules disk_cids_emits [THEN emits_mono]) (use reports_simps(3,4) in blast)

lemma HasDisk_contract: "emits (HasDisk c disk) (has_disk_contract cn (cpi_pool c) disk)"
  unfolding HasDisk_def has_disk_contract_def
  by (auto intro!: emits_rules law_rules)

lemma CreateDisk_contract: "emits (CreateDisk c sz assoc) (create_disk_contract cn (cpi_pool c) sz assoc)"
  unfolding CreateDisk_def Let_def
  apply (rule emits_bind, rule IsConnected_law [THEN emits_mono], rule emits_afterI)
    apply (rule emits_wrap, rule emits_ext)
     apply (simp add: DISK_PERSISTENT_PREFIX_def io_bind_def)
     apply (rule emits_option)
      apply (force simp: create_disk_contract_def)
     apply (rule emits_wrap, rule GetInstanceLocation_law [unfolded reads_instance_def, THEN emits_mono], rule emits_afterI)
     apply (rule emits_wrap, rule CreateStoragePoolVolume_law [unfolded sends_one_def, THEN emits_mono], rule emits_afterI)
     apply (force simp: create_disk_contract_def DISK_PERSISTENT_PREFIX_def)+
  done

lemma SnapshotDisk_contract: "emits (SnapshotDisk c disk) (snapshot_contract cn (cpi_pool c) disk)"
  unfolding SnapshotDisk_def snapshot_contract_def
  by (auto simp: Let_def new_cid_def snapshot_cid_def intro!: emits_rules law_rules
      CreateStoragePoolVolumeSnapshot_law [THEN emits_mono])

lemma DeleteSnapshot_contract:
  assumes "CHR ''_'' \<notin> set disk" and "CHR ''_'' \<notin> set u" and "disk \<noteq> []"
  shows "emits (DeleteSnapshot c (snapshot_cid disk u))
    (delete_snapshot_contract cn (cpi_pool c) disk (SNAPSHOT_PREFIX @ u))"
  unfolding DeleteSnapshot_def delete_snapshot_contract_def Let_def split_snapshot_cid [OF assms(1,2)]
  using assms(3) by (auto simp: SNAPSHOT_PREFIX_def intro!: emits_rules law_rules)

end

section \<open>Properties\<close>


text \<open>Settings with one persistent disk, at the first slot.\<close>

definition one_disk_settings :: agent_env where
  "one_disk_settings = AttachPersistentDisk ''vol-p-1'' (path_hint ''/dev/sdc'')
     (ForVM ''agent'' ''vm-1'' [] None \<lparr>ao_Mbus = ''https://mbus'', ao_NTP = None\<rparr>)"

text \<open>
  C16.  Detaching a disk never deletes the disk's volume: besides updates of the VM's configuration it
  creates one settings volume and may delete the old settings volume of a stopped VM.  A success has
  stored the VM's settings without the disk.
\<close>

theorem detach_disk_requests:
  "emits (DetachDisk (cpi_on a k L c) vm disk)
     (detach_disk_contract (conn_of a) (cpi_pool c) (settings_path c vm) vm disk)"
  using built.DetachDisk_contract by simp

text \<open>
  C38.  Snapshots: a successful \<open>SnapshotDisk\<close> has asked for a snapshot under a generated name and returns
  the disk and the snapshot joined by an underscore; \<open>DeleteSnapshot\<close> of that identifier asks for the
  deletion of that snapshot of that volume and of nothing else, provided neither the disk's nor the
  generated identifier contains an underscore.
\<close>

theorem snapshot_round_trip:
  assumes "CHR ''_'' \<notin> set disk" and "CHR ''_'' \<notin> set u" and "disk \<noteq> []"
  shows "emits (SnapshotDisk (cpi_on a k L c) disk) (snapshot_contract (conn_of a) (cpi_pool c) disk) \<and>
    emits (DeleteSnapshot (cpi_on a k L c) (snapshot_cid disk u))
      (delete_snapshot_contract (conn_of a) (cpi_pool c) disk (SNAPSHOT_PREFIX @ u))"
  using built.SnapshotDisk_contract [of a k L c disk] built.DeleteSnapshot_contract [OF assms, of a k L c] by simp

theorem snapshot_round_trip_witness:
  "\<forall>a k L (c :: 'w CPI). emits (DeleteSnapshot (cpi_on a k L c) ''vol-p-1_snap-2'')
     (delete_snapshot_contract (conn_of a) (cpi_pool c) ''vol-p-1'' ''snap-2'')"
proof (intro allI)
  fix a k L and c :: "'w CPI"
  show "emits (DeleteSnapshot (cpi_on a k L c) ''vol-p-1_snap-2'')
     (delete_snapshot_contract (conn_of a) (cpi_pool c) ''vol-p-1'' ''snap-2'')"
    using snapshot_round_trip [of "''vol-p-1''" "''2''" a k L c] by (simp add: snapshot_cid_def SNAPSHOT_PREFIX_def)
qed

text \<open>
  C37.  The calls that only ask.  \<open>HasVM\<close>, \<open>HasDisk\<close> and \<open>GetDisks\<close> change nothing on the server, and the
  first two never crash.  \<open>HasVM\<close> answers no exactly if the server reported the instance as not found or
  without a location.  \<open>HasDisk\<close> answers only for a volume that the server has delivered, by its version
  tag: for a missing disk it fails instead of answering no.  \<open>GetDisks\<close> lists the device names of all disks
  of the VM as the server reported them, the root, settings and ephemeral devices included, not the
  identifiers of the persistent disks.
\<close>

theorem questions_change_nothing:
  "emits (HasVM (cpi_on a k L c) vm) (has_vm_contract (conn_of a) vm) \<and>
   emits (HasDisk (cpi_on a k L c) disk) (has_disk_contract (conn_of a) (cpi_pool c) disk) \<and>
   emits (GetDisks (cpi_on a k L c) vm) (get_disks_contract (conn_of a) vm)"
  using built.HasVM_contract [of a k L c vm] built.HasDisk_contract [of a k L c disk]
    built.GetDisks_contract [of a k L c vm] by simp

text \<open>
  Creating a disk asks for at most one volume, of the given size, named \<open>vol-p-\<close> plus a generated
  identifier, on the server where the associated VM was found; a success returns that name.  Without an
  associated VM the call never succeeds.
\<close>

theorem create_disk_request:
  "emits (CreateDisk (cpi_on a k L c) sz assoc) (create_disk_contract (conn_of a) (cpi_pool c) sz assoc)"
  using built.CreateDisk_contract by simp

end
