(* ===== verification/CloudCalls.thy ===== *)
theory CloudCalls
  imports EditProps CpiDiskProps
begin

text \<open>
  What the calls that make and change VMs do to the abstract cloud: each successful call is a composition
  of small abstract operations, and deleting a VM undoes its creation.
\<close>

section \<open>What a successful run does\<close>

text \<open>
  Whenever \<open>m\<close> succeeds with \<open>x\<close>, what \<open>v\<close> sees of the state has changed as \<open>R x\<close> says.  Below it is
  mostly the cloud that a world shows.
\<close>

definition turns :: "((event, 'w) sys \<Rightarrow> 'v) \<Rightarrow> ('w, 'a) go \<Rightarrow> ('a \<Rightarrow> 'v \<Rightarrow> 'v \<Rightarrow> bool) \<Rightarrow> bool" where
  "turns v m R \<longleftrightarrow> (\<forall>s x s'. m s = (Ok x, s') \<longrightarrow> R x (v s) (v s'))"

abbreviation does :: "('w \<Rightarrow> cloud) \<Rightarrow> ('w, 'a) go \<Rightarrow> ('a \<Rightarrow> cloud \<Rightarrow> cloud \<Rightarrow> bool) \<Rightarrow> bool" where
  "does view \<equiv> turns (\<lambda>s. view (world s))"

lemma doesD: "turns v m R \<Longrightarrow> m s = (Ok x, s') \<Longrightarrow> R x (v s) (v s')"
  by (simp add: turns_def)

lemma does_mono: "turns v m P \<Longrightarrow> (\<And>x c c'. P x c c' \<Longrightarrow> Q x c c') \<Longrightarrow> turns v m Q"
  unfolding turns_def by blast

lemma does_basic:
  "turns v (io_ret x) (\<lambda>y c c'. y = x \<and> c' = c)" "turns v (io_fail e) R" "turns v (io_panic p) R"
  "turns v (io_lift q) (\<lambda>y c c'. q = Inr y \<and> c' = c)"
  by (cases q; auto simp: turns_def io_run)+

text \<open>One step after another; the second may use what the first has established.\<close>

lemma does_try:
  assumes "turns v m P" and "\<And>e. turns v (h e) (\<lambda>y c c'. \<forall>c0. R y c0 c')"
    and "\<And>x. turns v (k x) (\<lambda>y c c'. \<forall>c0. P x c0 c \<longrightarrow> R y c0 c')"
  shows "turns v (io_try m h k) R"
  unfolding turns_def
proof (intro allI impI)
  fix s y s' assume run: "io_try m h k s = (Ok y, s')"
  obtain q s1 where m: "m s = (q, s1)" by (cases "m s")
  show "R y (v s) (v s')"
    using run m doesD [OF assms(1)] doesD [OF assms(2)] doesD [OF assms(3)] by (cases q) (auto simp: io_try_run)
qed

lemma does_bind:
  assumes "turns v m P" and "\<And>x. turns v (k x) (\<lambda>y c c'. \<forall>c0. P x c0 c \<longrightarrow> R y c0 c')"
  shows "turns v (io_bind m k) R" and "turns v (io_wrap m msg k) R"
  unfolding io_bind_def io_wrap_def by (rule does_try [OF assms(1) does_basic(2) assms(2)])+

text \<open>A step that asks without changing anything, and a step without a result of interest.\<close>

lemma does_ask:
  assumes "turns v m (\<lambda>x c c'. c' = c \<and> F x c)" and "\<And>x. turns v (k x) (\<lambda>y c c'. F x c \<longrightarrow> R y c c')"
  shows "turns v (io_bind m k) R" and "turns v (io_wrap m msg k) R"
  by (rule does_bind [OF assms(1)], rule does_mono [OF assms(2)], blast)+

lemma does_then:
  assumes "turns v m (\<lambda>_. P)" and "\<And>x. turns v (k x) (\<lambda>y. Q y)"
  shows "turns v (io_bind m k) (\<lambda>y. P OO Q y)" and "turns v (io_wrap m msg k) (\<lambda>y. P OO Q y)"
  by (rule does_bind [OF assms(1)], rule does_mono [OF assms(2)], blast)+

lemma does_branch:
  "(b \<Longrightarrow> turns v m R) \<Longrightarrow> (\<not> b \<Longrightarrow> turns v n R) \<Longrightarrow> turns v (if b then m else n) R"
  "(o' = None \<Longrightarrow> turns v m R) \<Longrightarrow> (\<And>y. o' = Some y \<Longrightarrow> turns v (k y) R) \<Longrightarrow>
     turns v (case o' of None \<Rightarrow> m | Some y \<Rightarrow> k y) R"
  "(\<And>x y. p = (x, y) \<Longrightarrow> turns v (g x y) R) \<Longrightarrow> turns v (case p of (x, y) \<Rightarrow> g x y) R"
  by (auto split: option.split prod.split)

lemma does_lifted:
  assumes "\<And>x. q = Inr x \<Longrightarrow> turns v (k x) R"
  shows "turns v (io_bind (io_lift q) k) R" and "turns v (io_wrap (io_lift q) msg k) R"
  using assms by (cases q; auto simp: turns_def io_run)+

text \<open>What the contract of a method says of its requests, read on the cloud.\<close>

lemma does_requests:
  assumes "follows (cloud_world view) m" and "emits m P"
    and "\<And>x ts w w'. P (Ok x) ts \<Longrightarrow> walk (cloud_world view) w ts w' \<Longrightarrow>
      \<not> refused ts \<and> (walk cloud_step (view w) (effects ts) (view w') \<longrightarrow> R x (view w) (view w'))"
  shows "does view m R"
  unfolding turns_def
proof (intro allI impI)
  fix s x s' assume run: "m s = (Ok x, s')"
  obtain ts where ts: "P (Ok x) ts" "walk (cloud_world view) (world s) ts (world s')"
    using follows_emits [OF assms(1,2) run] .
  show "R x (view (world s)) (view (world s'))"
    using assms(3) [OF ts] walk_requests [OF ts(2)] by (elim conjE) (erule mp, erule meta_mp)
qed

lemma does_nothing:
  assumes "follows (cloud_world view) m" and "emits m (\<lambda>r ts. effects ts = [])"
  shows "does view m (\<lambda>_ cl cl'. cl' = cl)"
  by (rule does_requests [OF assms]) (auto simp: no_effects_not_refused)

section \<open>The abstract operations\<close>

text \<open>On the devices of a VM.\<close>

definition with_devices :: "string \<Rightarrow> (devices \<Rightarrow> devices \<Rightarrow> bool) \<Rightarrow> cloud \<Rightarrow> cloud \<Rightarrow> bool" where
  "with_devices vm R cl cl' \<longleftrightarrow> (\<exists>ds ds'. cl_devices cl vm = Some ds \<and> R ds ds' \<and>
     cl' = cl\<lparr>cl_devices := (cl_devices cl)(vm \<mapsto> ds')\<rparr>)"

definition instance_made :: "string \<Rightarrow> devices \<Rightarrow> cloud \<Rightarrow> cloud \<Rightarrow> bool" where
  "instance_made vm ds cl cl' \<longleftrightarrow> cl' = cl\<lparr>cl_devices := (cl_devices cl)(vm \<mapsto> ds)\<rparr>"

definition device_added :: "string \<Rightarrow> string \<Rightarrow> strmap \<Rightarrow> cloud \<Rightarrow> cloud \<Rightarrow> bool" where
  "device_added vm n dev = with_devices vm (\<lambda>ds ds'. gm_find ds n = None \<and> ds' = ds @ [(n, dev)])"

definition device_removed :: "string \<Rightarrow> string \<Rightarrow> cloud \<Rightarrow> cloud \<Rightarrow> bool" where
  "device_removed vm n = with_devices vm (\<lambda>ds ds'. ds' = gm_del n ds)"

definition source_removed :: "string \<Rightarrow> string \<Rightarrow> cloud \<Rightarrow> cloud \<Rightarrow> bool" where
  "source_removed vm src = with_devices vm (\<lambda>ds ds'. let n = find_device_by_source ds src in
     n = [] \<and> ds' = ds \<or> ds' = gm_del n ds)"

text \<open>On the volumes.\<close>

definition volume_made :: "string \<Rightarrow> string \<Rightarrow> cloud \<Rightarrow> cloud \<Rightarrow> bool" where
  "volume_made l v cl cl' \<longleftrightarrow> (l, v) \<notin> cl_volumes cl \<and> cl' = cl\<lparr>cl_volumes := insert (l, v) (cl_volumes cl)\<rparr>"

definition volume_removed :: "conn \<Rightarrow> string \<Rightarrow> cloud \<Rightarrow> cloud \<Rightarrow> bool" where
  "volume_removed cn v cl cl' \<longleftrightarrow> cl' = cl\<lparr>cl_volumes := cl_volumes cl - {(l, u). u = v \<and> at_target cn l}\<rparr>"

definition volume_moved :: "string \<Rightarrow> cloud \<Rightarrow> cloud \<Rightarrow> bool" where
  "volume_moved v cl cl' \<longleftrightarrow> (\<exists>l l'. (l, v) \<in> cl_volumes cl \<and> (l', v) \<notin> cl_volumes cl \<and>
     cl' = cl\<lparr>cl_volumes := insert (l', v) (cl_volumes cl) - {(l, v)}\<rparr>)"

lemma unchanged_devices:
  "cl_devices cl vm = Some ds \<Longrightarrow> cl\<lparr>cl_devices := (cl_devices cl)(vm \<mapsto> ds)\<rparr> = cl"
  by (simp add: fun_upd_idem)

section \<open>What the CPI relies on\<close>

locale cloud_effects =
  fixes G :: bool and view :: "'w \<Rightarrow> cloud" and c :: "'w CPI" and cn :: conn
  assumes quiet: "G \<Longrightarrow> does view (IsConnected (cpi_adapter c)) (\<lambda>_ cl cl'. cl' = cl)"
      "G \<Longrightarrow> does view (GetInstanceLocation (cpi_adapter c) vm) (\<lambda>_ cl cl'. cl' = cl)"
      "G \<Longrightarrow> does view (IsInstanceStopped (cpi_adapter c) vm) (\<lambda>_ cl cl'. cl' = cl)"
      "G \<Longrightarrow> does view (IsManagedNetwork (cpi_adapter c) net) (\<lambda>_ cl cl'. cl' = cl)"
      "G \<Longrightarrow> does view (GetStemcellDescription (cpi_adapter c) al) (\<lambda>_ cl cl'. cl' = cl)"
      "G \<Longrightarrow> does view (SetInstanceAction (cpi_adapter c) vm act) (\<lambda>_ cl cl'. cl' = cl)"
      "G \<Longrightarrow> does view (gen_uuid c) (\<lambda>_ cl cl'. cl' = cl)"
      "G \<Longrightarrow> wf_agent_env e \<Longrightarrow> does view (am_Write (cpi_agentMgr c) vm e) (\<lambda>_ cl cl'. cl' = cl)"
    and reads_settings: "G \<Longrightarrow> does view (am_Read (cpi_agentMgr c) vm) (\<lambda>e cl cl'. cl' = cl \<and> wf_agent_env e)"
    and reads_devices: "G \<Longrightarrow> does view (GetDevices (cpi_adapter c) vm)
      (\<lambda>ds cl cl'. cl' = cl \<and> cl_devices cl vm = Some ds)"
    and adds_device: "G \<Longrightarrow> does view (AttachDevice (cpi_adapter c) vm n dev) (\<lambda>_. device_added vm n dev)"
    and removes_device: "G \<Longrightarrow> does view (DetachDeviceByName (cpi_adapter c) vm n) (\<lambda>_. device_removed vm n)"
    and removes_source: "G \<Longrightarrow> does view (DetachDeviceBySource (cpi_adapter c) vm v) (\<lambda>_. source_removed vm v)"
    and makes_volume: "G \<Longrightarrow> does view (CreateStoragePoolVolume (cpi_adapter c) t pool v sz)
      (\<lambda>_ cl cl'. \<exists>l. at_target (target_conn t cn) l \<and> volume_made l v cl cl')"
    and makes_settings: "G \<Longrightarrow> does view (CreateStoragePoolVolumeFromISO (cpi_adapter c) t pool v img)
      (\<lambda>_ cl cl'. \<exists>l. at_target (target_conn t cn) l \<and> volume_made l v cl cl')"
    and removes_volume: "G \<Longrightarrow> does view (DeleteStoragePoolVolume (cpi_adapter c) pool v) (\<lambda>_. volume_removed cn v)"
    and colocates_volume: "G \<Longrightarrow> does view (ColocateStoragePoolVolumeWithInstance (cpi_adapter c) vm pool v)
      (\<lambda>_ cl cl'. cl' = cl \<or> volume_moved v cl cl')"
    and makes_instance: "G \<Longrightarrow> does view (createVMWithLock c m) (\<lambda>_. instance_made (meta_Name m) (meta_Devices m))"

text \<open>The old settings disk goes, if there is one: its device, and its volume where the VM is stopped.\<close>

definition config_dropped :: "conn \<Rightarrow> string \<Rightarrow> devices \<Rightarrow> cloud \<Rightarrow> cloud \<Rightarrow> bool" where
  "config_dropped cn vm disks = (case gm_find disks DISK_DEVICE_CONFIG of
        None \<Rightarrow> (=)
      | Some d \<Rightarrow> device_removed vm DISK_DEVICE_CONFIG OO sup (=) (volume_removed cn (gm_get d ''source'')))"

definition old_settings_dropped :: "conn \<Rightarrow> string \<Rightarrow> cloud \<Rightarrow> cloud \<Rightarrow> bool" where
  "old_settings_dropped cn vm cl cl' \<longleftrightarrow> (\<exists>ds. cl_devices cl vm = Some ds \<and> config_dropped cn vm (disks_of ds) cl cl')"

text \<open>A new settings volume, which takes the place of the old one.\<close>

definition settings_replaced :: "conn \<Rightarrow> 'w CPI \<Rightarrow> string \<Rightarrow> cloud \<Rightarrow> cloud \<Rightarrow> bool" where
  "settings_replaced cn c vm cl cl' \<longleftrightarrow> (\<exists>l v. prefix DISK_CONFIGURATION_PREFIX v \<and>
     (volume_made l v OO old_settings_dropped cn vm OO device_added vm DISK_DEVICE_CONFIG (disk_device c v)) cl cl')"

definition disk_attached :: "conn \<Rightarrow> 'w CPI \<Rightarrow> string \<Rightarrow> string \<Rightarrow> string \<Rightarrow> cloud \<Rightarrow> cloud \<Rightarrow> bool" where
  "disk_attached cn c vm disk name =
     (sup (=) (volume_moved disk) OO device_added vm name (disk_device c disk) OO settings_replaced cn c vm)"

definition disk_detached :: "conn \<Rightarrow> 'w CPI \<Rightarrow> string \<Rightarrow> string \<Rightarrow> cloud \<Rightarrow> cloud \<Rightarrow> bool" where
  "disk_detached cn c vm disk = (source_removed vm disk OO settings_replaced cn c vm)"

text \<open>The set-up of a new VM: its ephemeral disk, if it has one, and its settings.\<close>

definition ephemeral_added :: "'w CPI \<Rightarrow> string \<Rightarrow> cloud \<Rightarrow> cloud \<Rightarrow> bool" where
  "ephemeral_added c vm cl cl' \<longleftrightarrow> (\<exists>l v. prefix DISK_EPHEMERAL_PREFIX v \<and>
     (volume_made l v OO device_added vm DISK_DEVICE_EPHEMERAL (disk_device c v)) cl cl')"

definition vm_set_up :: "conn \<Rightarrow> 'w CPI \<Rightarrow> string \<Rightarrow> int \<Rightarrow> cloud \<Rightarrow> cloud \<Rightarrow> bool" where
  "vm_set_up cn c vm sz = (if sz > 0 then ephemeral_added c vm OO settings_replaced cn c vm else settings_replaced cn c vm)"

text \<open>The creation: an instance with its root disk and the planned network devices, and its set-up.\<close>

definition vm_made :: "conn \<Rightarrow> 'w CPI \<Rightarrow> json \<Rightarrow> networks \<Rightarrow> string \<Rightarrow> networks \<Rightarrow> cloud \<Rightarrow> cloud \<Rightarrow> bool" where
  "vm_made cn c cprops nets vm nets' cl cl' \<longleftrightarrow> (\<exists>props managed nics target.
     dec_vm_props \<lparr>vp_InstanceType = [], vp_EphemeralDisk = 0, vp_Target = cfg_Target (conf_Server (cpi_config c)),
       vp_Network = cfg_Network (conf_Server (cpi_config c))\<rparr> cprops = Inr props \<and>
     network_loop (vp_Network props) (cfg_ManagedNetworkAssignment (conf_Server (cpi_config c))) managed nets 0 [] []
       (vp_Target props) = Inr (nics, nets', target) \<and>
     (instance_made vm (gm_put ''root'' (root_device (cpi_pool c)) nics) OO
        vm_set_up cn c vm (vp_EphemeralDisk props)) cl cl')"

text \<open>What is due when the set-up has returned normally.\<close>

primrec delivers :: "('a \<Rightarrow> 'v \<Rightarrow> 'v \<Rightarrow> bool) \<Rightarrow> 'a scoped \<Rightarrow> 'v \<Rightarrow> 'v \<Rightarrow> bool" where
  "delivers R (Returned x) = R x"
| "delivers R (OuterErr e) = (\<lambda>_ _. True)"
| "delivers R (InnerErr e) = (\<lambda>_ _. True)"

lemma does_scoped:
  assumes "turns v m P" and "\<And>x. turns v (k x) (\<lambda>r cl cl'. \<forall>cl0. P x cl0 cl \<longrightarrow> Q r cl0 cl')"
    and "\<And>e cl cl'. Q (OuterErr e) cl cl'" "\<And>e cl cl'. Q (InnerErr e) cl cl'"
  shows "turns v (outer m msg k) Q" and "turns v (inner m msg k) Q"
  unfolding outer_def inner_def
  by (rule does_try, rule assms(1), rule does_mono, rule does_basic(1), use assms(3,4) in simp, rule assms(2))+

lemma does_cleanup: "turns v m (delivers R) \<Longrightarrow> turns v (with_cleanup c vm m) R"
  unfolding with_cleanup_def
  by (rule does_bind, assumption) (auto simp: turns_def io_run split: scoped.splits res.splits prod.splits)

lemma delivers_mono: "delivers P r cl cl' \<Longrightarrow> (\<And>x. P x cl cl' \<Longrightarrow> Q x cl0 cl') \<Longrightarrow> delivers Q r cl0 cl'"
  by (cases r) auto

lemma ephemeral_addedI:
  assumes "volume_made l (DISK_EPHEMERAL_PREFIX @ u) cl0 cl1"
    and "device_added vm DISK_DEVICE_EPHEMERAL (disk_device c (DISK_EPHEMERAL_PREFIX @ u)) cl1 cl2"
  shows "ephemeral_added c vm cl0 cl2"
  unfolding ephemeral_added_def using assms
  by (intro exI [of _ l] exI [of _ "DISK_EPHEMERAL_PREFIX @ u"]) auto

lemma settings_replacedI:
  assumes "volume_made l (DISK_CONFIGURATION_PREFIX @ u) cl0 cl1" and "old_settings_dropped cn vm cl1 cl2"
    and "device_added vm DISK_DEVICE_CONFIG (disk_device c (DISK_CONFIGURATION_PREFIX @ u)) cl2 cl3"
  shows "settings_replaced cn c vm cl0 cl3"
  unfolding settings_replaced_def using assms
  by (intro exI [of _ l] exI [of _ "DISK_CONFIGURATION_PREFIX @ u"]) auto

context cloud_effects
begin

lemmas does_quiet = does_ask [where F = "\<lambda>_ _. True", simplified]

lemma does_find:
  assumes G
  shows "does view (findDisksAttachedToVm c vm)
     (\<lambda>disks cl cl'. cl' = cl \<and> (\<exists>ds. cl_devices cl vm = Some ds \<and> disks = disks_of ds))"
  unfolding findDisksAttachedToVm_def
  by (rule does_ask, rule reads_devices, rule assms, rule does_mono, rule does_basic(1)) auto

lemma does_drop:
  assumes G
  shows "does view (case gm_find disks DISK_DEVICE_CONFIG of
      None \<Rightarrow> io_ret ()
    | Some disk \<Rightarrow>
        io_wrap (DetachDeviceByName (cpi_adapter c) vm DISK_DEVICE_CONFIG) m1 (\<lambda>_.
        io_wrap (IsInstanceStopped (cpi_adapter c) vm) m2 (\<lambda>stopped.
        if stopped
        then io_wrap (DeleteStoragePoolVolume (cpi_adapter c) (cpi_pool c) (gm_get disk ''source'')) m3 (\<lambda>_. io_ret ())
        else io_ret ())))
   (\<lambda>_. config_dropped cn vm disks)"
  apply (cases "gm_find disks DISK_DEVICE_CONFIG"; simp only: config_dropped_def option.case)
   apply (rule does_mono, rule does_basic, simp)
  apply (rule does_then, rule removes_device, rule assms)
  apply (rule does_quiet, rule quiet, rule assms)
  apply (rule does_branch)
   apply (rule does_bind, rule removes_volume, rule assms)
   apply (rule does_mono, rule does_basic, simp)
  apply (rule does_mono, rule does_basic, simp)
  done

lemma does_settings:
  assumes G and "wf_agent_env e"
  shows "does view (writeAgentFileToVM c vm e) (\<lambda>_. settings_replaced cn c vm)"
  unfolding writeAgentFileToVM_def Let_def attachDiskDeviceToVM_def
  apply (rule does_quiet, rule quiet, rule assms)
  apply (rule does_quiet, rule quiet, rule assms, rule assms)
  apply (rule does_branch, rule does_basic)
  apply (rule does_quiet, rule quiet, rule assms)
  apply (rule does_bind, rule makes_settings, rule assms)
  apply (rule does_ask, rule does_find, rule assms)
  apply (rule does_bind, rule does_drop, rule assms)
  apply (rule does_bind, rule adds_device, rule assms)
  apply (rule does_mono, rule does_basic)
  apply (auto simp: old_settings_dropped_def relcompp_apply intro!: settings_replacedI)
  done

lemma does_attach:
  assumes G
  shows "does view (AttachDiskV2 c vm disk) (\<lambda>hint cl cl'. \<exists>p name.
     (p, name) \<in> {(''/dev/sdc'', DISK_DEVICE_PERSISTENT1), (''/dev/sdd'', DISK_DEVICE_PERSISTENT2)} \<and>
     hint = path_hint p \<and> disk_attached cn c vm disk name cl cl')"
  unfolding AttachDiskV2_def Let_def attachDiskDeviceToVM_def
  apply (rule does_quiet, rule quiet, rule assms)
  apply (rule does_ask, rule reads_settings, rule assms)
  apply (rule does_branch, rule does_basic, rule does_branch)
  subgoal for u e slot p name
    apply (cases "wf_agent_env e")
     prefer 2 apply (simp add: turns_def)
    apply (rule does_bind, rule colocates_volume, rule assms)
    apply (rule does_bind, rule adds_device, rule assms)
    apply (rule does_bind, rule does_settings, rule assms, simp)
    apply (rule does_mono, rule does_basic)
    apply (intro allI impI)
    apply (elim conjE)
    apply (rule exI [of _ p], rule exI [of _ name], intro conjI)
      apply (auto simp: choose_slot_def split: if_splits)[1]
     apply (simp add: path_hint_def)
    by (auto simp: disk_attached_def relcompp_apply)
  done

lemma does_detach:
  assumes G
  shows "does view (DetachDisk c vm disk) (\<lambda>_. disk_detached cn c vm disk)"
  unfolding DetachDisk_def disk_detached_def
  apply (rule does_quiet, rule quiet, rule assms)
  apply (rule does_then, rule removes_source, rule assms)
  apply (rule does_ask, rule reads_settings, rule assms)
  subgoal for u x e
    apply (cases "wf_agent_env e")
     prefer 2 apply (simp add: turns_def)
    apply (rule does_bind, rule does_settings, rule assms, simp)
    by (rule does_mono, rule does_basic) auto
  done

lemma does_finish:
  assumes G and "wf_agent_env e"
  shows "does view (finish_vm c vm nets e) (delivers (\<lambda>x cl cl'. x = (vm, nets) \<and> settings_replaced cn c vm cl cl'))"
  unfolding finish_vm_def
  apply (rule does_scoped, rule does_settings, rule assms, rule assms)
    apply (rule does_try, rule quiet, rule assms)
     apply (rule does_mono, rule does_basic, simp)
    apply (rule does_mono, rule does_basic)
    by simp_all

lemma does_setup:
  assumes G and "wf_map nets" and "pred_option wf_map env"
  shows "does view (setup_vm c agent vm props nets env)
    (delivers (\<lambda>x cl cl'. x = (vm, nets) \<and> vm_set_up cn c vm (vp_EphemeralDisk props) cl cl'))"
  unfolding setup_vm_def Let_def attachDiskDeviceToVM_def
  apply (rule does_scoped, rule quiet, rule assms, rule does_branch)
     apply (rule does_scoped, rule quiet, rule assms)
       apply (rule does_scoped, rule makes_volume, rule assms)
         apply (rule does_scoped, rule adds_device, rule assms)
           apply (rule does_mono, rule does_finish, rule assms)
            apply (simp add: assms)
  subgoal for t u x y r cl cl'
    by (cases r) (auto simp: vm_set_up_def relcompp_apply intro!: ephemeral_addedI)
           apply simp_all
  by (rule does_mono, rule does_finish, rule assms) (auto simp: assms vm_set_up_def elim: delivers_mono)

lemma does_create:
  assumes G and "pred_option wf_map env"
  shows "does view (CreateVMV2 c agent stemcell cprops nets env) (\<lambda>(vm, nets') cl cl'.
    \<exists>u. vm = ''vm-'' @ u \<and> vm_made cn c cprops nets vm nets' cl cl')"
  unfolding CreateVMV2_def Let_def built.new_vm_cid built.io_bind_ret_left
  apply (rule does_quiet, rule quiet, rule assms)
  apply (rule does_quiet, rule quiet, rule assms)
  apply (rule does_lifted)
  apply (rule does_quiet, rule quiet, rule assms)
  apply (rule does_lifted)
  apply (rule does_branch, rule does_branch)
  apply (rule does_quiet, rule quiet, rule assms)
  apply (rule does_lifted)
  subgoal for w u props managed plan nics rest nets' target descr cfg
    apply (cases "wf_map nets'")
     prefer 2 using network_loop_wf [where acc = "[]"] apply (fastforce simp: turns_def)
    apply (rule does_bind, rule makes_instance, rule assms)
    apply (rule does_mono, rule does_cleanup, rule does_setup, rule assms)
      apply assumption
     apply (rule assms)
    apply (auto simp: vm_made_def vm_metadata_def)
    done
  done

end

section \<open>Both adapters provide it on a cloud\<close>

lemma does_update:
  assumes "follows (cloud_world view) m" and "emits m (\<lambda>r ts. orderly r ts \<and>
      (effects ts = [] \<and> (is_Ok r \<longrightarrow> (\<exists>i t. ts = [EvGetInstance cn n (Inr (i, t))] \<and> P (ip_devices (ins_put i)))) \<or>
       updates_instance ts cn n f g \<and> (\<forall>i t. hd ts = EvGetInstance cn n (Inr (i, t)) \<longrightarrow> U (ip_devices (ins_put i)))))"
    and "\<And>ds. P ds \<Longrightarrow> R ds ds" and "\<And>i. U (ip_devices (ins_put i)) \<Longrightarrow> R (ip_devices (ins_put i)) (ip_devices (f i (ins_put i)))"
  shows "does view m (\<lambda>_. with_devices n R)"
proof (rule does_requests [OF assms(1,2)])
  fix x ts w w'
  assume run: "orderly (Ok x) ts \<and>
      (effects ts = [] \<and> (is_Ok (Ok x) \<longrightarrow> (\<exists>i t. ts = [EvGetInstance cn n (Inr (i, t))] \<and> P (ip_devices (ins_put i)))) \<or>
       updates_instance ts cn n f g \<and> (\<forall>i t. hd ts = EvGetInstance cn n (Inr (i, t)) \<longrightarrow> U (ip_devices (ins_put i))))"
    and walk: "walk (cloud_world view) w ts w'"
  then have ok: "\<not> refused ts" by simp
  have "with_devices n R (view w) (view w')"
  proof (cases "updates_instance ts cn n f g")
    case True
    then obtain i t where hd: "hd ts = EvGetInstance cn n (Inr (i, t))" by (auto simp: updates_instance_def)
    obtain j :: vm_instance where j: "cl_devices (view w) n = Some (ip_devices (ins_put j))"
      "view w' = (view w)\<lparr>cl_devices := (cl_devices (view w))(n \<mapsto> ip_devices (f j (ins_put j)))\<rparr>"
      by (rule instance_update_run [OF walk ok True]) blast
    have "ip_devices (ins_put j) = ip_devices (ins_put i)" and "U (ip_devices (ins_put i))"
      using hd walk j(1) run True by (cases ts; auto simp: cloud_world_def updates_instance_def)+
    then show ?thesis using j assms(4) [of j] by (auto simp: with_devices_def)
  next
    case False
    then obtain i t where "ts = [EvGetInstance cn n (Inr (i, t))]" "P (ip_devices (ins_put i))" using run by auto
    then have "cl_devices (view w) n = Some (ip_devices (ins_put i))" "view w' = view w"
      and "R (ip_devices (ins_put i)) (ip_devices (ins_put i))"
      using walk assms(3) by (auto simp: cloud_world_def)
    then show ?thesis unfolding with_devices_def by (metis unchanged_devices)
  qed
  with ok show "\<not> refused ts \<and> (walk cloud_step (view w) (effects ts) (view w') \<longrightarrow> with_devices n R (view w) (view w'))"
    by blast
qed

lemma volume_steps:
  "walk cloud_step cl [ReqCreateVolume cn p post] cl' \<longleftrightarrow> (\<exists>l. at_target cn l \<and> volume_made l (svpost_name post) cl cl')"
  "walk cloud_step cl [ReqCreateVolumeFromISO cn p args] cl' \<longleftrightarrow> (\<exists>l. at_target cn l \<and> volume_made l (iso_name args) cl cl')"
  "walk cloud_step cl [ReqDeleteVolume cn p ty v] cl' \<longleftrightarrow> volume_removed cn v cl cl'"
  "walk cloud_step cl [ReqCreateInstance cn ipost] cl' \<longleftrightarrow> instance_made (ipost_name ipost) (ip_devices (ipost_put ipost)) cl cl'"
  by (auto simp: volume_made_def volume_removed_def instance_made_def delete_volume_step create_volume create_from_iso
      create_instance elim: cloud_stepE)

lemma does_colocate:
  assumes "follows (cloud_world view) (ColocateStoragePoolVolumeWithInstance (adapter_of a) n pool v)"
  shows "does view (ColocateStoragePoolVolumeWithInstance (adapter_of a) n pool v)
     (\<lambda>_ cl cl'. cl' = cl \<or> volume_moved v cl cl')"
proof (rule does_requests [OF assms any.Colocate_law], elim conjE disjE exE)
  fix x ts w w' i t vol u
  assume walk: "walk (cloud_world view) w ts w'" and "orderly (Ok x) ts"
    and reads: "prefix [EvGetInstance (conn_of a) n (Inr (i, t)), EvGetVolume (conn_of a) pool ''custom'' v (Inr (vol, u))] ts"
    and differ: "ins_location i \<noteq> sv_location vol" "sv_location vol \<noteq> []"
    and moves: "prefix (effects ts) [ReqCopyVolume (UseTarget (ins_location i) (conn_of a)) pool
        (UseTarget (sv_location vol) (conn_of a)) pool vol \<lparr>cp_name = sv_name vol, cp_mode = ''move'', cp_volume_only = False\<rparr>,
        ReqDeleteVolume (UseTarget (sv_location vol) (conn_of a)) pool ''custom'' v]"
    and "is_Ok (Ok x) \<longrightarrow> length (effects ts) = 2"
  have name: "sv_name vol = v" "(sv_location vol, v) \<in> cl_volumes (view w)"
    using reads walk by (auto simp: prefix_def cloud_world_def)
  have "effects ts = [ReqCopyVolume (UseTarget (ins_location i) (conn_of a)) pool
        (UseTarget (sv_location vol) (conn_of a)) pool vol \<lparr>cp_name = sv_name vol, cp_mode = ''move'', cp_volume_only = False\<rparr>,
        ReqDeleteVolume (UseTarget (sv_location vol) (conn_of a)) pool ''custom'' v]"
    using moves \<open>is_Ok (Ok x) \<longrightarrow> length (effects ts) = 2\<close> by (auto simp: prefix_Cons)
  moreover have "{(l, u). u = v \<and> sv_location vol = l} = {(sv_location vol, v)}" by auto
  ultimately have "\<exists>l'. (l', v) \<notin> cl_volumes (view w) \<and>
      view w' = (view w)\<lparr>cl_volumes := insert (l', v) (cl_volumes (view w)) - {(sv_location vol, v)}\<rparr>"
    if "walk cloud_step (view w) (effects ts) (view w')"
    using that name(1) differ(2) by (auto simp: copy_volume_step delete_volume_step at_target_def UseTarget_def)
  then show "\<not> refused ts \<and> (walk cloud_step (view w) (effects ts) (view w') \<longrightarrow>
      view w' = view w \<or> volume_moved v (view w) (view w'))"
    using name(2) \<open>orderly (Ok x) ts\<close> unfolding volume_moved_def by auto
qed (auto simp: no_effects_not_refused)

lemma does_edits:
  assumes "shows_cloud view a L c"
  shows "does view (AttachDevice (adapter_of a) n d dev) (\<lambda>_. device_added n d dev)"
    and "does view (DetachDeviceByName (adapter_of a) n d) (\<lambda>_. device_removed n d)"
    and "does view (DetachDeviceBySource (adapter_of a) n src) (\<lambda>_. source_removed n src)"
proof -
  note follows = cloud_follows [OF assms]
  show "does view (AttachDevice (adapter_of a) n d dev) (\<lambda>_. device_added n d dev)"
    unfolding device_added_def
    by (rule does_update [OF follows(22), where P = "\<lambda>_. False" and U = "\<lambda>ds. gm_find ds d = None"],
        rule any.AttachDevice_law [THEN emits_mono]) (auto simp: put_fresh map_of_eq_None_iff)
  show "does view (DetachDeviceByName (adapter_of a) n d) (\<lambda>_. device_removed n d)"
    unfolding device_removed_def
    by (rule does_update [OF follows(23), where P = "\<lambda>ds. gm_find ds d = None" and U = "\<lambda>_. True"],
        rule any.DetachDeviceByName_law [THEN emits_mono]) (auto simp: map_of_eq_None_iff)
  show "does view (DetachDeviceBySource (adapter_of a) n src) (\<lambda>_. source_removed n src)"
    unfolding source_removed_def
    by (rule does_update [OF follows(24), where P = "\<lambda>ds. find_device_by_source ds src = []" and U = "\<lambda>_. True"],
        rule any.DetachDeviceBySource_law [THEN emits_mono]) auto
qed

lemma does_request:
  assumes "follows (cloud_world view) m" and "sends_one m q"
    and "\<And>cl cl'. walk cloud_step cl [q] cl' \<Longrightarrow> R cl cl'"
  shows "does view m (\<lambda>_. R)"
  by (rule does_requests [OF assms(1) assms(2) [unfolded sends_one_def]]) (auto simp del: walk_Cons intro: assms(3))

lemma does_volumes:
  assumes "shows_cloud view a L c"
  shows "does view (CreateStoragePoolVolume (adapter_of a) t pool v sz)
      (\<lambda>_ cl cl'. \<exists>l. at_target (target_conn t (conn_of a)) l \<and> volume_made l v cl cl')"
    and "does view (CreateStoragePoolVolumeFromISO (adapter_of a) t pool v img)
      (\<lambda>_ cl cl'. \<exists>l. at_target (target_conn t (conn_of a)) l \<and> volume_made l v cl cl')"
    and "does view (DeleteStoragePoolVolume (adapter_of a) pool v) (\<lambda>_. volume_removed (conn_of a) v)"
  by (rule does_request [OF cloud_follows(17) [OF assms] any.CreateStoragePoolVolume_law],
      simp only: volume_steps, simp add: volume_post_of_def)
     (rule does_request [OF cloud_follows(16) [OF assms] any.CreateStoragePoolVolumeFromISO_law], simp only: volume_steps, simp,
      rule does_request [OF cloud_follows(12) [OF assms] any.DeleteStoragePoolVolume_law], simp only: volume_steps)

lemma does_createVMWithLock:
  assumes "shows_cloud view a L c"
  shows "does view (createVMWithLock (cpi_on a k L c) m) (\<lambda>_. instance_made (meta_Name m) (meta_Devices m))"
proof (rule does_requests [OF _ built.createVMWithLock_contract])
  show "follows (cloud_world view) (createVMWithLock (cpi_on a k L c) m)"
    unfolding createVMWithLock_def cpi_on_simps
    using cloud_parts(4,5) [OF assms] by (auto simp: cpi_on_def intro!: follow_rules cloud_follows [OF assms])
qed (auto simp: lock_bracket_def volume_steps instances_post_of_def simp del: walk_Cons)

lemma does_quietly:
  assumes "shows_cloud view a L c"
  shows "does view (IsConnected (adapter_of a)) (\<lambda>_ cl cl'. cl' = cl)"
    and "does view (GetInstanceLocation (adapter_of a) n) (\<lambda>_ cl cl'. cl' = cl)"
    and "does view (IsInstanceStopped (adapter_of a) n) (\<lambda>_ cl cl'. cl' = cl)"
    and "does view (IsManagedNetwork (adapter_of a) net) (\<lambda>_ cl cl'. cl' = cl)"
    and "does view (GetStemcellDescription (adapter_of a) al) (\<lambda>_ cl cl'. cl' = cl)"
    and "does view (io_ext EvUuid (cpi_uuidGen c)) (\<lambda>_ cl cl'. cl' = cl)"
    and "wf_agent_env e \<Longrightarrow> does view (am_Write (manager_of k L cfg) n e) (\<lambda>_ cl cl'. cl' = cl)"
    and "does view (am_Read (manager_of k L cfg) n) (\<lambda>_ cl cl'. cl' = cl)"
  by (rule does_nothing; auto intro!: cloud_follows [OF assms] any_rules emits_rules
      any_manager.Read_trace [THEN emits_mono] any_manager.Write_trace [THEN emits_mono])+

lemma does_action:
  assumes "shows_cloud view a L c"
  shows "does view (SetInstanceAction (adapter_of a) n act) (\<lambda>_ cl cl'. cl' = cl)"
  by (rule does_requests [OF cloud_follows(10) [OF assms] any.SetInstanceAction_law])
     (auto simp: stop_step no_effects_not_refused)

lemma does_reads:
  assumes "shows_cloud view a L c"
  shows "does view (am_Read (manager_of k L cfg) n) (\<lambda>e cl cl'. cl' = cl \<and> wf_agent_env e)"
    and "does view (GetDevices (adapter_of a) n) (\<lambda>ds cl cl'. cl' = cl \<and> cl_devices cl n = Some ds)"
proof -
  show "does view (am_Read (manager_of k L cfg) n) (\<lambda>e cl cl'. cl' = cl \<and> wf_agent_env e)"
    using does_quietly(8) [OF assms, of k cfg n] yields_Read [of k L cfg n]
    unfolding turns_def yields_def by (metis fst_conv)
  show "does view (GetDevices (adapter_of a) n) (\<lambda>ds cl cl'. cl' = cl \<and> cl_devices cl n = Some ds)"
    unfolding turns_def
  proof (intro allI impI)
    fix s ds s' assume run: "GetDevices (adapter_of a) n s = (Ok ds, s')"
    show "view (world s') = view (world s) \<and> cl_devices (view (world s)) n = Some ds"
      by (rule follows_emits [OF cloud_follows(25) [OF assms] any.GetDevices_law [unfolded reads_instance_def] run])
         (auto simp: cloud_world_def)
  qed
qed

interpretation shown: cloud_effects "shows_cloud view a L c" view "cpi_on a k L c" "conn_of a"
  for view and a :: "'w some_adapter" and L c k
  by unfold_locales (auto intro: does_quietly does_action does_reads does_edits does_volumes does_createVMWithLock
      does_colocate cloud_follows)

section \<open>Creation and removal together\<close>

lemma owned_append: "owned_disks (xs @ ys) = owned_disks xs @ owned_disks ys"
  by (simp add: owned_disks_def)

lemma owned_single:
  "owned_disks [(n, disk_device c v)] = (if n = DISK_DEVICE_CONFIG \<or> n = DISK_DEVICE_EPHEMERAL then [v] else [])"
  by (auto simp: owned_disks_def disk_device_def gm_get_def)

lemma planned_devices:
  assumes "network_loop parent asg managed nets 0 [] [] t = Inr (nics, nets', t')"
  shows "owned_disks (gm_put ''root'' (root_device pool) nics) = []"
proof -
  have "owned_disks nics = []" using network_devices_owned [OF assms] by (simp add: owned_disks_def)
  then have "v \<notin> set (owned_disks (gm_put ''root'' (root_device pool) nics))" for v
    using owned_put [of v "''root''" "root_device pool" nics] by (auto simp: DISK_DEVICE_CONFIG_def DISK_DEVICE_EPHEMERAL_def)
  then show ?thesis by (metis list.set_intros(1) neq_Nil_conv)
qed

text \<open>A VM whose devices refer to no settings disk gets exactly one.\<close>

lemma first_settings:
  assumes "settings_replaced cn c vm cl cl'" and "cl_devices cl vm = Some ds" and "gm_find (disks_of ds) DISK_DEVICE_CONFIG = None"
  obtains l v where "prefix DISK_CONFIGURATION_PREFIX v"
    and "cl' = cl\<lparr>cl_devices := (cl_devices cl)(vm \<mapsto> ds @ [(DISK_DEVICE_CONFIG, disk_device c v)]),
      cl_volumes := insert (l, v) (cl_volumes cl)\<rparr>"
proof -
  obtain l v where v: "prefix DISK_CONFIGURATION_PREFIX v"
    and run: "(volume_made l v OO old_settings_dropped cn vm OO device_added vm DISK_DEVICE_CONFIG (disk_device c v)) cl cl'"
    using assms(1) by (auto simp: settings_replaced_def)
  then have "cl' = cl\<lparr>cl_devices := (cl_devices cl)(vm \<mapsto> ds @ [(DISK_DEVICE_CONFIG, disk_device c v)]),
      cl_volumes := insert (l, v) (cl_volumes cl)\<rparr>"
    using assms(2,3) by (auto simp: volume_made_def old_settings_dropped_def config_dropped_def device_added_def with_devices_def)
  with v that show ?thesis by blast
qed

lemma vm_set_up_devices:
  assumes "vm_set_up cn c vm sz cl cl'" and "cl_devices cl vm = Some ds" and "owned_disks ds = []"
  obtains es ls where "cl_devices cl' = (cl_devices cl)(vm \<mapsto> es)"
    and "cl_volumes cl' = cl_volumes cl \<union> set (zip ls (owned_disks es))"
    and "list_all (\<lambda>v. prefix DISK_CONFIGURATION_PREFIX v \<or> prefix DISK_EPHEMERAL_PREFIX v) (owned_disks es)"
    and "length ls = length (owned_disks es)"
proof -
  have none: "gm_find (disks_of ds) DISK_DEVICE_CONFIG = None"
    using owned_find [of ds] assms(3) by (cases "gm_find (disks_of ds) DISK_DEVICE_CONFIG") auto
  show ?thesis
  proof (cases "sz > 0")
    case True
    then obtain cl1 where "ephemeral_added c vm cl cl1" and rest: "settings_replaced cn c vm cl1 cl'"
      using assms(1) by (auto simp: vm_set_up_def)
    then obtain l v where v: "prefix DISK_EPHEMERAL_PREFIX v"
      and eph: "(volume_made l v OO device_added vm DISK_DEVICE_EPHEMERAL (disk_device c v)) cl cl1"
      unfolding ephemeral_added_def by blast
    let ?ds = "ds @ [(DISK_DEVICE_EPHEMERAL, disk_device c v)]"
    have cl1: "cl1 = cl\<lparr>cl_devices := (cl_devices cl)(vm \<mapsto> ?ds), cl_volumes := insert (l, v) (cl_volumes cl)\<rparr>"
      using eph assms(2) by (auto simp: volume_made_def device_added_def with_devices_def)
    then have has: "cl_devices cl1 vm = Some ?ds" by simp
    have "gm_find (disks_of ?ds) DISK_DEVICE_CONFIG = None"
      using none by (simp add: disks_of_def map_of_eq_None_iff DISK_DEVICE_CONFIG_def DISK_DEVICE_EPHEMERAL_def)
    then obtain l' v' where v': "prefix DISK_CONFIGURATION_PREFIX v'"
      and cl': "cl' = cl1\<lparr>cl_devices := (cl_devices cl1)(vm \<mapsto> ?ds @ [(DISK_DEVICE_CONFIG, disk_device c v')]),
        cl_volumes := insert (l', v') (cl_volumes cl1)\<rparr>"
      by (rule first_settings [OF rest has])
    have "owned_disks (?ds @ [(DISK_DEVICE_CONFIG, disk_device c v')]) = [v, v']"
      using assms(3) by (simp add: owned_append owned_single del: append.simps)
    then show ?thesis
      using v v' cl1 cl' by (intro that [where es = "?ds @ [(DISK_DEVICE_CONFIG, disk_device c v')]" and ls = "[l, l']"]) auto
  next
    case False
    then obtain l v where v: "prefix DISK_CONFIGURATION_PREFIX v"
      and cl': "cl' = cl\<lparr>cl_devices := (cl_devices cl)(vm \<mapsto> ds @ [(DISK_DEVICE_CONFIG, disk_device c v)]),
        cl_volumes := insert (l, v) (cl_volumes cl)\<rparr>"
      using first_settings [OF _ assms(2) none, of cn c cl'] assms(1) by (metis vm_set_up_def)
    have "owned_disks (ds @ [(DISK_DEVICE_CONFIG, disk_device c v)]) = [v]"
      using assms(3) by (simp add: owned_append owned_single)
    then show ?thesis using v cl'
      by (intro that [where es = "ds @ [(DISK_DEVICE_CONFIG, disk_device c v)]" and ls = "[l]"]) auto
  qed
qed

text \<open>Making a VM and removing it again.\<close>

lemma made_and_removed:
  assumes made: "vm_made cn c cprops nets vm nets' cl cl1" and removed: "vm_removed cn' vm cl1 cl2"
    and "conn_target cn' = []"
  shows "cl_devices cl2 = (cl_devices cl)(vm := None) \<and>
    (\<exists>es. cl_devices cl1 vm = Some es \<and> cl_volumes cl2 = {(l, v) \<in> cl_volumes cl. v \<notin> set (owned_disks es)} \<and>
       list_all (\<lambda>v. prefix DISK_CONFIGURATION_PREFIX v \<or> prefix DISK_EPHEMERAL_PREFIX v) (owned_disks es))"
proof -
  obtain props :: LXDVMCloudProperties and nics managed target cl0 where plan: "network_loop (vp_Network props)
      (cfg_ManagedNetworkAssignment (conf_Server (cpi_config c))) managed nets 0 [] [] (vp_Target props) = Inr (nics, nets', target)"
    and cl0: "instance_made vm (gm_put ''root'' (root_device (cpi_pool c)) nics) cl cl0"
    and up: "vm_set_up cn c vm (vp_EphemeralDisk props) cl0 cl1"
    using made unfolding vm_made_def by blast
  have "cl_devices cl0 vm = Some (gm_put ''root'' (root_device (cpi_pool c)) nics)" using cl0 by (simp add: instance_made_def)
  then obtain es ls where es: "cl_devices cl1 = (cl_devices cl0)(vm \<mapsto> es)"
      "cl_volumes cl1 = cl_volumes cl0 \<union> set (zip ls (owned_disks es))"
      "list_all (\<lambda>v. prefix DISK_CONFIGURATION_PREFIX v \<or> prefix DISK_EPHEMERAL_PREFIX v) (owned_disks es)"
    by (rule vm_set_up_devices [OF up _ planned_devices [OF plan]])
  have "cl_volumes cl2 = cl_volumes cl1 - {(l, v). v \<in> set (owned_disks es)}"
    and "cl_devices cl2 = (cl_devices cl1)(vm := None)"
    using removed es(1) assms(3) by (auto simp: vm_removed_def at_target_def)
  moreover have "cl_volumes cl0 = cl_volumes cl" and "(cl_devices cl0)(vm := None) = (cl_devices cl)(vm := None)"
    using cl0 by (auto simp: instance_made_def)
  ultimately show ?thesis using es by (intro conjI exI [of _ es]) (auto dest: set_zip_rightD)
qed

section \<open>Properties\<close>

text \<open>
  C7.  Creating a VM refines the abstract creation.  On a world that shows a cloud, a successful
  \<open>CreateVMV2\<close> has made the instance under the name it returns, with its root disk and the planned
  network devices; then, if the cloud properties ask for one, a new ephemeral volume with its device;
  then a new settings volume with its device.  Nothing else of the cloud has changed, and the networks it
  returns are the planned ones.
\<close>

theorem create_vm_refines:
  assumes "shows_cloud view a L c" and "pred_option wf_map env"
    and "CreateVMV2 (cpi_on a k L c) agent stemcell cprops nets env s = (Ok (vm, nets'), s')"
  shows "prefix ''vm-'' vm \<and>
    vm_made (conn_of a) (cpi_on a k L c) cprops nets vm nets' (view (world s)) (view (world s'))"
  using doesD [OF shown.does_create [OF assms(1,2)] assms(3)] by auto

text \<open>
  C8.  Attaching and detaching a disk refine the abstract operations.  On a world that shows a cloud, a
  successful \<open>AttachDiskV2\<close> has, in this order: left the disk's volume where it is or moved it to another
  location, where it was not before; added one device, new to the VM, for the disk, with the name that
  goes with the device path it returns; replaced the VM's settings disk.  A successful \<open>DetachDisk\<close> has
  removed at most the device that refers to the disk, and replaced the VM's settings disk.  No other VM
  and no other volume has changed.
\<close>

theorem disk_calls_refine:
  assumes "shows_cloud view a L c"
  shows "(AttachDiskV2 (cpi_on a k L c) vm disk s = (Ok hint, s') \<longrightarrow>
      (\<exists>p name. (p, name) \<in> {(''/dev/sdc'', DISK_DEVICE_PERSISTENT1), (''/dev/sdd'', DISK_DEVICE_PERSISTENT2)} \<and>
         hint = path_hint p \<and>
         disk_attached (conn_of a) (cpi_on a k L c) vm disk name (view (world s)) (view (world s')))) \<and>
    (DetachDisk (cpi_on a k L c) vm disk s = (Ok (), s') \<longrightarrow>
      disk_detached (conn_of a) (cpi_on a k L c) vm disk (view (world s)) (view (world s')))"
  using doesD [OF shown.does_attach [OF assms], of k vm disk s hint s']
    doesD [OF shown.does_detach [OF assms], of k vm disk s "()" s'] by blast

text \<open>
  C4.  Deleting a VM undoes its creation.  On a world that shows a cloud, and for an adapter that is not
  bound to one cluster member: after a successful \<open>CreateVMV2\<close> and a successful \<open>DeleteVM\<close> of the VM that
  it returned, the cloud has the instances it had before, and no volume that the creation made: the
  volumes are the earlier ones, less any with the name of a settings or ephemeral volume that the
  creation gave to the VM.  Or the deletion has changed nothing, and the server had answered that there is no such VM.
\<close>

theorem create_delete_restores:
  assumes "shows_cloud view a L c" and "conn_target (conn_of a) = []" and "pred_option wf_map env"
    and "CreateVMV2 (cpi_on a k L c) agent stemcell cprops nets env s = (Ok (vm, nets'), s1)"
    and "DeleteVM (cpi_on a k L c) vm s1 = (Ok (), s2)"
  shows "cl_devices (view (world s2)) = (cl_devices (view (world s)))(vm := None) \<and>
      (\<exists>es. cl_devices (view (world s1)) vm = Some es \<and>
         cl_volumes (view (world s2)) = {(l, v) \<in> cl_volumes (view (world s)). v \<notin> set (owned_disks es)} \<and>
         list_all (\<lambda>v. prefix DISK_CONFIGURATION_PREFIX v \<or> prefix DISK_EPHEMERAL_PREFIX v) (owned_disks es)) \<or>
    view (world s2) = view (world s1) \<and>
      (\<exists>ts x. trace s2 = trace s1 @ ts \<and> EvGetInstance (conn_of a) vm x \<in> set ts \<and> vm_absent x)"
proof -
  have "vm_made (conn_of a) (cpi_on a k L c) cprops nets vm nets' (view (world s)) (view (world s1))"
    using doesD [OF shown.does_create [OF assms(1,3)] assms(4)] by auto
  then show ?thesis using made_and_removed [OF _ _ assms(2)] DeleteVM_removes [OF assms(1,5)] by blast
qed

end
