(* ===== verification/AdapterProps.thy ===== *)
theory AdapterProps
  imports CpiContract
begin

text \<open>
  The two adapters side by side: which calls of the CPI behave alike on an LXD and on an Incus server,
  and what the waiting for operations does with the errors it means to ignore.
\<close>

section \<open>Runs that agree\<close>

text \<open>The trace without the answers to waiting, which only one of the libraries asks for.\<close>

fun is_wait :: "event \<Rightarrow> bool" where
  "is_wait (EvWait h a) = True"
| "is_wait _ = False"

definition same :: "(event, 'w) sys \<Rightarrow> (event, 'w) sys \<Rightarrow> bool" where
  "same s t \<longleftrightarrow> world s = world t \<and> files s = files t \<and>
     filter (\<lambda>e. \<not> is_wait e) (trace s) = filter (\<lambda>e. \<not> is_wait e) (trace t)"

text \<open>From states that are the same but for waiting: the same outcome, and states that are the same again.\<close>

definition agree :: "('w, 'a) go \<Rightarrow> ('w, 'a) go \<Rightarrow> bool" where
  "agree m n \<longleftrightarrow> (\<forall>s t. same s t \<longrightarrow> fst (m s) = fst (n t) \<and> same (snd (m s)) (snd (n t)))"

named_theorems agree_rules \<open>every combinator keeps agreement\<close>

lemma agreeD:
  assumes "agree m n" and "same s t" and "m s = (r, s')"
  obtains t' where "n t = (r, t')" and "same s' t'"
proof -
  have "fst (m s) = fst (n t)" and "same (snd (m s)) (snd (n t))" using assms(1,2) by (auto simp: agree_def)
  then show ?thesis using assms(3) that [of "snd (n t)"] by (cases "n t") auto
qed

lemma agree_basic [agree_rules]:
  "agree (io_ret x) (io_ret x)" "agree (io_fail e) (io_fail e)" "agree (io_panic p) (io_panic p)"
  "agree (io_lift q) (io_lift q)" "agree (io_ext ev f) (io_ext ev f)"
proof -
  show "agree (io_ret x) (io_ret x)" and "agree (io_fail e) (io_fail e)" and "agree (io_panic p) (io_panic p)"
    by (simp_all add: agree_def io_run)
  show "agree (io_lift q) (io_lift q)" by (cases q) (simp_all add: agree_def io_run)
  show "agree (io_ext ev f) (io_ext ev f)"
    by (auto simp: agree_def same_def io_ext_run split: prod.splits sum.splits)
qed

lemma agree_try [agree_rules]:
  assumes "agree m m'" and "\<And>e. agree (h e) (h' e)" and "\<And>x. agree (k x) (k' x)"
  shows "agree (io_try m h k) (io_try m' h' k')"
  unfolding agree_def
proof (intro allI impI)
  fix s t :: "(event, 'a) sys"
  assume st: "same s t"
  obtain r s' where run: "m s = (r, s')" by (cases "m s")
  obtain t' where "m' t = (r, t')" and "same s' t'" using agreeD [OF assms(1) st run] .
  then show "fst (io_try m h k s) = fst (io_try m' h' k' t) \<and> same (snd (io_try m h k s)) (snd (io_try m' h' k' t))"
    using run assms(2,3) by (cases r) (auto simp: io_try_run agree_def)
qed

lemma agree_bind [agree_rules]:
  "agree m m' \<Longrightarrow> (\<And>x. agree (k x) (k' x)) \<Longrightarrow> agree (io_bind m k) (io_bind m' k')"
  unfolding io_bind_def by (auto intro!: agree_rules)

lemma agree_wrap [agree_rules]:
  "agree m m' \<Longrightarrow> (\<And>x. agree (k x) (k' x)) \<Longrightarrow> agree (io_wrap m msg k) (io_wrap m' msg k')"
  unfolding io_wrap_def by (auto intro!: agree_rules)

lemma agree_finally [agree_rules]:
  assumes "agree m m'" and "agree d d'"
  shows "agree (io_finally m d) (io_finally m' d')"
  unfolding agree_def
proof (intro allI impI)
  fix s t :: "(event, 'a) sys"
  assume st: "same s t"
  obtain r s' where run: "m s = (r, s')" by (cases "m s")
  obtain t' where run': "m' t = (r, t')" and st': "same s' t'" using agreeD [OF assms(1) st run] .
  obtain q s'' where d: "d s' = (q, s'')" by (cases "d s'")
  obtain t'' where "d' t' = (q, t'')" and "same s'' t''" using agreeD [OF assms(2) st' d] .
  then show "fst (io_finally m d s) = fst (io_finally m' d' t) \<and>
      same (snd (io_finally m d s)) (snd (io_finally m' d' t))"
    using run run' d by (cases q) (auto simp: io_finally_run)
qed

lemma agree_for [agree_rules]: "(\<And>x. agree (f x) (g x)) \<Longrightarrow> agree (io_for xs f) (io_for xs g)"
  by (induction xs) (auto intro!: agree_rules)

lemma agree_branch [agree_rules]:
  "agree m m' \<Longrightarrow> agree n n' \<Longrightarrow> agree (if b then m else n) (if b then m' else n')"
  "agree m m' \<Longrightarrow> (\<And>y. agree (k y) (k' y)) \<Longrightarrow>
     agree (case q of None \<Rightarrow> m | Some y \<Rightarrow> k y) (case q of None \<Rightarrow> m' | Some y \<Rightarrow> k' y)"
  "(\<And>x y. agree (g x y) (g' x y)) \<Longrightarrow> agree (case p of (x, y) \<Rightarrow> g x y) (case p of (x, y) \<Rightarrow> g' x y)"
  by (auto split: option.split prod.split)

lemma agree_ReadFile [agree_rules]: "agree (os_ReadFile L p) (os_ReadFile L p)"
  by (auto simp: agree_def same_def os_ReadFile_def Let_def split: prod.splits option.splits)

lemma agree_WriteFile [agree_rules]: "agree (os_WriteFile L p c) (os_WriteFile L p c)"
  by (auto simp: agree_def same_def os_WriteFile_def Let_def split: prod.splits option.splits)

lemma agree_Remove [agree_rules]: "agree (os_Remove L p) (os_Remove L p)"
  by (auto simp: agree_def same_def os_Remove_def Let_def split: prod.splits option.splits)

lemma agree_manager [agree_rules]:
  "agree (am_Read (manager_of k L cfg) v) (am_Read (manager_of k L cfg) v)"
  "agree (am_Write (manager_of k L cfg) v e) (am_Write (manager_of k L cfg) v e)"
  "agree (am_Delete (manager_of k L cfg) v) (am_Delete (manager_of k L cfg) v)"
  by (cases k; auto simp: NewFAT32Manager_def NewCDROMManager_def afm_Read_def afm_Delete_def fat32_Write_def
      cdrom_Write_def tempFileName_def writeFile_def writeAgentEnv_def mkdirAll_def Let_def intro!: agree_rules)+

section \<open>Servers whose operations are done at once\<close>

text \<open>
  A server that refuses or carries out a request before it answers: waiting for its operations changes
  nothing and does not fail.  Its refusals are not about the agent in the VM, and the instances it
  delivers name no snapshot to restore.
\<close>

definition prompt_server :: "'w api_server \<Rightarrow> bool" where
  "prompt_server S \<longleftrightarrow> (\<forall>h w. srv_Wait S h w = (Inr (), w)) \<and>
     (\<forall>q w e. fst (srv_Request S q w) = Inl e \<longrightarrow> \<not> contains (error_string e) ''VM agent'') \<and>
     (\<forall>cn n w i t. fst (srv_GetInstance S cn n w) = Inr (i, t) \<longrightarrow> ip_restore (ins_put i) = [])"

lemma contains_trans: "contains s a \<Longrightarrow> contains a b \<Longrightarrow> contains s b"
  by (auto simp: contains_iff sublist_def) (metis append.assoc)

lemma agent_texts:
  "contains s ''LXD VM agent'' \<Longrightarrow> contains s ''VM agent''" "contains s ''Incus VM agent'' \<Longrightarrow> contains s ''VM agent''"
  using contains_appendI2 [of "''VM agent''" "''VM agent''" "''LXD ''"]
    contains_appendI2 [of "''VM agent''" "''VM agent''" "''Incus ''"] contains_trans by auto

lemma prompt_run:
  assumes "prompt_server S" and "srv_Request S q (world s) = (r, w)"
  shows "lxd_wait S (request S q) s = (case r of
      Inl e \<Rightarrow> (Err e, s\<lparr>world := w, trace := trace s @ [EvReq q r]\<rparr>)
    | Inr h \<Rightarrow> (Ok (), s\<lparr>world := w, trace := trace s @ [EvReq q r, EvWait h (Inr ())]\<rparr>))"
    and "incus_wait S (request S q) s = (case r of
      Inl e \<Rightarrow> (Err e, s\<lparr>world := w, trace := trace s @ [EvReq q r]\<rparr>)
    | Inr h \<Rightarrow> (Ok (), s\<lparr>world := w, trace := trace s @ [EvReq q r, EvWait h (Inr ())]\<rparr>))"
    and "incus_direct S q s = (case r of
      Inl e \<Rightarrow> (Err e, s\<lparr>world := w, trace := trace s @ [EvReq q r]\<rparr>)
    | Inr h \<Rightarrow> (Ok (), s\<lparr>world := w, trace := trace s @ [EvReq q r]\<rparr>))"
proof -
  have refusal: "\<not> contains (error_string e) ''LXD VM agent'' \<and> \<not> contains (error_string e) ''Incus VM agent''"
    if "r = Inl e" for e
  proof -
    have "fst (srv_Request S q (world s)) = Inl e" using assms(2) that by simp
    then have "\<not> contains (error_string e) ''VM agent''" using assms(1) unfolding prompt_server_def by blast
    then show ?thesis using agent_texts by blast
  qed
  have wait: "srv_Wait S h w = (Inr (), w)" for h w using assms(1) by (simp add: prompt_server_def)
  show "lxd_wait S (request S q) s = (case r of
      Inl e \<Rightarrow> (Err e, s\<lparr>world := w, trace := trace s @ [EvReq q r]\<rparr>)
    | Inr h \<Rightarrow> (Ok (), s\<lparr>world := w, trace := trace s @ [EvReq q r, EvWait h (Inr ())]\<rparr>))"
    using refusal by (cases r) (simp_all add: lxd_wait_def io_run assms(2) lxd_checkError_def wait)
  show "incus_wait S (request S q) s = (case r of
      Inl e \<Rightarrow> (Err e, s\<lparr>world := w, trace := trace s @ [EvReq q r]\<rparr>)
    | Inr h \<Rightarrow> (Ok (), s\<lparr>world := w, trace := trace s @ [EvReq q r, EvWait h (Inr ())]\<rparr>))"
    using refusal by (cases r) (simp_all add: incus_wait_def io_run assms(2) incus_checkError_def wait)
  show "incus_direct S q s = (case r of
      Inl e \<Rightarrow> (Err e, s\<lparr>world := w, trace := trace s @ [EvReq q r]\<rparr>)
    | Inr h \<Rightarrow> (Ok (), s\<lparr>world := w, trace := trace s @ [EvReq q r]\<rparr>))"
    by (cases r) (simp_all add: incus_direct_def io_run assms(2))
qed

lemma agree_lxd_wait [agree_rules]:
  assumes "prompt_server S"
  shows "agree (lxd_wait S (request S q)) (incus_direct S q)"
    and "agree (lxd_wait S (request S q)) (incus_wait S (request S q))"
proof -
  have "fst (lxd_wait S (request S q) s) = fst (incus_direct S q t) \<and>
      same (snd (lxd_wait S (request S q) s)) (snd (incus_direct S q t)) \<and>
      fst (lxd_wait S (request S q) s) = fst (incus_wait S (request S q) t) \<and>
      same (snd (lxd_wait S (request S q) s)) (snd (incus_wait S (request S q) t))" if st: "same s t" for s t
  proof -
    obtain r w where r: "srv_Request S q (world s) = (r, w)" by (cases "srv_Request S q (world s)")
    then have r': "srv_Request S q (world t) = (r, w)" using st by (simp add: same_def)
    show ?thesis using st
      by (cases r) (simp_all add: prompt_run [OF assms r] prompt_run [OF assms r'] same_def)
  qed
  then show "agree (lxd_wait S (request S q)) (incus_direct S q)"
    and "agree (lxd_wait S (request S q)) (incus_wait S (request S q))"
    unfolding agree_def by blast+
qed

section \<open>The calls of the adapters\<close>

text \<open>The Incus adapter for the same server and handle.\<close>

definition incus_twin :: "'w lxdApiAdapter \<Rightarrow> 'w incusApiAdapter" where
  "incus_twin a = \<lparr>ic_server = lx_server a, ic_conn = lx_conn a\<rparr>"

lemma incus_twin_simps [simp]: "ic_server (incus_twin a) = lx_server a" "ic_conn (incus_twin a) = lx_conn a"
  by (simp_all add: incus_twin_def)

lemma agree_get_instance:
  assumes "prompt_server S" and "\<And>i t. ip_restore (ins_put i) = [] \<Longrightarrow> agree (k (i, t)) (k' (i, t))"
  shows "agree (io_bind (get_instance S cn n) k) (io_bind (get_instance S cn n) k')"
  unfolding agree_def
proof (intro allI impI)
  fix s t :: "(event, 'a) sys"
  assume st: "same s t"
  obtain r w where r: "srv_GetInstance S cn n (world s) = (r, w)" by (cases "srv_GetInstance S cn n (world s)")
  then have r': "srv_GetInstance S cn n (world t) = (r, w)" using st by (simp add: same_def)
  let ?s = "s\<lparr>world := w, trace := trace s @ [EvGetInstance cn n r]\<rparr>"
  let ?t = "t\<lparr>world := w, trace := trace t @ [EvGetInstance cn n r]\<rparr>"
  have "same ?s ?t" using st by (simp add: same_def)
  moreover have "agree (k x) (k' x)" if "r = Inr x" for x
  proof -
    obtain i u where x: "x = (i, u)" by (cases x)
    have "fst (srv_GetInstance S cn n (world s)) = Inr (i, u)" using r that x by simp
    then have "ip_restore (ins_put i) = []" using assms(1) unfolding prompt_server_def by blast
    then show ?thesis by (simp add: x assms(2))
  qed
  ultimately show "fst (io_bind (get_instance S cn n) k s) = fst (io_bind (get_instance S cn n) k' t) \<and>
      same (snd (io_bind (get_instance S cn n) k s)) (snd (io_bind (get_instance S cn n) k' t))"
    using r r' by (cases r) (auto simp: io_run agree_def)
qed

lemma same_writable:
  "ip_restore (ins_put i) = [] \<Longrightarrow> lxd_instance_Writable (i\<lparr>ins_put := (ins_put i)\<lparr>ip_devices := ds\<rparr>\<rparr>) =
     incus_instance_Writable (i\<lparr>ins_put := (ins_put i)\<lparr>ip_devices := ds\<rparr>\<rparr>)"
  "ip_restore (ins_put i) = [] \<Longrightarrow> lxd_instance_Writable (i\<lparr>ins_put := (ins_put i)\<lparr>ip_description := d\<rparr>\<rparr>) =
     incus_instance_Writable (i\<lparr>ins_put := (ins_put i)\<lparr>ip_description := d\<rparr>\<rparr>)"
  by (cases "ins_put i"; simp add: lxd_instance_Writable_def incus_instance_Writable_def)+

lemma agree_updates:
  assumes "prompt_server (lx_server a)"
  shows "agree (lxd_AttachDevice a n d dev) (incus_AttachDevice (incus_twin a) n d dev)"
    and "agree (lxd_DetachDeviceByName a n d) (incus_DetachDeviceByName (incus_twin a) n d)"
    and "agree (lxd_DetachDeviceBySource a n src) (incus_DetachDeviceBySource (incus_twin a) n src)"
    and "agree (lxd_UpdateInstanceDescription a n descr) (incus_UpdateInstanceDescription (incus_twin a) n descr)"
  unfolding lxd_AttachDevice_def incus_AttachDevice_def lxd_DetachDeviceByName_def incus_DetachDeviceByName_def
    lxd_DetachDeviceBySource_def incus_DetachDeviceBySource_def lxd_UpdateInstanceDescription_def
    incus_UpdateInstanceDescription_def incus_twin_simps
  by (rule agree_get_instance [OF assms]; auto simp: same_writable Let_def intro!: agree_rules assms)+

lemmas pair_defs = lxd_adapter_def incus_adapter_def lxd_FindExistingImage_def incus_FindExistingImage_def
  lxd_CreateAndUploadImage_def incus_CreateAndUploadImage_def lxd_DeleteImage_def incus_DeleteImage_def
  lxd_GetStemcellDescription_def incus_GetStemcellDescription_def lxd_IsManagedNetwork_def incus_IsManagedNetwork_def
  lxd_CreateInstance_def incus_CreateInstance_def lxd_DeleteInstance_def incus_DeleteInstance_def
  lxd_GetInstanceLocation_def incus_GetInstanceLocation_def lxd_SetInstanceAction_def incus_SetInstanceAction_def
  lxd_isVMAtRequestedState_def incus_isVMAtRequestedState_def lxd_IsInstanceStopped_def incus_IsInstanceStopped_def
  lxd_DeleteStoragePoolVolume_def incus_DeleteStoragePoolVolume_def lxd_GetStoragePoolVolume_def
  incus_GetStoragePoolVolume_def lxd_GetStoragePoolVolumeUsage_def incus_GetStoragePoolVolumeUsage_def
  lxd_ResizeStoragePoolVolume_def incus_ResizeStoragePoolVolume_def lxd_CreateStoragePoolVolumeFromISO_def
  incus_CreateStoragePoolVolumeFromISO_def lxd_CreateStoragePoolVolume_def incus_CreateStoragePoolVolume_def
  lxd_UpdateStoragePoolVolumeDescription_def incus_UpdateStoragePoolVolumeDescription_def
  lxd_ColocateStoragePoolVolumeWithInstance_def incus_ColocateStoragePoolVolumeWithInstance_def
  lxd_DeleteStoragePoolVolumeSnapshot_def incus_DeleteStoragePoolVolumeSnapshot_def lxd_GetDevices_def
  incus_GetDevices_def lxd_IsConnected_def incus_IsConnected_def lxd_Disconnect_def incus_Disconnect_def

text \<open>Every call but the creation of a snapshot, which the Incus library needs two requests for.\<close>

lemma agree_adapters [agree_rules]:
  assumes "prompt_server (lx_server a)"
  defines "A \<equiv> lxd_adapter a" and "B \<equiv> incus_adapter (incus_twin a)"
  shows "agree (FindExistingImage A descr) (FindExistingImage B descr)"
    and "agree (CreateAndUploadImage A im) (CreateAndUploadImage B im)"
    and "agree (DeleteImage A al) (DeleteImage B al)"
    and "agree (GetStemcellDescription A al) (GetStemcellDescription B al)"
    and "agree (IsManagedNetwork A net) (IsManagedNetwork B net)"
    and "agree (CreateInstance A meta) (CreateInstance B meta)"
    and "agree (DeleteInstance A n) (DeleteInstance B n)"
    and "agree (GetInstanceLocation A n) (GetInstanceLocation B n)"
    and "agree (UpdateInstanceDescription A n descr) (UpdateInstanceDescription B n descr)"
    and "agree (SetInstanceAction A n act) (SetInstanceAction B n act)"
    and "agree (IsInstanceStopped A n) (IsInstanceStopped B n)"
    and "agree (DeleteStoragePoolVolume A p v) (DeleteStoragePoolVolume B p v)"
    and "agree (GetStoragePoolVolume A p v) (GetStoragePoolVolume B p v)"
    and "agree (GetStoragePoolVolumeUsage A p) (GetStoragePoolVolumeUsage B p)"
    and "agree (ResizeStoragePoolVolume A p v sz) (ResizeStoragePoolVolume B p v sz)"
    and "agree (CreateStoragePoolVolumeFromISO A tg p v img) (CreateStoragePoolVolumeFromISO B tg p v img)"
    and "agree (CreateStoragePoolVolume A tg p v sz) (CreateStoragePoolVolume B tg p v sz)"
    and "agree (UpdateStoragePoolVolumeDescription A p v descr) (UpdateStoragePoolVolumeDescription B p v descr)"
    and "agree (ColocateStoragePoolVolumeWithInstance A n p v) (ColocateStoragePoolVolumeWithInstance B n p v)"
    and "agree (DeleteStoragePoolVolumeSnapshot A p v sn) (DeleteStoragePoolVolumeSnapshot B p v sn)"
    and "agree (AttachDevice A n d dev) (AttachDevice B n d dev)"
    and "agree (DetachDeviceByName A n d) (DetachDeviceByName B n d)"
    and "agree (DetachDeviceBySource A n src) (DetachDeviceBySource B n src)"
    and "agree (GetDevices A n) (GetDevices B n)"
    and "agree (IsConnected A) (IsConnected B)"
    and "agree (Disconnect A) (Disconnect B)"
  unfolding assms(2,3)
  by (simp add: lxd_adapter_def incus_adapter_def agree_updates [OF assms(1)] |
      (simp only: pair_defs ApiAdapter.simps Let_def incus_twin_simps fingerprint_of_def,
       auto intro!: agree_rules assms(1) split: option.splits json.splits))+

section \<open>The calls of the CPI\<close>

lemma agree_scoped [agree_rules]:
  "(\<And>x. agree (f x) (f' x)) \<Longrightarrow> (\<And>e. agree (g e) (g' e)) \<Longrightarrow> (\<And>e. agree (h e) (h' e)) \<Longrightarrow>
   agree (case r of Returned x \<Rightarrow> f x | OuterErr e \<Rightarrow> g e | InnerErr e \<Rightarrow> h e)
         (case r of Returned x \<Rightarrow> f' x | OuterErr e \<Rightarrow> g' e | InnerErr e \<Rightarrow> h' e)"
  by (cases r) simp_all

lemma agree_new_cid [agree_rules]: "agree (new_cid s) (new_cid s)"
  unfolding new_cid_def by (auto intro!: agree_rules)

lemma agree_disk_cids [agree_rules]: "agree (disk_cids names) (disk_cids names)"
  by (induction names) (auto intro!: agree_rules)

lemmas call_defs = attachDiskDeviceToVM_def findDisksAttachedToVm_def disk_device_def cpi_on_simps cpi_on_libraries
  adapter_of.simps Let_def

text \<open>The same CPI on the LXD server and on its Incus twin.\<close>

abbreviation on_lxd :: "'w lxdApiAdapter \<Rightarrow> image_format \<Rightarrow> 'w local_machine \<Rightarrow> 'w CPI \<Rightarrow> 'w CPI" where
  "on_lxd a \<equiv> cpi_on (Lxd a)"

abbreviation on_incus :: "'w lxdApiAdapter \<Rightarrow> image_format \<Rightarrow> 'w local_machine \<Rightarrow> 'w CPI \<Rightarrow> 'w CPI" where
  "on_incus a \<equiv> cpi_on (Incus (incus_twin a))"

lemma agree_writeAgentFile:
  assumes "prompt_server (lx_server a)"
  shows "agree (writeAgentFileToVM (on_lxd a k L c) v e) (writeAgentFileToVM (on_incus a k L c) v e)"
  unfolding writeAgentFileToVM_def call_defs
  by (auto intro!: agree_rules assms)

lemma agree_HasVM:
  assumes "prompt_server (lx_server a)"
  shows "agree (HasVM (on_lxd a k L c) v) (HasVM (on_incus a k L c) v)"
  unfolding HasVM_def call_defs
  by (auto intro!: agree_rules assms)

lemma agree_RebootVM:
  assumes "prompt_server (lx_server a)"
  shows "agree (RebootVM (on_lxd a k L c) v) (RebootVM (on_incus a k L c) v)"
  unfolding RebootVM_def call_defs
  by (auto intro!: agree_rules assms)

lemma agree_DeleteVM:
  assumes "prompt_server (lx_server a)"
  shows "agree (DeleteVM (on_lxd a k L c) v) (DeleteVM (on_incus a k L c) v)"
  unfolding DeleteVM_def delete_vm_disk_def call_defs
  by (auto intro!: agree_rules assms agree_HasVM)

lemma agree_CreateVMV2:
  assumes "prompt_server (lx_server a)"
  shows "agree (CreateVMV2 (on_lxd a k L c) aid sc props nets env) (CreateVMV2 (on_incus a k L c) aid sc props nets env)"
  unfolding CreateVMV2_def createVMWithLock_def vm_metadata_def with_cleanup_def setup_vm_def finish_vm_def
    outer_def inner_def call_defs
  by (auto intro!: agree_rules assms agree_DeleteVM agree_writeAgentFile)

lemma agree_CreateDisk:
  assumes "prompt_server (lx_server a)"
  shows "agree (CreateDisk (on_lxd a k L c) sz vm) (CreateDisk (on_incus a k L c) sz vm)"
  unfolding CreateDisk_def call_defs
  by (auto intro!: agree_rules assms)

lemma agree_DeleteDisk:
  assumes "prompt_server (lx_server a)"
  shows "agree (DeleteDisk (on_lxd a k L c) d) (DeleteDisk (on_incus a k L c) d)"
  unfolding DeleteDisk_def call_defs
  by (auto intro!: agree_rules assms)

lemma agree_HasDisk:
  assumes "prompt_server (lx_server a)"
  shows "agree (HasDisk (on_lxd a k L c) d) (HasDisk (on_incus a k L c) d)"
  unfolding HasDisk_def call_defs
  by (auto intro!: agree_rules assms)

lemma agree_ResizeDisk:
  assumes "prompt_server (lx_server a)"
  shows "agree (ResizeDisk (on_lxd a k L c) d sz) (ResizeDisk (on_incus a k L c) d sz)"
  unfolding ResizeDisk_def call_defs
  by (auto intro!: agree_rules assms)

lemma agree_AttachDiskV2:
  assumes "prompt_server (lx_server a)"
  shows "agree (AttachDiskV2 (on_lxd a k L c) v d) (AttachDiskV2 (on_incus a k L c) v d)"
  unfolding AttachDiskV2_def call_defs
  by (auto intro!: agree_rules assms agree_writeAgentFile)

lemma agree_DetachDisk:
  assumes "prompt_server (lx_server a)"
  shows "agree (DetachDisk (on_lxd a k L c) v d) (DetachDisk (on_incus a k L c) v d)"
  unfolding DetachDisk_def call_defs
  by (auto intro!: agree_rules assms agree_writeAgentFile)

lemma agree_GetDisks:
  assumes "prompt_server (lx_server a)"
  shows "agree (GetDisks (on_lxd a k L c) v) (GetDisks (on_incus a k L c) v)"
  unfolding GetDisks_def call_defs
  by (auto intro!: agree_rules assms)

lemma agree_DeleteSnapshot:
  assumes "prompt_server (lx_server a)"
  shows "agree (DeleteSnapshot (on_lxd a k L c) sn) (DeleteSnapshot (on_incus a k L c) sn)"
  unfolding DeleteSnapshot_def call_defs
  by (auto intro!: agree_rules assms)

lemma agree_CreateStemcell:
  assumes "prompt_server (lx_server a)"
  shows "agree (CreateStemcell (on_lxd a k L c) path props) (CreateStemcell (on_incus a k L c) path props)"
  unfolding CreateStemcell_def predeploy_def predeploy_metadata_def call_defs
  by (auto intro!: agree_rules assms)

lemma agree_DeleteStemcell:
  assumes "prompt_server (lx_server a)"
  shows "agree (DeleteStemcell (on_lxd a k L c) al) (DeleteStemcell (on_incus a k L c) al)"
  unfolding DeleteStemcell_def call_defs
  by (auto intro!: agree_rules assms agree_HasVM)

lemma agree_SetVMMetadata:
  assumes "prompt_server (lx_server a)"
  shows "agree (SetVMMetadata (on_lxd a k L c) v m) (SetVMMetadata (on_incus a k L c) v m)"
  unfolding SetVMMetadata_def call_defs
  by (auto intro!: agree_rules assms)

lemma agree_SetDiskMetadata:
  assumes "prompt_server (lx_server a)"
  shows "agree (SetDiskMetadata (on_lxd a k L c) d m) (SetDiskMetadata (on_incus a k L c) d m)"
  unfolding SetDiskMetadata_def call_defs
  by (auto intro!: agree_rules assms)

text \<open>
  C13.  The type of the server makes no difference to the CPI, as long as its operations are done when
  they are accepted: every call but the creation of a snapshot has the same outcome, leaves the same
  world and the same local files, and has the same interactions up to the waiting, on the LXD adapter
  and on the Incus adapter.
\<close>

theorem server_type_transparent:
  assumes "prompt_server (lx_server a)"
  shows "agree (HasVM (on_lxd a k L c) v) (HasVM (on_incus a k L c) v) \<and>
     agree (RebootVM (on_lxd a k L c) v) (RebootVM (on_incus a k L c) v) \<and>
     agree (DeleteVM (on_lxd a k L c) v) (DeleteVM (on_incus a k L c) v) \<and>
     agree (CreateVMV2 (on_lxd a k L c) aid sc props nets env) (CreateVMV2 (on_incus a k L c) aid sc props nets env) \<and>
     agree (CreateDisk (on_lxd a k L c) sz vm) (CreateDisk (on_incus a k L c) sz vm) \<and>
     agree (DeleteDisk (on_lxd a k L c) d) (DeleteDisk (on_incus a k L c) d) \<and>
     agree (HasDisk (on_lxd a k L c) d) (HasDisk (on_incus a k L c) d) \<and>
     agree (ResizeDisk (on_lxd a k L c) d sz) (ResizeDisk (on_incus a k L c) d sz) \<and>
     agree (AttachDiskV2 (on_lxd a k L c) v d) (AttachDiskV2 (on_incus a k L c) v d) \<and>
     agree (DetachDisk (on_lxd a k L c) v d) (DetachDisk (on_incus a k L c) v d) \<and>
     agree (GetDisks (on_lxd a k L c) v) (GetDisks (on_incus a k L c) v) \<and>
     agree (DeleteSnapshot (on_lxd a k L c) sn) (DeleteSnapshot (on_incus a k L c) sn) \<and>
     agree (CreateStemcell (on_lxd a k L c) path sprops) (CreateStemcell (on_incus a k L c) path sprops) \<and>
     agree (DeleteStemcell (on_lxd a k L c) al) (DeleteStemcell (on_incus a k L c) al) \<and>
     agree (SetVMMetadata (on_lxd a k L c) v m) (SetVMMetadata (on_incus a k L c) v m) \<and>
     agree (SetDiskMetadata (on_lxd a k L c) d m) (SetDiskMetadata (on_incus a k L c) d m)"
  by (intro conjI agree_HasVM agree_RebootVM agree_DeleteVM agree_CreateVMV2 agree_CreateDisk agree_DeleteDisk agree_HasDisk agree_ResizeDisk agree_AttachDiskV2 agree_DetachDisk agree_GetDisks agree_DeleteSnapshot agree_CreateStemcell agree_DeleteStemcell agree_SetVMMetadata agree_SetDiskMetadata assms)

end
