(* ===== verification/DemoServer.thy ===== *)
theory DemoServer
  imports AdapterProps
begin

text \<open>
  A small server in memory, one concrete value of the parameter \<open>api_server\<close>: it keeps instances and
  volumes, does every request at once, and has room for a number of volumes.  The scenarios of the
  properties run on it.
\<close>

record demo =
  demo_instances :: "(vm_instance \<times> status_code) gomap"
  demo_volumes :: "storage_volume gomap"
  demo_quota :: nat
  demo_count :: nat

definition demo_error :: "string \<Rightarrow> gerr + 'a" where
  "demo_error msg = Inl (GoError msg)"

definition demo_member :: "conn \<Rightarrow> bool" where
  "demo_member cn \<longleftrightarrow> conn_target cn = [] \<or> conn_target cn = ''node-1''"

definition demo_add_volume :: "conn \<Rightarrow> string \<Rightarrow> strmap \<Rightarrow> demo \<Rightarrow> (gerr + op_handle) \<times> demo" where
  "demo_add_volume cn name cfg w = (if demo_quota w \<le> length (demo_volumes w) \<or> \<not> demo_member cn \<or>
       gm_find (demo_volumes w) name \<noteq> None then (demo_error ''No space left'', w)
     else (Inr ''op'', w\<lparr>demo_volumes := gm_put name \<lparr>sv_name = name, sv_location = ''node-1'', sv_description = [],
       sv_config = cfg, sv_used_by = []\<rparr> (demo_volumes w)\<rparr>))"

fun demo_request :: "request \<Rightarrow> (demo, op_handle) ext" where
  "demo_request (ReqCreateInstance cn post) w = (Inr ''op'', w\<lparr>demo_instances := gm_put (ipost_name post)
     (\<lparr>ins_put = (ipost_put post)\<lparr>ip_restore := []\<rparr>, ins_name = ipost_name post, ins_location = ''node-1''\<rparr>, api_Stopped)
     (demo_instances w)\<rparr>)"
| "demo_request (ReqDeleteInstance cn n) w = (Inr ''op'', w\<lparr>demo_instances := gm_del n (demo_instances w)\<rparr>)"
| "demo_request (ReqUpdateInstance cn n put t) w = (case gm_find (demo_instances w) n of
      None \<Rightarrow> (demo_error ''Instance not found'', w)
    | Some (i, st) \<Rightarrow> (Inr ''op'', w\<lparr>demo_instances := gm_put n (i\<lparr>ins_put := put\<lparr>ip_restore := []\<rparr>\<rparr>, st) (demo_instances w)\<rparr>))"
| "demo_request (ReqUpdateInstanceState cn n put t) w = (case gm_find (demo_instances w) n of
      None \<Rightarrow> (demo_error ''Instance not found'', w)
    | Some (i, st) \<Rightarrow> (Inr ''op'', w\<lparr>demo_instances := gm_put n (i, if isp_action put = ''stop'' then api_Stopped else api_Running)
        (demo_instances w)\<rparr>))"
| "demo_request (ReqCreateVolume cn p post) w = demo_add_volume cn (svpost_name post) (svp_config (svpost_put post)) w"
| "demo_request (ReqCreateVolumeFromISO cn p args) w = demo_add_volume cn (iso_name args) [] w"
| "demo_request (ReqDeleteVolume cn p ty v) w = (if demo_member cn
     then (Inr ''op'', w\<lparr>demo_volumes := gm_del v (demo_volumes w)\<rparr>) else (demo_error ''not supported'', w))"
| "demo_request q w = (demo_error ''not supported'', w)"

definition demo_get_instance :: "string \<Rightarrow> (demo, (vm_instance \<times> status_code)) ext" where
  "demo_get_instance n w = ((case gm_find (demo_instances w) n of
      None \<Rightarrow> demo_error ''Instance not found'' | Some x \<Rightarrow> Inr x), w)"

definition demo_server :: "demo api_server" where
  "demo_server = \<lparr>
     srv_Request = demo_request,
     srv_Wait = (\<lambda>h w. (Inr (), w)),
     srv_OpMetadata = (\<lambda>h w. (Inr [], w)),
     srv_GetServer = (\<lambda>cn w. (Inr ''trusted'', w)),
     srv_GetImages = (\<lambda>cn w. (Inr [], w)),
     srv_GetImageAlias = (\<lambda>cn al w. (Inr (\<lparr>al_name = al, al_description = [], al_target = ''f1''\<rparr>, []), w)),
     srv_GetImage = (\<lambda>cn f w. (Inr (\<lparr>img_properties = [(''description'', ''ubuntu-jammy-1.1'')], img_aliases = []\<rparr>, []), w)),
     srv_GetInstance = (\<lambda>cn n w. case demo_get_instance n w of
        (Inl e, w) \<Rightarrow> (Inl e, w) | (Inr (i, st), w) \<Rightarrow> (Inr (i\<lparr>ins_put := (ins_put i)\<lparr>ip_restore := []\<rparr>\<rparr>, []), w)),
     srv_GetInstanceState = (\<lambda>cn n w. case demo_get_instance n w of
        (Inl e, w) \<Rightarrow> (Inl e, w) | (Inr (i, st), w) \<Rightarrow> (Inr (st, []), w)),
     srv_GetNetwork = (\<lambda>cn n w. (Inr (False, []), w)),
     srv_GetVolume = (\<lambda>cn p ty v w. ((case gm_find (demo_volumes w) v of
        None \<Rightarrow> demo_error ''Storage volume not found'' | Some x \<Rightarrow> Inr (x\<lparr>sv_name := v, sv_location := ''node-1''\<rparr>, ''tag'')), w)),
     srv_GetVolumes = (\<lambda>cn p w. (Inr (map snd (demo_volumes w)), w)),
     srv_GetSnapshot = (\<lambda>cn p ty v s w. (demo_error ''not supported'', w)),
     srv_Disconnect = (\<lambda>w. (Inr (), w)),
     lib_TitleCase = id,
     lib_YamlMarshal = (\<lambda>y. Inr [])\<rparr>"

definition demo_lxd :: "demo lxdApiAdapter" where
  "demo_lxd = \<lparr>lx_server = demo_server, lx_conn = \<lparr>conn_project = ''default'', conn_target = []\<rparr>\<rparr>"

lemma demo_refusals:
  "fst (demo_request q w) = Inl e \<Longrightarrow> e \<in> {GoError ''Instance not found'', GoError ''No space left'', GoError ''not supported''}"
  by (cases "(q, w)" rule: demo_request.cases)
     (auto simp: demo_error_def demo_add_volume_def split: option.splits if_splits)

lemma demo_prompt: "prompt_server demo_server"
proof -
  have "\<not> contains (error_string e) ''VM agent''" if "fst (demo_request q w) = Inl e" for q w e
    using demo_refusals [OF that] by (auto simp: contains.simps)
  then show ?thesis
    by (auto simp: prompt_server_def demo_server_def split: prod.splits sum.splits)
qed

text \<open>A machine and a CPI on this server.\<close>

definition demo_machine :: "demo local_machine" where
  "demo_machine = \<lparr>os_ReadFault = (\<lambda>_ w. (None, w)), os_WriteFault = (\<lambda>_ _ w. (None, w)),
     os_RemoveFault = (\<lambda>_ w. (None, w)), lib_Disk = (\<lambda>q w. (Inr (case q of DkCreateTemp _ \<Rightarrow> ''/tmp/config-1.iso''
       | DkCreateFilesystem _ _ \<Rightarrow> ''iso9660'' | DkReadImage _ \<Rightarrow> ''image'' | _ \<Rightarrow> []), w))\<rparr>"

definition demo_config :: Config where
  "demo_config = \<lparr>
     conf_Server = \<lparr>cfg_Type = ''lxd'', cfg_URL = [], cfg_TLSClientCert = [], cfg_TLSClientKey = [],
       cfg_InsecureSkipVerify = False, cfg_Project = ''default'', cfg_Profile = ''default'', cfg_Target = [],
       cfg_ManagedNetworkAssignment = [], cfg_Network = ''lxdbr0'', cfg_StoragePool = ''default'',
       cfg_PredeployStemcell = False, cfg_CreateVMLock = \<lparr>lock_Enabled = False, lock_Timeout = [], lock_Path = []\<rparr>,
       cfg_InstanceConfig = [(''default'', [(''raw.qemu'', ''-bios'')])]\<rparr>,
     conf_Agent = \<lparr>ao_Mbus = [], ao_NTP = None\<rparr>,
     conf_AgentConfig = \<lparr>ac_SourceType = ''FAT32'', ac_Label = ''c'', ac_MetadataPath = ''meta'', ac_UserdataPath = ''user'',
       ac_FileStorePath = ''/store''\<rparr>,
     conf_ThrottleConfig = \<lparr>tc_Enabled = False, tc_Path = [], tc_Limit = 0, tc_Hold = []\<rparr>\<rparr>"

definition demo_cpi :: "demo CPI" where
  "demo_cpi = \<lparr>cpi_adapter = lxd_adapter demo_lxd,
     cpi_uuidGen = (\<lambda>w. (Inr (replicate (demo_count w) (CHR ''u'')), w\<lparr>demo_count := Suc (demo_count w)\<rparr>)),
     cpi_config = demo_config, cpi_agentMgr = NewFAT32Manager demo_machine (conf_AgentConfig demo_config),
     cpi_TryLock = (\<lambda>w. (Inr True, w)), cpi_Unlock = (\<lambda>w. (Inr (), w)), cpi_OpenFile = (\<lambda>p w. (Inr (), w)),
     cpi_GzipReader = (\<lambda>p w. (demo_error ''no archive'', w))\<rparr>"

definition demo_start :: "nat \<Rightarrow> (event, demo) sys" where
  "demo_start quota = \<lparr>world = \<lparr>demo_instances = [], demo_volumes = [], demo_quota = quota, demo_count = 1\<rparr>,
     files = (\<lambda>_. None), trace = []\<rparr>"

end
