(* ===== verification/CommandLine.thy ===== *)
theory CommandLine
  imports Adapter
begin

text \<open>
  What every program under \<open>cmd\<close> does first: the command line as the \<open>flag\<close> package reads it, the log
  level (\<open>boshlog.Levelify\<close>) and the logger, which writes a line when its level admits it.
\<close>

section \<open>Flags\<close>

text \<open>
  A flag takes a text or is a switch.  The values are kept as texts under the names of the flags; those
  of a switch are \<open>true\<close> and \<open>false\<close>.
\<close>

datatype flag_kind = TextFlag | SwitchFlag

datatype flags = Flags strmap | FlagHelp | FlagError string

text \<open>\<open>strconv.ParseBool\<close>.\<close>

definition parse_bool :: "string \<Rightarrow> bool option" where
  "parse_bool s = (if s \<in> {''1'', ''t'', ''T'', ''true'', ''TRUE'', ''True''} then Some True
     else if s \<in> {''0'', ''f'', ''F'', ''false'', ''FALSE'', ''False''} then Some False else None)"

text \<open>One or two minus signs; a name cannot be empty or start with a minus or an equals sign.\<close>

definition flag_name :: "string \<Rightarrow> string" where
  "flag_name s = (if has_prefix s ''--'' then drop 2 s else drop 1 s)"

definition bad_name :: "string \<Rightarrow> bool" where
  "bad_name name = (case name of [] \<Rightarrow> True | c # _ \<Rightarrow> c = CHR ''-'' \<or> c = CHR ''='')"

text \<open>\<open>name=value\<close>, split at the first equals sign.\<close>

definition flag_split :: "string \<Rightarrow> string \<times> string option" where
  "flag_split s = (let name = takeWhile (\<lambda>c. c \<noteq> CHR ''='') s; rest = drop (length name) s
     in (name, if rest = [] then None else Some (drop 1 rest)))"

text \<open>
  \<open>FlagSet.parseOne\<close>, over and over: the first argument that is not a flag ends the flags, as does
  \<open>--\<close>.  \<open>formal\<close> lists the flags that are declared, \<open>opts\<close> the values set so far.
\<close>

fun parse_flags :: "flag_kind gomap \<Rightarrow> string list \<Rightarrow> strmap \<Rightarrow> flags" where
  "parse_flags formal [] opts = Flags opts"
| "parse_flags formal (s # args) opts =
     (if length s < 2 \<or> \<not> has_prefix s ''-'' then Flags opts
      else if s = ''--'' then Flags opts
      else if bad_name (flag_name s) then FlagError (''bad flag syntax: '' @ s)
      else (case flag_split (flag_name s) of (name, given) \<Rightarrow>
        (case gm_find formal name of
           None \<Rightarrow> if name = ''help'' \<or> name = ''h'' then FlagHelp
             else FlagError (''flag provided but not defined: -'' @ name)
         | Some SwitchFlag \<Rightarrow> (case given of
               None \<Rightarrow> parse_flags formal args (gm_put name ''true'' opts)
             | Some v \<Rightarrow> (case parse_bool v of
                   None \<Rightarrow> FlagError (''invalid boolean value for -'' @ name)
                 | Some b \<Rightarrow> parse_flags formal args (gm_put name (if b then ''true'' else ''false'') opts)))
         | Some TextFlag \<Rightarrow> (case given of
               Some v \<Rightarrow> parse_flags formal args (gm_put name v opts)
             | None \<Rightarrow> (case args of
                   [] \<Rightarrow> FlagError (''flag needs an argument: -'' @ name)
                 | v # args' \<Rightarrow> parse_flags formal args' (gm_put name v opts))))))"

text \<open>The flags the programs declare, with their defaults.\<close>

definition common_flags :: "flag_kind gomap" where
  "common_flags = [(''configPath'', TextFlag), (''logLevel'', TextFlag)]"

definition cleanup_flags :: "flag_kind gomap" where
  "cleanup_flags = common_flags @ [(''dryRun'', SwitchFlag)]"

definition common_defaults :: strmap where
  "common_defaults = [(''configPath'', []), (''logLevel'', ''WARN'')]"

definition cleanup_defaults :: strmap where
  "cleanup_defaults = [(''configPath'', []), (''logLevel'', ''INFO''), (''dryRun'', ''false'')]"

section \<open>Logging\<close>

definition LevelDebug :: int where "LevelDebug = 0"
definition LevelInfo :: int where "LevelInfo = 1"
definition LevelWarn :: int where "LevelWarn = 2"
definition LevelError :: int where "LevelError = 3"
definition LevelNone :: int where "LevelNone = 99"

lemmas level_defs = LevelDebug_def LevelInfo_def LevelWarn_def LevelError_def LevelNone_def

definition to_upper_char :: "char \<Rightarrow> char" where
  "to_upper_char c = (let n = of_char c :: nat in if 97 \<le> n \<and> n \<le> 122 then char_of (n - 32) else c)"

definition Levelify :: "string \<Rightarrow> gerr + int" where
  "Levelify s = (case gm_find [(''DEBUG'', LevelDebug), (''INFO'', LevelInfo), (''WARN'', LevelWarn),
       (''ERROR'', LevelError), (''NONE'', LevelNone)] (map to_upper_char s) of
      Some level \<Rightarrow> Inr level
    | None \<Rightarrow> Inl (GoError (''unknown LogLevel string '' @ quoted s @
        '', expected one of [DEBUG, INFO, WARN, ERROR, NONE]'')))"

text \<open>What every program makes of its option: an unknown level is \<open>ERROR\<close>.\<close>

definition log_level_of :: "strmap \<Rightarrow> int" where
  "log_level_of opts = (case Levelify (gm_get opts ''logLevel'') of Inl _ \<Rightarrow> LevelError | Inr level \<Rightarrow> level)"

text \<open>A line is its tag and its text; the time in between is left out.\<close>

type_synonym log_entry = "string \<times> string"

definition log_line :: "int \<Rightarrow> int \<Rightarrow> string \<Rightarrow> string \<Rightarrow> string \<Rightarrow> log_entry list" where
  "log_line level at name tag msg = (if level > at then [] else [(tag, name @ '' - '' @ msg)])"

definition log_Info :: "int \<Rightarrow> string \<Rightarrow> string \<Rightarrow> log_entry list" where
  "log_Info level = log_line level LevelInfo ''INFO''"

definition log_Warn :: "int \<Rightarrow> string \<Rightarrow> string \<Rightarrow> log_entry list" where
  "log_Warn level = log_line level LevelWarn ''WARN''"

definition log_Error :: "int \<Rightarrow> string \<Rightarrow> string \<Rightarrow> log_entry list" where
  "log_Error level = log_line level LevelError ''ERROR''"

lemmas log_defs = log_Info_def log_Warn_def log_Error_def log_line_def

section \<open>Reading what was written\<close>

text \<open>Either spelling of a text flag, with any value at all, is read as that value.\<close>

lemma flag_name_of:
  "\<not> bad_name name \<Longrightarrow> flag_name (CHR ''-'' # name) = name \<and> flag_name (CHR ''-'' # CHR ''-'' # name) = name"
  by (cases name) (auto simp: flag_name_def bad_name_def has_prefix_def)

lemma takeWhile_name:
  "CHR ''='' \<notin> set name \<Longrightarrow> takeWhile (\<lambda>c. c \<noteq> CHR ''='') name = name"
  "CHR ''='' \<notin> set name \<Longrightarrow> takeWhile (\<lambda>c. c \<noteq> CHR ''='') (name @ CHR ''='' # v) = name"
  by (induction name) auto

lemma flag_split_plain: "CHR ''='' \<notin> set name \<Longrightarrow> flag_split name = (name, None)"
  by (simp add: flag_split_def takeWhile_name)

lemma flag_split_given: "CHR ''='' \<notin> set name \<Longrightarrow> flag_split (name @ CHR ''='' # v) = (name, Some v)"
  by (simp add: flag_split_def takeWhile_name)

lemma parse_text_flag:
  assumes "gm_find formal name = Some TextFlag" and "\<not> bad_name name" and "CHR ''='' \<notin> set name"
  shows "parse_flags formal ((CHR ''-'' # name) # v # args) opts = parse_flags formal args (gm_put name v opts)"
    and "parse_flags formal ((CHR ''-'' # name @ CHR ''='' # v) # args) opts = parse_flags formal args (gm_put name v opts)"
proof -
  obtain c cs where name: "name = c # cs" using assms(2) by (cases name) (auto simp: bad_name_def)
  then have c: "c \<noteq> CHR ''-''" "c \<noteq> CHR ''=''" using assms(2) by (auto simp: bad_name_def)
  have bad: "\<not> bad_name (name @ CHR ''='' # v)" using assms(2) by (simp add: name bad_name_def)
  have fn: "flag_name (CHR ''-'' # name) = name" "flag_name (CHR ''-'' # name @ CHR ''='' # v) = name @ CHR ''='' # v"
    using flag_name_of [OF assms(2)] flag_name_of [OF bad] by simp_all
  show "parse_flags formal ((CHR ''-'' # name) # v # args) opts = parse_flags formal args (gm_put name v opts)"
    using assms c by (simp add: fn flag_split_plain) (simp add: name has_prefix_def)
  show "parse_flags formal ((CHR ''-'' # name @ CHR ''='' # v) # args) opts = parse_flags formal args (gm_put name v opts)"
    using assms bad c by (simp add: fn flag_split_given) (simp add: name has_prefix_def)
qed

end
