(* ===== verification/CpiFactory.thy ===== *)
theory CpiFactory
  imports CpiBase
begin

text \<open>
  \<open>config/config.go\<close>, \<open>adapter/factory/factory.go\<close>, \<open>adapter/lxd/factory.go\<close>,
  \<open>adapter/incus/factory.go\<close> and \<open>cpi/factory.go\<close>: reading the configuration over its defaults,
  connecting to the configured server, and building the CPI value.
\<close>

section \<open>Reading the configuration\<close>

text \<open>
  A JSON object is read into an existing struct: every key that names a field, in any case of letters,
  changes that field; the other fields keep their value.
\<close>

type_synonym 'a field_table = "(string \<times> (json \<Rightarrow> 'a \<Rightarrow> gerr + 'a)) list"

definition set_field :: "'a field_table \<Rightarrow> string \<times> json \<Rightarrow> 'a \<Rightarrow> gerr + 'a" where
  "set_field tbl kv old = (case filter (\<lambda>(name, _). to_lower name = to_lower (fst kv)) tbl of
      [] \<Rightarrow> Inr old | (_, dec) # _ \<Rightarrow> dec (snd kv) old)"

fun set_fields :: "'a field_table \<Rightarrow> json gomap \<Rightarrow> 'a \<Rightarrow> gerr + 'a" where
  "set_fields tbl [] old = Inr old"
| "set_fields tbl (kv # kvs) old = sum_bind (set_field tbl kv old) (set_fields tbl kvs)"

definition read_struct :: "'a field_table \<Rightarrow> json \<Rightarrow> 'a \<Rightarrow> gerr + 'a" where
  "read_struct tbl js old = dec_struct old (\<lambda>kvs. set_fields tbl kvs old) js"

text \<open>A field of type \<open>'b\<close> inside a struct of type \<open>'a\<close>: its reader, its selector and its update.\<close>

definition field :: "(json \<Rightarrow> 'b \<Rightarrow> gerr + 'b) \<Rightarrow> ('a \<Rightarrow> 'b) \<Rightarrow> ('b \<Rightarrow> 'a \<Rightarrow> 'a) \<Rightarrow> json \<Rightarrow> 'a \<Rightarrow> gerr + 'a" where
  "field read sel upd js old = sum_bind (read js (sel old)) (\<lambda>x. Inr (upd x old))"

abbreviation read_string :: "json \<Rightarrow> string \<Rightarrow> gerr + string" where
  "read_string js old \<equiv> dec_string old js"

abbreviation read_bool :: "json \<Rightarrow> bool \<Rightarrow> gerr + bool" where
  "read_bool js old \<equiv> dec_bool old js"

abbreviation read_int :: "json \<Rightarrow> int \<Rightarrow> gerr + int" where
  "read_int js old \<equiv> dec_int old js"

text \<open>Entries are added to a map that is there already; \<open>null\<close> makes it nil.\<close>

fun read_map :: "(json \<Rightarrow> gerr + 'a) \<Rightarrow> json \<Rightarrow> 'a gomap \<Rightarrow> gerr + 'a gomap" where
  "read_map dec (JObj kvs) old = sum_bind (traverse (\<lambda>(k, v). sum_bind (dec v) (\<lambda>x. Inr (k, x))) kvs)
     (\<lambda>ys. Inr (foldl (\<lambda>m (k, v). gm_put k v m) old ys))"
| "read_map dec JNull old = Inr []"
| "read_map dec _ old = Inl type_error"

definition lock_fields :: "CreateVMLockConfig field_table" where
  "lock_fields = [
     (''Enabled'', field read_bool lock_Enabled (\<lambda>x r. r\<lparr>lock_Enabled := x\<rparr>)),
     (''Timeout'', field read_string lock_Timeout (\<lambda>x r. r\<lparr>lock_Timeout := x\<rparr>)),
     (''Path'', field read_string lock_Path (\<lambda>x r. r\<lparr>lock_Path := x\<rparr>))]"

definition server_fields :: "ServerConfig field_table" where
  "server_fields = [
     (''Type'', field read_string cfg_Type (\<lambda>x r. r\<lparr>cfg_Type := x\<rparr>)),
     (''URL'', field read_string cfg_URL (\<lambda>x r. r\<lparr>cfg_URL := x\<rparr>)),
     (''TLSClientCert'', field read_string cfg_TLSClientCert (\<lambda>x r. r\<lparr>cfg_TLSClientCert := x\<rparr>)),
     (''TLSClientKey'', field read_string cfg_TLSClientKey (\<lambda>x r. r\<lparr>cfg_TLSClientKey := x\<rparr>)),
     (''InsecureSkipVerify'', field read_bool cfg_InsecureSkipVerify (\<lambda>x r. r\<lparr>cfg_InsecureSkipVerify := x\<rparr>)),
     (''Project'', field read_string cfg_Project (\<lambda>x r. r\<lparr>cfg_Project := x\<rparr>)),
     (''Profile'', field read_string cfg_Profile (\<lambda>x r. r\<lparr>cfg_Profile := x\<rparr>)),
     (''Target'', field read_string cfg_Target (\<lambda>x r. r\<lparr>cfg_Target := x\<rparr>)),
     (''ManagedNetworkAssignment'', field read_string cfg_ManagedNetworkAssignment
        (\<lambda>x r. r\<lparr>cfg_ManagedNetworkAssignment := x\<rparr>)),
     (''Network'', field read_string cfg_Network (\<lambda>x r. r\<lparr>cfg_Network := x\<rparr>)),
     (''StoragePool'', field read_string cfg_StoragePool (\<lambda>x r. r\<lparr>cfg_StoragePool := x\<rparr>)),
     (''PredeployStemcell'', field read_bool cfg_PredeployStemcell (\<lambda>x r. r\<lparr>cfg_PredeployStemcell := x\<rparr>)),
     (''CreateVMLock'', field (read_struct lock_fields) cfg_CreateVMLock (\<lambda>x r. r\<lparr>cfg_CreateVMLock := x\<rparr>)),
     (''InstanceConfig'', field (read_map (\<lambda>js. read_map (dec_string []) js [])) cfg_InstanceConfig
        (\<lambda>x r. r\<lparr>cfg_InstanceConfig := x\<rparr>))]"

definition agent_fields :: "agent_options field_table" where
  "agent_fields = [
     (''Mbus'', field read_string ao_Mbus (\<lambda>x r. r\<lparr>ao_Mbus := x\<rparr>)),
     (''NTP'', field (\<lambda>js _. dec_slice (dec_string []) js) ao_NTP (\<lambda>x r. r\<lparr>ao_NTP := x\<rparr>))]"

definition agent_config_fields :: "agent_config field_table" where
  "agent_config_fields = [
     (''SourceType'', field read_string ac_SourceType (\<lambda>x r. r\<lparr>ac_SourceType := x\<rparr>)),
     (''Label'', field read_string ac_Label (\<lambda>x r. r\<lparr>ac_Label := x\<rparr>)),
     (''MetadataPath'', field read_string ac_MetadataPath (\<lambda>x r. r\<lparr>ac_MetadataPath := x\<rparr>)),
     (''UserdataPath'', field read_string ac_UserdataPath (\<lambda>x r. r\<lparr>ac_UserdataPath := x\<rparr>)),
     (''FileStorePath'', field read_string ac_FileStorePath (\<lambda>x r. r\<lparr>ac_FileStorePath := x\<rparr>))]"

definition throttle_fields :: "throttle_config field_table" where
  "throttle_fields = [
     (''Enabled'', field read_bool tc_Enabled (\<lambda>x r. r\<lparr>tc_Enabled := x\<rparr>)),
     (''Path'', field read_string tc_Path (\<lambda>x r. r\<lparr>tc_Path := x\<rparr>)),
     (''Limit'', field read_int tc_Limit (\<lambda>x r. r\<lparr>tc_Limit := x\<rparr>)),
     (''Hold'', field read_string tc_Hold (\<lambda>x r. r\<lparr>tc_Hold := x\<rparr>))]"

definition config_fields :: "Config field_table" where
  "config_fields = [
     (''Server'', field (read_struct server_fields) conf_Server (\<lambda>x r. r\<lparr>conf_Server := x\<rparr>)),
     (''Agent'', field (read_struct agent_fields) conf_Agent (\<lambda>x r. r\<lparr>conf_Agent := x\<rparr>)),
     (''AgentConfig'', field (read_struct agent_config_fields) conf_AgentConfig (\<lambda>x r. r\<lparr>conf_AgentConfig := x\<rparr>)),
     (''ThrottleConfig'', field (read_struct throttle_fields) conf_ThrottleConfig
        (\<lambda>x r. r\<lparr>conf_ThrottleConfig := x\<rparr>))]"

definition default_config :: Config where
  "default_config = \<lparr>
     conf_Server = \<lparr>cfg_Type = ''lxd'', cfg_URL = ''https://localhost:8443'', cfg_TLSClientCert = [],
       cfg_TLSClientKey = [], cfg_InsecureSkipVerify = False, cfg_Project = ''default'',
       cfg_Profile = ''default'', cfg_Target = [], cfg_ManagedNetworkAssignment = [],
       cfg_Network = ''lxdbr0'', cfg_StoragePool = ''default'', cfg_PredeployStemcell = False,
       cfg_CreateVMLock = \<lparr>lock_Enabled = False, lock_Timeout = [], lock_Path = []\<rparr>,
       cfg_InstanceConfig = []\<rparr>,
     conf_Agent = \<lparr>ao_Mbus = [], ao_NTP = None\<rparr>,
     conf_AgentConfig = \<lparr>ac_SourceType = [], ac_Label = [], ac_MetadataPath = [], ac_UserdataPath = [],
       ac_FileStorePath = []\<rparr>,
     conf_ThrottleConfig = \<lparr>tc_Enabled = False, tc_Path = [], tc_Limit = 0, tc_Hold = []\<rparr>\<rparr>"

definition config_Validate :: "Config \<Rightarrow> gerr option" where
  "config_Validate cfg = (case server_config_Validate (conf_Server cfg) of
      None \<Rightarrow> None | Some e \<Rightarrow> Some (WrapError e ''Validating Actions configuration''))"

definition parse_config :: "string \<Rightarrow> gerr + Config" where
  "parse_config bytes = (case json_parse bytes of
      None \<Rightarrow> Inl (GoError ''invalid JSON'') | Some js \<Rightarrow> read_struct config_fields js default_config)"

definition NewConfigFromPath :: "'w local_machine \<Rightarrow> string \<Rightarrow> ('w, Config) go" where
  "NewConfigFromPath L path =
     io_wrap (os_ReadFile L path) (''Reading config '' @ quoted path) (\<lambda>bytes.
     io_wrap (io_lift (parse_config bytes)) ''Unmarshalling config'' (\<lambda>cfg.
     case config_Validate cfg of
       None \<Rightarrow> io_ret cfg | Some e \<Rightarrow> io_fail (WrapError e ''Validating config'')))"

section \<open>Connecting\<close>

text \<open>
  The client libraries: \<open>ConnectLXD\<close> and \<open>ConnectIncus\<close> try to reach the server at a URL; the handle
  they give has no project and no target set.
\<close>

record connection_args =
  ca_TLSClientCert :: string
  ca_TLSClientKey :: string
  ca_InsecureSkipVerify :: bool

record 'w client_library =
  lib_Connect :: "string \<Rightarrow> connection_args \<Rightarrow> ('w, unit) ext"
  lib_Server :: "string \<Rightarrow> connection_args \<Rightarrow> 'w api_server"

definition args_of :: "ServerConfig \<Rightarrow> connection_args" where
  "args_of cfg = \<lparr>ca_TLSClientCert = cfg_TLSClientCert cfg, ca_TLSClientKey = cfg_TLSClientKey cfg,
     ca_InsecureSkipVerify = cfg_InsecureSkipVerify cfg\<rparr>"

definition fresh_conn :: conn where
  "fresh_conn = \<lparr>conn_project = [], conn_target = []\<rparr>"

definition configured_conn :: "ServerConfig \<Rightarrow> conn" where
  "configured_conn cfg = (let c = (if length (cfg_Project cfg) \<noteq> 0 then UseProject (cfg_Project cfg) fresh_conn
       else fresh_conn)
     in if length (cfg_Target cfg) \<noteq> 0 then UseTarget (cfg_Target cfg) c else c)"

definition NewLXDAdapter :: "'w client_library \<Rightarrow> ServerConfig \<Rightarrow> ('w, 'w lxdApiAdapter) go" where
  "NewLXDAdapter lib cfg =
     io_bind (io_ext (EvConnect (cfg_URL cfg)) (lib_Connect lib (cfg_URL cfg) (args_of cfg))) (\<lambda>_.
     io_ret \<lparr>lx_server = lib_Server lib (cfg_URL cfg) (args_of cfg), lx_conn = configured_conn cfg\<rparr>)"

definition NewIncusAdapter :: "'w client_library \<Rightarrow> ServerConfig \<Rightarrow> ('w, 'w incusApiAdapter) go" where
  "NewIncusAdapter lib cfg =
     io_bind (io_ext (EvConnect (cfg_URL cfg)) (lib_Connect lib (cfg_URL cfg) (args_of cfg))) (\<lambda>_.
     io_ret \<lparr>ic_server = lib_Server lib (cfg_URL cfg) (args_of cfg), ic_conn = configured_conn cfg\<rparr>)"

definition NewAdapter :: "'w client_library \<Rightarrow> 'w client_library \<Rightarrow> ServerConfig \<Rightarrow> ('w, 'w ApiAdapter) go" where
  "NewAdapter lxdlib incuslib cfg =
     (if cfg_Type cfg = ''lxd'' then io_bind (NewLXDAdapter lxdlib cfg) (\<lambda>a. io_ret (lxd_adapter a))
      else if cfg_Type cfg = ''incus'' then io_bind (NewIncusAdapter incuslib cfg) (\<lambda>a. io_ret (incus_adapter a))
      else io_fail (GoError (''unknown adapter type: '' @ quoted (cfg_Type cfg))))"

text \<open>\<open>CPIFactory.New\<close>; \<open>build\<close> is \<open>NewCPI\<close> with the libraries supplied.\<close>

definition CPIFactory_New :: "'w client_library \<Rightarrow> 'w client_library \<Rightarrow> ('w ApiAdapter \<Rightarrow> Config \<Rightarrow> gerr + 'w CPI) \<Rightarrow>
    Config \<Rightarrow> ('w, 'w CPI) go" where
  "CPIFactory_New lxdlib incuslib build cfg =
     io_bind (NewAdapter lxdlib incuslib (conf_Server cfg)) (\<lambda>adapter. io_lift (build adapter cfg))"

end
