(* ===== verification/Dispatch.thy ===== *)
theory Dispatch
  imports CpiVm CpiDisk CpiStemcell CpiMeta CpiFactory
begin

text \<open>
  From the bytes of a request to the bytes of its answer: \<open>rpc/json_dispatcher.go\<close>,
  \<open>rpc/json_caller.go\<close> and \<open>apiv1/action_factory.go\<close> of the vendored \<open>bosh-cpi-go\<close>.  The dispatcher reads
  the request, the action factory builds a CPI and picks the function of a method and an API version,
  the caller reads the arguments by the types of that function and calls it.  The log output of the
  dispatcher is left out.
\<close>

section \<open>Values without a type\<close>

text \<open>
  An argument is read into an \<open>interface{}\<close> and written again: a number becomes a 64-bit floating
  point number (a whole number is rounded to 53 significant bits, ties to even), and an object a map,
  whose keys are written in order and count once.
\<close>

fun bit_length :: "nat \<Rightarrow> nat" where
  "bit_length n = (if n = 0 then 0 else Suc (bit_length (n div 2)))"

declare bit_length.simps [simp del]

definition float64 :: "int \<Rightarrow> int" where
  "float64 n = (let m = nat \<bar>n\<bar> in
     if m < 2 ^ 53 then n
     else let s = bit_length m - 53; q = m div 2 ^ s; r = m mod 2 ^ s;
        up = (2 * r > 2 ^ s \<or> (2 * r = 2 ^ s \<and> odd q))
      in sgn n * int ((if up then Suc q else q) * 2 ^ s))"

primrec untyped :: "json \<Rightarrow> json" where
  "untyped JNull = JNull"
| "untyped (JBool b) = JBool b"
| "untyped (JNum n) = JNum (float64 n)"
| "untyped (JStr s) = JStr s"
| "untyped (JArr xs) = JArr (map untyped xs)"
| "untyped (JObj kvs) = JObj (sort_map (gm_of_list (map (map_prod id untyped) kvs)))"

section \<open>Arguments\<close>

text \<open>The types of the parameters of the actions, and their values.\<close>

datatype arg_type = TString | TInt | TCid | TCidPtr | TCids | TProps | TNetworks | TKVs | TResources

datatype arg =
    AString string
  | AInt int
  | ACid string
  | ACidPtr "string option"
  | ACids "string list option"
  | AProps json
  | ANetworks networks
  | AKVs "json gomap option"
  | AResources int int int

definition dec_cid :: "json \<Rightarrow> gerr + string" where
  "dec_cid js = sum_bind (dec_string [] js)
     (\<lambda>s. if s = [] then Inl (GoError ''Expected CID to be non-empty'') else Inr s)"

definition empty_network :: network where
  "empty_network = NewNetwork [] [] [] [] None None None []"

definition dec_network :: "json \<Rightarrow> gerr + network" where
  "dec_network = dec_struct empty_network (\<lambda>kvs.
     sum_bind (dec_field (dec_string []) [] kvs ''type'') (\<lambda>ty.
     sum_bind (dec_field (dec_string []) [] kvs ''ip'') (\<lambda>ip.
     sum_bind (dec_field (dec_string []) [] kvs ''netmask'') (\<lambda>nm.
     sum_bind (dec_field (dec_string []) [] kvs ''gateway'') (\<lambda>gw.
     sum_bind (dec_field (dec_slice (dec_string [])) None kvs ''dns'') (\<lambda>dns.
     sum_bind (dec_field (dec_slice (dec_string [])) None kvs ''default'') (\<lambda>dflt.
     sum_bind (dec_field (dec_slice dec_route) None kvs ''routes'') (\<lambda>rts.
     sum_bind (dec_field (dec_string []) [] kvs ''alias'') (\<lambda>al.
     sum_bind (dec_field (\<lambda>js. Inr (Some js)) None kvs ''cloud_properties'') (\<lambda>props.
     Inr ((NewNetwork ty ip nm gw dns dflt rts al)\<lparr>nw_CloudProps := props\<rparr>)))))))))))"

definition dec_networks :: "json \<Rightarrow> gerr + networks" where
  "dec_networks js = (case dec_map dec_network js of
      Inl e \<Rightarrow> Inl (WrapError e ''Unmarshaling networks'')
    | Inr nets \<Rightarrow> Inr (case nets of None \<Rightarrow> [] | Some m \<Rightarrow> m))"

definition dec_resources :: "json \<Rightarrow> gerr + int \<times> int \<times> int" where
  "dec_resources = dec_struct (0, 0, 0) (\<lambda>kvs.
     sum_bind (dec_field (dec_int 0) 0 kvs ''ram'') (\<lambda>ram.
     sum_bind (dec_field (dec_int 0) 0 kvs ''cpu'') (\<lambda>cpu.
     sum_bind (dec_field (dec_int 0) 0 kvs ''ephemeral_disk_size'') (\<lambda>disk. Inr (ram, cpu, disk)))))"

fun dec_arg :: "arg_type \<Rightarrow> json \<Rightarrow> gerr + arg" where
  "dec_arg TString js = map_sum id AString (dec_string [] js)"
| "dec_arg TInt js = map_sum id AInt (dec_int 0 js)"
| "dec_arg TCid js = map_sum id ACid (dec_cid js)"
| "dec_arg TCidPtr js = (if js = JNull then Inr (ACidPtr None) else map_sum id (\<lambda>s. ACidPtr (Some s)) (dec_cid js))"
| "dec_arg TCids js = map_sum id ACids (dec_slice dec_cid js)"
| "dec_arg TProps js = Inr (AProps js)"
| "dec_arg TNetworks js = map_sum id ANetworks (dec_networks js)"
| "dec_arg TKVs js = map_sum id AKVs (dec_map Inr js)"
| "dec_arg TResources js = map_sum id (\<lambda>(ram, cpu, disk). AResources ram cpu disk) (dec_resources js)"

text \<open>\<open>json.Unmarshal\<close> of the bytes of one argument.\<close>

definition read_arg :: "arg_type \<Rightarrow> json \<Rightarrow> gerr + arg" where
  "read_arg ty js = (case json_parse (json_print (untyped js)) of
      None \<Rightarrow> Inl (WrapError (GoError ''invalid JSON'') ''Unmarshalling action argument'')
    | Some v \<Rightarrow> (case dec_arg ty v of
        Inl e \<Rightarrow> Inl (WrapError e ''Unmarshalling action argument'') | Inr a \<Rightarrow> Inr a))"

text \<open>Surplus arguments are dropped.\<close>

definition extractMethodArgs :: "arg_type list \<Rightarrow> json list \<Rightarrow> gerr + arg list" where
  "extractMethodArgs tys args =
     (if length args < length tys
      then Inl (GoError (''Not enough arguments, expected '' @ nat_dec (length tys) @ '', got '' @ nat_dec (length args)))
      else traverse (\<lambda>(ty, js). read_arg ty js) (zip tys args))"

section \<open>Results\<close>

definition omit_empty :: "string \<Rightarrow> string \<Rightarrow> json gomap" where
  "omit_empty k s = (if s = [] then [] else [(k, JStr s)])"

definition network_json :: "network \<Rightarrow> json" where
  "network_json n = JObj ([(''type'', JStr (nw_Type n))] @ omit_empty ''ip'' (nw_IP n) @
     omit_empty ''netmask'' (nw_Netmask n) @ omit_empty ''gateway'' (nw_Gateway n) @
     [(''dns'', opt_json strings_json (nw_DNS n)), (''default'', opt_json strings_json (nw_Default n)),
      (''routes'', opt_json (\<lambda>rs. JArr (map route_json rs)) (nw_Routes n))] @ omit_empty ''alias'' (nw_Alias n) @
     [(''cloud_properties'', opt_json id (nw_CloudProps n))])"

definition info_json :: "cpi_info \<Rightarrow> json" where
  "info_json i = JObj [(''api_version'', JNum (info_APIVersion i)),
     (''stemcell_formats'', JArr (map JStr (info_StemcellFormats i)))]"

section \<open>The action factory\<close>

text \<open>
  An action: the types of its parameters and the call.  \<open>ord\<close> gives the order in which a loop over the
  networks of a request goes; Go leaves it open.
\<close>

type_synonym 'w action = "arg_type list \<times> (arg list \<Rightarrow> ('w, json) go)"

definition wrong_args :: "('w, json) go" where
  "wrong_args = io_panic ''reflect: Call using wrong argument types''"

definition nothing :: "('w, unit) go \<Rightarrow> ('w, json) go" where
  "nothing m = io_bind m (\<lambda>_. io_ret JNull)"

definition stemcell_actions :: "'w CPI \<Rightarrow> 'w action gomap" where
  "stemcell_actions c = [
     (''info'', [], \<lambda>as. io_ret (info_json (Info\<lparr>info_APIVersion := 2\<rparr>))),
     (''create_stemcell'', [TString, TProps], \<lambda>as. case as of
        [AString imagePath, AProps props] \<Rightarrow> io_bind (CreateStemcell c imagePath props) (\<lambda>cid. io_ret (JStr cid))
      | _ \<Rightarrow> wrong_args),
     (''delete_stemcell'', [TCid], \<lambda>as. case as of
        [ACid cid] \<Rightarrow> nothing (DeleteStemcell c cid) | _ \<Rightarrow> wrong_args)]"

definition vm_actions :: "(networks \<Rightarrow> networks) \<Rightarrow> 'w CPI \<Rightarrow> int \<Rightarrow> 'w action gomap" where
  "vm_actions ord c apiVersion = [
     (''create_vm'', [TCid, TCid, TProps, TNetworks, TCids, TKVs], \<lambda>as. case as of
        [ACid agentID, ACid stemcellCID, AProps props, ANetworks nets, ACids diskCIDs, AKVs env] \<Rightarrow>
          if apiVersion = 2
          then io_bind (CreateVMV2 c agentID stemcellCID props (ord nets) env)
            (\<lambda>(cid, newNetworks). io_ret (JArr [JStr cid, map_json network_json newNetworks]))
          else io_bind (CreateVM c agentID stemcellCID props (ord nets) env) (\<lambda>cid. io_ret (JStr cid))
      | _ \<Rightarrow> wrong_args),
     (''delete_vm'', [TCid], \<lambda>as. case as of [ACid cid] \<Rightarrow> nothing (DeleteVM c cid) | _ \<Rightarrow> wrong_args),
     (''calculate_vm_cloud_properties'', [TResources], \<lambda>as. case as of
        [AResources ram cpu disk] \<Rightarrow> io_ret (map_json id (CalculateVMCloudProperties ram cpu disk))
      | _ \<Rightarrow> wrong_args),
     (''set_vm_metadata'', [TCid, TKVs], \<lambda>as. case as of
        [ACid cid, AKVs metadata] \<Rightarrow> nothing (SetVMMetadata c cid metadata) | _ \<Rightarrow> wrong_args),
     (''has_vm'', [TCid], \<lambda>as. case as of
        [ACid cid] \<Rightarrow> io_bind (HasVM c cid) (\<lambda>b. io_ret (JBool b)) | _ \<Rightarrow> wrong_args),
     (''reboot_vm'', [TCid], \<lambda>as. case as of
        [ACid cid] \<Rightarrow> io_bind (RebootVM c cid) (\<lambda>_. io_ret (JStr [])) | _ \<Rightarrow> wrong_args),
     (''get_disks'', [TCid], \<lambda>as. case as of
        [ACid cid] \<Rightarrow> io_bind (GetDisks c cid) (\<lambda>cids. io_ret (JArr (map JStr cids))) | _ \<Rightarrow> wrong_args)]"

definition disk_actions :: "'w CPI \<Rightarrow> int \<Rightarrow> 'w action gomap" where
  "disk_actions c apiVersion = [
     (''create_disk'', [TInt, TProps, TCidPtr], \<lambda>as. case as of
        [AInt sz, AProps props, ACidPtr vmCID] \<Rightarrow> io_bind (CreateDisk c sz vmCID) (\<lambda>cid. io_ret (JStr cid))
      | _ \<Rightarrow> wrong_args),
     (''delete_disk'', [TCid], \<lambda>as. case as of [ACid cid] \<Rightarrow> nothing (DeleteDisk c cid) | _ \<Rightarrow> wrong_args),
     (''attach_disk'', [TCid, TCid], \<lambda>as. case as of
        [ACid vmCID, ACid diskCID] \<Rightarrow>
          if apiVersion = 2 then AttachDiskV2 c vmCID diskCID else nothing (AttachDisk c vmCID diskCID)
      | _ \<Rightarrow> wrong_args),
     (''detach_disk'', [TCid, TCid], \<lambda>as. case as of
        [ACid vmCID, ACid diskCID] \<Rightarrow> nothing (DetachDisk c vmCID diskCID) | _ \<Rightarrow> wrong_args),
     (''has_disk'', [TCid], \<lambda>as. case as of
        [ACid cid] \<Rightarrow> io_bind (HasDisk c cid) (\<lambda>b. io_ret (JBool b)) | _ \<Rightarrow> wrong_args),
     (''resize_disk'', [TCid, TInt], \<lambda>as. case as of
        [ACid cid, AInt sz] \<Rightarrow> nothing (ResizeDisk c cid sz) | _ \<Rightarrow> wrong_args),
     (''set_disk_metadata'', [TCid, TKVs], \<lambda>as. case as of
        [ACid cid, AKVs metadata] \<Rightarrow> nothing (SetDiskMetadata c cid metadata) | _ \<Rightarrow> wrong_args),
     (''snapshot_disk'', [TCid, TKVs], \<lambda>as. case as of
        [ACid cid, AKVs metadata] \<Rightarrow> io_bind (SnapshotDisk c cid) (\<lambda>s. io_ret (JStr s)) | _ \<Rightarrow> wrong_args),
     (''delete_snapshot'', [TCid], \<lambda>as. case as of
        [ACid cid] \<Rightarrow> nothing (DeleteSnapshot c cid) | _ \<Rightarrow> wrong_args)]"

definition actions :: "(networks \<Rightarrow> networks) \<Rightarrow> 'w CPI \<Rightarrow> int \<Rightarrow> 'w action gomap" where
  "actions ord c apiVersion = stemcell_actions c @ vm_actions ord c apiVersion @ disk_actions c apiVersion"

text \<open>\<open>newCPI\<close> is \<open>CPIFactory.New\<close>; the call context of the request is not used by it.\<close>

definition Create :: "(networks \<Rightarrow> networks) \<Rightarrow> ('w, 'w CPI) go \<Rightarrow> string \<Rightarrow> int \<Rightarrow> ('w, 'w action) go" where
  "Create ord newCPI method apiVersion =
     (if apiVersion > 2
      then io_fail (GoError (''CPI API version requested is '' @ quoted (int_dec apiVersion) @
        '', max supported is '' @ quoted ''2''))
      else io_bind newCPI (\<lambda>c. case gm_find (actions ord c apiVersion) method of
        None \<Rightarrow> io_fail (GoError (''Unknown method '' @ quoted method)) | Some a \<Rightarrow> io_ret a))"

text \<open>\<open>JSONCaller.Call\<close>; every action returns its result and an error, as the caller demands.\<close>

definition Call :: "'w action \<Rightarrow> json list \<Rightarrow> ('w, json) go" where
  "Call action args = (case action of (tys, run) \<Rightarrow>
     io_wrap (io_lift (extractMethodArgs tys args)) ''Extracting method arguments from payload'' run)"

section \<open>The dispatcher\<close>

record request_doc =
  rq_Method :: string
  rq_Arguments :: "json list option"
  rq_Context :: "json option"
  rq_APIVersion :: int

definition dec_request :: "json \<Rightarrow> gerr + request_doc" where
  "dec_request = dec_struct \<lparr>rq_Method = [], rq_Arguments = None, rq_Context = None, rq_APIVersion = 0\<rparr> (\<lambda>kvs.
     sum_bind (dec_field (dec_string []) [] kvs ''method'') (\<lambda>m.
     sum_bind (dec_field (dec_slice Inr) None kvs ''arguments'') (\<lambda>as.
     sum_bind (dec_field (\<lambda>js. Inr (Some js)) None kvs ''context'') (\<lambda>ctx.
     sum_bind (dec_field (dec_int 0) 0 kvs ''api_version'') (\<lambda>v.
     Inr \<lparr>rq_Method = m, rq_Arguments = as, rq_Context = ctx, rq_APIVersion = v\<rparr>)))))"

record response_error =
  re_Type :: string
  re_Message :: string
  re_CanRetry :: bool

definition response_error_json :: "response_error \<Rightarrow> json" where
  "response_error_json e = JObj [(''type'', JStr (re_Type e)), (''message'', JStr (re_Message e)),
     (''ok_to_retry'', JBool (re_CanRetry e))]"

definition response_bytes :: "json \<Rightarrow> response_error option \<Rightarrow> string" where
  "response_bytes result err = json_print (JObj [(''result'', result),
     (''error'', opt_json response_error_json err), (''log'', JStr [])])"

definition error_bytes :: "string \<Rightarrow> string \<Rightarrow> string" where
  "error_bytes ty msg = response_bytes JNull (Some \<lparr>re_Type = ty, re_Message = msg, re_CanRetry = False\<rparr>)"

text \<open>None of the errors of the program has a type of its own or can be retried.\<close>

definition cloudError :: "gerr \<Rightarrow> string" where
  "cloudError err = error_bytes ''Bosh::Clouds::CloudError'' (error_string err)"

definition cpiError :: "string \<Rightarrow> string" where
  "cpiError message = error_bytes ''Bosh::Clouds::CpiError'' message"

definition notImplementedError :: "gerr \<Rightarrow> string" where
  "notImplementedError err = error_bytes ''Bosh::Clouds::NotImplemented''
     (''Must call implemented method: '' @ error_string err)"

definition read_request :: "string \<Rightarrow> gerr + request_doc" where
  "read_request reqBytes = (case json_parse reqBytes of
      None \<Rightarrow> Inl (GoError ''invalid JSON'') | Some js \<Rightarrow> dec_request js)"

definition Dispatch :: "(networks \<Rightarrow> networks) \<Rightarrow> ('w, 'w CPI) go \<Rightarrow> string \<Rightarrow> ('w, string) go" where
  "Dispatch ord newCPI reqBytes = (case read_request reqBytes of
      Inl _ \<Rightarrow> io_ret (cpiError ''Must provide valid JSON payload'')
    | Inr req \<Rightarrow>
        if rq_Method req = [] then io_ret (cpiError (''Must provide '' @ quoted ''method'' @ '' key''))
        else (case rq_Arguments req of
          None \<Rightarrow> io_ret (cpiError (''Must provide '' @ quoted ''arguments'' @ '' key''))
        | Some args \<Rightarrow>
            io_try (Create ord newCPI (rq_Method req) (rq_APIVersion req))
              (\<lambda>err. io_ret (notImplementedError err))
              (\<lambda>action. io_try (Call action args)
                (\<lambda>err. io_ret (cloudError err))
                (\<lambda>result. io_ret (response_bytes result None)))))"

end
