(* ===== verification/Urls.thy ===== *)
theory Urls
  imports Json
begin

text \<open>
  The path of a URL as \<open>net/url\<close> writes and reads it: percent encoding, and \<open>url.JoinPath\<close>, with which
  \<open>throttle/client.go\<close> builds the URL of a reservation.
\<close>

section \<open>Percent encoding\<close>

definition upper_hex :: "nat \<Rightarrow> char" where
  "upper_hex d = (if d < 10 then char_of (48 + d) else char_of (55 + d))"

definition is_alnum :: "char \<Rightarrow> bool" where
  "is_alnum c = (let n = of_char c :: nat in (48 \<le> n \<and> n < 58) \<or> (65 \<le> n \<and> n < 91) \<or> (97 \<le> n \<and> n < 123))"

text \<open>The bytes a path keeps as they are.\<close>

definition path_byte :: "char \<Rightarrow> bool" where
  "path_byte c = (is_alnum c \<or> c \<in> set ''-_.~$&+,/:;=@'')"

definition escape_byte :: "char \<Rightarrow> string" where
  "escape_byte c = (let n = of_char c :: nat in
     if path_byte c then [c] else [CHR ''%'', upper_hex (n div 16), upper_hex (n mod 16)])"

definition url_escape :: "string \<Rightarrow> string" where
  "url_escape s = concat (map escape_byte s)"

fun url_unescape :: "string \<Rightarrow> string option" where
  "url_unescape [] = Some []"
| "url_unescape (c # s) =
     (if c = CHR ''%'' then
        (case s of
           a # b # r \<Rightarrow> (case (hex_value a, hex_value b) of
               (Some p, Some q) \<Rightarrow> map_option (Cons (char_of (16 * p + q))) (url_unescape r)
             | _ \<Rightarrow> None)
         | _ \<Rightarrow> None)
      else map_option (Cons c) (url_unescape s))"

text \<open>\<open>validEncoded\<close>: an encoding other than the default one that can be kept.\<close>

definition valid_encoded :: "string \<Rightarrow> bool" where
  "valid_encoded s = list_all (\<lambda>c. path_byte c \<or> c = CHR 0x27 \<or> c \<in> set ''!()*[]%'') s"

text \<open>
  \<open>setPath\<close> followed by \<open>String\<close>: how the path \<open>p\<close> is written; a path that cannot be decoded leaves the
  old one, \<open>base\<close>.
\<close>

definition url_path :: "string \<Rightarrow> string \<Rightarrow> string" where
  "url_path base p = (case url_unescape p of
      None \<Rightarrow> base
    | Some path \<Rightarrow> if p = url_escape path \<or> valid_encoded p then p else url_escape path)"

text \<open>\<open>url.JoinPath\<close> of a URL with the rooted path \<open>base\<close>; a final slash of the element is kept.\<close>

definition url_join :: "string \<Rightarrow> string \<Rightarrow> string" where
  "url_join base elem = (let p = path_join base elem in
     url_path base (if suffix ''/'' elem \<and> \<not> suffix ''/'' p then p @ ''/'' else p))"

text \<open>A segment as the server sees it; one that cannot be decoded is taken as it is.\<close>

definition path_segment :: "string \<Rightarrow> string" where
  "path_segment s = (case url_unescape s of None \<Rightarrow> s | Some t \<Rightarrow> t)"

section \<open>Decoding what was encoded\<close>

lemma hex_value_upper [simp]: "d < 16 \<Longrightarrow> hex_value (upper_hex d) = Some d"
  by (auto simp: hex_value_def upper_hex_def Let_def)

lemma byte_digits: "(of_char c :: nat) div 16 < 16" "(of_char c :: nat) mod 16 < 16"
proof -
  have "(of_char c :: nat) < 256" by simp
  then show "(of_char c :: nat) div 16 < 16" "(of_char c :: nat) mod 16 < 16" by linarith+
qed

lemma percent_not_path_byte [simp]: "\<not> path_byte (CHR ''%'')"
  by (simp add: path_byte_def is_alnum_def)

lemma unescape_escape_byte: "url_unescape (escape_byte c @ s) = map_option (Cons c) (url_unescape s)"
proof (cases "path_byte c")
  case True
  then have "c \<noteq> CHR ''%''" by auto
  with True show ?thesis by (simp add: escape_byte_def)
next
  case False
  then show ?thesis by (simp add: escape_byte_def Let_def byte_digits)
qed

lemma unescape_escape: "url_unescape (url_escape s) = Some s"
  by (induction s) (simp_all add: url_escape_def unescape_escape_byte)

lemma unescape_plain: "CHR ''%'' \<notin> set s \<Longrightarrow> url_unescape s = Some s"
  by (induction s) auto

lemma slash_escape_byte: "CHR ''/'' \<in> set (escape_byte c) \<longleftrightarrow> c = CHR ''/''"
proof -
  have hex: "upper_hex d \<noteq> CHR ''/''" if "d < 16" for d
    using that hex_value_upper [OF that] by (auto simp: hex_value_def)
  show ?thesis
    using hex [OF byte_digits(1) [of c]] hex [OF byte_digits(2) [of c]]
    by (simp add: escape_byte_def Let_def path_byte_def) (auto simp del: eq_commute)
qed

lemma split_prefix_no_sep:
  "c \<notin> set a \<Longrightarrow> split_on c (a @ s) = (a @ hd (split_on c s)) # tl (split_on c s)"
  by (induction a) auto

lemma split_escape: "split_on (CHR ''/'') (url_escape s) = map url_escape (split_on (CHR ''/'') s)"
proof (induction s)
  case (Cons c s)
  show ?case
  proof (cases "c = CHR ''/''")
    case True
    then show ?thesis using Cons by (simp add: url_escape_def escape_byte_def path_byte_def)
  next
    case False
    then have "CHR ''/'' \<notin> set (escape_byte c)" by (simp add: slash_escape_byte)
    from split_prefix_no_sep [OF this, of "url_escape s"] show ?thesis
      using Cons False by (cases "split_on (CHR ''/'') s") (auto simp: url_escape_def)
  qed
qed (simp add: url_escape_def)

text \<open>Written without a percent sign, a path is read segment by segment as it was meant.\<close>

lemma percent_free_parts:
  "CHR ''%'' \<notin> set s \<Longrightarrow> q \<in> set (split_on c s) \<Longrightarrow> CHR ''%'' \<notin> set q"
proof (induction s arbitrary: q)
  case (Cons x s)
  then show ?case by (cases "split_on c s") (auto split: if_splits)
qed simp

lemma url_path_read:
  assumes "CHR ''%'' \<notin> set p"
  shows "map path_segment (split_on (CHR ''/'') (url_path base p)) = split_on (CHR ''/'') p"
proof (cases "p = url_escape p \<or> valid_encoded p")
  case True
  then have "url_path base p = p" using assms by (simp add: url_path_def unescape_plain)
  then show ?thesis using percent_free_parts [OF assms]
    by (simp add: path_segment_def unescape_plain map_idI)
next
  case False
  then have "url_path base p = url_escape p" using assms by (simp add: url_path_def unescape_plain)
  then show ?thesis by (simp add: split_escape path_segment_def unescape_escape comp_def)
qed

text \<open>The identifier at the end of a joined URL is the one that was joined.\<close>

lemma url_join_read:
  assumes "plain_id v" and "CHR ''%'' \<notin> set v" and "CHR ''%'' \<notin> set (path_prefix base)"
  shows "map path_segment (split_on (CHR ''/'') (url_join base v)) = split_on (CHR ''/'') (path_prefix base @ v)"
proof -
  have "\<not> suffix ''/'' v" using assms(1) by (auto simp: plain_id_def suffix_def)
  then have "url_join base v = url_path base (path_prefix base @ v)"
    by (simp add: url_join_def path_join_plain [OF assms(1)])
  then show ?thesis using assms url_path_read [of "path_prefix base @ v" base] by simp
qed

end
