(* ===== verification/ThrottleClient.thy ===== *)
theory ThrottleClient
  imports Throttle Urls
begin

text \<open>
  \<open>throttle/client.go\<close>: taking a reservation, waiting for one, giving it back.  The HTTP library is a
  parameter; the client is then run against the server of theory \<open>Throttle\<close>, with the expiry loop
  going round while the client sleeps.
\<close>

section \<open>The HTTP library\<close>

text \<open>
  A call of the library gives a response, an error, or both.  Reading the body may fail:
  \<open>hp_Body\<close> is the outcome of \<open>io.ReadAll\<close>.
\<close>

record http_reply =
  hp_Status :: int
  hp_Body :: "gerr + string"

type_synonym http_result = "http_reply option \<times> gerr option"

record 'w http_client =
  hc_Post :: "string \<Rightarrow> 'w \<Rightarrow> http_result \<times> 'w"
  hc_Delete :: "string \<Rightarrow> 'w \<Rightarrow> http_result \<times> 'w"
  tm_Sleep :: "int \<Rightarrow> 'w \<Rightarrow> 'w"

datatype client_event =
    CvPost string http_result
  | CvDelete string http_result
  | CvSleep int
  | CvDial string "gerr + unit"

type_synonym ('w, 'a) cio = "(client_event, 'w, 'a) io"

definition http_call :: "(http_result \<Rightarrow> client_event) \<Rightarrow> ('w \<Rightarrow> http_result \<times> 'w) \<Rightarrow> ('w, http_result) cio" where
  "http_call ev f = io_ext (\<lambda>r. ev (case r of Inl _ \<Rightarrow> (None, None) | Inr x \<Rightarrow> x))
     (\<lambda>w. case f w of (x, w') \<Rightarrow> (Inr x, w'))"

definition sleep :: "'w http_client \<Rightarrow> int \<Rightarrow> ('w, unit) cio" where
  "sleep C d = io_ext (\<lambda>_. CvSleep d) (\<lambda>w. (Inr (), tm_Sleep C d w))"

definition second :: int where "second = 1000000000"

section \<open>The client\<close>

text \<open>
  \<open>NewThrottleClient\<close> opens one connection; the transport of its HTTP client answers every request for a
  connection with that one.  \<open>net_Http conn\<close> is the HTTP client with such a transport.  The struct
  \<open>ThrottleClient\<close> holds nothing but the HTTP client.
\<close>

record ('c, 'w) network_library =
  net_Dial :: "string \<Rightarrow> ('w, 'c) ext"
  net_Http :: "'c \<Rightarrow> 'w http_client"

type_synonym 'w ThrottleClient = "'w http_client"

definition NewThrottleClient :: "('c, 'w) network_library \<Rightarrow> throttle_config \<Rightarrow> ('w, 'w ThrottleClient) cio" where
  "NewThrottleClient N cfg =
     io_bind (io_ext (\<lambda>r. CvDial (tc_Path cfg) (map_sum id (\<lambda>_. ()) r)) (net_Dial N (tc_Path cfg)))
       (\<lambda>conn. io_ret (net_Http N conn))"

definition transactionsRoot :: string where
  "transactionsRoot = ''http://localhost/transactions''"

text \<open>The reservation (or nothing), the status code and the error.\<close>

definition Lock :: "'w http_client \<Rightarrow> ('w, string \<times> int \<times> gerr option) cio" where
  "Lock C = io_bind (http_call (CvPost transactionsRoot) (hc_Post C transactionsRoot)) (\<lambda>(r, err).
     let statusCode = (case r of None \<Rightarrow> 500 | Some p \<Rightarrow> hp_Status p) in
     case err of
       Some e \<Rightarrow> io_ret ([], statusCode, Some e)
     | None \<Rightarrow> (case r of
         None \<Rightarrow> io_panic ''invalid memory address or nil pointer dereference''
       | Some p \<Rightarrow> (case hp_Body p of
           Inl e \<Rightarrow> io_ret ([], statusCode, Some e)
         | Inr data \<Rightarrow> io_ret (data, statusCode, None))))"

text \<open>One round of the loop of \<open>LockAndWait\<close>: \<open>None\<close> goes round again.\<close>

definition lock_round :: "'w http_client \<Rightarrow> ('w, string option) cio" where
  "lock_round C = io_bind (Lock C) (\<lambda>(content, statusCode, err).
     if statusCode = StatusTooManyRequests
     then io_bind (sleep C (10 * second)) (\<lambda>_. io_ret None)
     else (case err of
         Some e \<Rightarrow> io_fail e
       | None \<Rightarrow> if statusCode = StatusCreated then io_ret (Some content)
           else io_bind (sleep C (1 * second)) (\<lambda>_. io_ret None)))"

text \<open>The loop may go on for ever: then the result is \<open>None\<close>.\<close>

partial_function (option) LockAndWait ::
    "'w http_client \<Rightarrow> (client_event, 'w) sys \<Rightarrow> (string res \<times> (client_event, 'w) sys) option" where
  "LockAndWait C s = (case lock_round C s of
      (Ok (Some content), s') \<Rightarrow> Some (Ok content, s')
    | (Ok None, s') \<Rightarrow> LockAndWait C s'
    | (Err e, s') \<Rightarrow> Some (Err e, s')
    | (Panic p, s') \<Rightarrow> Some (Panic p, s'))"

definition transaction_url :: "string \<Rightarrow> string" where
  "transaction_url transactionId = ''http://localhost'' @ url_join ''/transactions'' transactionId"

text \<open>The response is looked at before the error.\<close>

definition Unlock :: "'w http_client \<Rightarrow> string \<Rightarrow> ('w, unit) cio" where
  "Unlock C transactionId = (let url = transaction_url transactionId in
     io_bind (http_call (CvDelete url) (hc_Delete C url)) (\<lambda>(resp, err).
     case resp of
       None \<Rightarrow> io_panic ''invalid memory address or nil pointer dereference''
     | Some p \<Rightarrow> if hp_Status p = StatusNotFound then io_ret ()
         else (case err of Some e \<Rightarrow> io_fail e | None \<Rightarrow> io_ret ())))"

section \<open>Client and server together\<close>

text \<open>
  The server, its clock, and the identifiers it will hand out.  The ticker of the expiry loop fires at
  the multiples of ten seconds.
\<close>

record service =
  sv_server :: ThrottleServer
  sv_now :: int
  sv_uuid :: "nat \<Rightarrow> string"
  sv_count :: nat

definition tick :: int where "tick = 10 * second"

definition last_tick :: "int \<Rightarrow> int" where
  "last_tick t = tick * (t div tick)"

text \<open>Time goes by: the last tick in the interval decides what is expired at its end.\<close>

definition elapse :: "int \<Rightarrow> service \<Rightarrow> service" where
  "elapse d w = (let now' = sv_now w + d in w\<lparr>sv_now := now',
     sv_server := (if last_tick now' > sv_now w then expireTransactions (last_tick now') (sv_server w)
       else sv_server w)\<rparr>)"

text \<open>
  \<open>Serve\<close>: once the socket is there, with the routes below and the expiry loop, it goes on until the
  program is killed.  \<open>listen\<close> opens the socket in the file system.
\<close>

definition Serve :: "(string \<Rightarrow> (string \<rightharpoonup> string) \<Rightarrow> gerr + (string \<rightharpoonup> string)) \<Rightarrow> (nat \<Rightarrow> string) \<Rightarrow> int \<Rightarrow>
    ThrottleServer \<Rightarrow> (string \<rightharpoonup> string) \<Rightarrow> gerr + service \<times> (string \<rightharpoonup> string)" where
  "Serve listen uuid now ts fs = map_sum id
     (\<lambda>fs'. (\<lparr>sv_server = ts, sv_now = now, sv_uuid = uuid, sv_count = 0\<rparr>, fs')) (listen (ts_path ts) fs)"

text \<open>The segments of a path, as the multiplexer sees them, and its two routes.\<close>

definition route_path :: "string \<Rightarrow> string list" where
  "route_path url = map path_segment (split_on (CHR ''/'') (drop (length ''http://localhost'') url))"

definition reply_of :: "http_response \<Rightarrow> http_result" where
  "reply_of r = (Some \<lparr>hp_Status = hr_Status r, hp_Body = Inr (hr_Body r)\<rparr>, None)"

definition serve :: "(int gomap \<Rightarrow> gerr + string) \<Rightarrow> string \<Rightarrow> string \<Rightarrow> service \<Rightarrow> http_result \<times> service" where
  "serve marshal method url w = (case route_path url of
      [a, b] \<Rightarrow> if a = [] \<and> b = ''transactions''
        then (case handleTransactions marshal method (sv_now w) (Inr (sv_uuid w (sv_count w))) (sv_server w) of
          (r, ts) \<Rightarrow> (reply_of r, w\<lparr>sv_server := ts,
             sv_count := (if hr_Status r = StatusCreated then Suc (sv_count w) else sv_count w)\<rparr>))
        else (reply_of (http_Error ''404 page not found'' StatusNotFound), w)
    | [a, b, transactionId] \<Rightarrow> if a = [] \<and> b = ''transactions'' \<and> transactionId \<noteq> []
        then (case handleTransactionWithId method transactionId (sv_server w) of
          (r, ts) \<Rightarrow> (reply_of r, w\<lparr>sv_server := ts\<rparr>))
        else (reply_of (http_Error ''404 page not found'' StatusNotFound), w)
    | _ \<Rightarrow> (reply_of (http_Error ''404 page not found'' StatusNotFound), w))"

definition service_client :: "(int gomap \<Rightarrow> gerr + string) \<Rightarrow> service http_client" where
  "service_client marshal = \<lparr>hc_Post = serve marshal ''POST'', hc_Delete = serve marshal ''DELETE'',
     tm_Sleep = elapse\<rparr>"

section \<open>Waiting for a reservation\<close>

text \<open>A loop that can go round again from every state of a set it stays in does not end.\<close>

lemma LockAndWait_loops:
  assumes "\<And>s. I s \<Longrightarrow> \<exists>s'. lock_round C s = (Ok None, s') \<and> I s'" and "I s"
  shows "LockAndWait C s = None"
proof -
  have "C = C \<longrightarrow> \<not> I s" if "LockAndWait C s = Some y" for y
  proof (rule LockAndWait.raw_induct [where P = "\<lambda>C' s y. C' = C \<longrightarrow> \<not> I s", OF _ that], intro impI notI)
    fix L C' s y
    assume IH: "\<And>C' s y. L C' s = Some y \<Longrightarrow> C' = C \<longrightarrow> \<not> I s" and "C' = C" and "I s"
      and run: "(case lock_round C' s of (Ok None, s') \<Rightarrow> L C' s' | (Ok (Some content), s') \<Rightarrow> Some (Ok content, s')
        | (Err e, s') \<Rightarrow> Some (Err e, s') | (Panic p, s') \<Rightarrow> Some (Panic p, s')) = Some y"
    obtain s' where "lock_round C' s = (Ok None, s')" and "I s'" using assms(1) \<open>I s\<close> \<open>C' = C\<close> by blast
    then show False using IH [of C' s' y] run \<open>C' = C\<close> by simp
  qed
  then show ?thesis using assms(2) by (cases "LockAndWait C s") auto
qed

text \<open>
  What the waiting loop relies on: in a good state the service either has room and hands out a
  reservation, or refuses with 429 and stays as it is; then ten seconds of sleep make room or bring
  the moment nearer at which there is room (\<open>rounds\<close>).
\<close>

definition nap :: "'w http_client \<Rightarrow> 'w \<Rightarrow> 'w" where
  "nap C = tm_Sleep C (10 * second)"

locale reservation_service =
  fixes C :: "'w http_client"
    and good :: "'w \<Rightarrow> bool"
    and room :: "'w \<Rightarrow> bool"
    and rounds :: "'w \<Rightarrow> nat"
    and reserve :: "'w \<Rightarrow> string \<times> 'w"
  assumes grants: "good w \<Longrightarrow> room w \<Longrightarrow> hc_Post C transactionsRoot w =
        ((Some \<lparr>hp_Status = StatusCreated, hp_Body = Inr (fst (reserve w))\<rparr>, None), snd (reserve w))"
    and refuses: "good w \<Longrightarrow> \<not> room w \<Longrightarrow>
        \<exists>body. hc_Post C transactionsRoot w = ((Some \<lparr>hp_Status = StatusTooManyRequests, hp_Body = Inr body\<rparr>, None), w)"
    and stays_good: "good w \<Longrightarrow> good (tm_Sleep C (10 * second) w)"
    and progress: "good w \<Longrightarrow> \<not> room w \<Longrightarrow>
        room (tm_Sleep C (10 * second) w) \<or> rounds (tm_Sleep C (10 * second) w) < rounds w"
begin

lemma round_grants:
  assumes "good (world s)" and "room (world s)"
  obtains s' where "lock_round C s = (Ok (Some (fst (reserve (world s)))), s')"
    and "world s' = snd (reserve (world s))" and "files s' = files s"
  using grants [OF assms]
  by (simp add: lock_round_def Lock_def http_call_def io_run status_defs)

lemma round_refuses:
  assumes "good (world s)" and "\<not> room (world s)"
  obtains s' where "lock_round C s = (Ok None, s')" and "world s' = nap C (world s)" and "files s' = files s"
  using refuses [OF assms]
  by (auto simp: lock_round_def Lock_def http_call_def sleep_def io_run status_defs nap_def)

text \<open>The loop ends, after at most one nap more than \<open>rounds\<close> says.\<close>

lemma waits:
  "good (world s) \<Longrightarrow> \<exists>n s'. n \<le> Suc (rounds (world s)) \<and> good ((nap C ^^ n) (world s)) \<and>
     LockAndWait C s = Some (Ok (fst (reserve ((nap C ^^ n) (world s)))), s') \<and>
     world s' = snd (reserve ((nap C ^^ n) (world s))) \<and> files s' = files s"
proof (induction "if room (world s) then 0 else Suc (rounds (world s))" arbitrary: s rule: less_induct)
  case less
  show ?case
  proof (cases "room (world s)")
    case True
    obtain s' where "lock_round C s = (Ok (Some (fst (reserve (world s)))), s')"
      and "world s' = snd (reserve (world s))" and "files s' = files s"
      using round_grants [OF less.prems True] .
    then show ?thesis using less.prems by (intro exI [of _ 0] exI [of _ s']) (simp add: LockAndWait.simps)
  next
    case False
    obtain s1 where s1: "lock_round C s = (Ok None, s1)" "world s1 = nap C (world s)" "files s1 = files s"
      using round_refuses [OF less.prems False] .
    have good: "good (world s1)" using stays_good [OF less.prems] by (simp add: s1 nap_def)
    have pr: "room (world s1) \<or> rounds (world s1) < rounds (world s)"
      using progress [OF less.prems False] by (simp add: s1 nap_def)
    then have smaller: "(if room (world s1) then 0 else Suc (rounds (world s1)))
        < (if room (world s) then 0 else Suc (rounds (world s)))" using False by auto
    obtain n s' where n: "n \<le> Suc (rounds (world s1))" "good ((nap C ^^ n) (world s1))"
        "LockAndWait C s1 = Some (Ok (fst (reserve ((nap C ^^ n) (world s1)))), s')"
        "world s' = snd (reserve ((nap C ^^ n) (world s1)))" "files s' = files s1"
      using less.hyps [OF smaller good] by blast
    show ?thesis
    proof (cases "room (world s1)")
      case True
      obtain s2 where "lock_round C s1 = (Ok (Some (fst (reserve (world s1)))), s2)"
        and "world s2 = snd (reserve (world s1))" and "files s2 = files s1"
        using round_grants [OF good True] .
      then show ?thesis using s1 good
        by (intro exI [of _ 1] exI [of _ s2]) (simp add: LockAndWait.simps)
    next
      case False
      then have "n \<le> rounds (world s)" using n(1) pr by simp
      then show ?thesis using s1 n
        by (intro exI [of _ "Suc n"] exI [of _ s']) (simp add: LockAndWait.simps [of C s] funpow_swap1)
    qed
  qed
qed

end

text \<open>The model of the server is such a service, with a limit of at least one.\<close>

definition expiry :: "ThrottleServer \<Rightarrow> int list" where
  "expiry ts = map (\<lambda>(k, v). v + ts_holdDuration ts) (ts_transactions ts)"

definition wait_rounds :: "service \<Rightarrow> nat" where
  "wait_rounds w = (let t = last_tick (sv_now w) in nat ((foldr max (expiry (sv_server w)) t - t) div tick))"

definition has_room :: "service \<Rightarrow> bool" where
  "has_room w = post_admitted (sv_server w)"

definition positive_limit :: "service \<Rightarrow> bool" where
  "positive_limit w = (0 < ts_limit (sv_server w))"

definition take_slot :: "service \<Rightarrow> string \<times> service" where
  "take_slot w = (let tid = sv_uuid w (sv_count w) in (tid, w\<lparr>
     sv_server := (sv_server w)\<lparr>ts_transactions := gm_put tid (sv_now w) (ts_transactions (sv_server w))\<rparr>,
     sv_count := Suc (sv_count w)\<rparr>))"

lemma route_root: "route_path transactionsRoot = [[], ''transactions'']"
  by (simp add: route_path_def transactionsRoot_def path_segment_def)

lemma tick_pos: "0 < tick"
  by (simp add: tick_def second_def)

lemma last_tick_nap: "last_tick (t + 10 * second) = last_tick t + tick"
proof -
  have "(t + tick) div tick = t div tick + 1" by (rule div_add_self2) (use tick_pos in simp)
  then show ?thesis by (simp add: last_tick_def tick_def [symmetric] distrib_left)
qed

lemma last_tick_after: "t < last_tick t + tick"
proof -
  have "t = last_tick t + t mod tick" by (simp add: last_tick_def)
  then show ?thesis using pos_mod_bound [OF tick_pos, of t] by linarith
qed

lemma foldr_max_le: "foldr max es t \<le> (m :: int) \<longleftrightarrow> t \<le> m \<and> (\<forall>e\<in>set es. e \<le> m)"
  by (induction es) auto

lemma foldr_max_ge: "t \<le> foldr max es (t :: int)" "e \<in> set es \<Longrightarrow> e \<le> foldr max es t"
  using foldr_max_le [of es t "foldr max es t"] by auto

lemma elapse_nap: "elapse (10 * second) w = w\<lparr>sv_now := sv_now w + tick,
    sv_server := expireTransactions (last_tick (sv_now w) + tick) (sv_server w)\<rparr>"
  using last_tick_after [of "sv_now w"]
  by (simp add: elapse_def Let_def last_tick_nap [unfolded tick_def [symmetric]] last_tick_nap tick_def [symmetric])

lemma expiry_expire: "expiry (expireTransactions t ts) = filter (\<lambda>e. t \<le> e) (expiry ts)"
  by (simp add: expiry_def expireTransactions_def filter_map comp_def case_prod_unfold not_less)

lemma wait_progress:
  assumes "positive_limit w" and "\<not> has_room (elapse (10 * second) w)"
  shows "wait_rounds (elapse (10 * second) w) < wait_rounds w"
proof -
  let ?t = "last_tick (sv_now w)" and ?es = "expiry (sv_server w)"
  let ?es' = "filter (\<lambda>e. ?t + tick \<le> e) ?es"
  have es': "expiry (sv_server (elapse (10 * second) w)) = ?es'" by (simp add: elapse_nap expiry_expire)
  have "?es' \<noteq> []" using assms es' [symmetric]
    by (auto simp: has_room_def post_admitted_def positive_limit_def elapse_nap expiry_def)
  then obtain e where e: "e \<in> set ?es'" by (cases ?es') auto
  have e_le: "e \<le> foldr max ?es ?t" using e by (intro foldr_max_ge) simp
  then have "foldr max ?es' (?t + tick) \<le> foldr max ?es ?t"
    using e by (auto simp: foldr_max_le intro: foldr_max_ge)
  then have "(foldr max ?es' (?t + tick) - (?t + tick)) div tick \<le> (foldr max ?es ?t - ?t - tick) div tick"
    by (intro zdiv_mono1 tick_pos) simp
  also have "\<dots> = (foldr max ?es ?t - ?t) div tick - 1"
    using tick_pos div_mult_self2 [of tick "foldr max ?es ?t - ?t" "-1"] by simp
  finally have "(foldr max ?es' (?t + tick) - (?t + tick)) div tick < (foldr max ?es ?t - ?t) div tick" by simp
  moreover have "0 < (foldr max ?es ?t - ?t) div tick"
    using e e_le tick_pos by (simp add: pos_imp_zdiv_pos_iff)
  ultimately have "nat ((foldr max ?es' (?t + tick) - (?t + tick)) div tick) < nat ((foldr max ?es ?t - ?t) div tick)"
    by simp
  moreover have "last_tick (sv_now (elapse (10 * second) w)) = ?t + tick"
    using last_tick_nap [of "sv_now w"] by (simp add: elapse_nap tick_def)
  ultimately show ?thesis by (simp add: wait_rounds_def es' Let_def)
qed

text \<open>A full server refuses, and one that is not full hands out the next identifier.\<close>

lemma serve_refuses:
  "\<not> has_room w \<Longrightarrow> \<exists>body. hc_Post (service_client ms) transactionsRoot w =
      ((Some \<lparr>hp_Status = StatusTooManyRequests, hp_Body = Inr body\<rparr>, None), w)"
  by (simp add: service_client_def serve_def route_root handleTransactions_def post_refusal_def has_room_def
      reply_of_def http_Error_def status_defs)

lemma lock_round_refused:
  assumes "\<not> has_room (world s)"
  shows "\<exists>s'. lock_round (service_client ms) s = (Ok None, s') \<and> world s' = nap (service_client ms) (world s)"
proof -
  obtain body where "hc_Post (service_client ms) transactionsRoot (world s) =
      ((Some \<lparr>hp_Status = StatusTooManyRequests, hp_Body = Inr body\<rparr>, None), world s)"
    using serve_refuses [OF assms] by blast
  then show ?thesis by (simp add: lock_round_def Lock_def http_call_def sleep_def io_run status_defs nap_def)
qed

interpretation throttled: reservation_service "service_client ms" positive_limit has_room wait_rounds take_slot for ms
proof
  fix w
  show "positive_limit w \<Longrightarrow> has_room w \<Longrightarrow> hc_Post (service_client ms) transactionsRoot w =
      ((Some \<lparr>hp_Status = StatusCreated, hp_Body = Inr (fst (take_slot w))\<rparr>, None), snd (take_slot w))"
    by (simp add: service_client_def serve_def route_root handleTransactions_def post_reserve_def has_room_def
        reply_of_def take_slot_def Let_def)
  show "positive_limit w \<Longrightarrow> \<not> has_room w \<Longrightarrow> \<exists>body. hc_Post (service_client ms) transactionsRoot w =
      ((Some \<lparr>hp_Status = StatusTooManyRequests, hp_Body = Inr body\<rparr>, None), w)"
    by (rule serve_refuses)
  show "positive_limit w \<Longrightarrow> positive_limit (tm_Sleep (service_client ms) (10 * second) w)"
    by (simp add: service_client_def elapse_nap positive_limit_def)
  show "positive_limit w \<Longrightarrow> \<not> has_room w \<Longrightarrow> has_room (tm_Sleep (service_client ms) (10 * second) w) \<or>
      wait_rounds (tm_Sleep (service_client ms) (10 * second) w) < wait_rounds w"
    using wait_progress by (auto simp: service_client_def)
qed

end
