(* ===== verification/Commands.thy ===== *)
theory Commands
  imports CommandLine Dispatch ThrottleClient
begin

text \<open>
  The programs: \<open>cmd/cpi/main.go\<close>, which serves one CPI call under a throttle reservation,
  \<open>cmd/cleanup/main.go\<close>, which removes unused settings volumes, \<open>cmd/throttle/main.go\<close>, which runs the
  throttle, and \<open>cmd/tc/main.go\<close>, which tries a throttle out.  A program ends with an exit code and the
  lines it has logged, or it crashes.
\<close>

datatype exit = Exited int "log_entry list" | Crashed string

text \<open>\<open>logger.Error("main", msg, err.Error()); os.Exit(code)\<close>\<close>

definition fail_exit :: "int \<Rightarrow> int \<Rightarrow> string \<Rightarrow> gerr \<Rightarrow> exit" where
  "fail_exit level code msg e = Exited code (log_Error level ''main'' (msg @ error_string e))"

section \<open>cmd/cleanup\<close>

text \<open>Processed, removed and failed.\<close>

type_synonym counts = "nat \<times> nat \<times> nat"

fun cleanup_loop :: "'w ApiAdapter \<Rightarrow> string \<Rightarrow> bool \<Rightarrow> int \<Rightarrow> int gomap \<Rightarrow> counts \<Rightarrow> log_entry list \<Rightarrow>
    ('w, counts \<times> log_entry list) go" where
  "cleanup_loop A pool dryRun level [] acc log = io_ret (acc, log)"
| "cleanup_loop A pool dryRun level ((name, count) # vols) (processed, removed, failed) log =
     (if has_prefix name DISK_CONFIGURATION_PREFIX \<and> count = 0 then
        (if dryRun then cleanup_loop A pool dryRun level vols (Suc processed, removed, failed)
           (log @ log_Info level ''main'' (name @ '' (skipping, dry run)''))
         else io_try (DeleteStoragePoolVolume A pool name)
           (\<lambda>err. cleanup_loop A pool dryRun level vols (Suc processed, removed, Suc failed)
             (log @ log_Warn level ''main'' (''Unable to delete '' @ name @ '': '' @ error_string err)))
           (\<lambda>_. cleanup_loop A pool dryRun level vols (Suc processed, Suc removed, failed)
             (log @ log_Info level ''main'' (''Removed '' @ name))))
      else cleanup_loop A pool dryRun level vols (processed, removed, failed) log)"

fun cleanup_report :: "counts \<Rightarrow> string" where
  "cleanup_report (processed, removed, failed) = ''Complete. '' @ nat_dec processed @ '' processed, '' @
     nat_dec removed @ '' removed, '' @ nat_dec failed @ '' failed.''"

text \<open>The part of the program after the adapter is there.\<close>

definition cleanup_run :: "'w ApiAdapter \<Rightarrow> string \<Rightarrow> bool \<Rightarrow> int \<Rightarrow> ('w, exit \<times> counts) go" where
  "cleanup_run A pool dryRun level =
     io_try (GetStoragePoolVolumeUsage A pool)
       (\<lambda>e. io_ret (fail_exit level 3 ''GetStoragePoolVolumeUsage: '' e, 0, 0, 0)) (\<lambda>volumes.
     io_bind (cleanup_loop A pool dryRun level volumes (0, 0, 0) []) (\<lambda>(c, log).
     let end_of_run = (Exited 0 (log @ log_Info level ''main'' (cleanup_report c)), c) in
     io_try (Disconnect A) (\<lambda>_. io_ret end_of_run) (\<lambda>_. io_ret end_of_run)))"

definition cleanup_main :: "'w local_machine \<Rightarrow> 'w client_library \<Rightarrow> 'w client_library \<Rightarrow> string list \<Rightarrow>
    ('w, exit \<times> counts) go" where
  "cleanup_main L lxdlib incuslib args = (case parse_flags cleanup_flags args cleanup_defaults of
      FlagHelp \<Rightarrow> io_ret (Exited 0 [], 0, 0, 0)
    | FlagError _ \<Rightarrow> io_ret (Exited 2 [], 0, 0, 0)
    | Flags opts \<Rightarrow> (let level = log_level_of opts in
        io_try (NewConfigFromPath L (gm_get opts ''configPath''))
          (\<lambda>e. io_ret (fail_exit level 1 ''Loading config '' e, 0, 0, 0)) (\<lambda>cfg.
        io_try (NewAdapter lxdlib incuslib (conf_Server cfg))
          (\<lambda>e. io_ret (fail_exit level 2 ''API Adapter: '' e, 0, 0, 0)) (\<lambda>A.
        cleanup_run A (cfg_StoragePool (conf_Server cfg)) (gm_get opts ''dryRun'' = ''true'') level))))"

section \<open>cmd/cpi\<close>

text \<open>
  The process of a CPI program works on two parts of the world: what lies behind the client libraries
  and the local machine (\<open>pw_outside\<close>), and the throttle (\<open>pw_throttle\<close>).
\<close>

record ('v, 'u) program_world =
  pw_outside :: 'v
  pw_throttle :: 'u

datatype program_event =
    OnServer event
  | OnThrottle client_event
  | ReadIn "gerr + string"
  | WriteOut string "gerr + unit"

type_synonym ('v, 'u, 'a) program = "(program_event, ('v, 'u) program_world, 'a) io"
type_synonym ('v, 'u) program_state = "(program_event, ('v, 'u) program_world) sys"

definition on_outside :: "('v, 'a) go \<Rightarrow> ('v, 'u, 'a) program" where
  "on_outside = io_on OnServer pw_outside (\<lambda>v w. w\<lparr>pw_outside := v\<rparr>)"

definition on_throttle :: "('u, 'a) cio \<Rightarrow> ('v, 'u, 'a) program" where
  "on_throttle = io_on OnThrottle pw_throttle (\<lambda>u w. w\<lparr>pw_throttle := u\<rparr>)"

definition outside_ext :: "('v, 'a) ext \<Rightarrow> (('v, 'u) program_world, 'a) ext" where
  "outside_ext f w = (case f (pw_outside w) of (r, v) \<Rightarrow> (r, w\<lparr>pw_outside := v\<rparr>))"

text \<open>
  \<open>CLI.ServeOnce\<close> of \<open>rpc/cli.go\<close>: one request from the standard input, one answer to the standard
  output.  \<open>stdin\<close> reads all of the input, \<open>stdout\<close> writes bytes.
\<close>

definition ServeOnce :: "('v, string) ext \<Rightarrow> (string \<Rightarrow> ('v, unit) ext) \<Rightarrow> (string \<Rightarrow> ('v, string) go) \<Rightarrow>
    ('v, 'u, unit) program" where
  "ServeOnce stdin stdout dispatch =
     io_wrap (io_ext ReadIn (outside_ext stdin)) ''Reading from IN'' (\<lambda>reqBytes.
     io_bind (on_outside (dispatch reqBytes)) (\<lambda>respBytes.
     io_wrap (io_ext (WriteOut respBytes) (outside_ext (stdout respBytes))) ''Writing to OUT'' (\<lambda>_.
     io_ret ())))"

text \<open>
  Waiting for a reservation, and giving it back at the end.  \<open>None\<close> is a program that waits for ever; a
  program that does not use the throttle has no reservation.
\<close>

definition wait_on_throttle :: "'u ThrottleClient \<Rightarrow> ('v, 'u) program_state \<Rightarrow>
    (string res \<times> ('v, 'u) program_state) option" where
  "wait_on_throttle C s = map_option (\<lambda>outcome. on_throttle (\<lambda>_. outcome) s)
     (LockAndWait C \<lparr>world = pw_throttle (world s), files = files s, trace = []\<rparr>)"

definition release :: "int \<Rightarrow> ('u ThrottleClient \<times> string) option \<Rightarrow> ('v, 'u) program_state \<Rightarrow>
    exit \<times> ('v, 'u) program_state" where
  "release level reservation s = (case reservation of
      None \<Rightarrow> (Exited 0 [], s)
    | Some (C, transactionId) \<Rightarrow> (case on_throttle (Unlock C transactionId) s of
          (Ok _, s') \<Rightarrow> (Exited 0 [], s')
        | (Err e, s') \<Rightarrow> (fail_exit level 1 ''Releasing lock: '' e, s')
        | (Panic p, s') \<Rightarrow> (Crashed p, s')))"

definition serve_and_release :: "int \<Rightarrow> ('v, 'u, unit) program \<Rightarrow> ('u ThrottleClient \<times> string) option \<Rightarrow>
    ('v, 'u) program_state \<Rightarrow> exit \<times> ('v, 'u) program_state" where
  "serve_and_release level serve_once reservation s = (case serve_once s of
      (Ok _, s') \<Rightarrow> release level reservation s'
    | (Err e, s') \<Rightarrow> (fail_exit level 1 ''Serving once: '' e, s')
    | (Panic p, s') \<Rightarrow> (Crashed p, s'))"

text \<open>The program once its configuration is there.\<close>

definition cpi_run :: "int \<Rightarrow> ('c, 'u) network_library \<Rightarrow> ('v, 'u, unit) program \<Rightarrow> throttle_config \<Rightarrow>
    ('v, 'u) program_state \<Rightarrow> (exit \<times> ('v, 'u) program_state) option" where
  "cpi_run level N serve_once throttle s =
     (if tc_Enabled throttle then
        (case on_throttle (NewThrottleClient N throttle) s of
           (Ok C, s1) \<Rightarrow> (case wait_on_throttle C s1 of
               None \<Rightarrow> None
             | Some (Ok transactionId, s2) \<Rightarrow> Some (serve_and_release level serve_once (Some (C, transactionId)) s2)
             | Some (Err e, s2) \<Rightarrow> Some (fail_exit level 1 ''Reserving lock: '' e, s2)
             | Some (Panic p, s2) \<Rightarrow> Some (Crashed p, s2))
         | (Err e, s1) \<Rightarrow> Some (fail_exit level 1 ''Enabling throttle '' e, s1)
         | (Panic p, s1) \<Rightarrow> Some (Crashed p, s1))
      else Some (serve_and_release level serve_once None s))"

text \<open>\<open>serve_once cfg\<close> serves one request by the CPIs of a configuration.\<close>

definition cpi_main :: "'v local_machine \<Rightarrow> ('c, 'u) network_library \<Rightarrow> (Config \<Rightarrow> ('v, 'u, unit) program) \<Rightarrow>
    string list \<Rightarrow> ('v, 'u) program_state \<Rightarrow> (exit \<times> ('v, 'u) program_state) option" where
  "cpi_main L N serve_once args s = (case parse_flags common_flags args common_defaults of
      FlagHelp \<Rightarrow> Some (Exited 0 [], s)
    | FlagError _ \<Rightarrow> Some (Exited 2 [], s)
    | Flags opts \<Rightarrow> (let level = log_level_of opts in
        case on_outside (NewConfigFromPath L (gm_get opts ''configPath'')) s of
          (Err e, s1) \<Rightarrow> Some (fail_exit level 1 ''Loading config '' e, s1)
        | (Panic p, s1) \<Rightarrow> Some (Crashed p, s1)
        | (Ok cfg, s1) \<Rightarrow> cpi_run level N (serve_once cfg) (conf_ThrottleConfig cfg) s1))"

text \<open>
  What the program serves with: the dispatcher over the CPI factory.  While the call runs, other things
  happen at the throttle (\<open>meanwhile\<close>).
\<close>

definition serving :: "('v, string) ext \<Rightarrow> (string \<Rightarrow> ('v, unit) ext) \<Rightarrow> ('u \<Rightarrow> 'u) \<Rightarrow> (networks \<Rightarrow> networks) \<Rightarrow>
    (Config \<Rightarrow> ('v, 'v CPI) go) \<Rightarrow> Config \<Rightarrow> ('v, 'u, unit) program" where
  "serving stdin stdout meanwhile ord newCPI cfg = (\<lambda>s.
     case ServeOnce stdin stdout (Dispatch ord (newCPI cfg)) s of
       (r, s') \<Rightarrow> (r, s'\<lparr>world := (world s')\<lparr>pw_throttle := meanwhile (pw_throttle (world s'))\<rparr>\<rparr>))"

section \<open>cmd/throttle\<close>

text \<open>The program ends, or it is a service that runs.\<close>

definition throttle_run :: "int \<Rightarrow> (string \<Rightarrow> gerr + int) \<Rightarrow> (string \<Rightarrow> bool) \<Rightarrow>
    (string \<Rightarrow> (string \<rightharpoonup> string) \<Rightarrow> gerr + (string \<rightharpoonup> string)) \<Rightarrow> (nat \<Rightarrow> string) \<Rightarrow> int \<Rightarrow> throttle_config \<Rightarrow>
    (string \<rightharpoonup> string) \<Rightarrow> (exit + service) \<times> (string \<rightharpoonup> string)" where
  "throttle_run level parse_duration removes listen uuid now cfg fs =
     (case NewThrottleServer parse_duration removes cfg fs of
        (Inl e, fs') \<Rightarrow> (Inl (Exited 2 (log_Error level ''main'' (''Unable to parse hold duration: '' @ error_string e) @
            log_Error level ''main'' (''Unable to create server: '' @ error_string e))), fs')
      | (Inr server, fs') \<Rightarrow> (case Serve listen uuid now server fs' of
            Inl e \<Rightarrow> (Inl (Exited 1 (log_Info level ''main'' (''Now serving traffic on socket '' @ tc_Path cfg) @
              [([], error_string e)])), fs')
          | Inr (running, fs'') \<Rightarrow> (Inr running, fs'')))"

definition throttle_main :: "'w local_machine \<Rightarrow> (string \<Rightarrow> gerr + int) \<Rightarrow> (string \<Rightarrow> bool) \<Rightarrow>
    (string \<Rightarrow> (string \<rightharpoonup> string) \<Rightarrow> gerr + (string \<rightharpoonup> string)) \<Rightarrow> (nat \<Rightarrow> string) \<Rightarrow> int \<Rightarrow> string list \<Rightarrow>
    (event, 'w) sys \<Rightarrow> (exit + service) \<times> (event, 'w) sys" where
  "throttle_main L parse_duration removes listen uuid now args s =
     (case parse_flags common_flags args common_defaults of
        FlagHelp \<Rightarrow> (Inl (Exited 0 []), s)
      | FlagError _ \<Rightarrow> (Inl (Exited 2 []), s)
      | Flags opts \<Rightarrow> (let level = log_level_of opts in
          case NewConfigFromPath L (gm_get opts ''configPath'') s of
            (Err e, s1) \<Rightarrow> (Inl (fail_exit level 1 ''Loading config '' e), s1)
          | (Panic p, s1) \<Rightarrow> (Inl (Crashed p), s1)
          | (Ok cfg, s1) \<Rightarrow> (case throttle_run level parse_duration removes listen uuid now
                (conf_ThrottleConfig cfg) (files s1) of (r, fs) \<Rightarrow> (r, s1\<lparr>files := fs\<rparr>))))"

section \<open>cmd/tc\<close>

text \<open>The lines it prints; no error is printed as a nil value.\<close>

definition error_text :: "string res \<Rightarrow> string" where
  "error_text r = (case r of Err e \<Rightarrow> error_string e | _ \<Rightarrow> ''<nil>'')"

definition lock_line :: "string \<Rightarrow> int \<Rightarrow> gerr option \<Rightarrow> string" where
  "lock_line tid status err = ''LOCK: transactionId='' @ tid @ '', status='' @ int_dec status @ '', err='' @
     (case err of None \<Rightarrow> ''<nil>'' | Some e \<Rightarrow> error_string e)"

definition unlock_line :: "string \<Rightarrow> unit res \<Rightarrow> string" where
  "unlock_line tid r = ''UNLOCK: transactionId='' @ tid @ '', err='' @
     (case r of Err e \<Rightarrow> error_string e | _ \<Rightarrow> ''<nil>'')"

definition wait_line :: "string \<Rightarrow> string res \<Rightarrow> string" where
  "wait_line tid r = ''LOCK-AND-WAIT: transactionId='' @ tid @ '', err='' @ error_text r"

text \<open>
  Lock and unlock, then wait and unlock, whatever the answers are: what the first call returned is given
  to the second.  \<open>Lock\<close> returns its error as a value, so it never ends with one.
\<close>

definition tc_run :: "'u ThrottleClient \<Rightarrow> (client_event, 'u) sys \<Rightarrow>
    (exit \<times> string list \<times> (client_event, 'u) sys) option" where
  "tc_run C s = (case Lock C s of
      (Ok (tid, status, err), s1) \<Rightarrow> (case Unlock C tid s1 of
          (Panic p, s2) \<Rightarrow> Some (Crashed p, [lock_line tid status err], s2)
        | (r, s2) \<Rightarrow> (case LockAndWait C s2 of
              None \<Rightarrow> None
            | Some (Panic p, s3) \<Rightarrow> Some (Crashed p, [lock_line tid status err, unlock_line tid r], s3)
            | Some (w, s3) \<Rightarrow> (let tid' = (case w of Ok t \<Rightarrow> t | _ \<Rightarrow> []) in
                case Unlock C tid' s3 of
                  (Panic p, s4) \<Rightarrow> Some (Crashed p,
                    [lock_line tid status err, unlock_line tid r, wait_line tid' w], s4)
                | (r', s4) \<Rightarrow> Some (Exited 0 [],
                    [lock_line tid status err, unlock_line tid r, wait_line tid' w, unlock_line tid' r'], s4))))
    | (Err e, s1) \<Rightarrow> Some (Exited 0 [], [], s1)
    | (Panic p, s1) \<Rightarrow> Some (Crashed p, [], s1))"

definition tc_main :: "'v local_machine \<Rightarrow> ('c, 'u) network_library \<Rightarrow> string list \<Rightarrow> ('v, 'u) program_state \<Rightarrow>
    (exit \<times> string list \<times> ('v, 'u) program_state) option" where
  "tc_main L N args s = (case parse_flags common_flags args common_defaults of
      FlagHelp \<Rightarrow> Some (Exited 0 [], [], s)
    | FlagError _ \<Rightarrow> Some (Exited 2 [], [], s)
    | Flags opts \<Rightarrow> (let level = log_level_of opts in
        case on_outside (NewConfigFromPath L (gm_get opts ''configPath'')) s of
          (Err e, s1) \<Rightarrow> Some (fail_exit level 1 ''Loading config '' e, [], s1)
        | (Panic p, s1) \<Rightarrow> Some (Crashed p, [], s1)
        | (Ok cfg, s1) \<Rightarrow> (case on_throttle (NewThrottleClient N (conf_ThrottleConfig cfg)) s1 of
            (Err e, s2) \<Rightarrow> Some (fail_exit level 1 ''Creating client '' e, [], s2)
          | (Panic p, s2) \<Rightarrow> Some (Crashed p, [], s2)
          | (Ok C, s2) \<Rightarrow> map_option
              (\<lambda>(ex, lines, t). (ex, lines, snd (on_throttle (\<lambda>_. (Ok (), t)) s2)))
              (tc_run C \<lparr>world = pw_throttle (world s2), files = files s2, trace = []\<rparr>))))"

end
