(* ===== verification/FactoryProps.thy ===== *)
theory FactoryProps
  imports CpiFactory CpiContract
begin

text \<open>
  The factories: which adapter, image format and CPI a configuration gives, and what building them does.
\<close>

section \<open>What a configuration asks for\<close>

text \<open>The adapter that a configuration asks for.\<close>

definition chosen_adapter :: "'w client_library \<Rightarrow> 'w client_library \<Rightarrow> ServerConfig \<Rightarrow> 'w some_adapter option" where
  "chosen_adapter lxdlib incuslib cfg =
     (if cfg_Type cfg = ''lxd''
      then Some (Lxd \<lparr>lx_server = lib_Server lxdlib (cfg_URL cfg) (args_of cfg), lx_conn = configured_conn cfg\<rparr>)
      else if cfg_Type cfg = ''incus''
      then Some (Incus \<lparr>ic_server = lib_Server incuslib (cfg_URL cfg) (args_of cfg), ic_conn = configured_conn cfg\<rparr>)
      else None)"

definition chosen_format :: "agent_config \<Rightarrow> image_format option" where
  "chosen_format cfg = (if ac_SourceType cfg = ''FAT32'' then Some FAT32
     else if ac_SourceType cfg = ''CDROM'' then Some CDROM else None)"

lemma configured_conn_eq: "configured_conn cfg = \<lparr>conn_project = cfg_Project cfg, conn_target = cfg_Target cfg\<rparr>"
  by (simp add: configured_conn_def fresh_conn_def UseProject_def UseTarget_def Let_def)

lemma NewCPI_eq: "NewCPI L pd trylock unlock uuid openf gz A cfg = (case chosen_format (conf_AgentConfig cfg) of
    None \<Rightarrow> Inl (GoError (''unknown stemcell configuration type '' @ quoted (ac_SourceType (conf_AgentConfig cfg))))
  | Some k \<Rightarrow> sum_bind (pd (lock_Timeout (cfg_CreateVMLock (conf_Server cfg)))) (\<lambda>t. Inr \<lparr>cpi_adapter = A,
      cpi_uuidGen = uuid, cpi_config = cfg, cpi_agentMgr = manager_of k L (conf_AgentConfig cfg),
      cpi_TryLock = trylock (lock_Path (cfg_CreateVMLock (conf_Server cfg))) t,
      cpi_Unlock = unlock (lock_Path (cfg_CreateVMLock (conf_Server cfg))), cpi_OpenFile = openf, cpi_GzipReader = gz\<rparr>))"
  by (simp add: NewCPI_def NewAgentManager_def chosen_format_def quoted_def Let_def)

text \<open>
  C30.  \<open>CPIFactory.New\<close>: a CPI it builds has the configured adapter, with the handle of the configured
  project and target, and the configured image format, so it is one of the CPIs \<open>cpi_on a k L c\<close>; it
  has asked for one connection and changed nothing.  An unknown server type is reported without any
  connection.  The factory never crashes.
\<close>

theorem factory_builds_cpi:
  "case CPIFactory_New lxdlib incuslib (NewCPI L pd trylock unlock uuid openf gz) cfg s of
     (Ok c, s') \<Rightarrow> (\<exists>a k. chosen_adapter lxdlib incuslib (conf_Server cfg) = Some a \<and>
         chosen_format (conf_AgentConfig cfg) = Some k \<and> c = cpi_on a k L c \<and> cpi_config c = cfg \<and>
         conn_of a = \<lparr>conn_project = cfg_Project (conf_Server cfg), conn_target = cfg_Target (conf_Server cfg)\<rparr>) \<and>
       trace s' = trace s @ [EvConnect (cfg_URL (conf_Server cfg)) (Inr ())]
   | (Err e, s') \<Rightarrow> (case chosen_adapter lxdlib incuslib (conf_Server cfg) of
         None \<Rightarrow> s' = s \<and> e = GoError (''unknown adapter type: '' @ quoted (cfg_Type (conf_Server cfg)))
       | Some a \<Rightarrow> (\<exists>r. trace s' = trace s @ [EvConnect (cfg_URL (conf_Server cfg)) r]))
   | (Panic p, s') \<Rightarrow> False"
proof -
  let ?cn = "\<lambda>lib. lib_Connect lib (cfg_URL (conf_Server cfg)) (args_of (conf_Server cfg)) (world s)"
  consider "cfg_Type (conf_Server cfg) = ''lxd''" | "cfg_Type (conf_Server cfg) = ''incus''"
    | "cfg_Type (conf_Server cfg) \<notin> {''lxd'', ''incus''}" by blast
  then show ?thesis
  proof cases
    case 1
    then show ?thesis
      by (cases "?cn lxdlib"; cases "fst (?cn lxdlib)"; cases "pd (lock_Timeout (cfg_CreateVMLock (conf_Server cfg)))")
        (auto simp: CPIFactory_New_def NewAdapter_def NewLXDAdapter_def chosen_adapter_def io_run io_lift_def NewCPI_eq
          cpi_on_def configured_conn_eq split: option.splits)
  next
    case 2
    then show ?thesis
      by (cases "?cn incuslib"; cases "fst (?cn incuslib)"; cases "pd (lock_Timeout (cfg_CreateVMLock (conf_Server cfg)))")
        (auto simp: CPIFactory_New_def NewAdapter_def NewIncusAdapter_def chosen_adapter_def io_run io_lift_def NewCPI_eq
          cpi_on_def configured_conn_eq split: option.splits)
  next
    case 3
    then show ?thesis by (simp add: CPIFactory_New_def NewAdapter_def chosen_adapter_def io_run)
  qed
qed

text \<open>The same as an equation and as a law on traces.\<close>

definition chosen_library :: "'w client_library \<Rightarrow> 'w client_library \<Rightarrow> ServerConfig \<Rightarrow> 'w client_library" where
  "chosen_library lxdlib incuslib cfg = (if cfg_Type cfg = ''lxd'' then lxdlib else incuslib)"

lemma factory_eq:
  assumes "chosen_adapter lxdlib incuslib (conf_Server cfg) = Some a"
  shows "CPIFactory_New lxdlib incuslib build cfg = io_bind
    (io_ext (EvConnect (cfg_URL (conf_Server cfg)))
      (lib_Connect (chosen_library lxdlib incuslib (conf_Server cfg)) (cfg_URL (conf_Server cfg)) (args_of (conf_Server cfg))))
    (\<lambda>_. io_lift (build (adapter_of a) cfg))"
  using assms
  by (auto simp: CPIFactory_New_def NewAdapter_def NewLXDAdapter_def NewIncusAdapter_def chosen_adapter_def
      chosen_library_def io_bind_assoc io_bind_ret split: if_splits)

lemma factory_unknown:
  assumes "chosen_adapter lxdlib incuslib (conf_Server cfg) = None"
  shows "CPIFactory_New lxdlib incuslib build cfg =
    io_fail (GoError (''unknown adapter type: '' @ quoted (cfg_Type (conf_Server cfg))))"
  using assms by (auto simp: CPIFactory_New_def NewAdapter_def chosen_adapter_def io_bind_def split: if_splits)

lemma chosen_conn: "chosen_adapter lxdlib incuslib cfg = Some a \<Longrightarrow> conn_of a = configured_conn cfg"
  by (auto simp: chosen_adapter_def split: if_splits)

lemma NewCPI_cpi_on:
  "NewCPI L pd trylock unlock uuid openf gz (adapter_of a) cfg = Inr c \<Longrightarrow> \<exists>k. c = cpi_on a k L c"
  by (auto simp: NewCPI_eq cpi_on_def sum_bind_def split: option.splits sum.splits)

text \<open>The factory connects at most; what it builds is a CPI on the configured handle.\<close>

lemma factory_law:
  "emits (CPIFactory_New lxdlib incuslib (NewCPI L pd trylock unlock uuid openf gz) cfg) (\<lambda>r ts.
     effects ts = [] \<and> \<not> is_Panic r \<and>
     (\<forall>c. r = Ok c \<longrightarrow> (\<exists>a k. conn_of a = configured_conn (conf_Server cfg) \<and> c = cpi_on a k L c)))"
proof (cases "chosen_adapter lxdlib incuslib (conf_Server cfg)")
  case None
  then show ?thesis by (simp add: factory_unknown)
next
  case (Some a)
  show ?thesis
  proof (cases "NewCPI L pd trylock unlock uuid openf gz (adapter_of a) cfg")
    case (Inl e)
    then show ?thesis by (auto simp: factory_eq [OF Some] intro!: emits_rules)
  next
    case (Inr c)
    from NewCPI_cpi_on [OF this] obtain k where "c = cpi_on a k L c" by blast
    then show ?thesis using chosen_conn [OF Some]
      by (auto simp: factory_eq [OF Some] Inr intro!: emits_rules)
  qed
qed

end
