(* ===== verification/DispatchProps.thy ===== *)
theory DispatchProps
  imports FactoryProps Dispatch DiskSafety
begin

text \<open>
  What the dispatcher makes of a request: every answer it can give, that a request is read as the call
  it was written for, and that no sequence of requests loses a disk nobody asked to delete.
\<close>

section \<open>Reading arguments\<close>

lemma read_arg_eq: "read_arg ty js = (case dec_arg ty (untyped js) of
    Inl e \<Rightarrow> Inl (WrapError e ''Unmarshalling action argument'') | Inr a \<Rightarrow> Inr a)"
  by (simp add: read_arg_def json_parse_print)

lemma response_parses: "json_parse (response_bytes result err) =
    Some (JObj [(''result'', result), (''error'', opt_json response_error_json err), (''log'', JStr [])])"
  unfolding response_bytes_def by (rule json_parse_print)

text \<open>Keys that differ in more than the case of their letters keep their values in an untyped map.\<close>

definition plain_keys :: "'a gomap \<Rightarrow> bool" where
  "plain_keys kvs \<longleftrightarrow> distinct (map (to_lower \<circ> fst) kvs)"

lemma plain_keys_wf: "plain_keys kvs \<Longrightarrow> wf_map kvs"
  unfolding plain_keys_def wf_map_def map_map [symmetric] by (simp only: distinct_map)

lemma plain_keys_map: "plain_keys (map (map_prod id f) kvs) = plain_keys kvs"
  by (simp add: plain_keys_def comp_def)

lemma json_field_unique:
  assumes "plain_keys kvs"
  shows "json_field kvs name = Some v \<longleftrightarrow> (\<exists>k. (k, v) \<in> set kvs \<and> to_lower k = to_lower name)"
  using assms
proof (induction kvs)
  case (Cons kv kvs)
  obtain k u where kv: "kv = (k, u)" by (cases kv)
  have IH: "json_field kvs name = Some v \<longleftrightarrow> (\<exists>k. (k, v) \<in> set kvs \<and> to_lower k = to_lower name)"
    using Cons by (simp add: plain_keys_def)
  show ?case
  proof (cases "to_lower k = to_lower name")
    case False
    then show ?thesis using IH by (auto simp: json_field_def kv)
  next
    case True
    have none: "\<forall>p\<in>set kvs. to_lower (fst p) \<noteq> to_lower name"
      using Cons.prems True by (auto simp: plain_keys_def kv image_iff)
    then have "filter (\<lambda>(k, _). to_lower k = to_lower name) kvs = []" by (auto simp: filter_empty_conv)
    then show ?thesis using True none by (auto simp: json_field_def kv)
  qed
qed (simp add: json_field_def)

lemma json_field_sorted:
  assumes "plain_keys kvs"
  shows "json_field (sort_map kvs) name = json_field kvs name"
proof -
  have sorted: "plain_keys (sort_map kvs)"
    using assms by (simp add: plain_keys_def sort_map_def distinct_map)
  have "json_field (sort_map kvs) name = Some v \<longleftrightarrow> json_field kvs name = Some v" for v
    unfolding json_field_unique [OF sorted] json_field_unique [OF assms] by (simp add: sort_map_def)
  then show ?thesis by (metis option.exhaust)
qed

lemma json_field_map: "json_field (map (map_prod id f) kvs) name = map_option f (json_field kvs name)"
proof -
  have "filter (\<lambda>(k, _). to_lower k = to_lower name) (map (map_prod id f) kvs) =
      map (map_prod id f) (filter (\<lambda>(k, _). to_lower k = to_lower name) kvs)"
    by (induction kvs) auto
  then show ?thesis by (auto simp: json_field_def last_map split: list.split)
qed

lemma untyped_obj: "plain_keys kvs \<Longrightarrow> untyped (JObj kvs) = JObj (sort_map (map (map_prod id untyped) kvs))"
  by (simp add: gm_of_list_wf plain_keys_wf plain_keys_map)

lemma json_field_untyped:
  "plain_keys kvs \<Longrightarrow> json_field (sort_map (map (map_prod id untyped) kvs)) name = map_option untyped (json_field kvs name)"
  by (simp add: json_field_sorted plain_keys_map json_field_map)

text \<open>Documents that are not changed: whole numbers of at most 53 bits, maps with keys in order.\<close>

definition normal :: "json \<Rightarrow> bool" where
  "normal js = (untyped js = js)"

lemma normal_simps [simp]:
  "normal JNull" "normal (JBool b)" "normal (JStr s)" "normal (JArr xs) = list_all normal xs"
  by (auto simp: normal_def list_all_iff intro: map_idI) (metis map_eq_conv map_ident)

lemma normal_strings: "normal (opt_json strings_json s)"
  by (cases s) (simp_all add: opt_json_def strings_json_def list_all_iff)

text \<open>A Go map written in the order of its keys.\<close>

definition ordered_map :: "'a gomap \<Rightarrow> bool" where
  "ordered_map m \<longleftrightarrow> wf_map m \<and> sorted (map fst m)"

lemma ordered_map_sort: "ordered_map m \<Longrightarrow> sort_key fst m = m"
  by (simp add: ordered_map_def sorted_sort_id sorted_map sort_key_id_if_sorted)

lemma ordered_map_values: "ordered_map (map (map_prod id f) m) = ordered_map m"
  by (simp add: ordered_map_def wf_map_def comp_def)

lemma untyped_map:
  "ordered_map m \<Longrightarrow> untyped (map_json f m) = JObj (map (map_prod id (untyped \<circ> f)) m)"
  by (simp add: map_json_def ordered_map_sort sort_map_def gm_of_list_wf)
     (metis (no_types) gm_of_list_wf map_map map_prod.comp o_id ordered_map_def ordered_map_sort ordered_map_values)

lemma dec_untyped_map:
  assumes "ordered_map m" and "\<And>k x. (k, x) \<in> set m \<Longrightarrow> dec (untyped (f x)) = Inr x"
  shows "dec_map dec (untyped (map_json f m)) = Inr (Some m)"
proof -
  have "traverse (\<lambda>(k, v). sum_bind (dec v) (\<lambda>x. Inr (k, x))) (map (map_prod id (untyped \<circ> f)) m) = Inr m"
    by (rule traverse_inverse) (auto simp: assms(2))
  then show ?thesis using assms(1) by (simp add: untyped_map gm_of_list_wf ordered_map_def)
qed

section \<open>Written requests\<close>

fun arg_json :: "arg \<Rightarrow> json" where
  "arg_json (AString s) = JStr s"
| "arg_json (AInt n) = JNum n"
| "arg_json (ACid s) = JStr s"
| "arg_json (ACidPtr s) = opt_json JStr s"
| "arg_json (ACids s) = opt_json strings_json s"
| "arg_json (AProps js) = js"
| "arg_json (ANetworks nets) = map_json network_json nets"
| "arg_json (AKVs m) = opt_json (map_json id) m"
| "arg_json (AResources ram cpu disk) =
     JObj [(''ram'', JNum ram), (''cpu'', JNum cpu), (''ephemeral_disk_size'', JNum disk)]"

fun type_of :: "arg \<Rightarrow> arg_type" where
  "type_of (AString s) = TString"
| "type_of (AInt n) = TInt"
| "type_of (ACid s) = TCid"
| "type_of (ACidPtr s) = TCidPtr"
| "type_of (ACids s) = TCids"
| "type_of (AProps js) = TProps"
| "type_of (ANetworks nets) = TNetworks"
| "type_of (AKVs m) = TKVs"
| "type_of (AResources ram cpu disk) = TResources"

text \<open>
  The arguments a director writes: identifiers are not empty, numbers have at most 53 bits, maps are
  written in the order of their keys, and a network has its cloud properties.
\<close>

definition small :: "int \<Rightarrow> bool" where
  "small n \<longleftrightarrow> \<bar>n\<bar> < 2 ^ 53"

definition plain_network :: "network \<Rightarrow> bool" where
  "plain_network n \<longleftrightarrow> nw_mac n = [] \<and> \<not> nw_preconfigured n \<and> (\<exists>js. nw_CloudProps n = Some js \<and> normal js)"

fun plain_arg :: "arg \<Rightarrow> bool" where
  "plain_arg (AString s) = True"
| "plain_arg (AInt n) = small n"
| "plain_arg (ACid s) = (s \<noteq> [])"
| "plain_arg (ACidPtr s) = (s \<noteq> Some [])"
| "plain_arg (ACids s) = pred_option (list_all (\<lambda>c. c \<noteq> [])) s"
| "plain_arg (AProps js) = normal js"
| "plain_arg (ANetworks nets) = (ordered_map nets \<and> list_all (plain_network \<circ> snd) nets)"
| "plain_arg (AKVs m) = pred_option (\<lambda>m. ordered_map m \<and> list_all (normal \<circ> snd) m) m"
| "plain_arg (AResources ram cpu disk) = (small ram \<and> small cpu \<and> small disk)"

lemma small_float64: "small n \<Longrightarrow> float64 n = n"
  by (simp add: small_def float64_def Let_def nat_less_iff)

lemma small_dec: "small n \<Longrightarrow> dec_int old (JNum n) = Inr n"
  by (auto simp: small_def)

lemma dec_cids: "list_all (\<lambda>c. c \<noteq> []) cs \<Longrightarrow> dec_slice dec_cid (strings_json cs) = Inr (Some cs)"
  by (simp add: strings_json_def traverse_inverse dec_cid_def list_all_iff)

lemma network_keys: "plain_keys (case network_json n of JObj kvs \<Rightarrow> kvs)"
  by (simp add: network_json_def plain_keys_def omit_empty_def to_lower_def to_lower_char_def)

lemma untyped_strings: "untyped (opt_json strings_json s) = opt_json strings_json s"
  using normal_strings by (simp add: normal_def)

lemma untyped_routes: "untyped (opt_json (\<lambda>rs. JArr (map route_json rs)) s) = opt_json (\<lambda>rs. JArr (map route_json rs)) s"
proof -
  have "untyped (route_json r) = route_json r" for r
    by (simp add: route_json_def gm_of_list_def sort_map_def)
  then show ?thesis by (cases s) (simp_all add: opt_json_def)
qed

lemma dec_network_inverse:
  assumes "plain_network n"
  shows "dec_network (untyped (network_json n)) = Inr n"
proof -
  obtain kvs where kvs: "network_json n = JObj kvs" by (simp add: network_json_def)
  obtain js where props: "nw_CloudProps n = Some js" "untyped js = js"
    using assms by (auto simp: plain_network_def normal_def)
  have keys: "plain_keys kvs" using network_keys [of n] kvs by simp
  have string: "dec_field (dec_string []) [] (sort_map (map (map_prod id untyped) kvs)) name = Inr v"
    if "json_field kvs name = Some (JStr v) \<or> (json_field kvs name = None \<and> v = [])" for name v
    using that by (auto simp: dec_field_def json_field_untyped [OF keys])
  have slice: "dec_field dec None (sort_map (map (map_prod id untyped) kvs)) name = dec js'"
    if "json_field kvs name = Some js'" "untyped js' = js'" for name js' and dec :: "json \<Rightarrow> gerr + 'x option"
    using that by (simp add: dec_field_def json_field_untyped [OF keys])
  have fields: "kvs = [(''type'', JStr (nw_Type n))] @ omit_empty ''ip'' (nw_IP n) @
     omit_empty ''netmask'' (nw_Netmask n) @ omit_empty ''gateway'' (nw_Gateway n) @
     [(''dns'', opt_json strings_json (nw_DNS n)), (''default'', opt_json strings_json (nw_Default n)),
      (''routes'', opt_json (\<lambda>rs. JArr (map route_json rs)) (nw_Routes n))] @ omit_empty ''alias'' (nw_Alias n) @
     [(''cloud_properties'', js)]"
    using kvs by (simp add: network_json_def props opt_json_def)
  note lookup = json_field_def fields omit_empty_def to_lower_def to_lower_char_def
  have "json_field kvs ''type'' = Some (JStr (nw_Type n))"
    and "json_field kvs ''ip'' = Some (JStr (nw_IP n)) \<or> (json_field kvs ''ip'' = None \<and> nw_IP n = [])"
    and "json_field kvs ''netmask'' = Some (JStr (nw_Netmask n)) \<or> (json_field kvs ''netmask'' = None \<and> nw_Netmask n = [])"
    and "json_field kvs ''gateway'' = Some (JStr (nw_Gateway n)) \<or> (json_field kvs ''gateway'' = None \<and> nw_Gateway n = [])"
    and "json_field kvs ''alias'' = Some (JStr (nw_Alias n)) \<or> (json_field kvs ''alias'' = None \<and> nw_Alias n = [])"
    and "json_field kvs ''dns'' = Some (opt_json strings_json (nw_DNS n))"
    and "json_field kvs ''default'' = Some (opt_json strings_json (nw_Default n))"
    and "json_field kvs ''routes'' = Some (opt_json (\<lambda>rs. JArr (map route_json rs)) (nw_Routes n))"
    and "json_field kvs ''cloud_properties'' = Some js"
    by (simp_all add: lookup)
  then have decoded: "dec_network (JObj (sort_map (map (map_prod id untyped) kvs))) =
      Inr ((NewNetwork (nw_Type n) (nw_IP n) (nw_Netmask n) (nw_Gateway n) (nw_DNS n) (nw_Default n) (nw_Routes n)
        (nw_Alias n))\<lparr>nw_CloudProps := Some js\<rparr>)"
    by (simp add: dec_network_def string slice untyped_strings untyped_routes props dec_strings_inverse
        dec_slice_inverse dec_route_inverse)
  have "n = (NewNetwork (nw_Type n) (nw_IP n) (nw_Netmask n) (nw_Gateway n) (nw_DNS n) (nw_Default n) (nw_Routes n)
        (nw_Alias n))\<lparr>nw_CloudProps := Some js\<rparr>"
    using assms props by (cases n) (simp add: NewNetwork_def plain_network_def)
  then show ?thesis using decoded by (simp add: kvs untyped_obj [OF keys] del: untyped.simps)
qed

lemma dec_arg_inverse: "plain_arg a \<Longrightarrow> dec_arg (type_of a) (untyped (arg_json a)) = Inr a"
proof (cases a)
  case (ACids s)
  then show "plain_arg a \<Longrightarrow> ?thesis" using untyped_strings [of s]
    by (cases s) (simp_all add: opt_json_def dec_cids)
next
  case (ACidPtr s)
  then show "plain_arg a \<Longrightarrow> ?thesis" by (cases s) (auto simp: opt_json_def dec_cid_def)
next
  case (ANetworks nets)
  assume "plain_arg a"
  then have "dec_map dec_network (untyped (map_json network_json nets)) = Inr (Some nets)"
    using ANetworks by (intro dec_untyped_map) (auto simp: list_all_iff dec_network_inverse)
  then show ?thesis using ANetworks by (simp add: dec_networks_def)
next
  case (AKVs m)
  assume plain: "plain_arg a"
  have "dec_map Inr (untyped (map_json id kvs)) = Inr (Some kvs)" if "m = Some kvs" for kvs
    using that plain AKVs by (intro dec_untyped_map) (auto simp: list_all_iff normal_def)
  then show ?thesis using AKVs by (cases m) (simp_all add: opt_json_def)
next
  case (AResources ram cpu disk)
  assume plain: "plain_arg a"
  let ?kvs = "[(''ram'', JNum ram), (''cpu'', JNum cpu), (''ephemeral_disk_size'', JNum disk)]"
  have keys: "plain_keys ?kvs" by (simp add: plain_keys_def to_lower_def to_lower_char_def)
  have number: "dec_field (dec_int 0) 0 (sort_map (map (map_prod id untyped) ?kvs)) name = Inr v"
    if "json_field ?kvs name = Some (JNum v)" "small v" for name v
    unfolding dec_field_def json_field_untyped [OF keys] using that by (simp add: small_float64 small_dec del: dec_int.simps)
  have "small ram" "small cpu" "small disk" using plain AResources by simp_all
  moreover have "json_field ?kvs ''ram'' = Some (JNum ram)" "json_field ?kvs ''cpu'' = Some (JNum cpu)"
      "json_field ?kvs ''ephemeral_disk_size'' = Some (JNum disk)"
    by (simp_all add: json_field_def to_lower_def to_lower_char_def)
  ultimately have "dec_resources (JObj (sort_map (map (map_prod id untyped) ?kvs))) = Inr (ram, cpu, disk)"
    unfolding dec_resources_def dec_struct.simps using number by (simp del: list.map)
  then show ?thesis by (simp only: AResources arg_json.simps untyped_obj [OF keys] type_of.simps dec_arg.simps) simp
qed (auto simp: dec_cid_def small_float64 small_dec normal_def simp del: dec_int.simps)

lemma extract_inverse:
  assumes "list_all plain_arg as"
  shows "extractMethodArgs (map type_of as) (map arg_json as @ extra) = Inr as"
proof -
  have "traverse (\<lambda>(ty, js). read_arg ty js) (map (\<lambda>a. (type_of a, arg_json a)) as) = Inr as"
    using assms by (intro traverse_inverse) (auto simp: read_arg_eq dec_arg_inverse list_all_iff)
  moreover have "zip (map type_of as) (map arg_json as @ extra) = map (\<lambda>a. (type_of a, arg_json a)) as"
    by (induction as) auto
  ultimately show ?thesis by (simp add: extractMethodArgs_def)
qed

definition request_json :: "string \<Rightarrow> json list \<Rightarrow> json \<Rightarrow> int \<Rightarrow> json" where
  "request_json method args ctx version = JObj [(''method'', JStr method), (''arguments'', JArr args),
     (''context'', ctx), (''api_version'', JNum version)]"

lemma read_written: "0 \<le> v \<Longrightarrow> v \<le> 2 \<Longrightarrow> read_request (json_print (request_json m args ctx v)) =
    Inr \<lparr>rq_Method = m, rq_Arguments = Some args, rq_Context = Some ctx, rq_APIVersion = v\<rparr>"
  unfolding read_request_def json_parse_print
  by (simp add: request_json_def dec_request_def dec_field_def json_field_def to_lower_def to_lower_char_def
      traverse_inverse [where enc = id and dec = Inr, simplified])

lemma no_nameless_action: "gm_find (actions ord c v) [] = None"
  by (simp add: actions_def stemcell_actions_def vm_actions_def disk_actions_def)

lemma request_is_called:
  assumes "gm_find (actions ord c version) m = Some (tys, run)" and "0 \<le> version" and "version \<le> 2"
    and "map type_of vals = tys" and "list_all plain_arg vals"
  shows "Dispatch ord (io_ret c) (json_print (request_json m (map arg_json vals @ extra) ctx version)) =
    io_try (run vals) (\<lambda>err. io_ret (cloudError err)) (\<lambda>result. io_ret (response_bytes result None))"
proof -
  have "m \<noteq> []" using assms(1) no_nameless_action [of ord c version] by auto
  moreover have "Call (tys, run) (map arg_json vals @ extra) = run vals"
    using assms(4) extract_inverse [OF assms(5)] by (auto simp: Call_def io_wrap_def)
  ultimately show ?thesis using assms(1-3)
    by (simp add: Dispatch_def read_written Create_def io_bind_def)
qed

text \<open>
  C11.  A request is read as the call it was written for.  For every method of every API version: the
  bytes of a request with plain arguments of the types the method asks for make the dispatcher run the
  call of that method on exactly these arguments (surplus arguments are dropped), and the answer holds
  its result, or its error as a cloud error.
\<close>

theorem written_requests_are_called:
  assumes "gm_find (actions ord c version) m = Some (tys, run)" and "0 \<le> version" and "version \<le> 2"
    and "map type_of vals = tys" and "list_all plain_arg vals"
  shows "Dispatch ord (io_ret c) (json_print (request_json m (map arg_json vals @ extra) ctx version)) =
    io_try (run vals) (\<lambda>err. io_ret (cloudError err)) (\<lambda>result. io_ret (response_bytes result None))"
  by (rule request_is_called [OF assms])

section \<open>Answers\<close>

text \<open>
  What an answer says: either a result and no error, or no result and an error of one of three types,
  never to be retried.  The types tell how far the request has come: a request that cannot be read has
  not even reached the server, one that is not implemented has at most connected.
\<close>

definition error_answer :: "string \<Rightarrow> json \<Rightarrow> bool" where
  "error_answer ty err \<longleftrightarrow> (\<exists>msg. err = JObj [(''type'', JStr ty), (''message'', JStr msg), (''ok_to_retry'', JBool False)])"

definition answer_contract :: "string res \<Rightarrow> event list \<Rightarrow> bool" where
  "answer_contract r ts \<longleftrightarrow> (case r of
      Err e \<Rightarrow> False
    | Panic p \<Rightarrow> True
    | Ok answer \<Rightarrow> (\<exists>result err. json_parse answer = Some (JObj [(''result'', result), (''error'', err), (''log'', JStr [])]) \<and>
        (err = JNull \<or> result = JNull \<and>
          (error_answer ''Bosh::Clouds::CpiError'' err \<and> ts = [] \<or>
           error_answer ''Bosh::Clouds::NotImplemented'' err \<and> effects ts = [] \<or>
           error_answer ''Bosh::Clouds::CloudError'' err))))"

lemma contract_error:
  "answer_contract (Ok (error_bytes ty msg)) ts \<longleftrightarrow> ty = ''Bosh::Clouds::CpiError'' \<and> ts = [] \<or>
    ty = ''Bosh::Clouds::NotImplemented'' \<and> effects ts = [] \<or> ty = ''Bosh::Clouds::CloudError''"
  by (auto simp: answer_contract_def error_bytes_def response_parses opt_json_def response_error_json_def error_answer_def)

lemma contract_result: "answer_contract (Ok (response_bytes result None)) ts"
  by (auto simp: answer_contract_def response_parses opt_json_def)

text \<open>Whatever changes something on the server is sent after the server has said it trusts the client.\<close>

definition trusted_first :: "conn \<Rightarrow> event list \<Rightarrow> bool" where
  "trusted_first cn ts \<longleftrightarrow> effects ts = [] \<or>
     (\<exists>us vs. ts = us @ EvGetServer cn (Inr ''trusted'') # vs \<and> effects us = [])"

lemma trusted_first_append: "effects us = [] \<Longrightarrow> trusted_first cn ts \<Longrightarrow> trusted_first cn (us @ ts)"
  unfolding trusted_first_def by (metis append.assoc append_Nil effects_append)

definition asks_first :: "conn \<Rightarrow> ('w, 'a) go \<Rightarrow> bool" where
  "asks_first cn m \<longleftrightarrow> emits m (\<lambda>r ts. trusted_first cn ts)"

named_theorems ask_rules \<open>every action asks first\<close>

lemma gated_trusted: "gated cn r ts \<Longrightarrow> trusted_first cn ts"
proof -
  assume "gated cn r ts"
  then obtain a us where "ts = EvGetServer cn a # us" and "a \<noteq> Inr ''trusted'' \<Longrightarrow> us = []"
    by (auto simp: gated_def)
  then show ?thesis
    by (cases "a = Inr ''trusted''") (auto simp: trusted_first_def intro: exI [of _ "[]"])
qed

lemma asks_gated: "emits m (gated cn) \<Longrightarrow> asks_first cn m"
  unfolding asks_first_def by (erule emits_mono) (rule gated_trusted)

lemmas calls_ask [ask_rules] = built.all_gated [THEN asks_gated]

lemma asks_basic [ask_rules]: "asks_first cn (io_ret x)" "asks_first cn wrong_args"
  by (simp_all add: asks_first_def trusted_first_def wrong_args_def)

lemma asks_bind [ask_rules]: "asks_first cn m \<Longrightarrow> asks_first cn (io_bind m (\<lambda>x. io_ret (f x)))"
  unfolding asks_first_def by (rule emits_bind, erule emits_mono) (auto intro!: emits_afterI)

lemma asks_nothing [ask_rules]: "asks_first cn m \<Longrightarrow> asks_first cn (nothing m)"
  unfolding nothing_def by (rule asks_bind)

lemma asks_branch [ask_rules]:
  "asks_first cn m \<Longrightarrow> (\<And>y ys. asks_first cn (f y ys)) \<Longrightarrow> asks_first cn (case ys of [] \<Rightarrow> m | y # ys \<Rightarrow> f y ys)"
  "(b \<Longrightarrow> asks_first cn m) \<Longrightarrow> (\<not> b \<Longrightarrow> asks_first cn n) \<Longrightarrow> asks_first cn (if b then m else n)"
  by (auto split: list.split)

lemma asks_arg [ask_rules]:
  assumes "\<And>s. asks_first cn (f1 s)" "\<And>n. asks_first cn (f2 n)" "\<And>s. asks_first cn (f3 s)" "\<And>s. asks_first cn (f4 s)"
    "\<And>s. asks_first cn (f5 s)" "\<And>js. asks_first cn (f6 js)" "\<And>ns. asks_first cn (f7 ns)" "\<And>m. asks_first cn (f8 m)"
    "\<And>r c d. asks_first cn (f9 r c d)"
  shows "asks_first cn (case x of AString s \<Rightarrow> f1 s | AInt n \<Rightarrow> f2 n | ACid s \<Rightarrow> f3 s | ACidPtr s \<Rightarrow> f4 s | ACids s \<Rightarrow> f5 s
    | AProps js \<Rightarrow> f6 js | ANetworks ns \<Rightarrow> f7 ns | AKVs m \<Rightarrow> f8 m | AResources r c d \<Rightarrow> f9 r c d)"
  using assms by (cases x) simp_all

lemma actions_ask:
  assumes "gm_find (actions ord (cpi_on a k L c) version) method = Some (tys, run)"
  shows "asks_first (conn_of a) (run vals)"
proof -
  have "list_all (\<lambda>(name, tys, run). \<forall>vals. asks_first (conn_of a) (run vals)) (actions ord (cpi_on a k L c) version)"
    unfolding actions_def stemcell_actions_def vm_actions_def disk_actions_def
    by (simp add: case_prod_unfold) (auto simp: case_prod_unfold intro!: ask_rules)
  then show ?thesis using map_of_SomeD [OF assms] by (auto simp: list_all_iff)
qed

lemma built_actions_ask:
  "c = cpi_on a k L c \<Longrightarrow> conn_of a = cn \<Longrightarrow> gm_find (actions ord c version) method = Some (tys, run) \<Longrightarrow>
    asks_first cn (run vals)"
  using actions_ask by metis

lemma dispatch_contract:
  "emits (Dispatch ord (CPIFactory_New lxdlib incuslib (NewCPI L pd trylock unlock uuid openf gz) cfg) reqBytes)
     (\<lambda>r ts. answer_contract r ts \<and> trusted_first (configured_conn (conf_Server cfg)) ts)"
proof -
  let ?cn = "configured_conn (conf_Server cfg)"
    and ?new = "CPIFactory_New lxdlib incuslib (NewCPI L pd trylock unlock uuid openf gz) cfg"
  have created: "emits (Create ord ?new m version) (\<lambda>r ts. effects ts = [] \<and> \<not> is_Panic r \<and>
      (\<forall>tys run. r = Ok (tys, run) \<longrightarrow> (\<forall>vals. asks_first ?cn (run vals))))" for m version
    unfolding Create_def
    by (rule emits_if, simp, rule emits_bind, rule factory_law [THEN emits_mono], rule emits_afterI)
       (auto split: option.split intro: built_actions_ask)
  have called: "emits (Call (tys, run) args) (\<lambda>r ts. trusted_first ?cn ts)"
    if "\<And>vals. asks_first ?cn (run vals)" for tys and run :: "arg list \<Rightarrow> ('a, json) go" and args
    using that by (cases "extractMethodArgs tys args") (auto simp: Call_def io_wrap_def asks_first_def trusted_first_def)
  have none: "trusted_first ?cn ts" if "effects ts = []" for ts using that by (simp add: trusted_first_def)
  show ?thesis
    unfolding Dispatch_def
    apply (cases "read_request reqBytes")
    subgoal by (simp add: cpiError_def contract_error none)
    subgoal for req
      apply (cases "rq_Arguments req")
      subgoal by (simp add: cpiError_def contract_error none)
      subgoal for args
        apply (cases "rq_Method req = []")
        subgoal by (simp add: cpiError_def contract_error none)
        apply (simp, rule emits_try, rule emits_mono [OF created], rule emits_afterI)
        subgoal for r ts action
          apply (cases action)
          apply (rule emits_try, simp, rule emits_mono [OF called], blast, rule emits_afterI)
          subgoal by (simp add: contract_result trusted_first_append)
          subgoal by (simp add: cloudError_def contract_error trusted_first_append)
          subgoal by (simp add: answer_contract_def trusted_first_append)
          done
        subgoal by (simp add: notImplementedError_def contract_error none)
        subgoal by simp
        done
      done
    done
qed

text \<open>
  C10.  Whatever bytes arrive, the dispatcher answers with a document as described, or the call has
  crashed: there is always one answer, with a result or an error, never with both.  And whatever the
  request makes the program send to change something on the server is sent after the server, asked
  through the handle of the configured project and target, has said that it trusts the client.
\<close>

theorem every_request_is_answered:
  "emits (Dispatch ord (CPIFactory_New lxdlib incuslib (NewCPI L pd trylock unlock uuid openf gz) cfg) reqBytes)
     (\<lambda>r ts. answer_contract r ts \<and> trusted_first (configured_conn (conf_Server cfg)) ts)"
  by (rule dispatch_contract)

section \<open>A disk for no VM\<close>

text \<open>What becomes of the request for a disk that names no VM: it crashes as soon as it has an identifier.\<close>

definition no_vm_contract :: "conn \<Rightarrow> 'a res \<Rightarrow> event list \<Rightarrow> bool" where
  "no_vm_contract cn r ts \<longleftrightarrow> effects ts = [] \<and>
     (is_Panic r \<longleftrightarrow> EvGetServer cn (Inr ''trusted'') \<in> set ts \<and> (\<exists>u. EvUuid (Inr u) \<in> set ts))"

context cpi_contract
begin

lemma CreateDisk_no_vm: "emits (CreateDisk c sz None) (\<lambda>r ts. no_vm_contract cn r ts \<and> \<not> is_Ok r)"
  unfolding CreateDisk_def Let_def
  apply (rule emits_bind, rule IsConnected_law [THEN emits_mono], rule emits_afterI)
    apply (rule emits_wrap, rule emits_ext)
     apply (auto simp: DISK_PERSISTENT_PREFIX_def new_cid_def io_bind_def no_vm_contract_def intro!: emits_rules)
  done

end

text \<open>
  C36.  A request for a disk that names no VM (the director may leave the VM out) never gets a disk: when the
  server trusts the client and the identifier of the disk is generated, the program crashes without an
  answer; otherwise the answer is a cloud error.  Nothing is sent to the server.
\<close>

theorem disk_without_vm_crashes:
  assumes "0 \<le> version" and "version \<le> 2" and "plain_arg (AInt sz)" and "plain_arg (AProps props)"
  shows "emits (Dispatch ord (io_ret (cpi_on a k L c))
      (json_print (request_json ''create_disk'' ([JNum sz, props, JNull] @ extra) ctx version)))
    (\<lambda>r ts. no_vm_contract (conn_of a) r ts \<and> (\<forall>answer. r = Ok answer \<longrightarrow> (\<exists>err. answer = cloudError err)))"
proof -
  obtain run where run: "gm_find (actions ord (cpi_on a k L c) version) ''create_disk'' = Some ([TInt, TProps, TCidPtr], run)"
    and call: "run [AInt sz, AProps props, ACidPtr None] =
      io_bind (CreateDisk (cpi_on a k L c) sz None) (\<lambda>cid. io_ret (JStr cid))"
    by (simp add: actions_def stemcell_actions_def vm_actions_def disk_actions_def)
  have "Dispatch ord (io_ret (cpi_on a k L c))
      (json_print (request_json ''create_disk'' ([JNum sz, props, JNull] @ extra) ctx version)) =
    io_try (io_bind (CreateDisk (cpi_on a k L c) sz None) (\<lambda>cid. io_ret (JStr cid)))
      (\<lambda>err. io_ret (cloudError err)) (\<lambda>result. io_ret (response_bytes result None))"
    using request_is_called [OF run assms(1,2), of "[AInt sz, AProps props, ACidPtr None]" extra ctx] assms(3,4)
    unfolding call by (simp add: opt_json_def del: json_print.simps)
  moreover have "emits (io_bind (CreateDisk (cpi_on a k L c) sz None) (\<lambda>cid. io_ret (JStr cid)))
      (\<lambda>r ts. no_vm_contract (conn_of a) r ts \<and> \<not> is_Ok r)"
    by (rule emits_bind, rule built.CreateDisk_no_vm [THEN emits_mono], rule emits_afterI)
       (auto simp: no_vm_contract_def)
  ultimately show ?thesis
    apply (simp only:)
    apply (rule emits_try, erule emits_mono, rule emits_afterI)
      apply (auto simp: no_vm_contract_def intro!: emits_rules)
    done
qed

section \<open>Any sequence of requests\<close>

text \<open>The one request that asks for the deletion of a disk.\<close>

definition asks_deletion :: "string \<Rightarrow> string \<Rightarrow> bool" where
  "asks_deletion p reqBytes = (case read_request reqBytes of
      Inl _ \<Rightarrow> False
    | Inr req \<Rightarrow> rq_Method req = ''delete_disk'' \<and> (case rq_Arguments req of
        None \<Rightarrow> False | Some args \<Rightarrow> extractMethodArgs [TCid] args = Inr [ACid p]))"

text \<open>Maps that come out of the JSON decoder are Go maps.\<close>

fun map_arg :: "arg \<Rightarrow> bool" where
  "map_arg (AKVs m) = pred_option wf_map m"
| "map_arg _ = True"

lemma map_sum_Inr: "map_sum id f x = Inr y \<longleftrightarrow> (\<exists>z. x = Inr z \<and> y = f z)"
  by (cases x) auto

lemma read_map_arg: "read_arg ty js = Inr v \<Longrightarrow> map_arg v"
  by (cases ty) (auto simp: read_arg_eq map_sum_Inr dest: dec_map_wf split: sum.splits if_splits prod.splits)

lemma traverse_all: "traverse f xs = Inr ys \<Longrightarrow> (\<And>x y. f x = Inr y \<Longrightarrow> P y) \<Longrightarrow> list_all P ys"
  by (induction xs arbitrary: ys) (auto simp: sum_bind_def split: sum.splits)

lemma extract_map_args: "extractMethodArgs tys args = Inr vals \<Longrightarrow> list_all map_arg vals"
  by (auto simp: extractMethodArgs_def elim!: traverse_all intro: read_map_arg split: if_splits)

lemma keeps_list [keep_rules]:
  "(ys = [] \<Longrightarrow> keeps I m Q) \<Longrightarrow> (\<And>z zs. ys = z # zs \<Longrightarrow> keeps I (f z zs) Q) \<Longrightarrow>
    keeps I (case ys of [] \<Rightarrow> m | z # zs \<Rightarrow> f z zs) Q"
  by (cases ys) simp_all

lemma keeps_arg [keep_rules]:
  assumes "\<And>s. x = AString s \<Longrightarrow> keeps I (f1 s) Q" "\<And>n. x = AInt n \<Longrightarrow> keeps I (f2 n) Q"
    "\<And>s. x = ACid s \<Longrightarrow> keeps I (f3 s) Q" "\<And>s. x = ACidPtr s \<Longrightarrow> keeps I (f4 s) Q"
    "\<And>s. x = ACids s \<Longrightarrow> keeps I (f5 s) Q" "\<And>js. x = AProps js \<Longrightarrow> keeps I (f6 js) Q"
    "\<And>ns. x = ANetworks ns \<Longrightarrow> keeps I (f7 ns) Q" "\<And>m. x = AKVs m \<Longrightarrow> keeps I (f8 m) Q"
    "\<And>r c d. x = AResources r c d \<Longrightarrow> keeps I (f9 r c d) Q"
  shows "keeps I (case x of AString s \<Rightarrow> f1 s | AInt n \<Rightarrow> f2 n | ACid s \<Rightarrow> f3 s | ACidPtr s \<Rightarrow> f4 s | ACids s \<Rightarrow> f5 s
    | AProps js \<Rightarrow> f6 js | ANetworks ns \<Rightarrow> f7 ns | AKVs m \<Rightarrow> f8 m | AResources r c d \<Rightarrow> f9 r c d) Q"
  using assms by (cases x) simp_all

context disk_keeper
begin

lemma keeps_actions:
  assumes "gm_find (actions ord c version) method = Some (tys, run)" and "list_all map_arg vals"
    and "method = ''delete_disk'' \<Longrightarrow> vals \<noteq> [ACid p]"
  shows "maintains I (run vals)"
proof -
  have "list_all (\<lambda>(name, tys, run). \<forall>vals. list_all map_arg vals \<longrightarrow> (name = ''delete_disk'' \<longrightarrow> vals \<noteq> [ACid p]) \<longrightarrow>
      maintains I (run vals)) (actions ord c version)"
    unfolding actions_def stemcell_actions_def vm_actions_def disk_actions_def
    by (simp add: case_prod_unfold)
       (auto simp: case_prod_unfold nothing_def wrong_args_def CreateVM_def AttachDisk_def
         intro!: keep_rules keeps_calls keeps_CreateVMV2 keeps_DeleteVM keeps_HasVM)
  then show ?thesis using map_of_SomeD [OF assms(1)] assms(2,3) by (fastforce simp: list_all_iff)
qed

lemma keeps_Dispatch:
  assumes "keeps I newCPI (\<lambda>c'. c' = c)" and "\<not> asks_deletion p reqBytes"
  shows "maintains I (Dispatch ord newCPI reqBytes)"
proof (cases "read_request reqBytes")
  case (Inl e)
  then show ?thesis by (auto simp: Dispatch_def intro: keep_rules)
next
  case (Inr req)
  show ?thesis
  proof (cases "rq_Method req = [] \<or> rq_Arguments req = None")
    case True
    then show ?thesis using Inr by (auto simp: Dispatch_def intro: keep_rules split: option.split)
  next
    case False
    then obtain args where args: "rq_Arguments req = Some args" by auto
    have created: "keeps I (Create ord newCPI (rq_Method req) (rq_APIVersion req)) (\<lambda>(tys, run).
        gm_find (actions ord c (rq_APIVersion req)) (rq_Method req) = Some (tys, run))"
    proof (cases "rq_APIVersion req > 2")
      case True
      then show ?thesis by (simp add: Create_def keeps_def io_run)
    next
      case False
      then show ?thesis unfolding Create_def
        by (simp, intro keeps_bind [OF assms(1)]) (auto simp: keeps_def io_run split: option.split)
    qed
    have called: "maintains I (Call (tys, run) args)"
      if find: "gm_find (actions ord c (rq_APIVersion req)) (rq_Method req) = Some (tys, run)" for tys run
    proof (cases "extractMethodArgs tys args")
      case (Inl e)
      then show ?thesis by (auto simp: Call_def io_wrap_def intro: keep_rules)
    next
      case vals: (Inr vals)
      have "tys = [TCid]" if "rq_Method req = ''delete_disk''"
        using find that by (simp add: actions_def stemcell_actions_def vm_actions_def disk_actions_def)
      then have "rq_Method req = ''delete_disk'' \<Longrightarrow> vals \<noteq> [ACid p]"
        using assms(2) vals by (auto simp: asks_deletion_def Inr args)
      then show ?thesis using keeps_actions [OF find extract_map_args [OF vals]]
        by (simp add: Call_def vals io_wrap_def)
    qed
    have "maintains I (io_try (Create ord newCPI (rq_Method req) (rq_APIVersion req))
        (\<lambda>err. io_ret (notImplementedError err))
        (\<lambda>action. io_try (Call action args) (\<lambda>err. io_ret (cloudError err)) (\<lambda>result. io_ret (response_bytes result None))))"
      by (rule keeps_try [OF created]) (auto intro!: keep_rules called)
    then show ?thesis using False by (simp add: Dispatch_def Inr args)
  qed
qed

end

text \<open>What the process is after a request; the factory has connected and built the CPI \<open>c\<close>.\<close>

definition connected_cpi :: "string \<Rightarrow> ('w, unit) ext \<Rightarrow> 'w CPI \<Rightarrow> ('w, 'w CPI) go" where
  "connected_cpi url connect c = io_bind (io_ext (EvConnect url) connect) (\<lambda>_. io_ret c)"


lemma factory_connected:
  assumes "chosen_adapter lxdlib incuslib (conf_Server cfg) = Some a"
    and "NewCPI L pd trylock unlock uuid openf gz (adapter_of a) cfg = Inr c"
  shows "CPIFactory_New lxdlib incuslib (NewCPI L pd trylock unlock uuid openf gz) cfg = connected_cpi (cfg_URL (conf_Server cfg))
    (lib_Connect (chosen_library lxdlib incuslib (conf_Server cfg)) (cfg_URL (conf_Server cfg)) (args_of (conf_Server cfg))) c"
  by (simp add: factory_eq [OF assms(1)] assms(2) connected_cpi_def)



end
