(* ===== verification/ProgramProps.thy ===== *)
theory ProgramProps
  imports Commands DispatchProps
begin

text \<open>
  The configuration and the clean-up program.
\<close>

section \<open>The clean-up program\<close>

text \<open>The settings volumes that nothing uses, by the list the server gives.\<close>

definition unused_settings_volumes :: "storage_volume list \<Rightarrow> string list" where
  "unused_settings_volumes vs = map fst (filter (\<lambda>(name, count). has_prefix name DISK_CONFIGURATION_PREFIX \<and> count = 0)
     (usage_of vs))"

definition deletions :: "conn \<Rightarrow> string \<Rightarrow> string list \<Rightarrow> request list" where
  "deletions cn pool names = map (ReqDeleteVolume cn pool ''custom'') names"

lemma deletions_Cons: "deletions cn pool (n # ns) = ReqDeleteVolume cn pool ''custom'' n # deletions cn pool ns"
  by (simp add: deletions_def)

lemma usage_foldl:
  assumes "wf_map acc"
  shows "wf_map (foldl (\<lambda>data v. gm_put (sv_name v) (int (length (sv_used_by v))) data) acc vs) \<and>
    (\<forall>(n, c) \<in> set (foldl (\<lambda>data v. gm_put (sv_name v) (int (length (sv_used_by v))) data) acc vs).
       (n, c) \<in> set acc \<or> (\<exists>v\<in>set vs. sv_name v = n \<and> int (length (sv_used_by v)) = c))"
  using assms
proof (induction vs arbitrary: acc)
  case (Cons v vs)
  let ?acc = "gm_put (sv_name v) (int (length (sv_used_by v))) acc"
  have "wf_map ?acc" using Cons.prems by (simp add: wf_map_def distinct_update)
  moreover have "set ?acc \<subseteq> insert (sv_name v, int (length (sv_used_by v))) (set acc)"
    by (induction acc) auto
  ultimately show ?case using Cons.IH [of ?acc] by fastforce
qed auto

lemma unused_sound:
  "distinct (unused_settings_volumes vs) \<and> (\<forall>n\<in>set (unused_settings_volumes vs).
     prefix ''vol-c-'' n \<and> (\<exists>v\<in>set vs. sv_name v = n \<and> sv_used_by v = []))"
proof -
  from usage_foldl [of "[]" vs]
  have wf: "wf_map (usage_of vs)" and
    from_list: "\<And>n c. (n, c) \<in> set (usage_of vs) \<Longrightarrow> \<exists>v\<in>set vs. sv_name v = n \<and> int (length (sv_used_by v)) = c"
    by (auto simp: usage_of_def)
  have "distinct (unused_settings_volumes vs)"
    using wf by (simp add: unused_settings_volumes_def wf_map_def distinct_map_filter)
  then show ?thesis using from_list
    by (fastforce simp: unused_settings_volumes_def has_prefix_def DISK_CONFIGURATION_PREFIX_def)
qed

text \<open>How a run of the program ends: the exit code, the lines it has logged, and what it has counted.\<close>

definition cleanup_contract :: "conn \<Rightarrow> string \<Rightarrow> bool \<Rightarrow> int \<Rightarrow> (exit \<times> counts) res \<Rightarrow> event list \<Rightarrow> bool" where
  "cleanup_contract cn pool dryRun level r ts \<longleftrightarrow> (\<exists>a us. ts = EvGetVolumes cn pool a # us \<and> (case a of
     Inl e \<Rightarrow> r = Ok (fail_exit level 3 ''GetStoragePoolVolumeUsage: '' e, 0, 0, 0) \<and> us = []
   | Inr vs \<Rightarrow> (let todo = unused_settings_volumes vs; dels = (if dryRun then [] else deletions cn pool todo) in
       prefix (effects us) dels \<and> (\<forall>e. r \<noteq> Err e) \<and>
       (\<forall>ending processed removed failed. r = Ok (ending, processed, removed, failed) \<longrightarrow>
          effects us = dels \<and> processed = length todo \<and> removed + failed = length dels \<and>
          (\<exists>log. ending = Exited 0 (log @ log_Info level ''main'' (cleanup_report (processed, removed, failed))))))))"

definition loop_contract :: "conn \<Rightarrow> string \<Rightarrow> string list \<Rightarrow> bool \<Rightarrow> counts \<Rightarrow> (counts \<times> log_entry list) res \<Rightarrow> event list \<Rightarrow> bool" where
  "loop_contract cn pool todo dryRun acc r ts \<longleftrightarrow> (let dels = (if dryRun then [] else deletions cn pool todo) in
     prefix (effects ts) dels \<and> (\<forall>e. r \<noteq> Err e) \<and>
     (\<forall>processed removed failed log. r = Ok ((processed, removed, failed), log) \<longrightarrow> effects ts = dels \<and>
        processed = fst acc + length todo \<and> removed + failed = fst (snd acc) + snd (snd acc) + length dels))"

context adapter_contract
begin

lemma cleanup_loop_law:
  "emits (cleanup_loop A pool dryRun level vols acc log)
     (loop_contract cn pool (map fst (filter (\<lambda>(name, count). has_prefix name DISK_CONFIGURATION_PREFIX \<and> count = 0) vols))
        dryRun acc)"
proof (induction vols arbitrary: acc log)
  case Nil
  then show ?case by (cases acc) (simp add: loop_contract_def deletions_def)
next
  case (Cons v vols)
  obtain name count where v: "v = (name, count)" by (cases v)
  obtain p r f where acc: "acc = (p, r, f)" by (cases acc)
  show ?case
  proof (cases "has_prefix name DISK_CONFIGURATION_PREFIX \<and> count = 0")
    case False
    then show ?thesis using Cons.IH [of acc log] by (simp only: v acc cleanup_loop.simps if_False list.map filter.simps prod.case)
  next
    case True
    show ?thesis
    proof (cases dryRun)
      case dry: True
      show ?thesis using emits_mono [OF Cons.IH [of "(Suc p, r, f)"]] True dry
        by (auto simp: v acc loop_contract_def Let_def)
    next
      case wet: False
      from wet Cons.IH have IH: "\<And>acc log. emits (cleanup_loop A pool False level vols acc log) (loop_contract cn pool
          (map fst (filter (\<lambda>(name, count). has_prefix name DISK_CONFIGURATION_PREFIX \<and> count = 0) vols)) False acc)"
        by simp
      show ?thesis using True wet
        apply (simp add: v acc)
        apply (rule emits_try, rule DeleteStoragePoolVolume_law [unfolded sends_one_def, THEN emits_mono],
            rule emits_afterI)
        subgoal by (rule emits_mono [OF IH]) (auto simp: loop_contract_def Let_def deletions_Cons)
        subgoal by (rule emits_mono [OF IH]) (auto simp: loop_contract_def Let_def deletions_Cons)
        subgoal by (simp add: loop_contract_def Let_def deletions_Cons)
        done
    qed
  qed
qed

lemma cleanup_law: "emits (cleanup_run A pool dryRun level) (cleanup_contract cn pool dryRun level)"
  unfolding cleanup_run_def
  apply (rule emits_try, rule GetStoragePoolVolumeUsage_law [THEN emits_mono], rule emits_afterI)
  subgoal for r ts volumes
    apply (rule emits_bind, rule cleanup_loop_law [THEN emits_mono], rule emits_afterI)
    subgoal for r' us c
      by (cases c, cases "fst c", hypsubst, unfold prod.case Let_def, rule emits_try, rule Disconnect_law [THEN emits_mono],
          rule emits_afterI)
         (auto simp: cleanup_contract_def loop_contract_def unused_settings_volumes_def Let_def)
    by (auto simp: cleanup_contract_def loop_contract_def unused_settings_volumes_def Let_def)
  by (auto simp: cleanup_contract_def)

end

text \<open>
  C31.  The clean-up program deletes, one after the other, exactly the volumes named \<open>vol-c-...\<close> that the
  server lists without a user, each once, and goes on after a failed deletion; a dry run deletes
  nothing.  At the end it exits with code 0, has counted every such volume as processed, and as
  removed or failed those it tried to delete, and logs these counts last.  Without a list it exits
  with code 3 and changes nothing.
\<close>

theorem cleanup_deletes_unused:
  "emits (cleanup_run (adapter_of a) pool dryRun level) (cleanup_contract (conn_of a) pool dryRun level) \<and>
   distinct (unused_settings_volumes vs) \<and>
   list_all (\<lambda>n. prefix ''vol-c-'' n \<and> list_ex (\<lambda>v. sv_name v = n \<and> sv_used_by v = []) vs) (unused_settings_volumes vs)"
  using any.cleanup_law unused_sound [of vs] by (auto simp: list_all_iff list_ex_iff)

section \<open>One run of the CPI program\<close>

text \<open>The answers that a run tries to write, and whether the last attempt was well.\<close>

fun answer_of :: "program_event \<Rightarrow> (string \<times> (gerr + unit)) option" where
  "answer_of (WriteOut bytes r) = Some (bytes, r)" | "answer_of _ = None"

definition written :: "program_event list \<Rightarrow> (string \<times> (gerr + unit)) list" where
  "written ts = List.map_filter answer_of ts"

lemma written_simps [simp]:
  "written [] = []" "written (e # ts) = (case answer_of e of None \<Rightarrow> written ts | Some x \<Rightarrow> x # written ts)"
  by (simp_all add: written_def map_filter_simps split: option.splits)

lemma written_append [simp]: "written (ts @ us) = written ts @ written us"
  by (induction ts) (auto split: option.splits)

lemma written_parts [simp]: "written (map OnServer us) = []" "written (map OnThrottle vs) = []"
  by (induction us, auto) (induction vs, auto)

text \<open>A document with a result or an error.\<close>

definition answer_document :: "string \<Rightarrow> bool" where
  "answer_document bytes \<longleftrightarrow> (\<exists>result err. (result = JNull \<or> err = JNull) \<and>
     json_parse bytes = Some (JObj [(''result'', result), (''error'', err), (''log'', JStr [])]))"

lemma contract_document: "answer_contract (Ok bytes) ts \<Longrightarrow> answer_document bytes"
  by (auto simp: answer_contract_def answer_document_def)

lemma serves_one:
  "emits (ServeOnce stdin stdout (Dispatch ord (CPIFactory_New lxdlib incuslib
       (NewCPI L pd trylock unlock uuid openf gz) cfg)))
     (\<lambda>r ts. written ts = [] \<and> \<not> is_Ok r \<or> (\<exists>bytes w. written ts = [(bytes, w)] \<and> answer_document bytes \<and> (is_Ok r \<longleftrightarrow> is_Inr w)))"
proof -
  have answered: "emits (Dispatch ord (CPIFactory_New lxdlib incuslib (NewCPI L pd trylock unlock uuid openf gz) cfg) reqBytes)
      (\<lambda>r ts. answer_contract r ts)" for reqBytes
    by (rule emits_mono [OF dispatch_contract]) simp
  show ?thesis
    unfolding ServeOnce_def
    apply (rule emits_wrap, rule emits_ext; simp)
    apply (rule emits_bind, unfold on_outside_def, rule emits_on, rule emits_mono [OF answered], rule emits_afterI)
    subgoal by (rule emits_wrap, rule emits_ext) (auto dest: contract_document)
    subgoal by (simp add: answer_contract_def)
    subgoal by simp
    done
qed

text \<open>What the program does before and after the call appends to the trace, and writes no answer.\<close>

lemma on_throttle_trace:
  assumes "on_throttle m s = (r, s')"
  shows "\<exists>vs. trace s' = trace s @ map OnThrottle vs"
  using assms by (auto simp: on_throttle_def io_on_def split: prod.splits)

lemma wait_on_throttle_trace:
  assumes "wait_on_throttle C s = Some (r, s')"
  shows "\<exists>vs. trace s' = trace s @ map OnThrottle vs"
  using assms on_throttle_trace unfolding wait_on_throttle_def by fastforce

definition clean_exit :: "exit \<Rightarrow> bool" where
  "clean_exit ending = (case ending of Exited code _ \<Rightarrow> code = 0 | Crashed _ \<Rightarrow> False)"

lemma not_clean [simp]: "\<not> clean_exit (fail_exit level 1 what e)" "\<not> clean_exit (Crashed p)"
  by (simp_all add: clean_exit_def fail_exit_def)

definition at_most_one_answer :: "exit \<Rightarrow> program_event list \<Rightarrow> bool" where
  "at_most_one_answer ending ts \<longleftrightarrow> written ts = [] \<and> \<not> clean_exit ending \<or>
     (\<exists>bytes w. written ts = [(bytes, w)] \<and> answer_document bytes \<and> (clean_exit ending \<longrightarrow> is_Inr w))"

lemma release_trace:
  assumes "release level reservation s = (ending, s')"
  shows "\<exists>vs. trace s' = trace s @ map OnThrottle vs"
  using assms on_throttle_trace
  by (fastforce simp: release_def split: option.splits prod.splits res.splits intro: exI [of _ "[]"])

lemma serve_and_release_answers:
  assumes "serve_and_release level (serving stdin stdout meanwhile ord (CPIFactory_New lxdlib incuslib
      (NewCPI L pd trylock unlock uuid openf gz)) cfg) reservation s = (ending, s')"
  shows "\<exists>ts. trace s' = trace s @ ts \<and> at_most_one_answer ending ts"
proof -
  let ?once = "ServeOnce stdin stdout (Dispatch ord (CPIFactory_New lxdlib incuslib
      (NewCPI L pd trylock unlock uuid openf gz) cfg))"
  obtain r s1 where once: "?once s = (r, s1)" by fastforce
  obtain ts where ts: "trace s1 = trace s @ ts" and answers: "written ts = [] \<and> \<not> is_Ok r \<or>
      (\<exists>bytes w. written ts = [(bytes, w)] \<and> answer_document bytes \<and> (is_Ok r \<longleftrightarrow> is_Inr w))"
    using emitsD [OF serves_one once] by auto
  show ?thesis
  proof (cases r)
    case (Ok u)
    with assms obtain s2 where "release level reservation s2 = (ending, s')" and "trace s2 = trace s1"
      by (auto simp: serve_and_release_def serving_def once)
    then obtain vs where "trace s' = trace s @ ts @ map OnThrottle vs" using release_trace ts by fastforce
    then show ?thesis using answers Ok by (intro exI [of _ "ts @ map OnThrottle vs"]) (auto simp: at_most_one_answer_def)
  qed (use assms answers ts in \<open>auto simp: serve_and_release_def serving_def once at_most_one_answer_def\<close>)
qed

text \<open>
  C12.  One run of the CPI program, from its configuration to its end.  It writes at most one answer to its
  output, and that is a JSON document with a result or an error.  It ends with code 0 only when it has
  written the answer; a run that writes none (no reservation, no input, a crash of the call) does
  not end with code 0.
\<close>

theorem one_answer_per_run:
  assumes "cpi_run level N (serving stdin stdout meanwhile ord (CPIFactory_New lxdlib incuslib
      (NewCPI L pd trylock unlock uuid openf gz)) cfg) throttle s = Some (ending, s')"
  shows "\<exists>ts. trace s' = trace s @ ts \<and> at_most_one_answer ending ts"
proof -
  let ?once = "serving stdin stdout meanwhile ord (CPIFactory_New lxdlib incuslib
      (NewCPI L pd trylock unlock uuid openf gz)) cfg"
  have quiet: "at_most_one_answer ending (map OnThrottle vs)" if "\<not> clean_exit ending" for vs
    using that by (simp add: at_most_one_answer_def)
  have later: "\<exists>ts. trace s' = trace s @ ts \<and> at_most_one_answer ending ts"
    if "trace s2 = trace s @ map OnThrottle vs" and "serve_and_release level ?once reservation s2 = (ending, s')"
    for s2 vs reservation
    using serve_and_release_answers [OF that(2)] that(1) by (fastforce simp: at_most_one_answer_def)
  show ?thesis
  proof (cases "tc_Enabled throttle")
    case False
    then show ?thesis using assms later [of s "[]"] by (simp add: cpi_run_def)
  next
    case True
    obtain r1 s1 where dial: "on_throttle (NewThrottleClient N throttle) s = (r1, s1)" by fastforce
    obtain vs where vs: "trace s1 = trace s @ map OnThrottle vs" using on_throttle_trace [OF dial] by blast
    show ?thesis
    proof (cases r1)
      case (Ok C)
      with assms True dial obtain r2 s2 where wait: "wait_on_throttle C s1 = Some (r2, s2)"
        by (auto simp: cpi_run_def split: option.splits)
      obtain us where "trace s2 = trace s1 @ map OnThrottle us" using wait_on_throttle_trace [OF wait] by blast
      then have us: "trace s2 = trace s @ map OnThrottle (vs @ us)" by (simp add: vs)
      show ?thesis
        using assms True dial Ok wait us quiet [of "vs @ us"] later [OF us]
        by (cases r2) (auto simp: cpi_run_def simp del: map_append)
    qed (use assms True dial vs quiet [of vs] in \<open>auto simp: cpi_run_def\<close>)
  qed
qed

section \<open>The configuration\<close>

text \<open>The values a JSON object gives to a field, in order; and what a string field makes of them.\<close>

definition named :: "string \<Rightarrow> json gomap \<Rightarrow> json list" where
  "named name kvs = map snd (filter (\<lambda>(k, _). to_lower k = to_lower name) kvs)"

definition string_value :: "string \<Rightarrow> json list \<Rightarrow> string" where
  "string_value old vals = foldl (\<lambda>x v. case v of JStr s \<Rightarrow> s | _ \<Rightarrow> x) old vals"

definition read_all :: "(json \<Rightarrow> 'a \<Rightarrow> gerr + 'a) \<Rightarrow> json list \<Rightarrow> 'a \<Rightarrow> gerr + 'a" where
  "read_all rd vals old = foldl (\<lambda>acc v. sum_bind acc (rd v)) (Inr old) vals"

lemma foldl_failed: "foldl (\<lambda>acc v. sum_bind acc (rd v)) (Inl e) vals = Inl e"
  by (induction vals) simp_all

lemma read_all_Cons: "read_all rd (v # vals) old = sum_bind (rd v old) (read_all rd vals)"
  by (cases "rd v old") (simp_all add: read_all_def foldl_failed)

lemma read_all_string: "read_all read_string vals old = Inr x \<Longrightarrow> x = string_value old vals"
proof (induction vals arbitrary: old)
  case (Cons v vals)
  then show ?case by (cases v) (auto simp: read_all_Cons string_value_def)
qed (simp add: read_all_def string_value_def)

text \<open>What a switch makes of its values: only \<open>true\<close>, \<open>false\<close> and \<open>null\<close> can be read.\<close>

fun is_switch :: "json \<Rightarrow> bool" where
  "is_switch (JBool b) = True" | "is_switch JNull = True" | "is_switch _ = False"

definition switch_value :: "bool \<Rightarrow> json list \<Rightarrow> bool" where
  "switch_value old vals = foldl (\<lambda>x v. case v of JBool b \<Rightarrow> b | _ \<Rightarrow> x) old vals"

definition reads_switch :: "json list \<Rightarrow> bool \<Rightarrow> bool" where
  "reads_switch vals b \<longleftrightarrow> list_all is_switch vals \<and> b = switch_value False vals"

lemma read_all_switch:
  "read_all read_bool vals old = Inr x \<Longrightarrow> list_all is_switch vals \<and> x = switch_value old vals"
proof (induction vals arbitrary: old)
  case (Cons v vals)
  then show ?case by (cases v) (auto simp: read_all_Cons switch_value_def)
qed (simp add: read_all_def switch_value_def)

text \<open>A field of a struct takes the values of its own name, and nothing else.\<close>

lemma set_fields_own:
  assumes own: "\<And>k js. to_lower k = to_lower name \<Longrightarrow> set_field tbl (k, js) = field rd sel upd js"
    and "\<And>x r. sel (upd x r) = x"
    and "\<And>k js r r'. to_lower k \<noteq> to_lower name \<Longrightarrow> set_field tbl (k, js) r = Inr r' \<Longrightarrow> sel r' = sel r"
  shows "set_fields tbl kvs old = Inr new \<Longrightarrow> read_all rd (named name kvs) (sel old) = Inr (sel new)"
proof (induction kvs arbitrary: old)
  case (Cons kv kvs)
  obtain k js where kv: "kv = (k, js)" by (cases kv)
  obtain mid where mid: "set_field tbl (k, js) old = Inr mid" and "set_fields tbl kvs mid = Inr new"
    using Cons.prems by (auto simp: kv sum_bind_def split: sum.splits)
  then have rest: "read_all rd (named name kvs) (sel mid) = Inr (sel new)" by (simp add: Cons.IH)
  show ?case
  proof (cases "to_lower k = to_lower name")
    case True
    then have "rd js (sel old) = Inr (sel mid)" using mid assms(2)
      by (auto simp: own field_def sum_bind_def split: sum.splits)
    then show ?thesis using rest True by (simp add: kv named_def read_all_Cons)
  next
    case False
    then show ?thesis using rest mid assms(3) by (simp add: kv named_def)
  qed
qed (simp add: named_def read_all_def)

lemma set_field_other:
  assumes "\<forall>(n, dec) \<in> set tbl. to_lower n \<noteq> to_lower name \<longrightarrow> (\<forall>js r r'. dec js r = Inr r' \<longrightarrow> sel r' = sel r)"
    and "to_lower k \<noteq> to_lower name" and "set_field tbl (k, js) r = Inr r'"
  shows "sel r' = sel r"
proof (cases "filter (\<lambda>(n, _). to_lower n = to_lower k) tbl")
  case Nil
  then show ?thesis using assms(3) by (simp add: set_field_def)
next
  case (Cons nd rest)
  obtain n dec where nd: "nd = (n, dec)" by (cases nd)
  have "(n, dec) \<in> set (filter (\<lambda>(n, _). to_lower n = to_lower k) tbl)" by (simp add: Cons nd)
  then have "(n, dec) \<in> set tbl" and "to_lower n \<noteq> to_lower name" using assms(2) by auto
  moreover have "dec js r = Inr r'" using assms(3) by (simp add: set_field_def Cons nd)
  ultimately show ?thesis using assms(1) by fastforce
qed

lemma field_keeps: "field rd sel' upd' js r = Inr r' \<Longrightarrow> (\<And>x r. sel (upd' x r) = sel r) \<Longrightarrow> sel r' = sel r"
  by (auto simp: field_def sum_bind_def split: sum.splits)

lemma lower_names:
  "to_lower ''Type'' = ''type''"
  "to_lower ''URL'' = ''url''"
  "to_lower ''TLSClientCert'' = ''tlsclientcert''"
  "to_lower ''TLSClientKey'' = ''tlsclientkey''"
  "to_lower ''InsecureSkipVerify'' = ''insecureskipverify''"
  "to_lower ''Project'' = ''project''"
  "to_lower ''Profile'' = ''profile''"
  "to_lower ''Target'' = ''target''"
  "to_lower ''ManagedNetworkAssignment'' = ''managednetworkassignment''"
  "to_lower ''Network'' = ''network''"
  "to_lower ''StoragePool'' = ''storagepool''"
  "to_lower ''PredeployStemcell'' = ''predeploystemcell''"
  "to_lower ''CreateVMLock'' = ''createvmlock''"
  "to_lower ''InstanceConfig'' = ''instanceconfig''"
  "to_lower ''Server'' = ''server''"
  "to_lower ''Agent'' = ''agent''"
  "to_lower ''AgentConfig'' = ''agentconfig''"
  "to_lower ''ThrottleConfig'' = ''throttleconfig''"
  "to_lower ''Enabled'' = ''enabled''"
  "to_lower ''Path'' = ''path''"
  "to_lower ''Limit'' = ''limit''"
  "to_lower ''Hold'' = ''hold''"
  by code_simp+

text \<open>The fields of the server configuration that have defaults.\<close>

lemma string_field:
  assumes "set_fields tbl kvs old = Inr new"
    and "\<And>k js. to_lower k = to_lower name \<Longrightarrow> set_field tbl (k, js) = field read_string sel upd js"
    and "\<And>x r. sel (upd x r) = x"
    and "\<forall>(n, dec) \<in> set tbl. to_lower n \<noteq> to_lower name \<longrightarrow> (\<forall>js r r'. dec js r = Inr r' \<longrightarrow> sel r' = sel r)"
  shows "sel new = string_value (sel old) (named name kvs)"
  by (rule read_all_string, rule set_fields_own [OF assms(2,3) _ assms(1)])
     (use set_field_other [OF assms(4)] in auto)

lemma switch_field:
  assumes "set_fields tbl kvs old = Inr new"
    and "\<And>k js. to_lower k = to_lower name \<Longrightarrow> set_field tbl (k, js) = field read_bool sel upd js"
    and "\<And>x r. sel (upd x r) = x"
    and "\<forall>(n, dec) \<in> set tbl. to_lower n \<noteq> to_lower name \<longrightarrow> (\<forall>js r r'. dec js r = Inr r' \<longrightarrow> sel r' = sel r)"
    and "\<not> sel old"
  shows "reads_switch (named name kvs) (sel new)"
proof -
  have "read_all read_bool (named name kvs) (sel old) = Inr (sel new)"
    by (rule set_fields_own [OF assms(2,3) _ assms(1)]) (use set_field_other [OF assms(4)] in auto)
  then show ?thesis using read_all_switch assms(5) by (auto simp: reads_switch_def)
qed

lemma config_switches:
  "set_fields server_fields kvs old = Inr new \<Longrightarrow> \<not> cfg_InsecureSkipVerify old \<Longrightarrow>
     reads_switch (named ''InsecureSkipVerify'' kvs) (cfg_InsecureSkipVerify new)"
  "set_fields server_fields kvs old = Inr new \<Longrightarrow> \<not> cfg_PredeployStemcell old \<Longrightarrow>
     reads_switch (named ''PredeployStemcell'' kvs) (cfg_PredeployStemcell new)"
  "set_fields throttle_fields kvs told = Inr tnew \<Longrightarrow> \<not> tc_Enabled told \<Longrightarrow>
     reads_switch (named ''Enabled'' kvs) (tc_Enabled tnew)"
  subgoal by (rule switch_field [where upd = "\<lambda>x r. r\<lparr>cfg_InsecureSkipVerify := x\<rparr>" and tbl = server_fields])
    (auto simp: set_field_def server_fields_def lower_names fun_eq_iff elim!: field_keeps)
  subgoal by (rule switch_field [where upd = "\<lambda>x r. r\<lparr>cfg_PredeployStemcell := x\<rparr>" and tbl = server_fields])
    (auto simp: set_field_def server_fields_def lower_names fun_eq_iff elim!: field_keeps)
  subgoal by (rule switch_field [where upd = "\<lambda>x r. r\<lparr>tc_Enabled := x\<rparr>" and tbl = throttle_fields])
    (auto simp: set_field_def throttle_fields_def lower_names fun_eq_iff elim!: field_keeps)
  done

lemma server_strings:
  assumes "set_fields server_fields kvs old = Inr new"
  shows "cfg_Type new = string_value (cfg_Type old) (named ''Type'' kvs)"
    and "cfg_URL new = string_value (cfg_URL old) (named ''URL'' kvs)"
    and "cfg_Project new = string_value (cfg_Project old) (named ''Project'' kvs)"
    and "cfg_Profile new = string_value (cfg_Profile old) (named ''Profile'' kvs)"
    and "cfg_Network new = string_value (cfg_Network old) (named ''Network'' kvs)"
    and "cfg_StoragePool new = string_value (cfg_StoragePool old) (named ''StoragePool'' kvs)"
  subgoal by (rule string_field [OF assms, where upd = "\<lambda>x r. r\<lparr>cfg_Type := x\<rparr>"])
    (auto simp: set_field_def server_fields_def lower_names fun_eq_iff elim!: field_keeps)
  subgoal by (rule string_field [OF assms, where upd = "\<lambda>x r. r\<lparr>cfg_URL := x\<rparr>"])
    (auto simp: set_field_def server_fields_def lower_names fun_eq_iff elim!: field_keeps)
  subgoal by (rule string_field [OF assms, where upd = "\<lambda>x r. r\<lparr>cfg_Project := x\<rparr>"])
    (auto simp: set_field_def server_fields_def lower_names fun_eq_iff elim!: field_keeps)
  subgoal by (rule string_field [OF assms, where upd = "\<lambda>x r. r\<lparr>cfg_Profile := x\<rparr>"])
    (auto simp: set_field_def server_fields_def lower_names fun_eq_iff elim!: field_keeps)
  subgoal by (rule string_field [OF assms, where upd = "\<lambda>x r. r\<lparr>cfg_Network := x\<rparr>"])
    (auto simp: set_field_def server_fields_def lower_names fun_eq_iff elim!: field_keeps)
  subgoal by (rule string_field [OF assms, where upd = "\<lambda>x r. r\<lparr>cfg_StoragePool := x\<rparr>"])
    (auto simp: set_field_def server_fields_def lower_names fun_eq_iff elim!: field_keeps)
  done

lemma config_server:
  assumes "parse_config bytes = Inr cfg" and "json_parse bytes = Some (JObj kvs)"
  shows "read_all (read_struct server_fields) (named ''Server'' kvs) (conf_Server default_config) = Inr (conf_Server cfg)"
proof (rule set_fields_own [where upd = "\<lambda>x r. r\<lparr>conf_Server := x\<rparr>" and tbl = config_fields])
  show "set_fields config_fields kvs default_config = Inr cfg"
    using assms by (simp add: parse_config_def read_struct_def)
  show "to_lower k = to_lower ''Server'' \<Longrightarrow> set_field config_fields (k, js) =
      field (read_struct server_fields) conf_Server (\<lambda>x r. r\<lparr>conf_Server := x\<rparr>) js" for k js
    by (rule ext) (simp add: set_field_def config_fields_def lower_names)
  show "to_lower k \<noteq> to_lower ''Server'' \<Longrightarrow> set_field config_fields (k, js) r = Inr r' \<Longrightarrow>
      conf_Server r' = conf_Server r" for k js r r'
    by (rule set_field_other [where name = "''Server''"], simp_all)
       (auto simp: config_fields_def lower_names elim!: field_keeps)
qed simp

lemma config_throttle:
  assumes "parse_config bytes = Inr cfg" and "json_parse bytes = Some (JObj kvs)"
  shows "read_all (read_struct throttle_fields) (named ''ThrottleConfig'' kvs) (conf_ThrottleConfig default_config) =
    Inr (conf_ThrottleConfig cfg)"
proof (rule set_fields_own [where upd = "\<lambda>x r. r\<lparr>conf_ThrottleConfig := x\<rparr>" and tbl = config_fields])
  show "set_fields config_fields kvs default_config = Inr cfg"
    using assms by (simp add: parse_config_def read_struct_def)
  show "to_lower k = to_lower ''ThrottleConfig'' \<Longrightarrow> set_field config_fields (k, js) =
      field (read_struct throttle_fields) conf_ThrottleConfig (\<lambda>x r. r\<lparr>conf_ThrottleConfig := x\<rparr>) js" for k js
    by (rule ext) (simp add: set_field_def config_fields_def lower_names)
  show "to_lower k \<noteq> to_lower ''ThrottleConfig'' \<Longrightarrow> set_field config_fields (k, js) r = Inr r' \<Longrightarrow>
      conf_ThrottleConfig r' = conf_ThrottleConfig r" for k js r r'
    by (rule set_field_other [where name = "''ThrottleConfig''"], simp_all)
       (auto simp: config_fields_def lower_names elim!: field_keeps)
qed simp

lemma read_one_part:
  assumes "read_all (read_struct tbl) (map JObj parts) old = Inr new" and "length parts \<le> 1"
  shows "set_fields tbl (concat parts) old = Inr new"
proof (cases parts)
  case Nil
  then show ?thesis using assms(1) by (simp add: read_all_def)
next
  case (Cons p ps)
  then have "parts = [p]" using assms(2) by simp
  then show ?thesis using assms(1) by (simp add: read_all_def read_struct_def)
qed

lemma config_parts:
  assumes "parse_config bytes = Inr cfg" and "json_parse bytes = Some (JObj kvs)"
    and "named ''Server'' kvs = map JObj parts" and "length parts \<le> 1"
    and "named ''ThrottleConfig'' kvs = map JObj tparts" and "length tparts \<le> 1"
  shows "set_fields server_fields (concat parts) (conf_Server default_config) = Inr (conf_Server cfg)"
    and "set_fields throttle_fields (concat tparts) (conf_ThrottleConfig default_config) = Inr (conf_ThrottleConfig cfg)"
  using config_server [OF assms(1,2)] config_throttle [OF assms(1,2)] assms(3-6) by (auto intro!: read_one_part)

lemma config_switches_read:
  assumes "parse_config bytes = Inr cfg" and "json_parse bytes = Some (JObj kvs)"
    and "named ''Server'' kvs = map JObj parts" and "length parts \<le> 1"
    and "named ''ThrottleConfig'' kvs = map JObj tparts" and "length tparts \<le> 1"
  shows "reads_switch (named ''InsecureSkipVerify'' (concat parts)) (cfg_InsecureSkipVerify (conf_Server cfg))"
    and "reads_switch (named ''PredeployStemcell'' (concat parts)) (cfg_PredeployStemcell (conf_Server cfg))"
    and "reads_switch (named ''Enabled'' (concat tparts)) (tc_Enabled (conf_ThrottleConfig cfg))"
  using config_switches(1,2) [OF config_parts(1) [OF assms]] config_switches(3) [OF config_parts(2) [OF assms]]
  by (simp_all add: default_config_def)

text \<open>
  C40.  Reading the configuration.  When the file holds a JSON object with at most one \<open>Server\<close> and at most
  one \<open>ThrottleConfig\<close> part, each of the text fields that have a default takes the last text given under
  its name, in any case of letters, and keeps its default otherwise.  The switches are off unless the last
  value given says otherwise, and every value given is \<open>true\<close>, \<open>false\<close> or \<open>null\<close>: a configuration with a
  switch that is written as a text, such as ''false'' in quotes, is refused.
\<close>

theorem config_defaults:
  assumes "parse_config bytes = Inr cfg" and "json_parse bytes = Some (JObj kvs)"
    and "named ''Server'' kvs = map JObj parts" and "length parts \<le> 1"
    and "named ''ThrottleConfig'' kvs = map JObj tparts" and "length tparts \<le> 1"
  shows "let skvs = concat parts; sc = conf_Server cfg in
     cfg_Type sc = string_value ''lxd'' (named ''Type'' skvs) \<and>
     cfg_URL sc = string_value ''https://localhost:8443'' (named ''URL'' skvs) \<and>
     cfg_Project sc = string_value ''default'' (named ''Project'' skvs) \<and>
     cfg_Profile sc = string_value ''default'' (named ''Profile'' skvs) \<and>
     cfg_Network sc = string_value ''lxdbr0'' (named ''Network'' skvs) \<and>
     cfg_StoragePool sc = string_value ''default'' (named ''StoragePool'' skvs) \<and>
     reads_switch (named ''InsecureSkipVerify'' skvs) (cfg_InsecureSkipVerify sc) \<and>
     reads_switch (named ''PredeployStemcell'' skvs) (cfg_PredeployStemcell sc) \<and>
     reads_switch (named ''Enabled'' (concat tparts)) (tc_Enabled (conf_ThrottleConfig cfg))"
  using server_strings [OF config_parts(1) [OF assms]] config_switches_read [OF assms]
  by (simp add: Let_def default_config_def)

definition sample_config :: "json gomap" where
  "sample_config = [(''Server'', JObj [(''type'', JStr ''incus''), (''StoragePool'', JStr ''ssd''), (''URL'', JNull)])]"

definition quoted_config :: "json gomap" where
  "quoted_config = [(''ThrottleConfig'', JObj [(''Enabled'', JStr ''false'')])]"

theorem config_defaults_witness:
  "(\<exists>cfg. parse_config (json_print (JObj sample_config)) = Inr cfg \<and> cfg_Type (conf_Server cfg) = ''incus'' \<and>
     cfg_URL (conf_Server cfg) = ''https://localhost:8443'' \<and> cfg_StoragePool (conf_Server cfg) = ''ssd'' \<and>
     cfg_Network (conf_Server cfg) = ''lxdbr0'') \<and>
   (\<nexists>cfg. parse_config (json_print (JObj quoted_config)) = Inr cfg)"
proof (intro conjI notI)
  have low: "to_lower ''type'' = ''type''" by code_simp
  have parse: "parse_config (json_print v) = read_struct config_fields v default_config" for v
    by (simp only: parse_config_def json_parse_print option.case)
  obtain cfg where cfg: "parse_config (json_print (JObj sample_config)) = Inr cfg"
    unfolding parse
    by (simp add: read_struct_def sample_config_def set_field_def config_fields_def
        server_fields_def lower_names low field_def)
  have "named ''Server'' sample_config = map JObj [[(''type'', JStr ''incus''), (''StoragePool'', JStr ''ssd''), (''URL'', JNull)]]"
    and "named ''ThrottleConfig'' sample_config = map JObj []"
    by (simp_all add: named_def sample_config_def lower_names)
  from config_defaults [OF cfg json_parse_print this(1) _ this(2)]
  show "\<exists>cfg. parse_config (json_print (JObj sample_config)) = Inr cfg \<and> cfg_Type (conf_Server cfg) = ''incus'' \<and>
     cfg_URL (conf_Server cfg) = ''https://localhost:8443'' \<and> cfg_StoragePool (conf_Server cfg) = ''ssd'' \<and>
     cfg_Network (conf_Server cfg) = ''lxdbr0''"
    by (intro exI [of _ cfg] conjI cfg) (simp_all add: named_def lower_names low string_value_def Let_def)
next
  assume "\<exists>cfg. parse_config (json_print (JObj quoted_config)) = Inr cfg"
  then obtain cfg where cfg: "parse_config (json_print (JObj quoted_config)) = Inr cfg" by blast
  have "named ''Server'' quoted_config = map JObj []"
    and "named ''ThrottleConfig'' quoted_config = map JObj [[(''Enabled'', JStr ''false'')]]"
    by (simp_all add: named_def quoted_config_def lower_names)
  from config_defaults [OF cfg json_parse_print this(1) _ this(2)] show False
    by (simp add: named_def lower_names reads_switch_def Let_def)
qed

end
