(* ===== verification/Scenarios.thy ===== *)
theory Scenarios
  imports DemoServer EditProps CpiDiskProps ProgramProps
begin

text \<open>
  Properties whose point is a whole run, with the run on the small server that shows them.
\<close>

section \<open>LXD and Incus\<close>

theorem server_type_transparent_witness:
  "agree (DeleteVM (on_lxd demo_lxd FAT32 demo_machine demo_cpi) ''vm-1'')
     (DeleteVM (on_incus demo_lxd FAT32 demo_machine demo_cpi) ''vm-1'')"
proof -
  have "prompt_server (lx_server demo_lxd)" by (simp add: demo_lxd_def demo_prompt)
  from server_type_transparent [OF this] show ?thesis by blast
qed

lemmas demo_defs = demo_start_def demo_cpi_def demo_config_def demo_lxd_def demo_server_def demo_machine_def
  demo_error_def demo_add_volume_def demo_member_def demo_get_instance_def

section \<open>The server shows a cloud\<close>

definition demo_view :: "demo \<Rightarrow> cloud" where
  "demo_view w = \<lparr>cl_devices = (\<lambda>n. map_option (\<lambda>(i, st). ip_devices (ins_put i)) (gm_find (demo_instances w) n)),
     cl_volumes = {(l, v). l = ''node-1'' \<and> gm_find (demo_volumes w) v \<noteq> None}\<rparr>"

lemma step_eq: "cloud_step q c c1 \<Longrightarrow> c1 = c2 \<Longrightarrow> cloud_step q c c2"
  by simp

lemma demo_refused [simp]: "cloud_event (EvReq q (demo_error m)) c c' \<longleftrightarrow> c' = c"
  by (simp add: demo_error_def)

lemma demo_target: "demo_member cn \<longleftrightarrow> at_target cn ''node-1''"
  by (auto simp: demo_member_def at_target_def)

lemma demo_volume_steps:
  "cloud_event (EvReq (ReqCreateVolume cn p post) (fst (demo_add_volume cn (svpost_name post) cfg w))) (demo_view w)
     (demo_view (snd (demo_add_volume cn (svpost_name post) cfg w)))"
  "cloud_event (EvReq (ReqCreateVolumeFromISO cn p args) (fst (demo_add_volume cn (iso_name args) cfg w))) (demo_view w)
     (demo_view (snd (demo_add_volume cn (iso_name args) cfg w)))"
  "demo_member cn \<Longrightarrow> cloud_step (ReqDeleteVolume cn p ty v) (demo_view w) (demo_view (w\<lparr>demo_volumes := gm_del v (demo_volumes w)\<rparr>))"
  unfolding demo_target demo_add_volume_def
  by (auto simp: demo_view_def intro!: cloud_step.create_volume [THEN step_eq] cloud_step.create_from_iso [THEN step_eq]
      cloud_step.delete_volume [THEN step_eq] split: if_splits)

lemma demo_instance_steps:
  "cloud_event (EvReq q (fst (demo_request q w))) (demo_view w) (demo_view (snd (demo_request q w)))"
  if "q = ReqCreateInstance cn post \<or> q = ReqDeleteInstance cn n \<or> q = ReqUpdateInstance cn n put t \<or>
    q = ReqUpdateInstanceState cn n st t"
  using that
  by (elim disjE) (auto simp: demo_view_def fun_eq_iff stop_step split: option.splits
      intro!: cloud_step.create_instance [THEN step_eq] cloud_step.delete_instance [THEN step_eq]
        cloud_step.update_instance [THEN step_eq])

lemma demo_request_steps: "cloud_world demo_view (EvReq q (fst (demo_request q w))) w (snd (demo_request q w))"
  unfolding cloud_world_def
  by (cases q; (rule demo_instance_steps, blast)?) (auto simp: demo_volume_steps)

lemma demo_shows_cloud: "shows_cloud demo_view (Lxd demo_lxd) demo_machine demo_cpi"
proof -
  have "server_steps (cloud_world demo_view) demo_server"
    using demo_request_steps
    by (auto simp: server_steps_def answers_def demo_server_def cloud_world_def demo_error_def demo_get_instance_def
        demo_view_def split: option.splits prod.splits)
  then show ?thesis
    by (auto simp: shows_cloud_def world_steps_def machine_steps_def library_steps_def answers_def cloud_world_def
        demo_lxd_def demo_machine_def demo_cpi_def demo_error_def demo_view_def)
qed

text \<open>The server with one VM, its settings disk and a persistent disk attached to it.\<close>

definition demo_instance :: vm_instance where
  "demo_instance = \<lparr>ins_put = \<lparr>ip_architecture = [], ip_config = [], ip_devices = [(''config'', [(''type'', ''disk''),
       (''source'', ''vol-c-1'')]), (''persistent-1'', [(''type'', ''disk''), (''source'', ''vol-p-1'')])],
     ip_ephemeral = False, ip_profiles = [], ip_restore = [], ip_stateful = False, ip_description = []\<rparr>,
     ins_name = ''vm-1'', ins_location = ''node-1''\<rparr>"

definition demo_volume :: "string \<Rightarrow> string \<times> storage_volume" where
  "demo_volume v = (v, \<lparr>sv_name = v, sv_location = ''node-1'', sv_description = [], sv_config = [], sv_used_by = []\<rparr>)"

definition demo_running :: "(event, demo) sys" where
  "demo_running = (demo_start 9)\<lparr>world := \<lparr>demo_instances = [(''vm-1'', demo_instance, api_Running)],
     demo_volumes = [demo_volume ''vol-c-1'', demo_volume ''vol-p-1''], demo_quota = 9, demo_count = 1\<rparr>\<rparr>"

lemma demo_running_safe: "safe_disk ''vol-p-1'' (demo_view (world demo_running))"
  by (auto simp: safe_disk_def demo_view_def demo_running_def demo_instance_def demo_volume_def owned_disks_def
      DISK_DEVICE_CONFIG_def DISK_DEVICE_EPHEMERAL_def gm_get_def)

theorem persistent_disk_survives_witness:
  "\<exists>l. (l, ''vol-p-1'') \<in> cl_volumes (demo_view (world (fold (after_call (on_lxd demo_lxd FAT32 demo_machine demo_cpi))
     [CallDeleteVM ''vm-1'', CallDeleteDisk ''vol-p-2'', CallCreateDisk 10 (Some ''vm-1'')] demo_running)))"
proof -
  from persistent_disk_survives [OF demo_shows_cloud _ demo_running_safe, where k = FAT32
      and calls = "[CallDeleteVM ''vm-1'', CallDeleteDisk ''vol-p-2'', CallCreateDisk 10 (Some ''vm-1'')]"]
  show ?thesis by (simp add: safe_disk_def)
qed



theorem written_requests_are_called_witness:
  "Dispatch id (io_ret demo_cpi) (json_print (request_json ''attach_disk'' [JStr ''vm-1'', JStr ''vol-p-7''] JNull 2)) =
    io_try (AttachDiskV2 demo_cpi ''vm-1'' ''vol-p-7'') (\<lambda>err. io_ret (cloudError err))
      (\<lambda>result. io_ret (response_bytes result None))"
  using written_requests_are_called [where ord = id and c = demo_cpi and version = 2 and m = "''attach_disk''"
      and vals = "[ACid ''vm-1'', ACid ''vol-p-7'']" and extra = "[]" and ctx = JNull]
  by (simp add: actions_def stemcell_actions_def vm_actions_def disk_actions_def)

text \<open>The request a director sends for a disk that is not for a VM yet.\<close>

theorem disk_without_vm_crashes_witness:
  "emits (Dispatch id (io_ret (on_lxd demo_lxd FAT32 demo_machine demo_cpi))
      (json_print (request_json ''create_disk'' [JNum 1024, JObj [], JNull] JNull 2)))
    (\<lambda>r ts. no_vm_contract (lx_conn demo_lxd) r ts \<and> (\<forall>answer. r = Ok answer \<longrightarrow> (\<exists>err. answer = cloudError err)))"
  using disk_without_vm_crashes [where sz = 1024 and props = "JObj []" and extra = "[]" and a = "Lxd demo_lxd"
      and k = FAT32 and version = 2 and ord = id and L = demo_machine and c = demo_cpi and ctx = JNull]
  by (simp add: small_def normal_def sort_map_def gm_of_list_def del: json_print.simps)

lemma demo_delete_run:
  "case DeleteVM (on_lxd demo_lxd FAT32 demo_machine demo_cpi) ''vm-1'' (demo_running\<lparr>trace := ts\<rparr>) of (r, s') \<Rightarrow>
     r = Ok () \<and> demo_instances (world s') = [] \<and> map fst (demo_volumes (world s')) = [''vol-p-1'']"
  by (simp add: demo_running_def demo_instance_def demo_volume_def DeleteVM_def HasVM_def cpi_on_def demo_defs io_run
      lxd_defs lxd_wait_def lxd_checkError_def findDisksAttachedToVm_def disks_of_def delete_vm_disk_def
      DISK_DEVICE_CONFIG_def DISK_DEVICE_EPHEMERAL_def gm_get_def NewFAT32Manager_def afm_Delete_def os_Remove_def
      os_IsNotExist_def no_such_file_def at_requested_state_def api_Stopped_def api_Stopping_def api_Running_def
      api_Started_def Let_def)

theorem delete_vm_refines_removal_witness:
  "case DeleteVM (on_lxd demo_lxd FAT32 demo_machine demo_cpi) ''vm-1'' demo_running of (r, s') \<Rightarrow>
     vm_removed (lx_conn demo_lxd) ''vm-1'' (demo_view (world demo_running)) (demo_view (world s'))"
proof -
  obtain r s' where run: "DeleteVM (on_lxd demo_lxd FAT32 demo_machine demo_cpi) ''vm-1'' demo_running = (r, s')"
    by (cases "DeleteVM (on_lxd demo_lxd FAT32 demo_machine demo_cpi) ''vm-1'' demo_running")
  have ok: "r = Ok ()" "demo_instances (world s') = []" using demo_delete_run [of "trace demo_running"] run by auto
  have "demo_view (world s') \<noteq> demo_view (world demo_running)"
    using ok(2) by (auto simp: demo_view_def demo_running_def fun_eq_iff intro!: exI [of _ "''vm-1''"])
  then show ?thesis
    using delete_vm_refines_removal [OF demo_shows_cloud run [unfolded ok(1)]] unfolding run by simp
qed

lemma demo_attach_run:
  "case AttachDevice (adapter_of (Lxd demo_lxd)) ''vm-1'' ''data'' [(''source'', ''v'')] demo_running of (r, s') \<Rightarrow>
     r = Ok () \<and> fst (DetachDeviceByName (adapter_of (Lxd demo_lxd)) ''vm-1'' ''data'' s') = Ok ()"
  by (simp add: demo_running_def demo_instance_def demo_volume_def demo_defs io_run lxd_defs lxd_wait_def
      lxd_checkError_def Let_def)

theorem attach_detach_restores_witness:
  "case AttachDevice (adapter_of (Lxd demo_lxd)) ''vm-1'' ''data'' [(''source'', ''v'')] demo_running of (r, s1) \<Rightarrow>
     (case DetachDeviceByName (adapter_of (Lxd demo_lxd)) ''vm-1'' ''data'' s1 of (r', s2) \<Rightarrow>
        demo_view (world s2) = demo_view (world demo_running))"
proof -
  obtain r s1 where run: "AttachDevice (adapter_of (Lxd demo_lxd)) ''vm-1'' ''data'' [(''source'', ''v'')] demo_running = (r, s1)"
    by (cases "AttachDevice (adapter_of (Lxd demo_lxd)) ''vm-1'' ''data'' [(''source'', ''v'')] demo_running")
  obtain r' s2 where run': "DetachDeviceByName (adapter_of (Lxd demo_lxd)) ''vm-1'' ''data'' s1 = (r', s2)"
    by (cases "DetachDeviceByName (adapter_of (Lxd demo_lxd)) ''vm-1'' ''data'' s1")
  have "r = Ok ()" and "r' = Ok ()" using demo_attach_run unfolding run run' prod.case fst_conv by blast+
  then show ?thesis
    using attach_detach_restores [OF demo_shows_cloud run [unfolded \<open>r = Ok ()\<close>] run' [unfolded \<open>r' = Ok ()\<close>]]
    unfolding run prod.case run' by blast
qed

section \<open>A VM without an owner\<close>

fun deletes_instance :: "request \<Rightarrow> bool" where
  "deletes_instance (ReqDeleteInstance _ _) = True" | "deletes_instance _ = False"

fun creates_instance :: "string \<Rightarrow> request \<Rightarrow> bool" where
  "creates_instance n (ReqCreateInstance _ post) = (ipost_name post = n)" | "creates_instance n _ = False"

lemma setup_step_keeps_instance: "setup_step cn pool vm ts q \<Longrightarrow> \<not> deletes_instance q"
  by (cases q) (auto simp: setup_step_def new_settings_volume_def old_settings_deletion_def)

lemma removal_requests:
  assumes "delete_vm_contract cn pool p vm r ts" and "q \<in> set (effects ts)"
  shows "q = stop_request cn vm \<or> q = ReqDeleteInstance cn vm \<or> (\<exists>v. q = ReqDeleteVolume cn pool ''custom'' v)"
proof -
  consider "effects ts = []" | stop ds where "prefix (effects ts) (stop @ removal cn pool vm ds)"
      "stop = [] \<or> stop = [stop_request cn vm]" | "effects ts = [stop_request cn vm]"
    using assms(1) unfolding delete_vm_contract_def by blast
  then show ?thesis
  proof cases
    case 2
    then have "q \<in> set (stop @ removal cn pool vm ds)" using assms(2) set_mono_prefix by blast
    then show ?thesis using 2(2) by (auto simp: removal_def)
  qed (use assms(2) in auto)
qed

lemma removal_no_volume:
  assumes "delete_vm_contract cn pool p vm r ts"
  shows "\<not> refused_of is_new_volume ts"
  using removal_requests [OF assms] by (intro not_refused_of) (fastforce simp: list_all_iff stop_request_def)

text \<open>
  C24.  A VM can be left behind.  When the server refuses the ephemeral disk of a new VM, creating the VM
  fails, but the run does not ask for the instance to be deleted, although it asked for its creation
  under a generated name that only the caller of the failed call could have learned.
\<close>

theorem failed_disk_leaves_vm:
  assumes "CreateVMV2 (cpi_on a k L c) agent stemcell cprops nets env s = (r, s')"
    and "trace s' = trace s @ ts" and "refused_of is_new_volume ts"
  shows "\<not> is_Ok r \<and> (\<exists>u. EvUuid (Inr u) \<in> set ts \<and> list_ex (creates_instance (''vm-'' @ u)) (effects ts)) \<and>
    \<not> list_ex deletes_instance (effects ts)"
proof -
  obtain ts' where "trace s' = trace s @ ts'" and "create_vm_contract (conn_of a) (cpi_pool c) (settings_path c) r ts'"
    using emitsD [OF built.CreateVMV2_contract assms(1)] by (metis cpi_on_simps(3))
  then have con: "create_vm_contract (conn_of a) (cpi_pool c) (settings_path c) r ts" using assms(2) by simp
  have "effects ts \<noteq> []" using refused_of_effect [OF assms(3)] by auto
  then obtain u m rest pre suf where u: "EvUuid (Inr u) \<in> set ts" "meta_Name m = ''vm-'' @ u" "ts = pre @ suf"
    "effects pre = ReqCreateInstance (target_conn (meta_Target m) (conn_of a)) (instances_post_of m) # rest"
    "list_all (setup_step (conn_of a) (cpi_pool c) (''vm-'' @ u) pre) rest"
    "suf = [] \<or> (\<exists>r'. gated (conn_of a) r' suf \<and>
      delete_vm_contract (conn_of a) (cpi_pool c) (settings_path c (''vm-'' @ u)) (''vm-'' @ u) r' suf)"
    "\<forall>vm nets. r = Ok (vm, nets) \<longrightarrow> vm = ''vm-'' @ u \<and> suf = [] \<and> \<not> refused pre"
    "refused_of is_new_volume pre \<longrightarrow> suf = []"
    using con unfolding create_vm_contract_def by blast
  have pre: "refused_of is_new_volume pre" using assms(3) u(3,6) removal_no_volume by fastforce
  then have suf: "suf = []" using u(8) by simp
  have "\<not> is_Ok r" using u(7) refused_of_refused [OF pre] by (cases r) auto
  moreover have "list_all (\<lambda>q. \<not> deletes_instance q) rest"
    using u(5) setup_step_keeps_instance by (auto simp: list_all_iff)
  ultimately show ?thesis using u(1,2,3,4) suf
    by (auto simp: list_all_iff list_ex_iff instances_post_of_def)
qed

definition demo_create :: "(string \<times> networks) res \<times> (event, demo) sys" where
  "demo_create = CreateVMV2 (on_lxd demo_lxd FAT32 demo_machine demo_cpi) ''agent'' ''img-1''
     (JObj [(''instance_type'', JStr ''c1-m1''), (''ephemeral_disk'', JNum 1024)]) [] None (demo_start 0)"

lemma demo_leak_run:
  "case demo_create of (r, s') \<Rightarrow> refused_of is_new_volume (trace s') \<and> map fst (demo_instances (world s')) = [''vm-u'']"
  by (simp add: demo_create_def CreateVMV2_def cpi_on_def demo_defs Let_def io_run lxd_defs dec_vm_props_def
      dec_field_def json_field_def to_lower_def to_lower_char_def config_loop.simps select_config_def
      createVMWithLock_def vm_metadata_def with_cleanup_def setup_vm_def outer_def inner_def lxd_wait_def
      lxd_checkError_def instances_post_of_def DISK_EPHEMERAL_PREFIX_def volume_post_of_def)

theorem failed_disk_leaves_vm_witness:
  "case demo_create of (r, s') \<Rightarrow> \<not> is_Ok r \<and> \<not> list_ex deletes_instance (effects (trace s')) \<and>
     map fst (demo_instances (world s')) = [''vm-u'']"
proof -
  obtain r s' where run: "demo_create = (r, s')" by (cases demo_create)
  have run': "refused_of is_new_volume (trace s')" "map fst (demo_instances (world s')) = [''vm-u'']"
    using demo_leak_run unfolding run prod.case by blast+
  have "trace s' = trace (demo_start 0) @ trace s'" by (simp add: demo_start_def)
  from failed_disk_leaves_vm [OF run [unfolded demo_create_def] this run'(1)] run'(2) show ?thesis
    unfolding run by simp
qed

section \<open>One run of the program\<close>

definition demo_library :: "demo client_library" where
  "demo_library = \<lparr>lib_Connect = (\<lambda>url args. Pair (Inr ())), lib_Server = (\<lambda>url args. demo_server)\<rparr>"

definition demo_build :: "demo ApiAdapter \<Rightarrow> Config \<Rightarrow> gerr + demo CPI" where
  "demo_build = NewCPI demo_machine (\<lambda>_. Inr 0) (\<lambda>_ _. cpi_TryLock demo_cpi) (\<lambda>_. cpi_Unlock demo_cpi)
     (cpi_uuidGen demo_cpi) (cpi_OpenFile demo_cpi) (cpi_GzipReader demo_cpi)"

definition demo_process :: "(demo, unit) program_state" where
  "demo_process = \<lparr>world = \<lparr>pw_outside = world demo_running, pw_throttle = ()\<rparr>, files = files demo_running, trace = []\<rparr>"

definition demo_network :: "(unit, unit) network_library" where
  "demo_network = \<lparr>net_Dial = (\<lambda>path. Pair (demo_error ''no throttle'')), net_Http = (\<lambda>_. \<lparr>
     hc_Post = (\<lambda>_. Pair (None, Some (GoError ''no throttle''))), hc_Delete = (\<lambda>_. Pair (None, Some (GoError ''no throttle''))),
     tm_Sleep = (\<lambda>_ u. u)\<rparr>)\<rparr>"

abbreviation demo_serving :: "string \<Rightarrow> (demo, unit, unit) program" where
  "demo_serving bytes \<equiv> serving (Pair (Inr bytes)) (\<lambda>_. Pair (Inr ())) id id
     (CPIFactory_New demo_library demo_library demo_build) demo_config"

lemma demo_dispatch_run:
  "case Dispatch id (CPIFactory_New demo_library demo_library demo_build demo_config)
       (json_print (request_json ''delete_vm'' [JStr ''vm-1''] JNull 2)) (demo_running\<lparr>trace := []\<rparr>) of (r, s') \<Rightarrow>
     is_Ok r \<and> demo_instances (world s') = []"
proof -
  have built: "CPIFactory_New demo_library demo_library demo_build demo_config =
      connected_cpi [] (Pair (Inr ())) (on_lxd demo_lxd FAT32 demo_machine demo_cpi)"
    using factory_connected [of demo_library demo_library demo_config "Lxd demo_lxd" demo_machine "\<lambda>_. Inr 0"
        "\<lambda>_ _. cpi_TryLock demo_cpi" "\<lambda>_. cpi_Unlock demo_cpi" "cpi_uuidGen demo_cpi" "cpi_OpenFile demo_cpi"
        "cpi_GzipReader demo_cpi" "on_lxd demo_lxd FAT32 demo_machine demo_cpi"]
    unfolding demo_build_def
    by (simp add: chosen_adapter_def NewCPI_eq chosen_format_def chosen_library_def demo_library_def demo_lxd_def
        demo_config_def demo_cpi_def configured_conn_eq cpi_on_def)
  obtain r s' where run: "DeleteVM (on_lxd demo_lxd FAT32 demo_machine demo_cpi) ''vm-1''
      (demo_running\<lparr>trace := [EvConnect [] (Inr ())]\<rparr>) = (r, s')" by fastforce
  show ?thesis
    using demo_delete_run [of "[EvConnect [] (Inr ())]"]
    by (simp add: run built connected_cpi_def Dispatch_def read_written Create_def Call_def actions_def stemcell_actions_def
        vm_actions_def disk_actions_def io_run nothing_def extractMethodArgs_def read_arg_eq dec_cid_def io_lift_def del: json_print.simps)
qed

theorem one_answer_per_run_witness:
  "case cpi_run LevelError demo_network (demo_serving (json_print (request_json ''delete_vm'' [JStr ''vm-1''] JNull 2)))
       (conf_ThrottleConfig demo_config) demo_process of
     None \<Rightarrow> False
   | Some (ending, s') \<Rightarrow> ending = Exited 0 [] \<and> demo_instances (pw_outside (world s')) = [] \<and>
       (\<exists>bytes. written (trace s') = [(bytes, Inr ())] \<and> answer_document bytes)"
proof -
  let ?request = "json_print (request_json ''delete_vm'' [JStr ''vm-1''] JNull 2)"
  obtain r t where dispatched: "Dispatch id (CPIFactory_New demo_library demo_library demo_build demo_config)
      ?request (demo_running\<lparr>trace := []\<rparr>) = (r, t)" by fastforce
  have ok: "is_Ok r" and gone: "demo_instances (world t) = []" using demo_dispatch_run unfolding dispatched by auto
  have start: "demo_running\<lparr>trace := []\<rparr> = \<lparr>world = world demo_running, files = files demo_running, trace = []\<rparr>"
    by (cases demo_running) simp
  have off: "\<not> tc_Enabled (conf_ThrottleConfig demo_config)" by (simp add: demo_config_def)
  obtain s' where run: "cpi_run LevelError demo_network (demo_serving ?request) (conf_ThrottleConfig demo_config)
      demo_process = Some (Exited 0 [], s')" and s': "pw_outside (world s') = world t"
    using ok dispatched start off
    by (cases r) (auto simp: cpi_run_def serve_and_release_def serving_def ServeOnce_def io_run
        outside_ext_def on_outside_def io_on_def demo_process_def release_def)
  have well: "is_Inr w \<Longrightarrow> w = Inr ()" for w :: "gerr + unit" by (cases w) simp_all
  from one_answer_per_run [OF run [unfolded demo_build_def]] show ?thesis
    using run s' gone well
    by (auto simp: at_most_one_answer_def clean_exit_def demo_process_def)
qed

end
