(* ===== verification/CloudRuns.thy ===== *)
theory CloudRuns
  imports CloudCalls Scenarios
begin

text \<open>
  Runs on the small server that show the refinements of the VM and disk calls: making a VM, attaching a
  disk to a VM, detaching it, and removing the VM again.
\<close>

section \<open>Running step by step\<close>

text \<open>From this world and these files, \<open>m\<close> succeeds with \<open>x\<close> in that world with those files.\<close>

definition reaches :: "('w, 'a) go \<Rightarrow> 'w \<Rightarrow> (string \<rightharpoonup> string) \<Rightarrow> 'a \<Rightarrow> 'w \<Rightarrow> (string \<rightharpoonup> string) \<Rightarrow> bool" where
  "reaches m w f x w' f' \<longleftrightarrow> (\<forall>t. \<exists>t'. m \<lparr>world = w, files = f, trace = t\<rparr> = (Ok x, \<lparr>world = w', files = f', trace = t'\<rparr>))"

lemma reaches_ret: "x = y \<Longrightarrow> reaches (io_ret x) w f y w f"
  by (auto simp: reaches_def io_run)

lemma reaches_cid: "s \<noteq> [] \<Longrightarrow> reaches (new_cid s) w f s w f"
  by (simp add: reaches_ret)

lemma reaches_scoped:
  "reaches (k x) w f y w' f' \<Longrightarrow>
   reaches (case Returned x of Returned z \<Rightarrow> k z | OuterErr e \<Rightarrow> h e | InnerErr e \<Rightarrow> i e) w f y w' f'"
  by simp

lemma reaches_lift: "q = Inr x \<Longrightarrow> reaches (io_lift q) w f x w f"
  by (auto simp: reaches_def io_run)

lemma reaches_ext: "fst (g w) = Inr x \<Longrightarrow> snd (g w) = w' \<Longrightarrow> reaches (io_ext ev g) w f x w' f"
  by (cases "g w") (auto simp: reaches_def io_run)

lemma reaches_try:
  assumes "reaches m w f x w1 f1" and "reaches (k x) w1 f1 y w' f'"
  shows "reaches (io_try m h k) w f y w' f'"
  unfolding reaches_def
proof
  fix t
  obtain t1 where "m \<lparr>world = w, files = f, trace = t\<rparr> = (Ok x, \<lparr>world = w1, files = f1, trace = t1\<rparr>)"
    using assms(1) unfolding reaches_def by blast
  moreover obtain t2 where "k x \<lparr>world = w1, files = f1, trace = t1\<rparr> = (Ok y, \<lparr>world = w', files = f', trace = t2\<rparr>)"
    using assms(2) unfolding reaches_def by blast
  ultimately show "\<exists>t'. io_try m h k \<lparr>world = w, files = f, trace = t\<rparr> = (Ok y, \<lparr>world = w', files = f', trace = t'\<rparr>)"
    by (simp add: io_try_run)
qed

lemma reaches_bind: "reaches m w f x w1 f1 \<Longrightarrow> reaches (k x) w1 f1 y w' f' \<Longrightarrow> reaches (io_bind m k) w f y w' f'"
  unfolding io_bind_def by (rule reaches_try)

lemma reaches_wrap: "reaches m w f x w1 f1 \<Longrightarrow> reaches (k x) w1 f1 y w' f' \<Longrightarrow> reaches (io_wrap m msg k) w f y w' f'"
  unfolding io_wrap_def by (rule reaches_try)

lemma reaches_finally:
  assumes "reaches m w f x w1 f1" and "reaches d w1 f1 y w' f'"
  shows "reaches (io_finally m d) w f x w' f'"
  unfolding reaches_def
proof
  fix t
  obtain t1 where "m \<lparr>world = w, files = f, trace = t\<rparr> = (Ok x, \<lparr>world = w1, files = f1, trace = t1\<rparr>)"
    using assms(1) unfolding reaches_def by blast
  moreover obtain t2 where "d \<lparr>world = w1, files = f1, trace = t1\<rparr> = (Ok y, \<lparr>world = w', files = f', trace = t2\<rparr>)"
    using assms(2) unfolding reaches_def by blast
  ultimately show "\<exists>t'. io_finally m d \<lparr>world = w, files = f, trace = t\<rparr> = (Ok x, \<lparr>world = w', files = f', trace = t'\<rparr>)"
    by (simp add: io_finally_run)
qed

lemma reaches_let: "reaches (f x) w fs y w' f' \<Longrightarrow> reaches (let z = x in f z) w fs y w' f'"
  by simp

lemma reaches_pair: "reaches (g a b) w f y w' f' \<Longrightarrow> reaches (case (a, b) of (x, y) \<Rightarrow> g x y) w f y w' f'"
  by simp

lemma reaches_if:
  "b \<Longrightarrow> reaches m w f x w' f' \<Longrightarrow> reaches (if b then m else n) w f x w' f'"
  "\<not> b \<Longrightarrow> reaches n w f x w' f' \<Longrightarrow> reaches (if b then m else n) w f x w' f'"
  by simp_all

lemma reaches_option:
  "o' = Some y \<Longrightarrow> reaches (k y) w f x w' f' \<Longrightarrow> reaches (case o' of None \<Rightarrow> m | Some y \<Rightarrow> k y) w f x w' f'"
  "o' = None \<Longrightarrow> reaches m w f x w' f' \<Longrightarrow> reaches (case o' of None \<Rightarrow> m | Some y \<Rightarrow> k y) w f x w' f'"
  by simp_all

lemma reaches_mono: "reaches m w f y w1 f1 \<Longrightarrow> y = x \<Longrightarrow> w1 = w' \<Longrightarrow> f1 = f' \<Longrightarrow> reaches m w f x w' f'"
  by simp

lemma reaches_for:
  "reaches (io_for [] g) w f () w f"
  "reaches (g x) w f () w1 f1 \<Longrightarrow> reaches (io_for xs g) w1 f1 () w' f' \<Longrightarrow> reaches (io_for (x # xs) g) w f () w' f'"
  by (simp_all add: reaches_ret reaches_bind)

lemmas reaches_rules = reaches_for reaches_cid reaches_scoped reaches_lift reaches_ret reaches_bind reaches_wrap reaches_try reaches_finally reaches_let reaches_pair

section \<open>The small machine\<close>

abbreviation demo_node :: "demo CPI" where
  "demo_node \<equiv> on_lxd demo_lxd FAT32 demo_machine demo_cpi"

lemma demo_files:
  "reaches (os_WriteFile demo_machine p b) w f () w (f(p \<mapsto> b))"
  "f p = Some b \<Longrightarrow> reaches (os_ReadFile demo_machine p) w f b w f"
  "f p \<noteq> None \<Longrightarrow> reaches (os_Remove demo_machine p) w f () w (f(p := None))"
  by (auto simp: reaches_def os_WriteFile_def os_ReadFile_def os_Remove_def demo_machine_def)

lemma demo_disk_requests:
  "reaches (dk demo_machine q) w f (case q of DkCreateTemp _ \<Rightarrow> ''/tmp/config-1.iso'' | DkCreateFilesystem _ _ \<Rightarrow> ''iso9660''
     | DkReadImage _ \<Rightarrow> ''image'' | _ \<Rightarrow> []) w f"
  by (rule reaches_ext) (simp_all add: demo_machine_def)

lemma demo_Write:
  "reaches (fat32_Write demo_machine (conf_AgentConfig (cpi_config demo_cpi)) vm e) w f ''image'' w
     (f(settings_path demo_cpi vm \<mapsto> AsBytes e))"
proof -
  have "settings_path demo_cpi vm = agentFileName (conf_AgentConfig demo_config) vm" "cpi_config demo_cpi = demo_config"
    by (simp_all add: settings_path_def demo_cpi_def)
  moreover have "ac_MetadataPath (conf_AgentConfig demo_config) = ''meta''" "ac_UserdataPath (conf_AgentConfig demo_config) = ''user''"
    by (simp_all add: demo_config_def)
  ultimately show ?thesis
    by (simp add: fat32_Write_def tempFileName_def writeFile_def writeAgentEnv_def Let_def has_prefix_def path_dir_def
          path_clean_def split_on.simps clean_elems.simps)
      (rule reaches_mono, (rule reaches_rules refl demo_disk_requests demo_files)+, simp_all)
qed

section \<open>The small server\<close>

lemma demo_accepts:
  "fst (demo_request q w) = Inr h \<Longrightarrow> snd (demo_request q w) = w' \<Longrightarrow>
   reaches (lxd_wait (lx_server demo_lxd) (request (lx_server demo_lxd) q)) w f () w' f"
  by (cases "demo_request q w") (auto simp: reaches_def lxd_wait_def lxd_checkError_def demo_lxd_def demo_server_def io_run)

lemma demo_uuid: "reaches (gen_uuid demo_cpi) w f (replicate (demo_count w) (CHR ''u'')) (w\<lparr>demo_count := Suc (demo_count w)\<rparr>) f"
  by (rule reaches_ext) (simp_all add: demo_cpi_def)

lemma demo_asks:
  "reaches (get_server (lx_server demo_lxd) cn) w f ''trusted'' w f"
  "gm_find (demo_instances w) n = Some (i, st) \<Longrightarrow>
     reaches (get_instance (lx_server demo_lxd) cn n) w f (i\<lparr>ins_put := (ins_put i)\<lparr>ip_restore := []\<rparr>\<rparr>, []) w f"
  "gm_find (demo_instances w) n = Some (i, st) \<Longrightarrow> reaches (get_instance_state (lx_server demo_lxd) cn n) w f (st, []) w f"
  "reaches (get_network (lx_server demo_lxd) cn n) w f (False, []) w f"
  "reaches (get_image_alias (lx_server demo_lxd) cn al) w f (\<lparr>al_name = al, al_description = [], al_target = ''f1''\<rparr>, []) w f"
  "reaches (get_image (lx_server demo_lxd) cn n) w f (\<lparr>img_properties = [(''description'', ''ubuntu-jammy-1.1'')], img_aliases = []\<rparr>, []) w f"
  "gm_find (demo_volumes w) v = Some vol \<Longrightarrow>
     reaches (get_volume (lx_server demo_lxd) cn p ty v) w f (vol\<lparr>sv_name := v, sv_location := ''node-1''\<rparr>, ''tag'') w f"
  by (rule reaches_ext; simp add: demo_lxd_def demo_server_def demo_get_instance_def)+

lemma demo_methods:
  "reaches (IsConnected (adapter_of (Lxd demo_lxd))) w f () w f"
  "gm_find (demo_instances w) n = Some (i, st) \<Longrightarrow>
     reaches (GetInstanceLocation (adapter_of (Lxd demo_lxd)) n) w f (ins_location i) w f"
  "gm_find (demo_instances w) n = Some (i, st) \<Longrightarrow>
     reaches (GetDevices (adapter_of (Lxd demo_lxd)) n) w f (ip_devices (ins_put i)) w f"
  apply (simp_all add: lxd_defs)
  apply (rule reaches_rules reaches_if(2) demo_asks refl | assumption | simp)+
  done

definition demo_with :: "devices \<Rightarrow> storage_volume gomap \<Rightarrow> nat \<Rightarrow> demo" where
  "demo_with ds vs n = \<lparr>demo_instances = [(''vm-1'', \<lparr>ins_put = \<lparr>ip_architecture = [], ip_config = [], ip_devices = ds,
       ip_ephemeral = False, ip_profiles = [], ip_restore = [], ip_stateful = False, ip_description = []\<rparr>,
       ins_name = ''vm-1'', ins_location = ''node-1''\<rparr>, api_Running)], demo_volumes = vs, demo_quota = 9, demo_count = n\<rparr>"

lemmas demo_steps = reaches_rules demo_asks demo_accepts demo_uuid demo_Write

lemma lxd_methods:
  "IsConnected (lxd_adapter x) = lxd_IsConnected x"
  "CreateInstance (lxd_adapter x) = lxd_CreateInstance x"
  "DeleteInstance (lxd_adapter x) = lxd_DeleteInstance x"
  "DeleteStoragePoolVolume (lxd_adapter x) = lxd_DeleteStoragePoolVolume x"
  "CreateStoragePoolVolume (lxd_adapter x) = lxd_CreateStoragePoolVolume x"
  "CreateStoragePoolVolumeFromISO (lxd_adapter x) = lxd_CreateStoragePoolVolumeFromISO x"
  "GetInstanceLocation (lxd_adapter x) = lxd_GetInstanceLocation x"
  "GetDevices (lxd_adapter x) = lxd_GetDevices x"
  "SetInstanceAction (lxd_adapter x) = lxd_SetInstanceAction x"
  "IsInstanceStopped (lxd_adapter x) = lxd_IsInstanceStopped x"
  "AttachDevice (lxd_adapter x) = lxd_AttachDevice x"
  "DetachDeviceByName (lxd_adapter x) = lxd_DetachDeviceByName x"
  "DetachDeviceBySource (lxd_adapter x) = lxd_DetachDeviceBySource x"
  "ColocateStoragePoolVolumeWithInstance (lxd_adapter x) = lxd_ColocateStoragePoolVolumeWithInstance x"
  "GetStemcellDescription (lxd_adapter x) = lxd_GetStemcellDescription x"
  "IsManagedNetwork (lxd_adapter x) = lxd_IsManagedNetwork x"
  by (simp_all add: lxd_adapter_def)

lemma fat32_methods: "am_Write (NewFAT32Manager L cfg) = fat32_Write L cfg" "am_Read (NewFAT32Manager L cfg) = afm_Read L cfg"
    "am_Delete (NewFAT32Manager L cfg) = afm_Delete L cfg"
  by (simp_all add: NewFAT32Manager_def)

lemmas demo_unfolds = cpi_on_simps adapter_of.simps manager_of.simps lxd_methods fat32_methods
  lxd_IsConnected_def lxd_CreateInstance_def lxd_DeleteInstance_def
  lxd_DeleteStoragePoolVolume_def lxd_CreateStoragePoolVolume_def lxd_CreateStoragePoolVolumeFromISO_def
  lxd_GetInstanceLocation_def lxd_GetDevices_def lxd_SetInstanceAction_def
  lxd_IsInstanceStopped_def lxd_AttachDevice_def lxd_DetachDeviceByName_def
  lxd_DetachDeviceBySource_def lxd_ColocateStoragePoolVolumeWithInstance_def lxd_GetStemcellDescription_def
  lxd_IsManagedNetwork_def lxd_isVMAtRequestedState_def lxd_instance_Writable_def

lemmas demo_eval = demo_volume_def path_hint_def find_device_by_source.simps UseTarget_def at_requested_state_def api_Stopped_def api_Stopping_def api_Running_def api_Started_def api_Starting_def
  state_put_of_def DISK_DEVICE_EPHEMERAL_def demo_with_def demo_cpi_def demo_config_def demo_lxd_def demo_add_volume_def demo_member_def
  dec_vm_props_def dec_field_def json_field_def to_lower_def to_lower_char_def select_config_def
  vm_metadata_def instances_post_of_def volume_post_of_def disks_of_def DISK_DEVICE_CONFIG_def
  DISK_EPHEMERAL_PREFIX_def DISK_CONFIGURATION_PREFIX_def disk_device_def gm_get_def root_device_def

lemma demo_Read:
  "f (settings_path demo_cpi vm) = Some (AsBytes e) \<Longrightarrow> wf_agent_env e \<Longrightarrow>
   reaches (afm_Read demo_machine (conf_AgentConfig (cpi_config demo_cpi)) vm) w f (canonical e) w f"
  unfolding afm_Read_def Let_def settings_path_def
  by (rule reaches_bind, rule demo_files(2), assumption) (simp add: reaches_ret FromBytes_AsBytes)

lemma demo_Delete:
  "f (settings_path demo_cpi vm) \<noteq> None \<Longrightarrow>
   reaches (afm_Delete demo_machine (conf_AgentConfig (cpi_config demo_cpi)) vm) w f () w (f(settings_path demo_cpi vm := None))"
  unfolding afm_Delete_def Let_def settings_path_def
  by (rule reaches_try, rule demo_files(3), assumption) (simp add: reaches_ret)

lemma demo_life:
  "\<exists>w1 f1 w2 f2.
     reaches (CreateVMV2 demo_node ''agent'' ''img-1'' (JObj [(''instance_type'', JStr ''c1-m1''), (''ephemeral_disk'', JNum 1024)])
       [] None) (demo_with [] [] 1) Map.empty (''vm-u'', []) w1 f1 \<and>
     reaches (DeleteVM demo_node ''vm-u'') w1 f1 () w2 f2"
  unfolding Let_def CreateVMV2_def setup_vm_def finish_vm_def writeAgentFileToVM_def outer_def inner_def with_cleanup_def
    createVMWithLock_def attachDiskDeviceToVM_def findDisksAttachedToVm_def DeleteVM_def HasVM_def delete_vm_disk_def demo_unfolds
  apply (rule exI)+
  apply (rule conjI)
  apply (rule demo_steps demo_Delete | (rule reaches_if(1) reaches_option(1), (simp add: demo_eval; fail)) |
    (rule reaches_if(2) reaches_option(2), (simp add: demo_eval; fail)) | (simp add: demo_eval; fail) | rule refl)+
  done

text \<open>Attaching a second disk, and detaching it; the settings disk of the running VM is replaced twice.\<close>

abbreviation demo_devices :: devices where
  "demo_devices \<equiv> [(''config'', [(''type'', ''disk''), (''source'', ''vol-c-1'')]), (''persistent-1'', [(''type'', ''disk''), (''source'', ''vol-p-1'')])]"

lemma one_disk_wf: "wf_agent_env one_disk_settings"
  by (simp add: one_disk_settings_def)

lemmas second_disk_wf = wf_documents(1) FromBytes_wf [OF FromBytes_AsBytes] one_disk_wf

lemma one_disk_second: "choose_slot (AsBytes (canonical one_disk_settings)) = Some (''/dev/sdd'', ''persistent-2'')"
  by code_simp

lemma demo_attach:
  "\<exists>w1 f1 w2 f2.
     reaches (AttachDiskV2 demo_node ''vm-1'' ''vol-p-2'')
       (demo_with demo_devices [demo_volume ''vol-c-1'', demo_volume ''vol-p-1'', demo_volume ''vol-p-2''] 1)
       [settings_path demo_cpi ''vm-1'' \<mapsto> AsBytes one_disk_settings] (path_hint ''/dev/sdd'') w1 f1 \<and>
     reaches (DetachDisk demo_node ''vm-1'' ''vol-p-2'') w1 f1 () w2 f2"
  unfolding Let_def AttachDiskV2_def DetachDisk_def writeAgentFileToVM_def attachDiskDeviceToVM_def findDisksAttachedToVm_def
    demo_unfolds
  apply (rule exI)+
  apply (rule conjI)
  apply (rule demo_steps demo_Read second_disk_wf | (rule reaches_if(1) reaches_option(1), (simp add: demo_eval one_disk_second; fail)) |
    (rule reaches_if(2) reaches_option(2), (simp add: demo_eval one_disk_second; fail)) | (simp add: demo_eval; fail) | rule refl)+
  done

section \<open>The properties on these runs\<close>

lemma reaches_twice:
  assumes "reaches m w f x w1 f1" and "reaches n w1 f1 y w2 f2"
  shows "\<exists>s s1 s2. m s = (Ok x, s1) \<and> n s1 = (Ok y, s2)"
proof -
  obtain t1 where "m \<lparr>world = w, files = f, trace = []\<rparr> = (Ok x, \<lparr>world = w1, files = f1, trace = t1\<rparr>)"
    using assms(1) unfolding reaches_def by blast
  moreover obtain t2 where "n \<lparr>world = w1, files = f1, trace = t1\<rparr> = (Ok y, \<lparr>world = w2, files = f2, trace = t2\<rparr>)"
    using assms(2) unfolding reaches_def by blast
  ultimately show ?thesis by blast
qed

abbreviation demo_props :: json where
  "demo_props \<equiv> JObj [(''instance_type'', JStr ''c1-m1''), (''ephemeral_disk'', JNum 1024)]"

lemma demo_life_run:
  "\<exists>s s1 s2. CreateVMV2 demo_node ''agent'' ''img-1'' demo_props [] None s = (Ok (''vm-u'', []), s1) \<and>
     DeleteVM demo_node ''vm-u'' s1 = (Ok (), s2)"
  using demo_life by (elim exE conjE) (rule reaches_twice)

theorem create_vm_refines_witness:
  "\<exists>s s'. CreateVMV2 demo_node ''agent'' ''img-1'' demo_props [] None s = (Ok (''vm-u'', []), s') \<and>
     vm_made (conn_of (Lxd demo_lxd)) demo_node demo_props [] ''vm-u'' [] (demo_view (world s)) (demo_view (world s'))"
proof -
  obtain s s1 where run: "CreateVMV2 demo_node ''agent'' ''img-1'' demo_props [] None s = (Ok (''vm-u'', []), s1)"
    using demo_life_run by blast
  show ?thesis using create_vm_refines [OF demo_shows_cloud _ run] run by auto
qed

theorem create_delete_restores_witness:
  "\<exists>s s1 s2. CreateVMV2 demo_node ''agent'' ''img-1'' demo_props [] None s = (Ok (''vm-u'', []), s1) \<and>
     DeleteVM demo_node ''vm-u'' s1 = (Ok (), s2) \<and>
     (cl_devices (demo_view (world s2)) = (cl_devices (demo_view (world s)))(''vm-u'' := None) \<or>
      demo_view (world s2) = demo_view (world s1))"
proof -
  obtain s s1 s2 where run: "CreateVMV2 demo_node ''agent'' ''img-1'' demo_props [] None s = (Ok (''vm-u'', []), s1)"
      "DeleteVM demo_node ''vm-u'' s1 = (Ok (), s2)"
    using demo_life_run by blast
  have "conn_target (conn_of (Lxd demo_lxd)) = []" by (simp add: demo_lxd_def)
  from create_delete_restores [OF demo_shows_cloud this _ run] run show ?thesis by auto
qed

lemma demo_disks_run:
  "\<exists>s s1 s2. AttachDiskV2 demo_node ''vm-1'' ''vol-p-2'' s = (Ok (path_hint ''/dev/sdd''), s1) \<and>
     DetachDisk demo_node ''vm-1'' ''vol-p-2'' s1 = (Ok (), s2)"
  using demo_attach by (elim exE conjE) (rule reaches_twice)

theorem disk_calls_refine_witness:
  "\<exists>s s1 s2 name. AttachDiskV2 demo_node ''vm-1'' ''vol-p-2'' s = (Ok (path_hint ''/dev/sdd''), s1) \<and>
     DetachDisk demo_node ''vm-1'' ''vol-p-2'' s1 = (Ok (), s2) \<and>
     disk_attached (conn_of (Lxd demo_lxd)) demo_node ''vm-1'' ''vol-p-2'' name (demo_view (world s)) (demo_view (world s1)) \<and>
     disk_detached (conn_of (Lxd demo_lxd)) demo_node ''vm-1'' ''vol-p-2'' (demo_view (world s1)) (demo_view (world s2))"
proof -
  obtain s s1 s2 where run: "AttachDiskV2 demo_node ''vm-1'' ''vol-p-2'' s = (Ok (path_hint ''/dev/sdd''), s1)"
      "DetachDisk demo_node ''vm-1'' ''vol-p-2'' s1 = (Ok (), s2)"
    using demo_disks_run by blast
  show ?thesis
    using disk_calls_refine [OF demo_shows_cloud, of FAT32 "''vm-1''" "''vol-p-2''"] run by blast
qed

end
