(* ===== verification/AgentProps.thy ===== *)
theory AgentProps
  imports CpiContract "HOL-Library.Multiset"
begin

text \<open>
  The settings of the VMs: the local file of every VM, the document in it, and the image that is built
  from it.
\<close>

section \<open>The document\<close>

lemma sort_key_idem: "sort_key f (sort_key f xs) = sort_key f xs"
  by (rule properties_for_sort_key) simp_all

lemma map_json_sort_map [simp]: "map_json f (sort_map m) = map_json f m"
  by (simp add: map_json_def sort_map_def sort_key_idem)

lemma opt_map_json_sort [simp]: "opt_json (map_json f) (map_option sort_map x) = opt_json (map_json f) x"
  by (cases x) (simp_all add: opt_json_def)

lemma canonical_bytes: "AsBytes (canonical e) = AsBytes e"
  by (simp add: AsBytes_def agent_env_json_def disks_json_def canonical_def)

text \<open>A settings document with a network, a route and disks.\<close>

definition sample_env :: agent_env where
  "sample_env = \<lparr>ae_AgentID = ''a-1'', ae_VMName = ''vm-1'', ae_VMID = ''vm-1'', ae_Mbus = ''https://mbus'',
     ae_NTP = Some [''0.pool.ntp.org''],
     ae_Networks = Some [(''private'', network_spec_of (NewNetwork ''manual'' ''10.0.0.2'' ''255.0.0.0'' ''10.0.0.1''
         (Some [''10.0.0.1'']) (Some [''gateway'', ''dns'']) None [])), (''admin'', network_spec_of
         (NewNetwork ''dynamic'' [] [] [] None None (Some [\<lparr>rt_Destination = ''10.1.0.0'', rt_Gateway = ''10.0.0.9'',
           rt_Netmask = ''255.255.0.0''\<rparr>]) ''al''))],
     ae_System = JStr ''/dev/sda'', ae_Ephemeral = JStr ''/dev/sdb'',
     ae_Persistent = Some [(''vol-p-2'', JObj [(''path'', JStr ''/dev/sdc'')])],
     ae_Env = Some [(''bosh'', JObj [(''mbus'', JNull), (''ipv6'', JBool False), (''n'', JNum 7)])]\<rparr>"

lemma wf_sample_env: "wf_agent_env sample_env"
  by (simp add: sample_env_def wf_agent_env_def wf_map_def)

text \<open>
  The settings document survives being written and read: \<open>FromBytes\<close> reads what \<open>AsBytes\<close> wrote
  as the same document, with every map in the byte order of its keys, and that document is written
  as the same bytes again.
\<close>

theorem settings_document_round_trip:
  assumes "wf_agent_env e"
  shows "FromBytes (AsBytes e) = Inr (canonical e) \<and> AsBytes (canonical e) = AsBytes e"
  using FromBytes_AsBytes [OF assms] canonical_bytes by blast

theorem settings_document_round_trip_witness:
  "FromBytes (AsBytes sample_env) = Inr (canonical sample_env) \<and>
   map fst (the (ae_Networks (canonical sample_env))) = [''admin'', ''private'']"
  using settings_document_round_trip [OF wf_sample_env]
  by (simp add: canonical_def sample_env_def sort_map_def)

section \<open>The local files\<close>

lemma agentFileName_inj:
  assumes "plain_id v" and "plain_id w" and "agentFileName cfg v = agentFileName cfg w"
  shows "v = w"
  using assms by (simp add: agentFileName_def path_join_plain)

lemma manager_of_Read: "am_Read (manager_of k L cfg) v = afm_Read L cfg v"
  by (cases k) (simp_all add: NewFAT32Manager_def NewCDROMManager_def)

text \<open>On a disk without read errors, reading depends on the file only.\<close>

lemma Read_run:
  assumes "os_ReadFault L = (\<lambda>_ w. (None, w))"
  shows "fst (am_Read (manager_of k L cfg) v s) = (case files s (agentFileName cfg v) of
      None \<Rightarrow> Err (no_such_file ''open'' (agentFileName cfg v)) | Some c \<Rightarrow> sum_res (FromBytes c))"
  by (auto simp: manager_of_Read afm_Read_def os_ReadFile_def Let_def io_run assms io_lift_def
      split: option.splits sum.splits)

text \<open>
  C27.  After a successful write of a VM's settings, for either image format, reading them gives back
  that document, and reading the settings of any other VM gives what it gave before: identifiers
  that are single path elements have different files.  The disk is assumed to have no read errors.
\<close>

theorem settings_round_trip:
  assumes "am_Write (manager_of k L cfg) v e s = (Ok img, s')" and "wf_agent_env e" and "plain_id v"
    and "os_ReadFault L = (\<lambda>_ w. (None, w))"
  shows "fst (am_Read (manager_of k L cfg) v s') = Ok (canonical e) \<and>
    (\<forall>u. plain_id u \<longrightarrow> u \<noteq> v \<longrightarrow>
       fst (am_Read (manager_of k L cfg) u s') = fst (am_Read (manager_of k L cfg) u s))"
proof (intro conjI allI impI)
  from leavesD [OF any_manager.Write_files assms(1) refl]
  have "files s' (agentFileName cfg v) = Some (AsBytes e)" by simp
  then show "fst (am_Read (manager_of k L cfg) v s') = Ok (canonical e)"
    by (simp add: Read_run [OF assms(4)] FromBytes_AsBytes [OF assms(2)])
next
  fix u assume "plain_id u" and "u \<noteq> v"
  then have "agentFileName cfg u \<noteq> agentFileName cfg v" using agentFileName_inj assms(3) by blast
  then show "fst (am_Read (manager_of k L cfg) u s') = fst (am_Read (manager_of k L cfg) u s)"
    using any_manager.Write_other [OF assms(1)] by (simp add: Read_run [OF assms(4)])
qed

definition sound_disk :: "unit local_machine" where
  "sound_disk = \<lparr>os_ReadFault = (\<lambda>_ w. (None, w)), os_WriteFault = (\<lambda>_ _ w. (None, w)),
     os_RemoveFault = (\<lambda>_ w. (None, w)), lib_Disk = (\<lambda>q w. (Inr (case q of DkCreateTemp _ \<Rightarrow> ''/tmp/config-1.iso''
       | DkCreateFilesystem _ _ \<Rightarrow> ''iso9660'' | DkReadImage _ \<Rightarrow> ''image'' | _ \<Rightarrow> []), w))\<rparr>"

definition sample_agent_config :: agent_config where
  "sample_agent_config = \<lparr>ac_SourceType = ''FAT32'', ac_Label = ''config-2'', ac_MetadataPath = ''meta-data'',
     ac_UserdataPath = ''user-data'', ac_FileStorePath = ''/var/vcap/store/lxd''\<rparr>"

abbreviation start_state :: "(event, unit) sys" where
  "start_state \<equiv> \<lparr>world = (), files = (\<lambda>_. None), trace = []\<rparr>"

lemma sample_write:
  obtains s' where "am_Write (manager_of FAT32 sound_disk sample_agent_config) ''vm-1'' sample_env start_state =
    (Ok ''image'', s')"
  by (simp add: NewFAT32Manager_def fat32_Write_def tempFileName_def writeFile_def writeAgentEnv_def os_WriteFile_def
      sound_disk_def sample_agent_config_def has_prefix_def io_run Let_def)

theorem settings_round_trip_witness:
  "\<exists>s'. am_Write (manager_of FAT32 sound_disk sample_agent_config) ''vm-1'' sample_env start_state = (Ok ''image'', s') \<and>
    fst (am_Read (manager_of FAT32 sound_disk sample_agent_config) ''vm-1'' s') = Ok (canonical sample_env)"
proof -
  obtain s' where w: "am_Write (manager_of FAT32 sound_disk sample_agent_config) ''vm-1'' sample_env start_state =
    (Ok ''image'', s')" using sample_write .
  have "plain_id ''vm-1''" and "os_ReadFault sound_disk = (\<lambda>_ w. (None, w))"
    by (simp_all add: plain_id_def sound_disk_def)
  from settings_round_trip [OF w wf_sample_env this] w show ?thesis by blast
qed

section \<open>The image\<close>

text \<open>The images that were created, and what was written into the file system of one.\<close>

fun images_made :: "event list \<Rightarrow> string list" where
  "images_made [] = []"
| "images_made (EvDisk (DkCreate f n) (Inr x) # ts) = f # images_made ts"
| "images_made (_ # ts) = images_made ts"

fun files_written :: "event list \<Rightarrow> (string \<times> string) list" where
  "files_written [] = []"
| "files_written (EvDisk (DkWrite p c) (Inr x) # ts) = (p, c) # files_written ts"
| "files_written (_ # ts) = files_written ts"

lemma images_made_append [simp]: "images_made (ts @ us) = images_made ts @ images_made us"
  by (induction ts rule: images_made.induct) auto

lemma files_written_append [simp]: "files_written (ts @ us) = files_written ts @ files_written us"
  by (induction ts rule: files_written.induct) auto

definition abs_path :: "string \<Rightarrow> string" where
  "abs_path p = (if has_prefix p ''/'' then p else ''/'' @ p)"

definition file_in_image :: "string \<Rightarrow> string \<Rightarrow> (string \<times> string) list" where
  "file_in_image p c = (if p = [] then [] else [(abs_path p, c)])"

fun removes_image :: "string \<Rightarrow> event \<Rightarrow> bool" where
  "removes_image f (EvDisk (DkRemoveImage g) _) = (g = f)"
| "removes_image f _ = False"

text \<open>
  At most one image is made, and it is removed at the end whatever happened; a build that succeeded has
  written the metadata and the settings into it, the settings as in the local file.
\<close>

definition image_contract :: "agent_config \<Rightarrow> string \<Rightarrow> agent_env \<Rightarrow> string res \<Rightarrow> event list \<Rightarrow> bool" where
  "image_contract cfg v e r ts \<longleftrightarrow>
     (images_made ts = [] \<or> (\<exists>f. images_made ts = [f] \<and> removes_image f (last ts))) \<and> \<not> is_Panic r \<and>
     (is_Ok r \<longrightarrow> images_made ts \<noteq> [] \<and>
       mset (files_written ts) = mset (file_in_image (ac_MetadataPath cfg) metadata_json @
         file_in_image (ac_UserdataPath cfg) (AsBytes e)) \<and>
       settings_writes ts = [(agentFileName cfg v, AsBytes e)])"

text \<open>
  A part of a build makes no image itself; when it succeeds it has put the files \<open>F\<close> into the image and
  made the writes \<open>S\<close> to local files.
\<close>

definition build_part :: "(string \<times> string) list \<Rightarrow> (string \<times> string) list \<Rightarrow> 'a res \<Rightarrow> event list \<Rightarrow> bool" where
  "build_part F S r ts \<longleftrightarrow> images_made ts = [] \<and> \<not> is_Panic r \<and>
     (is_Ok r \<longrightarrow> files_written ts = F \<and> settings_writes ts = S)"

lemma build_bind:
  fixes m :: "('w, 'b) go"
  assumes "emits m (build_part F S)" and "\<And>x. emits (k x) (build_part F' S')"
  shows "emits (io_bind m k) (build_part (F @ F') (S @ S'))"
proof (rule emits_bind, rule emits_mono [OF assms(1)])
  fix r :: "'b res" and ts assume part: "build_part F S r ts"
  show "emits_after io_fail k (build_part (F @ F') (S @ S')) r ts"
  proof (cases r)
    case (Ok x)
    then show ?thesis using part assms(2) [of x] by (auto simp: build_part_def elim!: emits_mono)
  qed (use part in \<open>auto simp: build_part_def\<close>)
qed

lemma build_return: "emits (io_ret x) (build_part [] [])" "emits (io_fail e) (build_part F S)"
  by (simp_all add: build_part_def)

lemma build_request:
  assumes "\<And>f n. q \<noteq> DkCreate f n" and "\<And>p c. q \<noteq> DkWrite p c"
  shows "emits (dk L q) (build_part [] [])"
  by (rule emits_ext) (use assms in \<open>cases q; simp add: build_part_def\<close>)+

lemma build_mkdirAll: "emits (mkdirAll L p) (build_part [] [])"
  unfolding mkdirAll_def
  by (rule emits_for [where I = "\<lambda>_ ts. images_made ts = [] \<and> files_written ts = [] \<and> settings_writes ts = []"])
     (auto simp: build_part_def intro!: emits_rules)

lemma build_writeFile: "emits (writeFile L p c) (build_part (file_in_image p c) [])"
  unfolding writeFile_def
  by (auto simp: Let_def abs_path_def file_in_image_def build_part_def intro!: emits_rules)

lemma build_writeAgentEnv:
  "(\<And>x. x = AsBytes e \<Longrightarrow> emits (k x) (build_part F S)) \<Longrightarrow>
   emits (io_bind (writeAgentEnv L cfg vm e) k) (build_part F ((agentFileName cfg vm, AsBytes e) # S))"
  unfolding writeAgentEnv_def
  by (auto simp: Let_def build_part_def io_bind_assoc intro!: emits_rules elim!: emits_mono)

text \<open>The build around the part that fills the image.\<close>

lemma build_image:
  assumes "emits body (build_part F [(agentFileName cfg v, AsBytes e)])"
    and "mset F = mset (file_in_image (ac_MetadataPath cfg) metadata_json @ file_in_image (ac_UserdataPath cfg) (AsBytes e))"
  shows "emits (io_bind (dk L (DkCreate f n)) (\<lambda>_. io_finally body (dk L (DkRemoveImage f)))) (image_contract cfg v e)"
proof -
  have "emits (io_finally body (dk L (DkRemoveImage f))) (\<lambda>r ts. image_contract cfg v e r (EvDisk (DkCreate f n) (Inr x) # ts))" for x
    by (rule emits_finally, rule emits_mono [OF assms(1)], rule emits_ext)
       (use assms(2) in \<open>auto simp: image_contract_def build_part_def\<close>)
  then show ?thesis by (intro emits_bind emits_ext) (auto simp: image_contract_def [of _ _ _ "Err _"])
qed

lemma image_contract_prepend:
  "image_contract cfg v e r us \<Longrightarrow> build_part [] [] (Ok ()) ts \<Longrightarrow> image_contract cfg v e r (ts @ us)"
  by (cases us) (auto simp: image_contract_def build_part_def last_append)

lemma emits_tempFileName_image:
  assumes "\<And>f. emits (k f) (image_contract cfg v e)"
  shows "emits (io_bind (tempFileName L p) k) (image_contract cfg v e)"
proof -
  have "emits (tempFileName L p) (build_part [] [])"
    unfolding tempFileName_def by (auto simp: build_part_def intro!: emits_rules)
  then show ?thesis
  proof (rule emits_bind [OF emits_mono])
    fix r :: "string res" and ts assume part: "build_part [] [] r ts"
    show "emits_after io_fail k (image_contract cfg v e) r ts"
    proof (cases r)
      case (Ok x)
      then have "build_part [] [] (Ok ()) ts" using part by (simp add: build_part_def)
      then show ?thesis using Ok assms [of x] image_contract_prepend by (auto elim!: emits_mono)
    qed (use part in \<open>auto simp: build_part_def image_contract_def\<close>)
  qed
qed

lemma build_then:
  "emits m (build_part [] []) \<Longrightarrow> (\<And>x. emits (k x) (build_part F S)) \<Longrightarrow> emits (io_bind m k) (build_part F S)"
  using build_bind [of m "[]" "[]" k F S] by simp

lemma build_then_file:
  "(\<And>x. emits (k x) (build_part F S)) \<Longrightarrow> emits (io_bind (writeFile L p c) k) (build_part (file_in_image p c @ F) S)"
  using build_bind [OF build_writeFile, of k F S] by simp

lemmas build_steps = build_then_file build_writeAgentEnv build_then [OF build_request] build_then [OF build_mkdirAll]

lemma fat32_image: "emits (fat32_Write L cfg v e) (image_contract cfg v e)"
  unfolding fat32_Write_def Let_def
proof (rule emits_tempFileName_image, rule build_image [where F = "file_in_image (ac_MetadataPath cfg) metadata_json @
    file_in_image (ac_UserdataPath cfg) (AsBytes e) @ []"], goal_cases)
  case (1 f)
  then show ?case by (rule build_steps build_request | (simp; fail) | hypsubst)+
qed simp

lemma cdrom_image: "emits (cdrom_Write L cfg v e) (image_contract cfg v e)"
  unfolding cdrom_Write_def
proof (rule emits_tempFileName_image, rule build_image [where F = "file_in_image (ac_UserdataPath cfg) (AsBytes e) @
    file_in_image (ac_MetadataPath cfg) metadata_json @ []"], goal_cases)
  case (1 f)
  then show ?case by (rule build_steps build_request build_return emits_if | (simp; fail) | hypsubst)+
qed simp

text \<open>
  C29.  Building a settings image makes at most one temporary image and removes it as its last step,
  whatever fails in between; it never crashes.  A build that succeeds has written the settings once to
  the local file and has put the same bytes, and the metadata, into the image, each under its
  configured path (a path that is not configured is skipped).
\<close>

theorem settings_image:
  "emits (am_Write (manager_of k L cfg) v e) (image_contract cfg v e)"
  by (cases k) (simp_all add: NewFAT32Manager_def NewCDROMManager_def fat32_image cdrom_image)

end
