(* ===== verification/Documents.thy ===== *)
theory Documents
  imports DiskSafety AgentProps
begin

text \<open>
  Every settings document that a CPI call stores can be read back, whatever the libraries answer.
\<close>

text \<open>Written bytes that are read without an error, as a document that is written as the same bytes.\<close>

fun stores_readable :: "event \<Rightarrow> bool" where
  "stores_readable (EvWriteFile p c a) = (case FromBytes c of Inl e \<Rightarrow> False | Inr e \<Rightarrow> AsBytes e = c)"
| "stores_readable _ = True"

lemma readable_steps: "world_steps (\<lambda>e w w'. stores_readable e) a L c"
  using FromBytes_AsBytes canonical_bytes
  by (auto simp: world_steps_def server_steps_def machine_steps_def library_steps_def answers_def)

interpretation documents: stepping "\<lambda>e w w'. stores_readable e" a L c k for a :: "'w some_adapter" and L c k
  by (unfold_locales) (rule readable_steps)

lemma readable_walk: "walk (\<lambda>e w w'. stores_readable e) w ts w' \<Longrightarrow> list_all stores_readable ts"
  by (induction rule: walk.induct) auto

lemma follows_readable:
  assumes "follows (\<lambda>e w w'. stores_readable e) m"
  shows "\<exists>ts. trace (snd (m s)) = trace s @ ts \<and> list_all stores_readable ts"
proof -
  obtain r s' where run: "m s = (r, s')" by (cases "m s")
  obtain ts where "trace s' = trace s @ ts" and "walk (\<lambda>e w w'. stores_readable e) (world s) ts (world s')"
    using followsD [OF assms run] .
  then show ?thesis using readable_walk run by auto
qed

fun proper_environment :: "cpi_call \<Rightarrow> bool" where
  "proper_environment (CallCreateVM agent sc props nets env) = pred_option wf_map env"
| "proper_environment _ = True"

text \<open>
  C28.  Whatever a CPI call writes to a local file is a settings document in its stored form: reading it
  succeeds, and writing what was read gives the same bytes.  This holds for every call, every outcome and
  every behaviour of the server, the libraries and the operating system; the environment given for a new
  VM is only assumed to have distinct keys, as a Go map.
\<close>

theorem stored_settings_are_readable:
  assumes "proper_environment q"
  shows "\<exists>ts. trace (after_call (cpi_on a k L c) q s) = trace s @ ts \<and> list_all stores_readable ts"
  using assms
  by (cases q) (auto intro!: follows_readable documents.follows_calls documents.follows_CreateVMV2
      documents.follows_DeleteVM documents.follows_HasVM)

theorem stored_settings_are_readable_witness:
  "\<forall>a L (c :: 'w CPI) s. \<exists>ts. trace (after_call (cpi_on a CDROM L c) (CallCreateVM ''agent'' ''img-1'' (JObj []) []
     (Some [(''bosh'', JNull), (''group'', JStr ''web'')])) s) = trace s @ ts \<and> list_all stores_readable ts"
  by (intro allI stored_settings_are_readable) (simp add: wf_map_def)

end
