(* ===== verification/Agreement.thy ===== *)
theory Agreement
  imports CloudRuns Documents
begin

text \<open>
  Two places tell which persistent disks a VM has: its settings document, in a local file, and its
  devices on the server.  This theory shows that they agree for every VM that was made and changed by
  successful calls.
\<close>

section \<open>What the calls make of the local files\<close>

text \<open>Runs that touch no file, whatever their outcome.\<close>

definition spares_files :: "('w, 'a) go \<Rightarrow> bool" where
  "spares_files m \<longleftrightarrow> (\<forall>s. files (snd (m s)) = files s)"

lemma spares_basic:
  "spares_files (io_ret x)" "spares_files (io_fail e)" "spares_files (io_panic p)" "spares_files (io_lift q)"
  "spares_files (io_ext ev g)"
  by (cases q; auto simp: spares_files_def io_run split: prod.split)+

lemma spares_try:
  assumes "spares_files m" and "\<And>e. spares_files (h e)" and "\<And>x. spares_files (k x)"
  shows "spares_files (io_try m h k)"
  using assms by (auto simp: spares_files_def io_try_run split: prod.split res.split) (metis snd_conv)+

lemma spares_bind:
  assumes "spares_files m" and "\<And>x. spares_files (k x)"
  shows "spares_files (io_bind m k)" and "spares_files (io_wrap m msg k)"
  unfolding io_bind_def io_wrap_def by (auto intro!: spares_try assms spares_basic)

lemma spares_finally: "spares_files m \<Longrightarrow> spares_files d \<Longrightarrow> spares_files (io_finally m d)"
  by (auto simp: spares_files_def io_finally_run split: prod.split res.split) (metis snd_conv)+

lemma spares_branch:
  "spares_files m \<Longrightarrow> spares_files n \<Longrightarrow> spares_files (if b then m else n)"
  "spares_files m \<Longrightarrow> (\<And>y. spares_files (k y)) \<Longrightarrow> spares_files (case o' of None \<Rightarrow> m | Some y \<Rightarrow> k y)"
  "(\<And>x y. spares_files (g x y)) \<Longrightarrow> spares_files (case p of (x, y) \<Rightarrow> g x y)"
  by (auto split: option.split prod.split)

lemma spares_for: "(\<And>x. spares_files (g x)) \<Longrightarrow> spares_files (io_for xs g)"
  by (induction xs) (simp_all add: spares_basic spares_bind)

lemmas spares_rules = spares_basic spares_bind spares_try spares_finally spares_branch spares_for

lemma spared_end: "spares_files m \<Longrightarrow> turns files m (\<lambda>_ f f'. f' = f)"
  by (auto simp: turns_def spares_files_def) (metis snd_conv)

text \<open>Such a step before a run that turns the files.\<close>

lemma spared:
  assumes "spares_files m" and "\<And>x. turns files (k x) R"
  shows "turns files (io_bind m k) R" and "turns files (io_wrap m msg k) R"
proof -
  have quiet: "turns files m (\<lambda>x f f'. f' = f \<and> True)" using spared_end [OF assms(1)] by simp
  show "turns files (io_bind m k) R" and "turns files (io_wrap m msg k) R"
    by (rule does_ask [OF quiet], simp add: assms(2))+
qed

lemma spared_scoped:
  assumes "spares_files m" and "\<And>x. turns files (k x) (delivers R)"
  shows "turns files (outer m msg k) (delivers R)" and "turns files (inner m msg k) (delivers R)"
proof -
  have rest: "turns files (k x) (\<lambda>r f f'. \<forall>f0. f = f0 \<longrightarrow> delivers R r f0 f')" for x
    using assms(2) by simp
  show "turns files (outer m msg k) (delivers R)" and "turns files (inner m msg k) (delivers R)"
    by (rule does_scoped [OF spared_end [OF assms(1)] rest]; simp)+
qed

text \<open>What the calls rely on.\<close>

locale file_effects =
  fixes c :: "'w CPI" and path :: "string \<Rightarrow> string"
  assumes spares: "spares_files (IsConnected (cpi_adapter c))" "spares_files (GetInstanceLocation (cpi_adapter c) vm)"
      "spares_files (IsInstanceStopped (cpi_adapter c) vm)" "spares_files (IsManagedNetwork (cpi_adapter c) net)"
      "spares_files (GetStemcellDescription (cpi_adapter c) al)" "spares_files (SetInstanceAction (cpi_adapter c) vm act)"
      "spares_files (GetDevices (cpi_adapter c) vm)" "spares_files (AttachDevice (cpi_adapter c) vm n dev)"
      "spares_files (DetachDeviceByName (cpi_adapter c) vm n)" "spares_files (DetachDeviceBySource (cpi_adapter c) vm v)"
      "spares_files (CreateStoragePoolVolume (cpi_adapter c) t pool v sz)"
      "spares_files (CreateStoragePoolVolumeFromISO (cpi_adapter c) t pool v img)"
      "spares_files (DeleteStoragePoolVolume (cpi_adapter c) pool v)"
      "spares_files (ColocateStoragePoolVolumeWithInstance (cpi_adapter c) vm pool v)"
      "spares_files (DeleteInstance (cpi_adapter c) vm)" "spares_files (CreateInstance (cpi_adapter c) m)"
    and reads: "turns files (am_Read (cpi_agentMgr c) vm) (\<lambda>e f f'. f' = f \<and> (\<exists>b. f (path vm) = Some b \<and> FromBytes b = Inr e))"
    and writes: "turns files (am_Write (cpi_agentMgr c) vm e) (\<lambda>_ f f'. f' = f(path vm \<mapsto> AsBytes e))"
    and deletes: "turns files (am_Delete (cpi_agentMgr c) vm) (\<lambda>_ f f'. \<forall>p. p \<noteq> path vm \<longrightarrow> f' p = f p)"
begin

lemmas spares_all = spares spares_rules

lemma settings_stored: "turns files (writeAgentFileToVM c vm e) (\<lambda>_ f f'. f' = f(path vm \<mapsto> AsBytes e))"
  unfolding writeAgentFileToVM_def Let_def attachDiskDeviceToVM_def findDisksAttachedToVm_def
  by (rule spared, rule spares_all, rule does_bind, rule writes, rule does_mono, rule spared_end, (rule spares_all)+, simp)

lemma attach_stores:
  "turns files (AttachDiskV2 c vm disk) (\<lambda>hint f f'. \<exists>b e p name. f (path vm) = Some b \<and> FromBytes b = Inr e \<and>
     choose_slot (AsBytes e) = Some (p, name) \<and> hint = path_hint p \<and>
     f' = f(path vm \<mapsto> AsBytes (AttachPersistentDisk disk hint e)))"
  unfolding AttachDiskV2_def Let_def attachDiskDeviceToVM_def
  apply (rule spared, rule spares_all, rule does_ask, rule reads, rule does_branch, rule does_basic, rule does_branch)
  apply (rule spared, rule spares_all, rule spared, rule spares_all, rule does_bind, rule settings_stored)
  apply (rule does_mono, rule does_basic)
  apply (auto simp: path_hint_def)
  done

lemma detach_stores:
  "turns files (DetachDisk c vm disk) (\<lambda>_ f f'. \<exists>b e. f (path vm) = Some b \<and> FromBytes b = Inr e \<and>
     f' = f(path vm \<mapsto> AsBytes (DetachPersistentDisk disk e)))"
  unfolding DetachDisk_def
  by (rule spared, rule spares_all, rule spared, rule spares_all, rule does_ask, rule reads, rule does_bind,
      rule settings_stored, rule does_mono, rule does_basic) auto

lemma delete_stores: "turns files (DeleteVM c vm) (\<lambda>_ f f'. \<forall>p. p \<noteq> path vm \<longrightarrow> f' p = f p)"
proof -
  have disk: "spares_files (delete_vm_disk c nd)" for nd
    by (cases nd) (simp add: delete_vm_disk_def Let_def spares_all)
  show ?thesis
    unfolding DeleteVM_def HasVM_def findDisksAttachedToVm_def
    by (rule spared spares_all disk does_branch deletes)+
qed

lemma finish_stores:
  "turns files (finish_vm c vm nets e) (delivers (\<lambda>x f f'. x = (vm, nets) \<and> f' = f(path vm \<mapsto> AsBytes e)))"
  unfolding finish_vm_def
  by (rule does_scoped, rule settings_stored, rule does_try, rule spared_end, rule spares_all,
      (rule does_mono, rule does_basic, simp)+, simp_all)

text \<open>A new VM starts without persistent disks.\<close>

definition fresh_settings :: "string \<Rightarrow> (string \<rightharpoonup> string) \<Rightarrow> (string \<rightharpoonup> string) \<Rightarrow> bool" where
  "fresh_settings vm f f' \<longleftrightarrow> (\<exists>e. wf_agent_env e \<and> persistent_map e = [] \<and> f' = f(path vm \<mapsto> AsBytes e))"

lemma finish_fresh:
  assumes "wf_agent_env e" and "persistent_map e = []"
  shows "turns files (finish_vm c vm nets e) (delivers (\<lambda>x f f'. x = (vm, nets) \<and> fresh_settings vm f f'))"
  by (rule does_mono [OF finish_stores], erule delivers_mono) (use assms in \<open>auto simp: fresh_settings_def\<close>)

lemma setup_stores:
  assumes "wf_map nets" and "pred_option wf_map env"
  shows "turns files (setup_vm c agent vm props nets env) (delivers (\<lambda>x f f'. x = (vm, nets) \<and> fresh_settings vm f f'))"
  unfolding setup_vm_def Let_def attachDiskDeviceToVM_def
  by (rule spared_scoped spares_all does_branch finish_fresh |
      (simp add: assms; fail) | (simp add: persistent_map_def ForVM_def AttachSystemDisk_def AttachEphemeralDisk_def; fail))+

lemma create_stores:
  assumes "pred_option wf_map env"
  shows "turns files (CreateVMV2 c agent stemcell cprops nets env) (\<lambda>(vm, nets') f f'. fresh_settings vm f f')"
  unfolding CreateVMV2_def Let_def built.new_vm_cid built.io_bind_ret_left createVMWithLock_def
  apply (rule spared, rule spares_all)
  apply (rule spared, rule spares_all)
  apply (rule does_lifted)
  apply (rule spared, rule spares_all)
  apply (rule does_lifted)
  apply (rule does_branch, rule does_branch)
  apply (rule spared, rule spares_all)
  apply (rule does_lifted)
  subgoal for w u props managed plan nics rest nets' target descr cfg
    apply (cases "wf_map nets'")
     prefer 2 using network_loop_wf [where acc = "[]"] apply (fastforce simp: turns_def)
    apply (rule spared, (rule spares_all)+)
    apply (rule does_mono, rule does_cleanup, rule setup_stores)
      apply assumption
     apply (rule assms)
    apply auto
    done
  done

end

section \<open>Both adapters and both image formats provide it\<close>

lemma adapter_spares:
  fixes a :: "'w some_adapter"
  defines "A \<equiv> adapter_of a"
  shows "spares_files (IsConnected A)" "spares_files (GetInstanceLocation A n)"
    "spares_files (IsInstanceStopped A n)" "spares_files (IsManagedNetwork A net)"
    "spares_files (GetStemcellDescription A al)" "spares_files (SetInstanceAction A n act)"
    "spares_files (GetDevices A n)" "spares_files (AttachDevice A n d dev)"
    "spares_files (DetachDeviceByName A n d)" "spares_files (DetachDeviceBySource A n src)"
    "spares_files (CreateStoragePoolVolume A t pool v sz)"
    "spares_files (CreateStoragePoolVolumeFromISO A t pool v img)"
    "spares_files (DeleteStoragePoolVolume A pool v)"
    "spares_files (ColocateStoragePoolVolumeWithInstance A n pool v)"
    "spares_files (DeleteInstance A n)" "spares_files (CreateInstance A m)"
  unfolding assms
  by (cases a; simp add: lxd_defs incus_defs Let_def lxd_wait_def incus_wait_def incus_direct_def;
    intro allI conjI impI spares_rules)+

lemma turns_leaves:
  assumes "\<And>f. leaves m (Q f) f" and "\<And>x f f'. Q f (Ok x) f' \<Longrightarrow> R x f f'"
  shows "turns files m R"
  using assms by (auto simp: turns_def dest!: leavesD)

interpretation filed: file_effects "cpi_on a k L c" "settings_path c" for a :: "'w some_adapter" and k L c
proof (unfold_locales, goal_cases)
  case (17 vm)
  show ?case by (simp add: settings_path_def) (rule turns_leaves, rule any_manager.Read_files, auto)
next
  case (18 vm e)
  show ?case by (simp add: settings_path_def) (rule turns_leaves, rule any_manager.Write_files, auto)
next
  case (19 vm)
  show ?case by (simp add: settings_path_def) (rule turns_leaves, rule any_manager.Delete_files, auto)
qed (simp_all add: adapter_spares)

section \<open>The agreement\<close>

text \<open>The disk that the settings announce at a device path.\<close>

definition disk_at :: "agent_env \<Rightarrow> string \<Rightarrow> string option" where
  "disk_at e p = map_of (map prod.swap (persistent_map e)) (path_hint p)"

definition disk_slots :: "(string \<times> string) list" where
  "disk_slots = [(''/dev/sdc'', DISK_DEVICE_PERSISTENT1), (''/dev/sdd'', DISK_DEVICE_PERSISTENT2)]"

text \<open>
  Settings and devices of a VM that agree: the paths in use are distinct slots; at each slot the VM has
  the device of the disk that the settings announce there, or none where they announce none; no other
  device refers to a persistent disk.
\<close>

definition settings_match :: "'w CPI \<Rightarrow> agent_env \<Rightarrow> devices \<Rightarrow> bool" where
  "settings_match c e ds \<longleftrightarrow> slots_ok e \<and> wf_map ds \<and>
     list_all (\<lambda>(p, n). gm_find ds n = map_option (disk_device c) (disk_at e p)) disk_slots \<and>
     list_all (\<lambda>(n, dev). prefix DISK_PERSISTENT_PREFIX (gm_get dev ''source'') \<longrightarrow> n \<in> snd ` set disk_slots) ds \<and>
     list_all (\<lambda>(cid, h). prefix DISK_PERSISTENT_PREFIX cid) (persistent_map e)"

text \<open>The settings of a VM as they are stored, and its devices as the cloud has them.\<close>

definition stored_settings :: "'w CPI \<Rightarrow> string \<Rightarrow> (string \<rightharpoonup> string) \<Rightarrow> agent_env option" where
  "stored_settings c vm f = (case f (settings_path c vm) of
      None \<Rightarrow> None | Some b \<Rightarrow> (case FromBytes b of Inl _ \<Rightarrow> None | Inr e \<Rightarrow> Some e))"

definition vm_agrees :: "'w CPI \<Rightarrow> string \<Rightarrow> (string \<rightharpoonup> string) \<Rightarrow> cloud \<Rightarrow> bool" where
  "vm_agrees c vm f cl \<longleftrightarrow> (case (stored_settings c vm f, cl_devices cl vm) of
      (Some e, Some ds) \<Rightarrow> settings_match c e ds | _ \<Rightarrow> False)"

lemma vm_agreesE:
  assumes "vm_agrees c vm f cl"
  obtains e ds where "stored_settings c vm f = Some e" "cl_devices cl vm = Some ds" "settings_match c e ds"
  using assms by (auto simp: vm_agrees_def split: option.splits)

lemma stored_update: "wf_agent_env e \<Longrightarrow> stored_settings c vm (f(settings_path c vm \<mapsto> AsBytes e)) = Some (canonical e)"
  by (simp add: stored_settings_def FromBytes_AsBytes)

text \<open>A map in another order means the same.\<close>

lemma persistent_canonical: "persistent_map (canonical e) = sort_key fst (persistent_map e)"
  by (cases "ae_Persistent e") (simp_all add: persistent_map_def canonical_def sort_map_def)

lemma disk_at_Some: "slots_ok e \<Longrightarrow> disk_at e p = Some v \<longleftrightarrow> (v, path_hint p) \<in> set (persistent_map e)"
  unfolding disk_at_def slots_ok_def
  by (subst map_of_eq_Some_iff) (force simp: comp_def)+

lemma distinct_sorted: "distinct (map g (sort_key f m)) \<longleftrightarrow> distinct (map g m)"
  by (rule mset_eq_imp_distinct_iff) simp

lemma slots_canonical: "slots_ok (canonical e) \<longleftrightarrow> slots_ok e"
  by (simp add: slots_ok_def persistent_canonical wf_map_def distinct_sorted)

lemma disk_at_eq:
  assumes "slots_ok e" and "slots_ok e'" and "\<And>v. (v, path_hint p) \<in> set (persistent_map e) \<longleftrightarrow> (v, path_hint q) \<in> set (persistent_map e')"
  shows "disk_at e p = disk_at e' q"
proof -
  have "disk_at e p = Some v \<longleftrightarrow> disk_at e' q = Some v" for v using assms by (simp add: disk_at_Some)
  then show ?thesis by (metis not_Some_eq)
qed

lemma agree_canonical: "settings_match c (canonical e) ds \<longleftrightarrow> settings_match c e ds"
proof (cases "slots_ok e")
  case True
  then have "disk_at (canonical e) p = disk_at e p" for p
    by (intro disk_at_eq) (simp_all add: slots_canonical persistent_canonical)
  then show ?thesis by (simp add: settings_match_def slots_canonical) (simp add: persistent_canonical list_all_iff)
qed (simp add: settings_match_def slots_canonical)

section \<open>Each change keeps it\<close>

abbreviation slot_names :: "string set" where
  "slot_names \<equiv> snd ` set disk_slots"

lemma find_snoc: "([n \<mapsto> d] ++ gm_find ds) m = (if gm_find ds m = None \<and> m = n then Some d else gm_find ds m)"
  by (auto simp: map_add_def split: option.split)

lemma wf_snoc: "wf_map ds \<Longrightarrow> gm_find ds n = None \<Longrightarrow> wf_map (ds @ [(n, d)])"
  by (simp add: wf_map_def map_of_eq_None_iff)

lemma source_of_disk_device: "gm_get (disk_device c v) ''source'' = v"
  by (simp add: disk_device_def gm_get_def)

lemma agree_slot: "settings_match c e ds \<Longrightarrow> (p, n) \<in> set disk_slots \<Longrightarrow> gm_find ds n = map_option (disk_device c) (disk_at e p)"
  by (auto simp: settings_match_def list_all_iff)

lemma agree_device:
  assumes "settings_match c e ds" and "n \<notin> slot_names"
  shows "settings_match c e (gm_del n ds)"
    and "gm_find ds n = None \<Longrightarrow> \<not> prefix DISK_PERSISTENT_PREFIX v \<Longrightarrow> settings_match c e (ds @ [(n, disk_device c v)])"
proof -
  have other: "m \<noteq> n" if "(p, m) \<in> set disk_slots" for p m using assms(2) that by force
  show "settings_match c e (gm_del n ds)"
    using assms(1) other set_del [of n ds] by (auto simp: settings_match_def list_all_iff)
  show "settings_match c e (ds @ [(n, disk_device c v)])" if "gm_find ds n = None" "\<not> prefix DISK_PERSISTENT_PREFIX v"
    using assms(1) other that
    by (auto simp: settings_match_def list_all_iff find_snoc wf_snoc source_of_disk_device)
qed

lemma chosen_slot: "choose_slot js = Some (p, n) \<Longrightarrow> (p, n) \<in> set disk_slots"
  by (auto simp: choose_slot_def disk_slots_def split: if_splits)

lemma slot_unique: "(p, n) \<in> set disk_slots \<Longrightarrow> (q, m) \<in> set disk_slots \<Longrightarrow> path_hint p = path_hint q \<longleftrightarrow> n = m"
  by (auto simp: disk_slots_def path_hint_def NewDiskHintFromMap_def DISK_DEVICE_PERSISTENT1_def DISK_DEVICE_PERSISTENT2_def)

lemma slot_named: "(p, n) \<in> set disk_slots \<Longrightarrow> n \<noteq> []"
  by (auto simp: disk_slots_def DISK_DEVICE_PERSISTENT1_def DISK_DEVICE_PERSISTENT2_def)

lemma agree_attach:
  assumes "settings_match c e ds" and "choose_slot (AsBytes e) = Some (p, n)"
    and "gm_find ds n = None" and "disk \<notin> fst ` set (persistent_map e)" and "prefix DISK_PERSISTENT_PREFIX disk"
  shows "settings_match c (AttachPersistentDisk disk (path_hint p) e) (ds @ [(n, disk_device c disk)])"
proof -
  let ?e = "AttachPersistentDisk disk (path_hint p) e"
  have ok: "slots_ok e" using assms(1) by (simp add: settings_match_def)
  then have ok': "slots_ok ?e" by (rule slots_ok_attach [OF _ assms(2)])
  have put: "gm_put disk (path_hint p) (persistent_map e) = persistent_map e @ [(disk, path_hint p)]" using assms(4) by (simp add: put_fresh)
  note slot = chosen_slot [OF assms(2)]
  have "gm_find (ds @ [(n, disk_device c disk)]) m = map_option (disk_device c) (disk_at ?e q)"
    if q: "(q, m) \<in> set disk_slots" for q m
  proof (cases "m = n")
    case True
    then have "path_hint q = path_hint p" using slot_unique [OF slot q] by simp
    then have "disk_at ?e q = Some disk" using ok' put by (simp add: disk_at_Some)
    then show ?thesis using True assms(3) by (simp add: find_snoc)
  next
    case False
    then have "path_hint p \<noteq> path_hint q" using slot_unique [OF slot q] by simp
    then have "disk_at ?e q = disk_at e q" by (intro disk_at_eq ok ok') (auto simp: put)
    then show ?thesis using False agree_slot [OF assms(1) q] by (simp add: find_snoc)
  qed
  moreover have "n \<in> slot_names" using slot by force
  ultimately show ?thesis
    using assms(1,3,5) ok' put wf_snoc [of ds n] by (auto simp: settings_match_def list_all_iff)
qed

lemma found_device:
  "(\<exists>dev. (find_device_by_source ds v, dev) \<in> set ds \<and> gm_get dev ''source'' = v) \<or>
   find_device_by_source ds v = [] \<and> (\<forall>(n, dev) \<in> set ds. gm_get dev ''source'' \<noteq> v)"
  by (induction ds v rule: find_device_by_source.induct) auto

lemma agree_detach:
  assumes "settings_match c e ds" and "n = find_device_by_source ds disk" and "n = [] \<and> ds' = ds \<or> ds' = gm_del n ds"
  shows "settings_match c (DetachPersistentDisk disk e) ds'"
proof -
  let ?e = "DetachPersistentDisk disk e"
  have ok: "slots_ok e" and wf: "wf_map ds" using assms(1) by (auto simp: settings_match_def)
  then have ok': "slots_ok ?e" by (simp add: slots_ok_detach)
  have "gm_find ds' m = map_option (disk_device c) (disk_at ?e q)" if q: "(q, m) \<in> set disk_slots" for q m
  proof (cases "disk_at e q = Some disk")
    case True
    then have m: "gm_find ds m = Some (disk_device c disk)" using agree_slot [OF assms(1) q] by simp
    then obtain dev where dev: "(n, dev) \<in> set ds" "gm_get dev ''source'' = disk"
      using found_device [of ds disk] assms(2) source_of_disk_device by (fastforce dest: map_of_SomeD)
    have "prefix DISK_PERSISTENT_PREFIX disk" using True ok assms(1) by (auto simp: disk_at_Some settings_match_def list_all_iff)
    then obtain p where p: "(p, n) \<in> set disk_slots" using dev assms(1) by (fastforce simp: settings_match_def list_all_iff)
    have "gm_find ds n = Some dev" using dev wf by (simp add: wf_map_def)
    then obtain v where "disk_at e p = Some v" "dev = disk_device c v" using agree_slot [OF assms(1) p] by auto
    then have "disk_at e p = Some disk" using dev(2) source_of_disk_device by metis
    then have "path_hint p = path_hint q" using True ok by (auto simp: disk_at_Some slots_ok_def wf_map_def dest: eq_key_imp_eq_value)
    then have "n = m" using slot_unique [OF p q] by simp
    moreover have "disk_at ?e q = None"
    proof (cases "disk_at ?e q")
      case (Some v)
      then have "v \<noteq> disk" and "disk_at e q = Some v" using ok ok' by (auto simp: disk_at_Some AList.delete_eq)
      then show ?thesis using True by simp
    qed
    moreover have "n \<noteq> []" using slot_named [OF p] .
    ultimately show ?thesis using assms(3) by simp
  next
    case False
    then have "(disk, path_hint q) \<notin> set (persistent_map e)" using ok by (simp add: disk_at_Some)
    then have "disk_at ?e q = disk_at e q" by (intro disk_at_eq ok ok') (auto simp: AList.delete_eq)
    moreover have "m \<noteq> n"
    proof
      assume "m = n"
      then obtain dev where "(m, dev) \<in> set ds" "gm_get dev ''source'' = disk"
        using found_device [of ds disk] assms(2) slot_named [OF q] by auto
      then have "gm_find ds m = Some dev" "gm_get dev ''source'' = disk" using wf by (simp_all add: wf_map_def)
      then show False using agree_slot [OF assms(1) q] False by (auto simp: source_of_disk_device)
    qed
    then have "gm_find ds' m = gm_find ds m" using assms(3) by auto
    ultimately show ?thesis using agree_slot [OF assms(1) q] by simp
  qed
  moreover have "set ds' \<subseteq> set ds" and "wf_map ds'" using assms(3) set_del wf by auto
  moreover have "set (persistent_map ?e) \<subseteq> set (persistent_map e)" by (simp add: set_del)
  ultimately show ?thesis using assms(1) ok' by (auto simp: settings_match_def list_all_iff)
qed

text \<open>A new VM: network devices and the root disk refer to no volume and have other names.\<close>

definition diskless :: "devices \<Rightarrow> bool" where
  "diskless ds \<longleftrightarrow> wf_map ds \<and> list_all (\<lambda>(m, dev). m \<notin> slot_names \<and> gm_get dev ''source'' = []) ds"

lemma diskless_put:
  assumes "diskless ds" and "n \<notin> slot_names" and "gm_get dev ''source'' = []"
  shows "diskless (gm_put n dev ds)"
proof -
  have "m \<notin> slot_names \<and> gm_get d ''source'' = []" if "(m, d) \<in> set (gm_put n dev ds)" for m d
    using that set_put [of n dev ds] assms unfolding diskless_def list_all_iff by blast
  then show ?thesis using assms(1) by (auto simp: diskless_def list_all_iff)
qed

lemma planned_diskless:
  "network_loop parent asg managed nets n ds acc t = Inr (ds', nets', t') \<Longrightarrow> diskless ds \<Longrightarrow> diskless ds'"
proof (induction parent asg managed nets n ds acc t rule: network_loop.induct)
  case (2 parent asg managed key net nets n ds acc t)
  have "eth_name n \<notin> slot_names"
    by (simp add: eth_name_def disk_slots_def DISK_DEVICE_PERSISTENT1_def DISK_DEVICE_PERSISTENT2_def)
  moreover have "gm_get (nic_settings parent managed net n) ''source'' = []"
    by (simp add: nic_settings_def gm_get_def)
  ultimately have "diskless (gm_put (eth_name n) (nic_settings parent managed net n) ds)"
    by (rule diskless_put [OF "2.prems"(2)])
  then show ?case using "2.IH" "2.prems"(1) by (simp add: Let_def split: if_splits)
qed simp

lemma agree_new:
  assumes "diskless ds" and "persistent_map e = []"
  shows "settings_match c e ds"
proof -
  have "gm_find ds n = None" if "n \<in> slot_names" for n
    using assms(1) that unfolding diskless_def list_all_iff by (cases "gm_find ds n") (auto dest!: map_of_SomeD)
  moreover have "(p, n) \<in> set disk_slots \<Longrightarrow> n \<in> slot_names" for p n by force
  ultimately have "list_all (\<lambda>(p, n). gm_find ds n = map_option (disk_device c) (disk_at e p)) disk_slots"
    using assms(2) by (auto simp: list_all_iff disk_at_def)
  moreover have "list_all (\<lambda>(n, dev). prefix DISK_PERSISTENT_PREFIX (gm_get dev ''source'') \<longrightarrow> n \<in> slot_names) ds"
    using assms(1) unfolding diskless_def
    by (auto simp: DISK_PERSISTENT_PREFIX_def elim!: list.pred_mono_strong)
  ultimately show ?thesis using assms by (simp add: settings_match_def diskless_def slots_ok_def wf_map_def)
qed

text \<open>The replacement of the settings disk, and the set-up of a new VM.\<close>

lemma config_no_slot: "DISK_DEVICE_CONFIG \<notin> slot_names" "DISK_DEVICE_EPHEMERAL \<notin> slot_names"
  by (simp_all add: disk_slots_def DISK_DEVICE_PERSISTENT1_def DISK_DEVICE_PERSISTENT2_def DISK_DEVICE_CONFIG_def
      DISK_DEVICE_EPHEMERAL_def)

lemma other_prefixes:
  "prefix DISK_CONFIGURATION_PREFIX v \<Longrightarrow> \<not> prefix DISK_PERSISTENT_PREFIX v"
  "prefix DISK_EPHEMERAL_PREFIX v \<Longrightarrow> \<not> prefix DISK_PERSISTENT_PREFIX v"
  by (auto simp: prefix_def DISK_CONFIGURATION_PREFIX_def DISK_EPHEMERAL_PREFIX_def DISK_PERSISTENT_PREFIX_def)

text \<open>The cloud changes the devices of \<open>vm\<close> only, and what agreed with them still does.\<close>

definition keeps_agreement :: "'w CPI \<Rightarrow> string \<Rightarrow> cloud \<Rightarrow> cloud \<Rightarrow> bool" where
  "keeps_agreement c vm cl cl' \<longleftrightarrow> (\<forall>u. u \<noteq> vm \<longrightarrow> cl_devices cl' u = cl_devices cl u) \<and>
     (\<forall>ds. cl_devices cl vm = Some ds \<longrightarrow> (\<exists>ds'. cl_devices cl' vm = Some ds' \<and> (\<forall>e. settings_match c e ds \<longrightarrow> settings_match c e ds')))"

lemma keeps_refl: "cl_devices cl' = cl_devices cl \<Longrightarrow> keeps_agreement c vm cl cl'"
  by (simp add: keeps_agreement_def)

lemma keeps_trans: "keeps_agreement c vm cl cl1 \<Longrightarrow> keeps_agreement c vm cl1 cl' \<Longrightarrow> keeps_agreement c vm cl cl'"
  unfolding keeps_agreement_def by metis

lemma keeps_removed: "device_removed vm n cl cl' \<Longrightarrow> n \<notin> slot_names \<Longrightarrow> keeps_agreement c vm cl cl'"
  by (auto simp: keeps_agreement_def device_removed_def with_devices_def agree_device)

lemma keeps_added:
  "device_added vm n (disk_device c v) cl cl' \<Longrightarrow> n \<notin> slot_names \<Longrightarrow> \<not> prefix DISK_PERSISTENT_PREFIX v \<Longrightarrow>
   keeps_agreement c vm cl cl'"
  by (auto simp: keeps_agreement_def device_added_def with_devices_def agree_device)

lemma keeps_volumes: "volume_made l v cl cl' \<Longrightarrow> keeps_agreement c vm cl cl'" "volume_removed cn v cl cl' \<Longrightarrow> keeps_agreement c vm cl cl'"
  "volume_moved v cl cl' \<Longrightarrow> keeps_agreement c vm cl cl'"
  by (auto simp: volume_made_def volume_removed_def volume_moved_def intro: keeps_refl)

lemmas keeps_steps = keeps_refl keeps_volumes keeps_removed [OF _ config_no_slot(1)]
  keeps_added [OF _ config_no_slot(1) other_prefixes(1)] keeps_added [OF _ config_no_slot(2) other_prefixes(2)]

lemma dropped_keeps: "config_dropped cn vm disks cl cl' \<Longrightarrow> keeps_agreement c vm cl cl'"
  by (auto simp: config_dropped_def split: option.splits intro: keeps_steps keeps_trans)

lemma replaced_keeps: "settings_replaced cn c vm cl cl' \<Longrightarrow> keeps_agreement c vm cl cl'"
  unfolding settings_replaced_def old_settings_dropped_def relcompp_apply
  by (meson keeps_steps dropped_keeps keeps_trans)

lemma set_up_keeps: "vm_set_up cn c vm sz cl cl' \<Longrightarrow> keeps_agreement c vm cl cl'"
  unfolding vm_set_up_def ephemeral_added_def
  by (cases "sz > 0"; simp add: relcompp_apply; meson keeps_steps replaced_keeps keeps_trans)

section \<open>Successful calls\<close>

text \<open>A call for one VM leaves the devices and the settings of the others alone.\<close>

definition only_vm :: "'w CPI \<Rightarrow> string \<Rightarrow> (string \<rightharpoonup> string) \<Rightarrow> cloud \<Rightarrow> (string \<rightharpoonup> string) \<Rightarrow> cloud \<Rightarrow> bool" where
  "only_vm c vm f cl f' cl' \<longleftrightarrow> (\<forall>p. p \<noteq> settings_path c vm \<longrightarrow> f' p = f p) \<and>
     (\<forall>u. u \<noteq> vm \<longrightarrow> cl_devices cl' u = cl_devices cl u)"

lemma only_vm_others:
  assumes "only_vm c vm f cl f' cl'" and "vm_agrees c u f cl" and "plain_id u" and "plain_id vm" and "u \<noteq> vm"
  shows "vm_agrees c u f' cl'"
proof -
  have "settings_path c u \<noteq> settings_path c vm" using assms(3-5) agentFileName_inj unfolding settings_path_def by blast
  then show ?thesis using assms(1,2,5) by (simp add: vm_agrees_def stored_settings_def only_vm_def)
qed

lemma vm_made_diskless:
  assumes "vm_made cn c cprops nets vm nets' cl cl'"
  obtains ds cl0 where "diskless ds" and "cl0 = cl\<lparr>cl_devices := (cl_devices cl)(vm \<mapsto> ds)\<rparr>" and "keeps_agreement c vm cl0 cl'"
proof -
  obtain props :: LXDVMCloudProperties and nics managed target cl0 where plan: "network_loop (vp_Network props)
      (cfg_ManagedNetworkAssignment (conf_Server (cpi_config c))) managed nets 0 [] [] (vp_Target props) = Inr (nics, nets', target)"
    and cl0: "instance_made vm (gm_put ''root'' (root_device (cpi_pool c)) nics) cl cl0"
    and up: "vm_set_up cn c vm (vp_EphemeralDisk props) cl0 cl'"
    using assms unfolding vm_made_def by blast
  have "diskless nics" by (rule planned_diskless [OF plan]) (simp add: diskless_def wf_map_def)
  moreover have "''root'' \<notin> slot_names" and "gm_get (root_device (cpi_pool c)) ''source'' = []"
    by (simp_all add: disk_slots_def DISK_DEVICE_PERSISTENT1_def DISK_DEVICE_PERSISTENT2_def root_device_def gm_get_def)
  ultimately have "diskless (gm_put ''root'' (root_device (cpi_pool c)) nics)" by (rule diskless_put)
  then show ?thesis using that cl0 set_up_keeps [OF up] by (simp add: instance_made_def)
qed

lemma created_agrees:
  assumes "shows_cloud view a L c" and "pred_option wf_map env"
    and "CreateVMV2 (cpi_on a k L c) agent stemcell cprops nets env s = (Ok (vm, nets'), s')"
  defines "C \<equiv> cpi_on a k L c"
  shows "vm_agrees C vm (files s') (view (world s'))"
    and "only_vm C vm (files s) (view (world s)) (files s') (view (world s'))"
proof -
  have "vm_made (conn_of a) C cprops nets vm nets' (view (world s)) (view (world s'))"
    using doesD [OF shown.does_create [OF assms(1,2)] assms(3)] by (auto simp: C_def)
  then obtain ds cl0 where ds: "diskless ds"
    "cl0 = (view (world s))\<lparr>cl_devices := (cl_devices (view (world s)))(vm \<mapsto> ds)\<rparr>" "keeps_agreement C vm cl0 (view (world s'))"
    by (rule vm_made_diskless)
  obtain e where e: "wf_agent_env e" "persistent_map e = []" "files s' = (files s)(settings_path C vm \<mapsto> AsBytes e)"
    using doesD [OF filed.create_stores [OF assms(2)] assms(3)] by (auto simp: filed.fresh_settings_def C_def)
  show "only_vm C vm (files s) (view (world s)) (files s') (view (world s'))"
    using ds(2,3) e(3) by (simp add: only_vm_def keeps_agreement_def)
  have "settings_match C e ds" by (rule agree_new [OF ds(1) e(2)])
  then obtain ds' where "cl_devices (view (world s')) vm = Some ds'" "settings_match C e ds'"
    using ds(2,3) by (auto simp: keeps_agreement_def)
  then show "vm_agrees C vm (files s') (view (world s'))"
    by (simp add: vm_agrees_def e(3) stored_update [OF e(1)] agree_canonical)
qed

lemma stored_in: "FromBytes b = Inr e \<Longrightarrow> f (settings_path c vm) = Some b \<Longrightarrow> stored_settings c vm f = Some e"
  by (simp add: stored_settings_def)

definition attached_disks :: "'w CPI \<Rightarrow> string \<Rightarrow> (string \<rightharpoonup> string) \<Rightarrow> string set" where
  "attached_disks c vm f = (case stored_settings c vm f of None \<Rightarrow> {} | Some e \<Rightarrow> fst ` set (persistent_map e))"

lemma attached_agrees:
  assumes "shows_cloud view a L c" and "AttachDiskV2 (cpi_on a k L c) vm disk s = (Ok hint, s')"
  defines "C \<equiv> cpi_on a k L c"
  assumes "vm_agrees C vm (files s) (view (world s))" and "disk \<notin> attached_disks C vm (files s)"
    and "prefix DISK_PERSISTENT_PREFIX disk"
  shows "vm_agrees C vm (files s') (view (world s'))"
    and "only_vm C vm (files s) (view (world s)) (files s') (view (world s'))"
proof -
  obtain b e p n where e: "files s (settings_path C vm) = Some b" "FromBytes b = Inr e"
      "choose_slot (AsBytes e) = Some (p, n)" "hint = path_hint p"
      "files s' = (files s)(settings_path C vm \<mapsto> AsBytes (AttachPersistentDisk disk hint e))"
    using doesD [OF filed.attach_stores assms(2)] by (auto simp: C_def)
  obtain q m where q: "(q, m) \<in> set disk_slots" "hint = path_hint q"
      "disk_attached (conn_of a) C vm disk m (view (world s)) (view (world s'))"
    using doesD [OF shown.does_attach [OF assms(1)] assms(2)] by (auto simp: C_def disk_slots_def)
  have "m = n" using slot_unique [OF q(1) chosen_slot [OF e(3)]] q(2) e(4) by simp
  then obtain cl1 cl2 where run: "sup (=) (volume_moved disk) (view (world s)) cl1"
      "device_added vm n (disk_device C disk) cl1 cl2" "settings_replaced (conn_of a) C vm cl2 (view (world s'))"
    using q(3) unfolding disk_attached_def by blast
  have "cl_devices cl1 = cl_devices (view (world s))" using run(1) by (auto simp: volume_moved_def)
  then obtain ds where ds: "cl_devices (view (world s)) vm = Some ds" "gm_find ds n = None"
      "cl_devices cl2 = (cl_devices (view (world s)))(vm \<mapsto> ds @ [(n, disk_device C disk)])"
    using run(2) by (auto simp: device_added_def with_devices_def)
  note kept = replaced_keeps [OF run(3)]
  show "only_vm C vm (files s) (view (world s)) (files s') (view (world s'))"
    using kept e(5) ds(3) by (simp add: only_vm_def keeps_agreement_def)
  have "settings_match C e ds" and "disk \<notin> fst ` set (persistent_map e)"
    using assms(4,5) ds(1) stored_in [where f = "files s", OF e(2,1)] by (auto simp: vm_agrees_def attached_disks_def)
  then have "settings_match C (AttachPersistentDisk disk hint e) (ds @ [(n, disk_device C disk)])"
    using agree_attach [OF _ e(3) ds(2)] assms(6) e(4) by simp
  then obtain ds' where "cl_devices (view (world s')) vm = Some ds'" "settings_match C (AttachPersistentDisk disk hint e) ds'"
    using kept ds(3) by (auto simp: keeps_agreement_def)
  then show "vm_agrees C vm (files s') (view (world s'))"
    using FromBytes_wf [OF e(2)] by (simp add: vm_agrees_def e(5) stored_update agree_canonical)
qed

lemma detached_agrees:
  assumes "shows_cloud view a L c" and "DetachDisk (cpi_on a k L c) vm disk s = (Ok (), s')"
  defines "C \<equiv> cpi_on a k L c"
  assumes "vm_agrees C vm (files s) (view (world s))"
  shows "vm_agrees C vm (files s') (view (world s'))"
    and "only_vm C vm (files s) (view (world s)) (files s') (view (world s'))"
proof -
  obtain b e where e: "files s (settings_path C vm) = Some b" "FromBytes b = Inr e"
      "files s' = (files s)(settings_path C vm \<mapsto> AsBytes (DetachPersistentDisk disk e))"
    using doesD [OF filed.detach_stores assms(2)] by (auto simp: C_def)
  obtain cl1 where run: "source_removed vm disk (view (world s)) cl1" "settings_replaced (conn_of a) C vm cl1 (view (world s'))"
    using doesD [OF shown.does_detach [OF assms(1)] assms(2)] by (auto simp: C_def disk_detached_def)
  then obtain ds ds1 where ds: "cl_devices (view (world s)) vm = Some ds"
      "find_device_by_source ds disk = [] \<and> ds1 = ds \<or> ds1 = gm_del (find_device_by_source ds disk) ds"
      "cl_devices cl1 = (cl_devices (view (world s)))(vm \<mapsto> ds1)"
    unfolding source_removed_def with_devices_def Let_def by fastforce
  note kept = replaced_keeps [OF run(2)]
  show "only_vm C vm (files s) (view (world s)) (files s') (view (world s'))"
    using kept e(3) ds(3) by (simp add: only_vm_def keeps_agreement_def)
  have "settings_match C e ds" using assms(4) ds(1) stored_in [where f = "files s", OF e(2,1)] by (auto simp: vm_agrees_def)
  then have "settings_match C (DetachPersistentDisk disk e) ds1" by (rule agree_detach [OF _ refl ds(2)])
  then obtain ds' where "cl_devices (view (world s')) vm = Some ds'" "settings_match C (DetachPersistentDisk disk e) ds'"
    using kept ds(3) by (auto simp: keeps_agreement_def)
  then show "vm_agrees C vm (files s') (view (world s'))"
    using FromBytes_wf [OF e(2)] by (simp add: vm_agrees_def e(3) stored_update agree_canonical)
qed

lemma deleted_others:
  assumes "shows_cloud view a L c" and "DeleteVM (cpi_on a k L c) vm s = (Ok (), s')"
  shows "only_vm (cpi_on a k L c) vm (files s) (view (world s)) (files s') (view (world s'))"
  using DeleteVM_removes [OF assms] doesD [OF filed.delete_stores assms(2)]
  by (auto simp: only_vm_def vm_removed_def)

section \<open>Histories\<close>

text \<open>
  The VMs that a sequence of successful calls has made and not deleted.  Identifiers are fresh single path
  elements, as generated; a disk is not attached to a VM that has it.
\<close>

inductive vm_history :: "'w CPI \<Rightarrow> (event, 'w) sys \<Rightarrow> string set \<Rightarrow> (event, 'w) sys \<Rightarrow> bool" for c and s where
  nothing_yet: "vm_history c s {} s"
| made: "vm_history c s vms s1 \<Longrightarrow> CreateVMV2 c agent stemcell cprops nets env s1 = (Ok (vm, nets'), s2) \<Longrightarrow>
    pred_option wf_map env \<Longrightarrow> plain_id vm \<Longrightarrow> vm \<notin> vms \<Longrightarrow> vm_history c s (insert vm vms) s2"
| attached: "vm_history c s vms s1 \<Longrightarrow> AttachDiskV2 c vm disk s1 = (Ok hint, s2) \<Longrightarrow> vm \<in> vms \<Longrightarrow>
    prefix DISK_PERSISTENT_PREFIX disk \<Longrightarrow> disk \<notin> attached_disks c vm (files s1) \<Longrightarrow> vm_history c s vms s2"
| detached: "vm_history c s vms s1 \<Longrightarrow> DetachDisk c vm disk s1 = (Ok (), s2) \<Longrightarrow> vm \<in> vms \<Longrightarrow> vm_history c s vms s2"
| deleted: "vm_history c s vms s1 \<Longrightarrow> DeleteVM c vm s1 = (Ok (), s2) \<Longrightarrow> vm \<in> vms \<Longrightarrow> vm_history c s (vms - {vm}) s2"

lemma history_agrees:
  assumes "shows_cloud view a L c" and "vm_history (cpi_on a k L c) s vms s'"
  shows "\<forall>u \<in> vms. plain_id u \<and> vm_agrees (cpi_on a k L c) u (files s') (view (world s'))"
  using assms(2)
proof (induction rule: vm_history.induct)
  case (made vms s1 agent stemcell cprops nets env vm nets' s2)
  show ?case
    using created_agrees [OF assms(1) made.hyps(3,2)] made.hyps(4,5) made.IH only_vm_others by blast
next
  case (attached vms s1 vm disk hint s2)
  then show ?case
    using attached_agrees [OF assms(1) attached.hyps(2)] only_vm_others by metis
next
  case (detached vms s1 vm disk s2)
  then show ?case
    using detached_agrees [OF assms(1) detached.hyps(2)] only_vm_others by metis
next
  case (deleted vms s1 vm s2)
  then show ?case using deleted_others [OF assms(1) deleted.hyps(2)] only_vm_others by blast
qed simp

text \<open>Settings and devices are read in the same way for every adapter and image format.\<close>

lemma agree_parts:
  "stored_settings (cpi_on a k L c) = stored_settings c" "attached_disks (cpi_on a k L c) = attached_disks c"
  "disk_device (cpi_on a k L c) = disk_device c" "settings_match (cpi_on a k L c) = settings_match c"
proof -
  show device: "disk_device (cpi_on a k L c) = disk_device c" by (simp add: fun_eq_iff disk_device_def)
  show "settings_match (cpi_on a k L c) = settings_match c" by (simp add: fun_eq_iff settings_match_def device)
qed (simp_all add: fun_eq_iff stored_settings_def attached_disks_def)

section \<open>Properties\<close>

text \<open>
  C9.  The settings of a VM agree with its devices.  On a world that shows a cloud, start anywhere and
  make, change and delete VMs by successful calls, with fresh identifiers and attaching no disk to a VM
  that already has it.  Then, for every VM that was made and not deleted, the stored settings can be read
  and at most two persistent disks are in them, at distinct device paths; the VM has exactly these disks as
  devices, each under the name that goes with its path, and no other device refers to a persistent disk.
\<close>

theorem settings_agree_with_devices:
  assumes "shows_cloud view a L c" and "vm_history (cpi_on a k L c) s vms s'" and "vm \<in> vms"
  shows "\<exists>e ds. stored_settings c vm (files s') = Some e \<and> cl_devices (view (world s')) vm = Some ds \<and>
    settings_match c e ds \<and> length (persistent_map e) \<le> 2"
proof -
  have "vm_agrees (cpi_on a k L c) vm (files s') (view (world s'))" using history_agrees [OF assms(1,2)] assms(3) by blast
  then obtain e ds where e: "stored_settings c vm (files s') = Some e" "cl_devices (view (world s')) vm = Some ds" "settings_match c e ds"
    by (rule vm_agreesE) (simp add: agree_parts)
  then have "length (persistent_map e) \<le> 2" by (simp add: settings_match_def slots_ok_length)
  with e show ?thesis by blast
qed

text \<open>A VM is made on the small server, and gets a persistent disk.\<close>

definition demo_settings :: agent_env where
  "demo_settings = AttachEphemeralDisk (NewDiskHintFromString ''/dev/sdb'') (AttachSystemDisk (NewDiskHintFromString ''/dev/sda'')
     (ForVM ''agent'' ''vm-u'' [] None (conf_Agent demo_config)))"

lemma demo_settings_wf: "wf_agent_env demo_settings"
  by (simp add: demo_settings_def wf_map_def)

lemma demo_first_slot: "choose_slot (AsBytes (canonical demo_settings)) = Some (''/dev/sdc'', ''persistent-1'')"
  by code_simp

lemma demo_make_attach:
  "\<exists>w1 w2 f2.
     reaches (CreateVMV2 demo_node ''agent'' ''img-1'' demo_props [] None) (demo_with [] [demo_volume ''vol-p-1''] 1)
       Map.empty (''vm-u'', []) w1 [settings_path demo_cpi ''vm-u'' \<mapsto> AsBytes demo_settings] \<and>
     reaches (AttachDiskV2 demo_node ''vm-u'' ''vol-p-1'') w1 [settings_path demo_cpi ''vm-u'' \<mapsto> AsBytes demo_settings]
       (path_hint ''/dev/sdc'') w2 f2"
  unfolding Let_def CreateVMV2_def setup_vm_def finish_vm_def writeAgentFileToVM_def outer_def inner_def with_cleanup_def
    createVMWithLock_def attachDiskDeviceToVM_def findDisksAttachedToVm_def AttachDiskV2_def demo_unfolds
  apply (rule exI)+
  apply (rule conjI)
   apply (rule reaches_mono)
      apply (rule demo_steps | (rule reaches_if(1) reaches_option(1), (simp add: demo_eval; fail)) |
        (rule reaches_if(2) reaches_option(2), (simp add: demo_eval; fail)) | (simp add: demo_eval; fail) | rule refl)+
   apply (simp add: demo_settings_def demo_with_def demo_cpi_def)
  apply (rule demo_steps demo_Read demo_settings_wf | (rule reaches_if(1) reaches_option(1), (simp add: demo_eval demo_first_slot; fail)) |
    (rule reaches_if(2) reaches_option(2), (simp add: demo_eval demo_first_slot; fail)) | (simp add: demo_eval; fail) | rule refl)+
  done

lemma created_without_disks:
  assumes "CreateVMV2 (cpi_on a k L c) agent stemcell cprops nets env s = (Ok (vm, nets'), s')" and "pred_option wf_map env"
  shows "attached_disks c vm (files s') = {}"
proof -
  obtain e where e: "wf_agent_env e" "persistent_map e = []" "files s' = (files s)(settings_path c vm \<mapsto> AsBytes e)"
    using doesD [OF filed.create_stores [OF assms(2)] assms(1)] by (auto simp: filed.fresh_settings_def)
  have "sort_key fst (persistent_map e) = []" using e(2) by simp
  then show ?thesis by (simp add: attached_disks_def e(3) stored_update [OF e(1)] persistent_canonical)
qed

theorem settings_agree_with_devices_witness:
  "\<exists>s s' e ds. vm_history demo_node s {''vm-u''} s' \<and> stored_settings demo_cpi ''vm-u'' (files s') = Some e \<and>
     cl_devices (demo_view (world s')) ''vm-u'' = Some ds \<and> settings_match demo_cpi e ds"
proof -
  obtain s s1 s2 where run: "CreateVMV2 demo_node ''agent'' ''img-1'' demo_props [] None s = (Ok (''vm-u'', []), s1)"
      "AttachDiskV2 demo_node ''vm-u'' ''vol-p-1'' s1 = (Ok (path_hint ''/dev/sdc''), s2)"
    using demo_make_attach reaches_twice by meson
  have "vm_history demo_node s {''vm-u''} s1"
    by (rule vm_history.made [OF vm_history.nothing_yet run(1)]) (simp_all add: plain_id_def)
  then have history: "vm_history demo_node s {''vm-u''} s2"
    by (rule vm_history.attached [OF _ run(2)])
      (simp_all add: agree_parts created_without_disks [OF run(1)] DISK_PERSISTENT_PREFIX_def)
  show ?thesis using settings_agree_with_devices [OF demo_shows_cloud history] history by blast
qed

end
