(* ===== verification/CpiStemcellProps.thy ===== *)
theory CpiStemcellProps
  imports CpiVmProps
begin

text \<open>
  What the stemcell calls and the metadata calls promise.
\<close>

section \<open>CreateStemcell\<close>

text \<open>The loop over the archive is a search for the first entry above 100 MiB.\<close>

lemma find_root_image_find:
  "find_root_image hs e = (case List.find (\<lambda>h. th_Size h > 104857600) hs of None \<Rightarrow> Inl e | Some h \<Rightarrow> Inr h)"
  by (induction hs) auto

text \<open>The requests of the optional predeployment.\<close>

definition predeploy_requests :: "conn \<Rightarrow> 'w CPI \<Rightarrow> string \<Rightarrow> request \<Rightarrow> request list" where
  "predeploy_requests cn c alias upd = (if cfg_PredeployStemcell (conf_Server (cpi_config c))
     then [ReqCreateInstance (target_conn (cfg_Target (conf_Server (cpi_config c))) cn)
             (instances_post_of (predeploy_metadata c alias)), upd]
     else [])"

definition stemcell_contract :: "conn \<Rightarrow> 'w CPI \<Rightarrow> string \<Rightarrow> json \<Rightarrow> string res \<Rightarrow> event list \<Rightarrow> bool" where
  "stemcell_contract cn c imagePath scprops r ts \<longleftrightarrow> orderly r ts \<and>
     (effects ts = [] \<or>
      (\<exists>u props archive h post args target upd. EvUuid (Inr u) \<in> set ts \<and> dec_stemcell_props scprops = Inr props \<and>
         EvGzipReader imagePath (Inr archive) \<in> set ts \<and>
         find_root_image (sa_entries archive) (sa_end archive) = Inr h \<and> ia_rootfs_file args = th_Content h \<and>
         is_update cn (makeStemcellPredeployVMName (''img-'' @ u)) upd \<and>
         prefix (effects ts)
           ([ReqCreateImage cn post args, ReqCreateImageAlias cn \<lparr>al_name = ''img-'' @ u,
               al_description = stemcell_description props, al_target = target\<rparr>] @
            predeploy_requests cn c (''img-'' @ u) upd) \<and>
         (is_Ok r \<longrightarrow> r = Ok (''img-'' @ u) \<and>
            length (effects ts) = 2 + length (predeploy_requests cn c (''img-'' @ u) upd))))"

section \<open>DeleteStemcell\<close>

definition delete_stemcell_contract :: "conn \<Rightarrow> string \<Rightarrow> unit res \<Rightarrow> event list \<Rightarrow> bool" where
  "delete_stemcell_contract cn alias r ts \<longleftrightarrow> (let vm = makeStemcellPredeployVMName alias in
     orderly r ts \<and>
     (effects ts = [] \<or> effects ts = [ReqDeleteInstance cn vm] \<and> \<not> is_Ok r \<or>
      (\<exists>e t. EvGetImageAlias cn alias (Inr (e, t)) \<in> set ts \<and>
        (effects ts = [ReqDeleteInstance cn vm, ReqDeleteImage cn (al_target e)] \<or>
         effects ts = [ReqDeleteImage cn (al_target e)]))) \<and>
     (\<forall>s s' e. prefix [EvGetServer cn s, EvGetServer cn s', EvGetInstance cn vm (Inl e)] ts \<and> \<not> vm_absent (Inl e)
        \<longrightarrow> r = Ok () \<and> effects ts = []))"

section \<open>SetVMMetadata\<close>

fun update_description :: "request \<Rightarrow> string" where
  "update_description (ReqUpdateInstance cn vm put t) = ip_description put"
| "update_description (ReqUpdateVolume cn p ty v put t) = svp_description put"
| "update_description _ = []"

definition ephemeral_update :: "conn \<Rightarrow> string \<Rightarrow> string \<Rightarrow> event list \<Rightarrow> request \<Rightarrow> bool" where
  "ephemeral_update cn pool vm ts q \<longleftrightarrow> (\<exists>ds d put t. reports ts cn vm ds \<and>
     gm_find (disks_of ds) DISK_DEVICE_EPHEMERAL = Some d \<and>
     q = ReqUpdateVolume cn pool ''custom'' (gm_get d ''source'') put t)"

definition vm_metadata_contract :: "conn \<Rightarrow> string \<Rightarrow> string \<Rightarrow> json gomap option \<Rightarrow> unit res \<Rightarrow> event list \<Rightarrow> bool" where
  "vm_metadata_contract cn pool vm meta r ts \<longleftrightarrow> orderly r ts \<and> (effects ts = [] \<and> \<not> is_Ok r \<or>
     (\<exists>actual q us. NewActualVMMeta meta = Inr actual \<and> effects ts = q # us \<and> is_update cn vm q \<and> length us \<le> 1 \<and>
        list_all (ephemeral_update cn pool vm ts) us \<and>
        list_all (\<lambda>q. update_description q = vmm_Job actual @ ''/'' @ vmm_Index actual) (q # us)))"

lemma updated_instance_description:
  assumes "updates_instance ts cn vm (\<lambda>i put. put\<lparr>ip_description := s\<rparr>) g"
  shows "\<exists>q. effects ts = [q] \<and> is_update cn vm q \<and> update_description q = s"
proof -
  from assms obtain i :: vm_instance and t and put :: instance_put where "effects ts = [ReqUpdateInstance cn vm put (g t)]"
    and put: "put\<lparr>ip_restore := []\<rparr> = ((ins_put i)\<lparr>ip_description := s\<rparr>)\<lparr>ip_restore := []\<rparr>"
    by (auto simp: updates_instance_def)
  moreover have "ip_description put = s" using arg_cong [OF put, of ip_description] by simp
  ultimately show ?thesis by simp
qed

lemma updated_volume_description:
  assumes "updates_volume ts cn p v (\<lambda>put. put\<lparr>svp_description := s\<rparr>)"
  shows "\<exists>put t. effects ts = [ReqUpdateVolume cn p ''custom'' v put t] \<and> svp_description put = s"
  using assms by (auto simp: updates_volume_def)

lemma vm_metadata_updated:
  assumes "NewActualVMMeta meta = Inr actual" and "orderly r ts" and "effects ts = q # us" and "is_update cn vm q"
    and "update_description q = vmm_Job actual @ ''/'' @ vmm_Index actual"
    and "us = [] \<or> (\<exists>put t. us = [ReqUpdateVolume cn pool ''custom'' (gm_get d ''source'') put t] \<and>
       svp_description put = vmm_Job actual @ ''/'' @ vmm_Index actual)"
    and "reports ts cn vm ds" and "gm_find (disks_of ds) DISK_DEVICE_EPHEMERAL = Some d"
  shows "vm_metadata_contract cn pool vm meta r ts"
proof -
  have "ephemeral_update cn pool vm ts (ReqUpdateVolume cn pool ''custom'' (gm_get d ''source'') put t)" for put t
    using assms(7,8) unfolding ephemeral_update_def by blast
  then show ?thesis using assms by (auto simp: vm_metadata_contract_def)
qed

lemma vm_metadata_instance_only:
  assumes "NewActualVMMeta meta = Inr actual" and "orderly r ts" and "effects ts = [q]" and "is_update cn vm q"
    and "update_description q = vmm_Job actual @ ''/'' @ vmm_Index actual"
  shows "vm_metadata_contract cn pool vm meta r ts"
  using assms by (auto simp: vm_metadata_contract_def)

lemma vm_metadata_nothing:
  "orderly r ts \<Longrightarrow> effects ts = [] \<Longrightarrow> \<not> is_Ok r \<Longrightarrow> vm_metadata_contract cn pool vm meta r ts"
  by (simp add: vm_metadata_contract_def)

context cpi_contract
begin

lemma predeploy_contract:
  "emits (predeploy c alias descr) (\<lambda>r ts. orderly r ts \<and> (\<exists>upd.
     is_update cn (makeStemcellPredeployVMName alias) upd \<and> prefix (effects ts) (predeploy_requests cn c alias upd) \<and>
     (is_Ok r \<longrightarrow> effects ts = predeploy_requests cn c alias upd)))"
proof -
  have some: "\<exists>upd. is_update cn vm upd" for vm
    by (rule exI [of _ "ReqUpdateInstance cn vm undefined []"]) simp
  have upd: "updates_instance ts cn vm f g \<Longrightarrow> \<exists>q. effects ts = [q] \<and> is_update cn vm q" for ts vm f g
    using updates_instance_is_update by blast
  show ?thesis
  proof (cases "cfg_PredeployStemcell (conf_Server (cpi_config c))")
    case True
    show ?thesis
      unfolding predeploy_def predeploy_requests_def
      apply (simp only: True if_True)
      apply (rule emits_wrap, rule CreateInstance_law [unfolded sends_one_def, THEN emits_mono], rule emits_afterI)
        apply (rule emits_wrap, rule UpdateInstanceDescription_law [THEN emits_mono], rule emits_afterI)
          apply (auto simp: predeploy_metadata_def some dest!: upd)
      done
  next
    case False
    then show ?thesis by (simp add: predeploy_def predeploy_requests_def some)
  qed
qed

lemma upload_contract:
  "emits (io_wrap (CreateAndUploadImage (cpi_adapter c) (image_metadata (''img-'' @ u) img props h)) msg (\<lambda>_.
      io_bind (predeploy c (''img-'' @ u) descr) (\<lambda>_. new_cid (''img-'' @ u))))
    (\<lambda>r ts. orderly r ts \<and> (\<exists>post args target upd. ia_rootfs_file args = th_Content h \<and>
       is_update cn (makeStemcellPredeployVMName (''img-'' @ u)) upd \<and>
       prefix (effects ts) ([ReqCreateImage cn post args, ReqCreateImageAlias cn \<lparr>al_name = ''img-'' @ u,
             al_description = stemcell_description props, al_target = target\<rparr>] @
          predeploy_requests cn c (''img-'' @ u) upd) \<and>
       (is_Ok r \<longrightarrow> r = Ok (''img-'' @ u) \<and>
          length (effects ts) = 2 + length (predeploy_requests cn c (''img-'' @ u) upd))))"
proof (rule emits_wrap, rule CreateAndUploadImage_law [THEN emits_mono], elim conjE exE)
  fix r :: "unit res" and ts post args target
  assume ord: "orderly r ts" and pre: "prefix (effects ts) [ReqCreateImage cn post args, ReqCreateImageAlias cn
       \<lparr>al_name = im_Alias (image_metadata (''img-'' @ u) img props h),
        al_description = im_Description (image_metadata (''img-'' @ u) img props h), al_target = target\<rparr>]"
    and root: "ia_rootfs_file args = im_TarFile (image_metadata (''img-'' @ u) img props h)"
    and len: "is_Ok r \<longrightarrow> length (effects ts) = 2"
  let ?reqs = "[ReqCreateImage cn post args, ReqCreateImageAlias cn \<lparr>al_name = ''img-'' @ u,
       al_description = stemcell_description props, al_target = target\<rparr>]"
  have pre': "prefix (effects ts) ?reqs" and root': "ia_rootfs_file args = th_Content h"
    using pre root by (simp_all add: image_metadata_def)
  define good where "good r' us \<longleftrightarrow> orderly r' us \<and> (\<exists>upd. is_update cn (makeStemcellPredeployVMName (''img-'' @ u)) upd \<and>
      prefix (effects us) (?reqs @ predeploy_requests cn c (''img-'' @ u) upd) \<and>
      (is_Ok r' \<longrightarrow> r' = Ok (''img-'' @ u) \<and> length (effects us) = 2 + length (predeploy_requests cn c (''img-'' @ u) upd)))"
    for r' :: "string res" and us
  have pre2: "prefix (effects ts) (?reqs @ X)" for X using pre' by (rule prefix_prefix)
  have failed: "good r' ts" if "\<not> is_Ok r'" "orderly r' ts" for r'
    unfolding good_def using that pre2 is_update.simps(1) by blast
  have "emits_after (\<lambda>e. io_fail (WrapError e msg)) (\<lambda>_. io_bind (predeploy c (''img-'' @ u) descr) (\<lambda>_. new_cid (''img-'' @ u)))
      good r ts"
  proof (rule emits_afterI)
    fix x assume r: "r = Ok x"
    obtain zs where zs: "?reqs = effects ts @ zs" using pre' by (auto elim: prefixE)
    have "length ?reqs = 2" by simp
    then have "zs = []" using r len unfolding zs by simp
    then have ts: "effects ts = ?reqs" "stops ts" "\<not> refused ts"
      using zs ord r by simp_all
    show "emits (io_bind (predeploy c (''img-'' @ u) descr) (\<lambda>_. new_cid (''img-'' @ u))) (\<lambda>r' us. good r' (ts @ us))"
      by (rule emits_bind, rule predeploy_contract [THEN emits_mono], rule emits_afterI)
         (use ts in \<open>fastforce simp: good_def\<close>)+
  qed (use failed ord in auto)
  then show "emits_after (\<lambda>e. io_fail (WrapError e msg)) (\<lambda>_. io_bind (predeploy c (''img-'' @ u) descr) (\<lambda>_. new_cid (''img-'' @ u)))
     (\<lambda>r ts. orderly r ts \<and> (\<exists>post args target upd. ia_rootfs_file args = th_Content h \<and>
       is_update cn (makeStemcellPredeployVMName (''img-'' @ u)) upd \<and>
       prefix (effects ts) ([ReqCreateImage cn post args, ReqCreateImageAlias cn \<lparr>al_name = ''img-'' @ u,
             al_description = stemcell_description props, al_target = target\<rparr>] @
          predeploy_requests cn c (''img-'' @ u) upd) \<and>
       (is_Ok r \<longrightarrow> r = Ok (''img-'' @ u) \<and>
          length (effects ts) = 2 + length (predeploy_requests cn c (''img-'' @ u) upd)))) r ts"
    by (rule emits_after_mono) (use root' in \<open>unfold good_def, blast\<close>)
qed

lemma CreateStemcell_contract:
  "emits (CreateStemcell c img props) (stemcell_contract cn c img props)"
  unfolding CreateStemcell_def Let_def
  apply (rule emits_bind, rule IsConnected_law [THEN emits_mono], rule emits_afterI)
    apply (rule emits_wrap, rule emits_ext, rule emits_afterI)
      apply (rule emits_wrap, rule emits_lift, rule emits_afterI)
        apply (rule emits_wrap, rule FindExistingImage_law [unfolded only_reads_def, THEN emits_mono], rule emits_afterI)
          apply (rule emits_if)
  subgoal by (auto simp: new_cid_def stemcell_contract_def no_effects_stops no_effects_not_refused)
          apply (rule emits_wrap, rule emits_ext, rule emits_afterI)
          apply (rule emits_wrap, rule emits_ext, rule emits_afterI)
          apply (rule emits_wrap, rule emits_lift, rule emits_afterI)
          apply (rule upload_contract [THEN emits_mono])
  subgoal for r ts x xa u xb props' ra tsa existing xd xe xf archive xg h rb us
    apply (elim conjE exE)
    subgoal for a post args target upd
      unfolding stemcell_contract_def
      by (intro conjI disjI2 exI [of _ u] exI [of _ props'] exI [of _ archive] exI [of _ h] exI [of _ post]
            exI [of _ args] exI [of _ target] exI [of _ upd]) (simp_all add: no_effects_stops no_effects_not_refused)
    done
  by (auto simp: stemcell_contract_def no_effects_stops)

text \<open>The search for the predeployed VM.\<close>

lemma HasVM_trace:
  "emits (HasVM c vm) (\<lambda>r ts. effects ts = [] \<and> (\<exists>s. ts = [EvGetServer cn s] \<and> \<not> is_Ok r \<or>
     (\<exists>a. ts = [EvGetServer cn s, EvGetInstance cn vm a] \<and>
        (is_Ok r \<longleftrightarrow> (\<forall>e. a = Inl e \<longrightarrow> vm_absent a)))) \<and> \<not> is_Panic r)"
  unfolding HasVM_def by (auto intro!: emits_rules law_rules)

lemma delete_predeployed:
  "emits (io_bind (if exists then DeleteInstance (cpi_adapter c) vm else io_ret ()) (\<lambda>_. DeleteImage (cpi_adapter c) alias))
    (\<lambda>r ts. orderly r ts \<and> (effects ts = [] \<or> effects ts = [ReqDeleteInstance cn vm] \<and> \<not> is_Ok r \<or>
      (\<exists>e t. EvGetImageAlias cn alias (Inr (e, t)) \<in> set ts \<and>
        (effects ts = [ReqDeleteInstance cn vm, ReqDeleteImage cn (al_target e)] \<or>
         effects ts = [ReqDeleteImage cn (al_target e)]))))"
  apply (rule emits_bind, rule emits_if)
   apply (rule DeleteInstance_law [unfolded sends_one_def, THEN emits_mono], rule emits_afterI)
     apply (rule DeleteImage_law [THEN emits_mono])
  subgoal for r ts x ra us by (cases us) (auto simp: orderly_def)
    apply auto
  apply (rule DeleteImage_law [THEN emits_mono])
  subgoal for r us by (cases us) auto
  done

lemma DeleteStemcell_contract: "emits (DeleteStemcell c alias) (delete_stemcell_contract cn alias)"
  unfolding DeleteStemcell_def Let_def
  apply (rule emits_bind, rule IsConnected_law [THEN emits_mono], rule emits_afterI)
    apply (rule emits_try, rule HasVM_trace [THEN emits_mono], rule emits_afterI)
      apply (rule delete_predeployed [THEN emits_mono])
      apply (auto simp: delete_stemcell_contract_def Let_def no_effects_stops)
  done

lemma describe_ephemeral:
  assumes "NewActualVMMeta meta = Inr actual" and "stops pre" "\<not> refused pre" and "effects pre = [q]" and "is_update cn vm q"
    and "update_description q = vmm_Job actual @ ''/'' @ vmm_Index actual"
    and "reports pre cn vm ds" and "gm_find (disks_of ds) DISK_DEVICE_EPHEMERAL = Some d"
  shows "emits (io_wrap (UpdateStoragePoolVolumeDescription (cpi_adapter c) (cpi_pool c) (gm_get d ''source'')
      (vmm_Job actual @ ''/'' @ vmm_Index actual)) msg (\<lambda>_. io_ret ()))
    (\<lambda>r us. vm_metadata_contract cn (cpi_pool c) vm meta r (pre @ us))"
proof -
  have done_with: "vm_metadata_contract cn (cpi_pool c) vm meta r (pre @ us)"
    if "orderly r us" "effects us = [] \<or> updates_volume us cn (cpi_pool c) (gm_get d ''source'')
         (\<lambda>put. put\<lparr>svp_description := vmm_Job actual @ ''/'' @ vmm_Index actual\<rparr>)" for r us
    by (rule vm_metadata_updated [where us = "effects us" and q = q and ds = ds and d = d, OF assms(1)])
       (use that assms updated_volume_description in auto)
  show ?thesis
    by (rule emits_wrap, rule UpdateStoragePoolVolumeDescription_law [THEN emits_mono], rule emits_afterI)
       (auto intro!: done_with)
qed

lemma SetVMMetadata_contract:
  "emits (SetVMMetadata c vm meta) (vm_metadata_contract cn (cpi_pool c) vm meta)"
  unfolding SetVMMetadata_def findDisksAttachedToVm_def Let_def
  apply (rule emits_bind, rule IsConnected_law [THEN emits_mono], rule emits_afterI)
    apply (rule emits_wrap, rule emits_lift, rule emits_afterI)
      apply (rule emits_wrap, rule UpdateInstanceDescription_law [THEN emits_mono], rule emits_afterI)
      apply (rule emits_wrap, rule emits_bind, rule GetDevices_law [unfolded reads_instance_def, THEN emits_mono], rule emits_afterI, rule emits_ret, rule emits_afterI)
      apply (rule emits_option)
       apply (auto simp: vm_metadata_nothing vm_metadata_instance_only dest!: updated_instance_description)
  subgoal for actual ts d i t q
    using describe_ephemeral [of meta actual "EvGetServer cn (Inr ''trusted'') # ts @ [EvGetInstance cn vm (Inr (i, t))]"
        q vm "ip_devices (ins_put i)" d]
    by simp
  done

end

section \<open>Properties\<close>


text \<open>
  C35.  Deleting a stemcell deletes at most the predeployed VM and then the image behind the alias.  When
  the search for the predeployed VM fails, the call reports success although nothing was deleted.
\<close>

theorem delete_stemcell_requests:
  "emits (DeleteStemcell (cpi_on a k L c) alias) (delete_stemcell_contract (conn_of a) alias)"
  by (rule built.DeleteStemcell_contract)

text \<open>
  Setting the metadata of a VM changes at most two descriptions, the VM's and then its ephemeral
  disk's (as the server reported that disk), both to the job and the index of the metadata, separated by
  a slash; a success has changed the VM's.
\<close>

theorem vm_metadata_requests:
  "emits (SetVMMetadata (cpi_on a k L c) vm meta) (vm_metadata_contract (conn_of a) (cpi_pool c) vm meta)"
  using built.SetVMMetadata_contract by simp

end
