(* ===== verification/NetProps.thy ===== *)
theory NetProps
  imports CpiVm "HOL-Library.Multiset"
begin

text \<open>
  The planning parts of \<open>CreateVM\<close> as pure functions: network devices, the reconciliation of the
  cluster target, the choice of the instance configuration, and the VM size the CPI proposes.
\<close>

section \<open>Networks\<close>

text \<open>The targets that are named: the VM's own, then (on a managed network) those of its networks.\<close>

definition named_targets :: "bool \<Rightarrow> networks \<Rightarrow> string \<Rightarrow> string list" where
  "named_targets managed nets target =
     filter (\<lambda>t. t \<noteq> []) (target # (if managed then map (\<lambda>(k, net). network_target net) nets else []))"

definition targets_agree :: "string list \<Rightarrow> bool" where
  "targets_agree ts = list_all (\<lambda>t. t = hd ts) ts"

definition common_target :: "string list \<Rightarrow> string" where
  "common_target ts = (if ts = [] then [] else hd ts)"

text \<open>Agreement is a matter of the set of named targets, so the order of the networks is irrelevant.\<close>

lemma targets_agree_set: "targets_agree ts \<longleftrightarrow> (\<forall>x \<in> set ts. \<forall>y \<in> set ts. x = y)"
  by (cases ts) (simp_all add: targets_agree_def list_all_iff, metis)

lemma common_target_set:
  assumes "targets_agree ts" and "set ts = set us"
  shows "common_target ts = common_target us"
proof (cases ts)
  case (Cons t ts')
  then have "us \<noteq> []" using assms(2) by auto
  then have "hd us \<in> set ts" "hd ts \<in> set ts" using assms(2) Cons by auto
  then have "hd us = hd ts" using assms(1) unfolding targets_agree_set by blast
  then show ?thesis using Cons \<open>us \<noteq> []\<close> by (simp add: common_target_def)
qed (use assms(2) in \<open>simp add: common_target_def\<close>)

lemma named_targets_set:
  assumes "set nets = set nets'"
  shows "set (named_targets managed nets t) = set (named_targets managed nets' t)"
  using assms by (simp add: named_targets_def)

text \<open>One round of the loop: what it does to the named targets.\<close>

definition net_target :: "bool \<Rightarrow> network \<Rightarrow> string" where
  "net_target managed net = (if managed then network_target net else [])"

lemma named_targets_round:
  assumes "\<not> (net_target managed net \<noteq> [] \<and> t \<noteq> [] \<and> t \<noteq> net_target managed net)"
  shows "set (named_targets managed ((k, net) # nets) t) =
    set (named_targets managed nets (if net_target managed net \<noteq> [] then net_target managed net else t))"
  using assms by (auto simp: named_targets_def net_target_def)

lemma named_targets_conflict:
  assumes "net_target managed net \<noteq> [] \<and> t \<noteq> [] \<and> t \<noteq> net_target managed net"
  shows "\<not> targets_agree (named_targets managed ((k, net) # nets) t)"
  using assms by (cases managed) (auto simp: named_targets_def net_target_def targets_agree_def)

text \<open>The network devices: one per network, named in the order of the networks.\<close>

definition planned_nics :: "string \<Rightarrow> bool \<Rightarrow> networks \<Rightarrow> nat \<Rightarrow> devices" where
  "planned_nics parent managed nets n =
     map (\<lambda>(i, (k, net)). (eth_name i, nic_settings parent managed net i)) (zip [n ..< n + length nets] nets)"

definition planned_networks :: "string \<Rightarrow> bool \<Rightarrow> networks \<Rightarrow> networks" where
  "planned_networks assignment managed nets = map (\<lambda>(k, net). (k, reported_network assignment managed net)) nets"

lemma eth_name_inj [simp]: "eth_name i = eth_name j \<longleftrightarrow> i = j"
  by (simp add: eth_name_def)

lemma planned_nics_Cons:
  "planned_nics parent managed ((k, net) # nets) n =
     (eth_name n, nic_settings parent managed net n) # planned_nics parent managed nets (Suc n)"
  by (simp add: planned_nics_def upt_rec)

text \<open>The loop from any intermediate point.\<close>

lemma network_loop_from:
  assumes "wf_map (new @ nets)" and "eth_name ` {n ..} \<inter> fst ` set devs = {}"
  shows "if targets_agree (named_targets managed nets target)
      then network_loop parent assignment managed nets n devs new target =
        Inr (devs @ planned_nics parent managed nets n, new @ planned_networks assignment managed nets,
          common_target (named_targets managed nets target))
      else \<not> is_Inr (network_loop parent assignment managed nets n devs new target)"
  using assms
proof (induction nets arbitrary: n devs new target)
  case Nil
  then show ?case by (simp add: planned_nics_def planned_networks_def named_targets_def targets_agree_def common_target_def)
next
  case (Cons kn nets)
  obtain k net where kn: "kn = (k, net)" by (cases kn)
  let ?new = "new @ [(k, reported_network assignment managed net)]"
  let ?devs = "devs @ [(eth_name n, nic_settings parent managed net n)]"
  have new: "gm_put k (reported_network assignment managed net) new = ?new"
    using Cons.prems(1) by (intro put_fresh) (auto simp: kn wf_map_def)
  have devs: "gm_put (eth_name n) (nic_settings parent managed net n) devs = ?devs"
    using Cons.prems(2) by (intro put_fresh) auto
  have wf: "wf_map (?new @ nets)" using Cons.prems(1) by (simp add: kn wf_map_def)
  have fresh: "eth_name ` {Suc n ..} \<inter> fst ` set ?devs = {}"
  proof -
    have "eth_name ` {Suc n ..} \<subseteq> eth_name ` {n ..}" by (intro image_mono) auto
    then have "eth_name ` {Suc n ..} \<inter> fst ` set devs = {}" using Cons.prems(2) by blast
    then show ?thesis by auto
  qed
  note IH = Cons.IH [OF wf fresh]
  show ?case
  proof (cases "net_target managed net \<noteq> [] \<and> target \<noteq> [] \<and> target \<noteq> net_target managed net")
    case True
    then show ?thesis using named_targets_conflict [OF True]
      by (auto simp: kn net_target_def Let_def split: if_splits)
  next
    case False
    let ?t = "if net_target managed net \<noteq> [] then net_target managed net else target"
    have step: "network_loop parent assignment managed (kn # nets) n devs new target =
        network_loop parent assignment managed nets (Suc n) ?devs ?new ?t"
      using False by (auto simp: kn new devs Let_def net_target_def)
    have set_eq: "set (named_targets managed (kn # nets) target) = set (named_targets managed nets ?t)"
      unfolding kn by (rule named_targets_round [OF False])
    then have agree: "targets_agree (named_targets managed (kn # nets) target) = targets_agree (named_targets managed nets ?t)"
      by (simp only: targets_agree_set)
    show ?thesis
    proof (cases "targets_agree (named_targets managed nets ?t)")
      case True
      then have "common_target (named_targets managed (kn # nets) target) = common_target (named_targets managed nets ?t)"
        using common_target_set [OF True set_eq [symmetric]] by simp
      then show ?thesis unfolding step agree using IH [of ?t] True
        by (simp add: kn planned_nics_Cons planned_networks_def)
    next
      case False
      then show ?thesis unfolding step agree using IH [of ?t] by simp
    qed
  qed
qed

lemma network_loop_ok:
  assumes "wf_map nets" and "targets_agree (named_targets managed nets target)"
  shows "network_loop parent assignment managed nets 0 [] [] target =
     Inr (planned_nics parent managed nets 0, planned_networks assignment managed nets,
       common_target (named_targets managed nets target))"
  using network_loop_from [of "[]" nets 0 "[]" managed target parent assignment] assms by simp

lemma network_loop_iff:
  assumes "wf_map nets"
  shows "is_Inr (network_loop parent assignment managed nets 0 [] [] target) =
    targets_agree (named_targets managed nets target)"
  using network_loop_from [of "[]" nets 0 "[]" managed target parent assignment] assms
  by (auto split: if_splits)

text \<open>The target of a plan, or nothing if there is no plan.\<close>

definition plan_target :: "gerr + devices \<times> networks \<times> string \<Rightarrow> string option" where
  "plan_target r = (case r of Inl _ \<Rightarrow> None | Inr (_, _, t) \<Rightarrow> Some t)"

lemma plan_target_eq:
  assumes "wf_map nets"
  shows "plan_target (network_loop parent assignment managed nets 0 [] [] target) =
    (if targets_agree (named_targets managed nets target) then Some (common_target (named_targets managed nets target))
     else None)"
  using network_loop_ok [OF assms] network_loop_iff [OF assms, of parent assignment managed target]
  by (auto simp: plan_target_def is_Inr_def split: sum.splits)

lemma plan_target_permuted:
  assumes wf: "wf_map nets" and perm: "mset nets = mset nets'"
  shows "plan_target (network_loop parent assignment managed nets 0 [] [] target) =
    plan_target (network_loop parent assignment managed nets' 0 [] [] target)"
proof -
  have "mset (map fst nets) = mset (map fst nets')" using perm by simp
  then have wf': "wf_map nets'" using wf mset_eq_imp_distinct_iff unfolding wf_map_def by blast
  have s: "set (named_targets managed nets target) = set (named_targets managed nets' target)"
    using mset_eq_setD [OF perm] by (rule named_targets_set)
  then have "targets_agree (named_targets managed nets target) = targets_agree (named_targets managed nets' target)"
    by (simp only: targets_agree_set)
  then show ?thesis using common_target_set [OF _ s]
    by (simp add: plan_target_eq [OF wf] plan_target_eq [OF wf'])
qed

section \<open>The instance configuration\<close>

definition matching_configs :: "string \<Rightarrow> strmap gomap \<Rightarrow> strmap list" where
  "matching_configs descr cfgs = map snd (filter (\<lambda>(k, v). k \<noteq> ''default'' \<and> contains descr k) cfgs)"

definition default_configs :: "strmap gomap \<Rightarrow> strmap list" where
  "default_configs cfgs = map snd (filter (\<lambda>(k, v). k = ''default'') cfgs)"

definition last_or :: "'a \<Rightarrow> 'a list \<Rightarrow> 'a" where
  "last_or d xs = (if xs = [] then d else last xs)"

lemma last_or_Cons [simp]: "last_or d (x # xs) = last_or x xs"
  by (simp add: last_or_def)

lemma config_loop_eq:
  "config_loop descr cfgs ic dc = (last_or ic (matching_configs descr cfgs), last_or dc (default_configs cfgs))"
  by (induction descr cfgs ic dc rule: config_loop.induct)
     (auto simp: matching_configs_def default_configs_def last_or_def)

lemma mset_short: "mset xs = mset ys \<Longrightarrow> length xs \<le> 1 \<Longrightarrow> xs = ys"
  by (cases xs; cases ys) auto

lemma select_config_permuted:
  assumes perm: "mset cfgs = mset cfgs'" and wf: "wf_map cfgs"
    and one: "length (matching_configs descr cfgs) \<le> 1"
  shows "select_config descr cfgs = select_config descr cfgs'"
proof -
  have m: "mset (matching_configs descr cfgs) = mset (matching_configs descr cfgs')"
    using perm by (simp add: matching_configs_def)
  have d: "mset (default_configs cfgs) = mset (default_configs cfgs')"
    using perm by (simp add: default_configs_def)
  have "length (default_configs cfgs) \<le> 1"
    using wf by (induction cfgs) (force simp: default_configs_def filter_empty_conv)+
  then show ?thesis using mset_short [OF m one] mset_short [OF d]
    by (simp add: select_config_def config_loop_eq)
qed

section \<open>CalculateVMCloudProperties\<close>

text \<open>What \<open>CreateVM\<close> makes of the properties that \<open>CalculateVMCloudProperties\<close> proposed.\<close>

definition proposed_props :: "int \<Rightarrow> int \<Rightarrow> int \<Rightarrow> LXDVMCloudProperties \<Rightarrow> LXDVMCloudProperties" where
  "proposed_props ram cpu disk old = old\<lparr>
     vp_InstanceType := ''c'' @ int_dec cpu @ ''-m'' @ int_dec (go_div ram 1024), vp_EphemeralDisk := disk\<rparr>"

lemma dec_proposed:
  assumes "- (2 ^ 63) \<le> disk" and "disk < 2 ^ 63"
  shows "dec_vm_props old (JObj (CalculateVMCloudProperties ram cpu disk)) = Inr (proposed_props ram cpu disk old)"
proof -
  have f: "json_field [(''instance_type'', x), (''ephemeral_disk'', y)] ''instance_type'' = Some x"
    "json_field [(''instance_type'', x), (''ephemeral_disk'', y)] ''ephemeral_disk'' = Some y"
    "json_field [(''instance_type'', x), (''ephemeral_disk'', y)] ''target'' = None"
    "json_field [(''instance_type'', x), (''ephemeral_disk'', y)] ''network'' = None" for x y
    by (simp_all add: json_field_def to_lower_def to_lower_char_def)
  show ?thesis using assms
    by (simp add: dec_vm_props_def CalculateVMCloudProperties_def dec_field_def f proposed_props_def)
qed

section \<open>Properties\<close>

text \<open>
  C25.  The loop over the networks computes a plan: it fails exactly if the targets that are named (the
  VM's own, and on a managed network those of its networks) do not all agree; otherwise it returns one
  network card per network, named \<open>eth0\<close>, \<open>eth1\<close> and so on in the order of the networks, every network
  once as it is reported to BOSH, and the common target.
\<close>

theorem network_plan:
  assumes "wf_map nets"
  shows "(if targets_agree (named_targets managed nets target)
    then network_loop parent assignment managed nets 0 [] [] target =
      Inr (planned_nics parent managed nets 0, planned_networks assignment managed nets,
        common_target (named_targets managed nets target))
    else \<not> is_Inr (network_loop parent assignment managed nets 0 [] [] target))"
  using network_loop_ok [OF assms] network_loop_iff [OF assms] by simp

definition two_nets :: networks where
  "two_nets = [(''a'', NewNetwork ''manual'' ''10.0.0.2'' [] [] None None None []),
     (''b'', (NewNetwork ''dynamic'' ''10.0.0.3'' [] [] None None None [])
       \<lparr>nw_CloudProps := Some (JObj [(''target'', JStr ''n1'')])\<rparr>)]"

lemma two_nets_wf: "wf_map two_nets"
  by (simp add: two_nets_def)

theorem network_plan_witness:
  "network_loop ''br0'' [] True two_nets 0 [] [] [] =
     Inr (planned_nics ''br0'' True two_nets 0, two_nets, ''n1'')"
proof -
  have "named_targets True two_nets [] = [''n1'']" by code_simp
  moreover have "planned_networks [] True two_nets = two_nets" by (simp add: two_nets_def planned_networks_def reported_network_def)
  ultimately show ?thesis using network_plan [OF two_nets_wf, of True "[]" "''br0''" "[]"]
    by (simp add: targets_agree_def common_target_def)
qed

text \<open>
  C26.  Go leaves the order of a loop over a map open.  Whether the networks of a VM can be reconciled, and
  with which target, does not depend on that order; only the numbering of the network cards does.
\<close>

theorem network_plan_order_independent:
  assumes "wf_map nets" and "mset nets = mset nets'"
  shows "plan_target (network_loop parent assignment managed nets 0 [] [] target) =
    plan_target (network_loop parent assignment managed nets' 0 [] [] target)"
  by (rule plan_target_permuted [OF assms])

theorem network_plan_order_independent_witness:
  "plan_target (network_loop ''br0'' [] True two_nets 0 [] [] ''n1'') =
   plan_target (network_loop ''br0'' [] True (rev two_nets) 0 [] [] ''n1'')"
  using network_plan_order_independent [OF two_nets_wf, of "rev two_nets" "''br0''" "[]" True "''n1''"] by simp

text \<open>
  When at most one key of the configured instance settings matches a stemcell, the choice does not
  depend on the order in which the map is visited.
\<close>

theorem select_config_order_independent:
  assumes "mset cfgs = mset cfgs'" and "wf_map cfgs" and "length (matching_configs descr cfgs) \<le> 1"
  shows "select_config descr cfgs = select_config descr cfgs'"
  by (rule select_config_permuted [OF assms])

theorem select_config_order_independent_witness:
  "select_config ''ubuntu-jammy'' [(''jammy'', [(''k'', ''v'')]), (''default'', [(''d'', ''e'')])] =
   select_config ''ubuntu-jammy'' [(''default'', [(''d'', ''e'')]), (''jammy'', [(''k'', ''v'')])]"
proof (rule select_config_order_independent)
  show "length (matching_configs ''ubuntu-jammy'' [(''jammy'', [(''k'', ''v'')]), (''default'', [(''d'', ''e'')])]) \<le> 1"
    by code_simp
qed simp_all


text \<open>
  The properties that \<open>CalculateVMCloudProperties\<close> proposes for a VM size are understood by \<open>CreateVM\<close>
  after a trip through the director as JSON text: they give that instance type and that ephemeral disk,
  and leave the configured target and network as they are.
\<close>

theorem proposed_properties_round_trip:
  assumes "- (2 ^ 63) \<le> disk" and "disk < 2 ^ 63"
  shows "map_option (dec_vm_props old) (json_parse (json_print (JObj (CalculateVMCloudProperties ram cpu disk)))) =
    Some (Inr (proposed_props ram cpu disk old))"
  by (simp only: json_parse_print option.map dec_proposed [OF assms])

theorem proposed_properties_round_trip_witness:
  "\<forall>old. map_option (dec_vm_props old) (json_parse (json_print (JObj (CalculateVMCloudProperties 4096 2 10240)))) =
    Some (Inr (old\<lparr>vp_InstanceType := ''c2-m4'', vp_EphemeralDisk := 10240\<rparr>))"
proof
  fix old
  have "''c'' @ int_dec 2 @ ''-m'' @ int_dec (go_div 4096 1024) = ''c2-m4''" by code_simp
  then show "map_option (dec_vm_props old) (json_parse (json_print (JObj (CalculateVMCloudProperties 4096 2 10240)))) =
    Some (Inr (old\<lparr>vp_InstanceType := ''c2-m4'', vp_EphemeralDisk := 10240\<rparr>))"
    using proposed_properties_round_trip [of 10240 old 4096 2] by (simp only: proposed_props_def) simp
qed

end
