(* ===== verification/ThrottleProps.thy ===== *)
theory ThrottleProps
  imports ThrottleClient Commands
begin

text \<open>
  The throttle as a whole: the limit of the sequential server, what interleaved handlers make of it,
  and the client run against the server.
\<close>

section \<open>The sequential server\<close>

text \<open>What the server does, one handler or expiry round after the other.\<close>

datatype server_call =
    CallTransactions string int "gerr + string"
  | CallTransactionWithId string string
  | ExpiryRound int

fun run_call :: "(int gomap \<Rightarrow> gerr + string) \<Rightarrow> server_call \<Rightarrow> ThrottleServer \<Rightarrow> ThrottleServer" where
  "run_call ms (CallTransactions method now uuid) ts = snd (handleTransactions ms method now uuid ts)"
| "run_call ms (CallTransactionWithId method tid) ts = snd (handleTransactionWithId method tid ts)"
| "run_call ms (ExpiryRound now) ts = expireTransactions now ts"

lemma within_limit_calls: "within_limit ts \<Longrightarrow> within_limit (fold (run_call ms) calls ts)"
proof (induction calls arbitrary: ts)
  case (Cons c calls)
  have "within_limit (run_call ms c ts)" using Cons.prems
    by (cases c) (simp_all add: within_limit_post within_limit_delete within_limit_expire)
  then show ?case by (simp add: Cons.IH)
qed simp

lemma limit_calls: "ts_limit (fold (run_call ms) calls ts) = ts_limit ts"
proof (induction calls arbitrary: ts)
  case (Cons c calls)
  have "ts_limit (run_call ms c ts) = ts_limit ts"
    by (cases c) (auto simp: handleTransactions_def handleTransactionWithId_def post_reserve_def
        split: sum.splits option.splits)
  then show ?case by (simp add: Cons.IH)
qed simp

lemma new_server_limit: "fst (NewThrottleServer pd rm cfg fs) = Inr ts \<Longrightarrow> ts_limit ts = tc_Limit cfg"
  by (auto simp: NewThrottleServer_def split: sum.splits)

text \<open>
  C20.  As long as every handler and every expiry round runs undisturbed, the server never holds more
  reservations than its limit, whatever is called in which order, and every reservation is listed
  once; a POST is answered with 201 exactly when there is room and an identifier could be generated.
\<close>

theorem sequential_limit:
  "case fst (NewThrottleServer pd rm cfg fs) of
     Inl e \<Rightarrow> pd (tc_Hold cfg) = Inl e
   | Inr ts0 \<Rightarrow> (let ts = fold (run_call ms) calls ts0 in
       distinct (map fst (ts_transactions ts)) \<and>
       int (length (ts_transactions ts)) \<le> max 0 (tc_Limit cfg) \<and>
       (hr_Status (fst (handleTransactions ms ''POST'' now uuid ts)) = StatusCreated \<longleftrightarrow>
          int (length (ts_transactions ts)) < tc_Limit cfg \<and> is_Inr uuid))"
proof (cases "fst (NewThrottleServer pd rm cfg fs)")
  case (Inl e)
  then show ?thesis by (auto simp: NewThrottleServer_def split: sum.splits)
next
  case (Inr ts0)
  let ?ts = "fold (run_call ms) calls ts0"
  have "within_limit ?ts" using within_limit_calls within_limit_new [OF Inr] by blast
  moreover have "ts_limit ?ts = tc_Limit cfg" by (simp add: limit_calls new_server_limit [OF Inr])
  ultimately show ?thesis using Inr
    by (cases uuid) (auto simp: within_limit_def wf_map_def handleTransactions_def post_admitted_def
        post_refusal_def post_reserve_def http_Error_def is_Inr_def status_defs Let_def)
qed

section \<open>The interleaved server\<close>

text \<open>A server that has handed out the identifiers \<open>0\<close>, \<open>1\<close>, \dots, \<open>n - 1\<close> at time 0.\<close>

definition handed_out :: "nat \<Rightarrow> int gomap" where
  "handed_out n = map (\<lambda>i. (nat_dec i, 0)) [0..<n]"

definition holding :: "ThrottleServer \<Rightarrow> nat \<Rightarrow> nat \<Rightarrow> throttle_world" where
  "holding ts n p = \<lparr>tw_server = ts\<lparr>ts_transactions := handed_out n\<rparr>, tw_posting = p\<rparr>"

lemma put_handed_out: "gm_put (nat_dec n) 0 (handed_out n) = handed_out (Suc n)"
proof -
  have "nat_dec n \<notin> fst ` set (handed_out n)" by (auto simp: handed_out_def)
  then show ?thesis by (simp add: put_fresh) (simp add: handed_out_def)
qed

lemma step_test:
  "int n < ts_limit ts \<Longrightarrow> throttle_step (holding ts n p) (holding ts n (Suc p))"
  using throttle_step.post_test [of "holding ts n p"]
  by (simp add: holding_def post_admitted_def handed_out_def)

lemma step_add: "throttle_step (holding ts n (Suc p)) (holding ts (Suc n) p)"
  using throttle_step.post_add [of "holding ts n (Suc p)" p 0 "Inr (nat_dec n)"]
  by (simp add: holding_def post_reserve_def put_handed_out)

lemma reach_adds: "throttle_reach c w (holding ts n p) \<Longrightarrow> p \<le> c \<Longrightarrow> throttle_reach c w (holding ts (n + p) 0)"
proof (induction p arbitrary: n)
  case (Suc p)
  have "throttle_reach c w (holding ts (Suc n) p)"
    by (rule throttle_reach.step [OF Suc.prems(1) step_add]) (use Suc.prems in \<open>simp add: holding_def\<close>)
  then show ?case using Suc.IH [of "Suc n"] Suc.prems by simp
qed simp

lemma reach_tests:
  "throttle_reach c w (holding ts n 0) \<Longrightarrow> int n < ts_limit ts \<Longrightarrow> p \<le> c \<Longrightarrow>
    throttle_reach c w (holding ts n p)"
proof (induction p)
  case (Suc p)
  then have "throttle_reach c w (holding ts n p)" by simp
  then show ?case by (rule throttle_reach.step [OF _ step_test]) (use Suc in \<open>simp_all add: holding_def\<close>)
qed simp

lemma reach_fill:
  assumes "ts_transactions ts = []" and "0 < c"
  shows "int n \<le> ts_limit ts \<Longrightarrow> throttle_reach c (idle ts) (holding ts n 0)"
proof (induction n)
  case 0
  have "idle ts = holding ts 0 0" using assms(1) by (simp add: idle_def holding_def handed_out_def)
  then show ?case by (simp add: throttle_reach.start)
next
  case (Suc n)
  then have "throttle_reach c (idle ts) (holding ts n 0)" and "int n < ts_limit ts" by simp_all
  then have "throttle_reach c (idle ts) (holding ts n 1)"
    by (rule reach_tests) (use assms(2) in simp)
  from reach_adds [OF this] show ?case using assms(2) by simp
qed

text \<open>
  C21.  The handlers of different connections are not synchronised: a POST tests the limit in one step
  and reserves in a later one.  When at most \<open>c\<close> of them are between the two steps, a fresh server
  holds at most \<open>limit - 1 + c\<close> reservations, and this number is reached: the configured limit is kept
  only if at most one POST is under way at a time.
\<close>

theorem interleaved_limit:
  assumes "fst (NewThrottleServer pd rm cfg fs) = Inr ts" and "0 < tc_Limit cfg" and "0 < c"
  shows "(\<forall>w. throttle_reach c (idle ts) w \<longrightarrow>
            int (length (ts_transactions (tw_server w))) + int (tw_posting w) \<le> tc_Limit cfg - 1 + int c) \<and>
         (\<exists>w. throttle_reach c (idle ts) w \<and>
            int (length (ts_transactions (tw_server w))) = tc_Limit cfg - 1 + int c)"
proof (intro conjI allI impI)
  have lim: "ts_limit ts = tc_Limit cfg" and empty: "ts_transactions ts = []"
    using assms(1) by (auto simp: NewThrottleServer_def split: sum.splits)
  fix w assume "throttle_reach c (idle ts) w"
  then have "overshoot_bound c w \<and> ts_limit (tw_server w) = ts_limit ts"
  proof (induction rule: throttle_reach.induct)
    case start
    then show ?case using assms lim empty by (simp add: overshoot_bound_def idle_def)
  next
    case (step w w')
    then show ?case using step_bound step_limit by auto
  qed
  then show "int (length (ts_transactions (tw_server w))) + int (tw_posting w) \<le> tc_Limit cfg - 1 + int c"
    using assms(2,3) lim by (auto simp: overshoot_bound_def max_def split: if_splits)
next
  have lim: "ts_limit ts = tc_Limit cfg" and empty: "ts_transactions ts = []"
    using assms(1) by (auto simp: NewThrottleServer_def split: sum.splits)
  let ?n = "nat (tc_Limit cfg - 1)"
  have "throttle_reach c (idle ts) (holding ts ?n 0)"
    by (rule reach_fill) (use assms lim empty in simp_all)
  then have "throttle_reach c (idle ts) (holding ts ?n c)"
    by (rule reach_tests) (use assms lim in simp_all)
  then have "throttle_reach c (idle ts) (holding ts (?n + c) 0)" by (rule reach_adds) simp
  then show "\<exists>w. throttle_reach c (idle ts) w \<and>
      int (length (ts_transactions (tw_server w))) = tc_Limit cfg - 1 + int c"
    using assms(2) by (intro exI conjI) (assumption, simp add: holding_def handed_out_def)
qed

definition two_slots :: throttle_config where
  "two_slots = \<lparr>tc_Enabled = True, tc_Path = ''/run/throttle.sock'', tc_Limit = 2, tc_Hold = ''1m''\<rparr>"

theorem interleaved_limit_witness:
  "\<exists>w. throttle_reach 3 (idle \<lparr>ts_path = ''/run/throttle.sock'', ts_holdDuration = 60, ts_limit = 2,
      ts_transactions = []\<rparr>) w \<and> length (ts_transactions (tw_server w)) = 4"
  using interleaved_limit [of "\<lambda>_. Inr 60" "\<lambda>_. True" two_slots "\<lambda>_. None"
      "\<lparr>ts_path = ''/run/throttle.sock'', ts_holdDuration = 60, ts_limit = 2, ts_transactions = []\<rparr>" 3]
  by (simp add: NewThrottleServer_def two_slots_def)

section \<open>Client and server\<close>

text \<open>
  C22.  Waiting for a reservation ends exactly when the server's limit is positive: with a limit of zero
  (a configuration that does not set one) or less, every request is refused and \<open>LockAndWait\<close> never
  returns; with a positive limit it always does, as long as nobody else posts.
\<close>

theorem waiting_ends_iff_positive_limit:
  "LockAndWait (service_client ms) s = None \<longleftrightarrow> ts_limit (sv_server (world s)) \<le> 0"
proof
  assume "LockAndWait (service_client ms) s = None"
  then show "ts_limit (sv_server (world s)) \<le> 0"
    using throttled.waits [of s ms] by (cases "0 < ts_limit (sv_server (world s))") (auto simp: positive_limit_def)
next
  assume "ts_limit (sv_server (world s)) \<le> 0"
  then show "LockAndWait (service_client ms) s = None"
  proof (rule LockAndWait_loops [rotated])
    fix s :: "(client_event, service) sys"
    assume low: "ts_limit (sv_server (world s)) \<le> 0"
    then have "\<not> has_room (world s)" by (simp add: has_room_def post_admitted_def)
    then obtain s' where "lock_round (service_client ms) s = (Ok None, s')"
        and "world s' = nap (service_client ms) (world s)"
      using low lock_round_refused by blast
    then show "\<exists>s'. lock_round (service_client ms) s = (Ok None, s') \<and> ts_limit (sv_server (world s')) \<le> 0"
      using low by (simp add: nap_def service_client_def elapse_nap expireTransactions_def)
  qed
qed


lemma naps:
  "sv_now ((nap (service_client ms) ^^ n) w) = sv_now w + int n * tick \<and>
   ts_limit (sv_server ((nap (service_client ms) ^^ n) w)) = ts_limit (sv_server w) \<and>
   set (ts_transactions (sv_server ((nap (service_client ms) ^^ n) w))) \<subseteq> set (ts_transactions (sv_server w))"
  by (induction n) (auto simp: nap_def service_client_def elapse_nap expireTransactions_def distrib_right)

text \<open>
  C18.  \<open>LockAndWait\<close> returns: against a server with a positive limit that nobody else posts to, the
  client gets a reservation, whatever the table holds and however long reservations are held.  It
  sleeps \<open>n\<close> times ten seconds, at most once more than there are expiry rounds until the last
  reservation in the table is due; the reservation is in the table, dated with the time of the answer.
\<close>

theorem lock_and_wait_returns:
  assumes "0 < ts_limit (sv_server (world s))"
  shows "\<exists>n tid s'. LockAndWait (service_client ms) s = Some (Ok tid, s') \<and> files s' = files s \<and>
     n \<le> Suc (wait_rounds (world s)) \<and> sv_now (world s') = sv_now (world s) + int n * tick \<and>
     gm_find (ts_transactions (sv_server (world s'))) tid = Some (sv_now (world s'))"
proof -
  obtain n s' where n: "n \<le> Suc (wait_rounds (world s))"
      "LockAndWait (service_client ms) s = Some (Ok (fst (take_slot ((nap (service_client ms) ^^ n) (world s)))), s')"
      "world s' = snd (take_slot ((nap (service_client ms) ^^ n) (world s)))" "files s' = files s"
    using throttled.waits [of s ms] assms by (auto simp: positive_limit_def)
  show ?thesis
    by (rule exI [of _ n], rule exI [of _ "fst (take_slot ((nap (service_client ms) ^^ n) (world s)))"], rule exI [of _ s'])
       (use n naps [of n ms "world s"] in \<open>simp add: take_slot_def Let_def\<close>)
qed

definition busy_service :: service where
  "busy_service = \<lparr>sv_server = \<lparr>ts_path = ''/run/throttle.sock'', ts_holdDuration = 25 * second, ts_limit = 1,
     ts_transactions = [(''t0'', 0)]\<rparr>, sv_now = second, sv_uuid = (\<lambda>n. ''t'' @ nat_dec (Suc n)), sv_count = 0\<rparr>"

theorem lock_and_wait_returns_witness:
  "\<exists>n tid s'. LockAndWait (service_client (\<lambda>_. Inr [])) \<lparr>world = busy_service, files = Map.empty, trace = []\<rparr> =
       Some (Ok tid, s') \<and> n \<le> 3 \<and> sv_now (world s') = second + int n * tick"
proof -
  have "wait_rounds busy_service = 2"
    by (simp add: wait_rounds_def busy_service_def expiry_def last_tick_def tick_def second_def)
  then show ?thesis
    using lock_and_wait_returns [of "\<lparr>world = busy_service, files = Map.empty, trace = []\<rparr>" "\<lambda>_. Inr []"]
    by (auto simp: busy_service_def)
qed

text \<open>Identifiers that can stand in the path of a URL; those of the generator can.\<close>

definition wire_id :: "string \<Rightarrow> bool" where
  "wire_id s \<longleftrightarrow> plain_id s \<and> CHR ''%'' \<notin> set s"



lemma transaction_route:
  assumes "wire_id tid"
  shows "route_path (transaction_url tid) = [[], ''transactions'', tid]"
proof -
  have plain: "plain_id tid" and "CHR ''%'' \<notin> set tid" using assms by (simp_all add: wire_id_def)
  moreover have base: "path_prefix ''/transactions'' = ''/transactions/''"
    by (simp add: path_prefix_def has_prefix_def)
  ultimately have "map path_segment (split_on (CHR ''/'') (url_join ''/transactions'' tid)) =
      split_on (CHR ''/'') (''/transactions/'' @ tid)"
    using url_join_read [OF plain, of "''/transactions''"] by simp
  moreover have "CHR ''/'' \<notin> set tid" using plain by (simp add: plain_id_def)
  ultimately show ?thesis by (simp add: transaction_url_def route_path_def split_no_sep)
qed

definition released :: "string \<Rightarrow> service \<Rightarrow> service" where
  "released tid w = w\<lparr>sv_server := (sv_server w)\<lparr>ts_transactions := gm_del tid (ts_transactions (sv_server w))\<rparr>\<rparr>"

lemma released_absent:
  assumes "gm_find (ts_transactions (sv_server w)) tid = None"
  shows "released tid w = w"
proof -
  have "gm_del tid (ts_transactions (sv_server w)) = ts_transactions (sv_server w)"
    using assms by (simp add: map_of_eq_None_iff del_absent)
  then show ?thesis by (simp add: released_def)
qed

lemma delete_run:
  assumes "wire_id tid"
  obtains code where "hc_Delete (service_client ms) (transaction_url tid) w =
    ((Some \<lparr>hp_Status = code, hp_Body = Inr []\<rparr>, None), released tid w)"
proof (cases "gm_find (ts_transactions (sv_server w)) tid")
  case None
  then show ?thesis
    using that [of StatusNotFound] transaction_route [OF assms] assms
    by (simp add: wire_id_def service_client_def serve_def handleTransactionWithId_def plain_id_def reply_of_def
        http_status_def released_absent)
next
  case (Some t)
  then show ?thesis
    using that [of StatusNoContent] transaction_route [OF assms] assms
    by (simp add: wire_id_def service_client_def serve_def handleTransactionWithId_def plain_id_def reply_of_def
        http_status_def released_def)
qed

lemma unlock_run:
  assumes "wire_id tid"
  obtains s' where "Unlock (service_client ms) tid s = (Ok (), s')" and "files s' = files s"
    and "world s' = released tid (world s)"
proof -
  obtain code where "hc_Delete (service_client ms) (transaction_url tid) (world s) =
      ((Some \<lparr>hp_Status = code, hp_Body = Inr []\<rparr>, None), released tid (world s))"
    using delete_run [OF assms] .
  then show ?thesis using that by (cases "code = StatusNotFound") (simp_all add: Unlock_def http_call_def io_run Let_def)
qed








section \<open>Starting the service\<close>

text \<open>
  A socket of the operating system: opening it fails where something is already there, and where the
  system refuses it for a reason of its own.
\<close>

definition unix_listen :: "(string \<Rightarrow> gerr option) \<Rightarrow> string \<Rightarrow> (string \<rightharpoonup> string) \<Rightarrow> gerr + (string \<rightharpoonup> string)" where
  "unix_listen refusal path fs = (case refusal path of
      Some e \<Rightarrow> Inl e
    | None \<Rightarrow> if fs path \<noteq> None then Inl (GoError ''bind: address already in use'') else Inr (fs(path \<mapsto> [])))"

text \<open>
  Starting the throttle: it runs exactly when the hold duration can be read, the system lets it
  open its socket, and whatever an earlier run left at the path of the socket can be removed; it then
  starts without reservations and with the configured limit.  Otherwise it exits with code 2 for the
  hold duration and 1 for the socket.
\<close>

theorem throttle_starts:
  "case fst (throttle_run level pd removes (unix_listen refusal) uuid now cfg fs) of
     Inr running \<Rightarrow> is_Inr (pd (tc_Hold cfg)) \<and> refusal (tc_Path cfg) = None \<and> (fs (tc_Path cfg) = None \<or> removes (tc_Path cfg)) \<and>
       ts_transactions (sv_server running) = [] \<and> ts_limit (sv_server running) = tc_Limit cfg \<and>
       snd (throttle_run level pd removes (unix_listen refusal) uuid now cfg fs) = fs(tc_Path cfg \<mapsto> [])
   | Inl (Exited code log) \<Rightarrow> (code = 2 \<and> \<not> is_Inr (pd (tc_Hold cfg)) \<or> code = 1 \<and> is_Inr (pd (tc_Hold cfg)) \<and>
       (refusal (tc_Path cfg) \<noteq> None \<or> fs (tc_Path cfg) \<noteq> None \<and> \<not> removes (tc_Path cfg)))
   | Inl (Crashed p) \<Rightarrow> False"
  by (cases "pd (tc_Hold cfg)"; cases "fs (tc_Path cfg)"; cases "removes (tc_Path cfg)"; cases "refusal (tc_Path cfg)")
     (auto simp: throttle_run_def NewThrottleServer_def Serve_def unix_listen_def is_Inr_def)

text \<open>A socket that an earlier run left behind and that cannot be removed.\<close>

theorem throttle_starts_witness:
  "case fst (throttle_run LevelWarn (\<lambda>_. Inr 60) (\<lambda>_. False) (unix_listen (\<lambda>_. None)) (\<lambda>_. ''b7'') 0 two_slots
      [''/run/throttle.sock'' \<mapsto> []]) of
     Inr running \<Rightarrow> False
   | Inl ending \<Rightarrow> (case ending of Exited code log \<Rightarrow> code = 1 | Crashed p \<Rightarrow> False)"
  using throttle_starts [where level = LevelWarn and pd = "\<lambda>_. Inr 60" and removes = "\<lambda>_. False" and now = 0
      and refusal = "\<lambda>_. None" and uuid = "\<lambda>_. ''b7''" and cfg = two_slots
      and fs = "[''/run/throttle.sock'' \<mapsto> []]"]
  by (auto simp: two_slots_def split: sum.splits exit.splits)

section \<open>Trying a throttle out\<close>

lemma wire_refusal: "wire_id (hr_Body post_refusal)"
  by (simp add: wire_id_def plain_id_def post_refusal_def http_Error_def)

lemma del_put_subset: "set (gm_del k (gm_put k v m)) \<subseteq> set m"
  by (induction m) (auto simp: AList.delete_eq)

lemma naps_uuid: "sv_uuid ((nap (service_client ms) ^^ n) w) = sv_uuid w"
  by (induction n) (auto simp: nap_def service_client_def elapse_nap)

text \<open>A single \<open>Lock\<close>, with and without room.\<close>

lemma lock_granted:
  assumes "has_room (world s)"
  obtains s' where "Lock (service_client ms) s = (Ok (sv_uuid (world s) (sv_count (world s)), StatusCreated, None), s')"
    and "world s' = snd (take_slot (world s))"
proof -
  have "hc_Post (service_client ms) transactionsRoot (world s) =
      ((Some \<lparr>hp_Status = StatusCreated, hp_Body = Inr (fst (take_slot (world s)))\<rparr>, None), snd (take_slot (world s)))"
    using assms by (simp add: service_client_def serve_def route_root handleTransactions_def post_reserve_def
        has_room_def reply_of_def take_slot_def Let_def)
  then show thesis using that by (simp add: Lock_def http_call_def io_run take_slot_def Let_def)
qed

lemma lock_refused:
  assumes "\<not> has_room (world s)"
  obtains s' where "Lock (service_client ms) s = (Ok (hr_Body post_refusal, StatusTooManyRequests, None), s')"
    and "world s' = world s"
proof -
  have "hc_Post (service_client ms) transactionsRoot (world s) =
      ((Some \<lparr>hp_Status = StatusTooManyRequests, hp_Body = Inr (hr_Body post_refusal)\<rparr>, None), world s)"
    using assms by (simp add: service_client_def serve_def route_root handleTransactions_def has_room_def
        reply_of_def post_refusal_def http_Error_def status_defs)
  then show thesis using that by (simp add: Lock_def http_call_def io_run)
qed

text \<open>What giving back the answer of a \<open>Lock\<close> leaves in the table.\<close>

lemma lock_unlock:
  assumes "\<forall>n. wire_id (sv_uuid (world s) n)"
  obtains tid status s1 s2 where "Lock (service_client ms) s = (Ok (tid, status, None), s1)"
    and "Unlock (service_client ms) tid s1 = (Ok (), s2)"
    and "set (ts_transactions (sv_server (world s2))) \<subseteq> set (ts_transactions (sv_server (world s)))"
    and "ts_limit (sv_server (world s2)) = ts_limit (sv_server (world s))" and "sv_uuid (world s2) = sv_uuid (world s)"
proof (cases "has_room (world s)")
  case True
  let ?tid = "sv_uuid (world s) (sv_count (world s))"
  obtain s1 where locked: "Lock (service_client ms) s = (Ok (?tid, StatusCreated, None), s1)"
      and s1: "world s1 = snd (take_slot (world s))"
    using lock_granted [OF True] .
  obtain s2 where s2: "Unlock (service_client ms) ?tid s1 = (Ok (), s2)" "world s2 = released ?tid (world s1)"
    using unlock_run [OF assms [rule_format]] by metis
  show ?thesis using that [OF locked s2(1)] s2(2) s1
    by (simp add: released_def take_slot_def Let_def del_put_subset)
next
  case False
  obtain s1 where locked: "Lock (service_client ms) s = (Ok (hr_Body post_refusal, StatusTooManyRequests, None), s1)"
      and s1: "world s1 = world s"
    using lock_refused [OF False] .
  obtain s2 where s2: "Unlock (service_client ms) (hr_Body post_refusal) s1 = (Ok (), s2)"
      "world s2 = released (hr_Body post_refusal) (world s1)"
    using unlock_run [OF wire_refusal] by metis
  have "set (gm_del (hr_Body post_refusal) m) \<subseteq> set m" for m :: "int gomap" by (auto simp: AList.delete_eq)
  then show ?thesis using that [OF locked s2(1)] s2(2) s1 by (simp add: released_def)
qed

text \<open>
  The test program takes two reservations and keeps none: against a server with a positive limit,
  full or not, it prints its four lines and ends with code 0, and every reservation in the table at the
  end was there before.  (When \<open>Lock\<close> is refused, the program gives the text of the refusal back to
  \<open>Unlock\<close> as if it were an identifier; the server does not know it, and nothing is released.)
\<close>

theorem test_program_keeps_nothing:
  assumes "0 < ts_limit (sv_server (world s))" and "\<forall>n. wire_id (sv_uuid (world s) n)"
  shows "\<exists>lines s'. tc_run (service_client ms) s = Some (Exited 0 [], lines, s') \<and> length lines = 4 \<and>
    set (ts_transactions (sv_server (world s'))) \<subseteq> set (ts_transactions (sv_server (world s)))"
proof -
  obtain tid status s1 s2 where locked: "Lock (service_client ms) s = (Ok (tid, status, None), s1)"
    and unlocked: "Unlock (service_client ms) tid s1 = (Ok (), s2)"
    and s2: "set (ts_transactions (sv_server (world s2))) \<subseteq> set (ts_transactions (sv_server (world s)))"
      "ts_limit (sv_server (world s2)) = ts_limit (sv_server (world s))" "sv_uuid (world s2) = sv_uuid (world s)"
    using lock_unlock [OF assms(2)] .
  have "positive_limit (world s2)" using assms(1) s2(2) by (simp add: positive_limit_def)
  from throttled.waits [OF this, of ms] obtain n s3 where
      waited: "LockAndWait (service_client ms) s2 = Some (Ok (fst (take_slot ((nap (service_client ms) ^^ n) (world s2)))), s3)"
    and s3: "world s3 = snd (take_slot ((nap (service_client ms) ^^ n) (world s2)))" by blast
  let ?w = "(nap (service_client ms) ^^ n) (world s2)"
  let ?tid = "fst (take_slot ?w)"
  have "wire_id ?tid" using assms(2) by (simp add: take_slot_def Let_def naps_uuid s2(3))
  then obtain s4 where s4: "Unlock (service_client ms) ?tid s3 = (Ok (), s4)" "world s4 = released ?tid (world s3)"
    using unlock_run by metis
  have "set (ts_transactions (sv_server (world s4))) \<subseteq> set (ts_transactions (sv_server ?w))"
    using s3 s4(2) by (simp add: released_def take_slot_def Let_def del_put_subset)
  also have "\<dots> \<subseteq> set (ts_transactions (sv_server (world s2)))" using naps by blast
  finally show ?thesis using locked unlocked waited s4(1) s2(1)
    by (intro exI [of _ s4] exI conjI) (simp add: tc_run_def Let_def, auto)
qed

theorem test_program_keeps_nothing_witness:
  "\<exists>lines s'. tc_run (service_client (\<lambda>_. Inr [])) \<lparr>world = busy_service, files = Map.empty, trace = []\<rparr> =
     Some (Exited 0 [], lines, s') \<and> set (ts_transactions (sv_server (world s'))) \<subseteq> {(''t0'', 0)}"
proof -
  have "wire_id (CHR ''t'' # nat_dec (Suc n))" for n
    using nat_dec_no_char [of "CHR ''/''" "Suc n"] nat_dec_no_char [of "CHR ''%''" "Suc n"]
    by (simp add: wire_id_def plain_id_def)
  then show ?thesis
    using test_program_keeps_nothing [of "\<lparr>world = busy_service, files = Map.empty, trace = []\<rparr>" "\<lambda>_. Inr []"]
    by (simp add: busy_service_def) blast
qed

end
