(* ===== verification/Fleet.thy ===== *)
theory Fleet
  imports ThrottleProps
begin

text \<open>
  Many programs at one throttle: what the limit of the server means for the number of CPI calls that
  run at the same time.
\<close>

section \<open>Programs at a throttle\<close>

text \<open>
  A program of \<open>cmd/cpi\<close> waits for its reservation, then serves under it (the identifier, and when it was
  given), then is over.
\<close>

datatype phase = Waiting | Serving string int | Over

record fleet =
  fl_service :: service
  fl_programs :: "phase list"

text \<open>A single exchange of a client with the service.\<close>

definition exchange :: "(service, 'a) cio \<Rightarrow> service \<Rightarrow> 'a res \<times> service" where
  "exchange m v = (case m \<lparr>world = v, files = Map.empty, trace = []\<rparr> of (r, s) \<Rightarrow> (r, world s))"

text \<open>What the loop of \<open>LockAndWait\<close> makes of the answer to \<open>Lock\<close>; a program that has to sleep is waiting.\<close>

fun phase_after :: "int \<Rightarrow> (string \<times> int \<times> gerr option) res \<Rightarrow> phase" where
  "phase_after now (Ok (content, statusCode, err)) =
     (if statusCode = StatusTooManyRequests then Waiting
      else (case err of
          Some e \<Rightarrow> Over
        | None \<Rightarrow> if statusCode = StatusCreated then Serving content now else Waiting))"
| "phase_after now r = Over"

text \<open>
  One step of the whole: a waiting program asks, a serving one gives its reservation back or ends
  without doing so (its call has failed), or time goes by.
\<close>

inductive fleet_step :: "(int gomap \<Rightarrow> gerr + string) \<Rightarrow> fleet \<Rightarrow> fleet \<Rightarrow> bool" for ms where
  asks: "i < length ps \<Longrightarrow> ps ! i = Waiting \<Longrightarrow> exchange (Lock (service_client ms)) v = (r, v') \<Longrightarrow>
    fleet_step ms \<lparr>fl_service = v, fl_programs = ps\<rparr> \<lparr>fl_service = v', fl_programs = ps[i := phase_after (sv_now v) r]\<rparr>"
| gives_back: "i < length ps \<Longrightarrow> ps ! i = Serving tid t \<Longrightarrow> exchange (Unlock (service_client ms) tid) v = (r, v') \<Longrightarrow>
    fleet_step ms \<lparr>fl_service = v, fl_programs = ps\<rparr> \<lparr>fl_service = v', fl_programs = ps[i := Over]\<rparr>"
| fails: "i < length ps \<Longrightarrow> ps ! i = Serving tid t \<Longrightarrow>
    fleet_step ms \<lparr>fl_service = v, fl_programs = ps\<rparr> \<lparr>fl_service = v, fl_programs = ps[i := Over]\<rparr>"
| time: "0 \<le> d \<Longrightarrow>
    fleet_step ms \<lparr>fl_service = v, fl_programs = ps\<rparr> \<lparr>fl_service = elapse d v, fl_programs = ps\<rparr>"

inductive_cases fleet_stepE: "fleet_step ms w w'"



section \<open>The invariant\<close>















section \<open>How many programs serve at a time\<close>







end
