(* ===== verification/JobTemplate.thy ===== *)
theory JobTemplate
  imports ProgramProps
begin

text \<open>
  How the configuration reaches the programs: the job template \<open>jobs/lxd_cpi/templates/cpi.json.erb\<close>, which
  writes the properties of the deployment as one JSON document, against \<open>config/config.go\<close>, which reads it.
\<close>

section \<open>The template\<close>

text \<open>
  The properties of the job, each any value that YAML can give, in the order of the template.  The limit of
  the throttle is what \<open>to_i\<close> has made of it.
\<close>

record job_properties =
  jp_type :: json
  jp_url :: json
  jp_insecure_skip_verify :: json
  jp_tls_client_cert :: json
  jp_tls_client_key :: json
  jp_project_name :: json
  jp_profile_name :: json
  jp_target :: json
  jp_network_name :: json
  jp_managed_network_assignment :: json
  jp_storage_pool_name :: json
  jp_predeploy_stemcell :: json
  jp_instance_config :: json
  jp_lock_enabled :: json
  jp_lock_timeout :: json
  jp_lock_path :: json
  jp_mbus :: json
  jp_ntp :: json
  jp_agent_type :: json
  jp_label :: json
  jp_metadata_path :: json
  jp_userdata_path :: json
  jp_filestore_path :: json
  jp_throttle_enabled :: json
  jp_throttle_path :: json
  jp_throttle_limit :: int
  jp_throttle_hold :: json

definition cpi_json_erb :: "job_properties \<Rightarrow> json" where
  "cpi_json_erb p = JObj [
     (''Server'', JObj [
        (''Type'', jp_type p), (''URL'', jp_url p), (''InsecureSkipVerify'', jp_insecure_skip_verify p),
        (''TLSClientCert'', jp_tls_client_cert p), (''TLSClientKey'', jp_tls_client_key p),
        (''Project'', jp_project_name p), (''Profile'', jp_profile_name p), (''Target'', jp_target p),
        (''Network'', jp_network_name p), (''ManagedNetworkAssignment'', jp_managed_network_assignment p),
        (''StoragePool'', jp_storage_pool_name p), (''PredeployStemcell'', jp_predeploy_stemcell p),
        (''InstanceConfig'', jp_instance_config p),
        (''CreateVMLock'', JObj [(''Enabled'', jp_lock_enabled p), (''Timeout'', jp_lock_timeout p),
           (''Path'', jp_lock_path p)])]),
     (''Agent'', JObj [(''Mbus'', jp_mbus p), (''NTP'', jp_ntp p)]),
     (''AgentConfig'', JObj [(''SourceType'', jp_agent_type p), (''Label'', jp_label p),
        (''MetadataPath'', jp_metadata_path p), (''UserdataPath'', jp_userdata_path p),
        (''FileStorePath'', jp_filestore_path p)]),
     (''ThrottleConfig'', JObj [(''Enabled'', jp_throttle_enabled p), (''Path'', jp_throttle_path p),
        (''Limit'', JNum (jp_throttle_limit p)), (''Hold'', jp_throttle_hold p)])]"

section \<open>Reading it\<close>

text \<open>The properties with which a deployment asks for a configuration.\<close>

definition settings_map :: "strmap gomap \<Rightarrow> json" where
  "settings_map m = JObj (map (\<lambda>(k, kvs). (k, JObj (map (\<lambda>(n, v). (n, JStr v)) kvs))) m)"

definition job_of :: "Config \<Rightarrow> job_properties" where
  "job_of cfg = (let sc = conf_Server cfg; ag = conf_Agent cfg; ac = conf_AgentConfig cfg; tc = conf_ThrottleConfig cfg in \<lparr>
     jp_type = JStr (cfg_Type sc), jp_url = JStr (cfg_URL sc), jp_insecure_skip_verify = JBool (cfg_InsecureSkipVerify sc),
     jp_tls_client_cert = JStr (cfg_TLSClientCert sc), jp_tls_client_key = JStr (cfg_TLSClientKey sc),
     jp_project_name = JStr (cfg_Project sc), jp_profile_name = JStr (cfg_Profile sc), jp_target = JStr (cfg_Target sc),
     jp_network_name = JStr (cfg_Network sc), jp_managed_network_assignment = JStr (cfg_ManagedNetworkAssignment sc),
     jp_storage_pool_name = JStr (cfg_StoragePool sc), jp_predeploy_stemcell = JBool (cfg_PredeployStemcell sc),
     jp_instance_config = settings_map (cfg_InstanceConfig sc),
     jp_lock_enabled = JBool (lock_Enabled (cfg_CreateVMLock sc)), jp_lock_timeout = JStr (lock_Timeout (cfg_CreateVMLock sc)),
     jp_lock_path = JStr (lock_Path (cfg_CreateVMLock sc)),
     jp_mbus = JStr (ao_Mbus ag), jp_ntp = opt_json strings_json (ao_NTP ag),
     jp_agent_type = JStr (ac_SourceType ac), jp_label = JStr (ac_Label ac), jp_metadata_path = JStr (ac_MetadataPath ac),
     jp_userdata_path = JStr (ac_UserdataPath ac), jp_filestore_path = JStr (ac_FileStorePath ac),
     jp_throttle_enabled = JBool (tc_Enabled tc), jp_throttle_path = JStr (tc_Path tc), jp_throttle_limit = tc_Limit tc,
     jp_throttle_hold = JStr (tc_Hold tc)\<rparr>)"

text \<open>Go can hold the configuration: maps have distinct keys, and the limit has 64 bits.\<close>

definition holds_config :: "Config \<Rightarrow> bool" where
  "holds_config cfg \<longleftrightarrow> wf_map (cfg_InstanceConfig (conf_Server cfg)) \<and>
     list_all (\<lambda>(k, kvs). wf_map kvs) (cfg_InstanceConfig (conf_Server cfg)) \<and>
     - (2 ^ 63) \<le> tc_Limit (conf_ThrottleConfig cfg) \<and> tc_Limit (conf_ThrottleConfig cfg) < 2 ^ 63"

lemma put_all_new:
  "wf_map (old @ kvs) \<Longrightarrow> foldl (\<lambda>m (k, v). gm_put k v m) old kvs = old @ kvs"
proof (induction kvs arbitrary: old)
  case (Cons kv kvs)
  obtain k v where kv: "kv = (k, v)" by (cases kv)
  have "k \<notin> fst ` set old" using Cons.prems by (auto simp: kv wf_map_def)
  then show ?case using Cons by (simp add: kv put_fresh)
qed simp

lemma read_map_strings:
  "wf_map kvs \<Longrightarrow> read_map (dec_string []) (JObj (map (\<lambda>(n, v). (n, JStr v)) kvs)) [] = Inr kvs"
proof -
  have "traverse (\<lambda>(k, v). sum_bind (dec_string [] v) (\<lambda>x. Inr (k, x))) (map (\<lambda>(n, v). (n, JStr v)) kvs) = Inr kvs"
    by (induction kvs) auto
  then show "wf_map kvs \<Longrightarrow> ?thesis" using put_all_new [of "[]" kvs] by simp
qed

lemma read_settings_map:
  assumes "wf_map m" and "list_all (\<lambda>(k, kvs). wf_map kvs) m"
  shows "read_map (\<lambda>js. read_map (dec_string []) js []) (settings_map m) [] = Inr m"
proof -
  have "traverse (\<lambda>(k, v). sum_bind (read_map (dec_string []) v []) (\<lambda>x. Inr (k, x)))
      (map (\<lambda>(k, kvs). (k, JObj (map (\<lambda>(n, v). (n, JStr v)) kvs))) m) = Inr m"
    using assms(2) by (induction m) (auto simp del: read_map.simps simp: read_map_strings)
  then show ?thesis using put_all_new [of "[]" m] assms(1) by (simp add: settings_map_def del: traverse.simps)
qed

lemma more_lower_names:
  "to_lower ''Mbus'' = ''mbus''" "to_lower ''NTP'' = ''ntp''" "to_lower ''SourceType'' = ''sourcetype''"
  "to_lower ''Label'' = ''label''" "to_lower ''MetadataPath'' = ''metadatapath''"
  "to_lower ''UserdataPath'' = ''userdatapath''" "to_lower ''FileStorePath'' = ''filestorepath''"
  "to_lower ''Timeout'' = ''timeout''"
  by code_simp+

lemmas template_names = lower_names more_lower_names

text \<open>Each part of the document is read into its part of the configuration.\<close>

lemma read_server_part:
  assumes "holds_config cfg"
  shows "read_struct server_fields (JObj [
        (''Type'', jp_type (job_of cfg)), (''URL'', jp_url (job_of cfg)), (''InsecureSkipVerify'', jp_insecure_skip_verify (job_of cfg)),
        (''TLSClientCert'', jp_tls_client_cert (job_of cfg)), (''TLSClientKey'', jp_tls_client_key (job_of cfg)),
        (''Project'', jp_project_name (job_of cfg)), (''Profile'', jp_profile_name (job_of cfg)), (''Target'', jp_target (job_of cfg)),
        (''Network'', jp_network_name (job_of cfg)), (''ManagedNetworkAssignment'', jp_managed_network_assignment (job_of cfg)),
        (''StoragePool'', jp_storage_pool_name (job_of cfg)), (''PredeployStemcell'', jp_predeploy_stemcell (job_of cfg)),
        (''InstanceConfig'', jp_instance_config (job_of cfg)),
        (''CreateVMLock'', JObj [(''Enabled'', jp_lock_enabled (job_of cfg)), (''Timeout'', jp_lock_timeout (job_of cfg)),
           (''Path'', jp_lock_path (job_of cfg))])]) (conf_Server default_config) = Inr (conf_Server cfg)"
proof -
  have "read_map (\<lambda>js. read_map (dec_string []) js []) (settings_map (cfg_InstanceConfig (conf_Server cfg))) [] =
      Inr (cfg_InstanceConfig (conf_Server cfg))"
    using assms by (intro read_settings_map) (simp_all add: holds_config_def)
  then show ?thesis
    by (simp add: read_struct_def set_field_def server_fields_def lock_fields_def template_names field_def job_of_def Let_def
        default_config_def)
qed

lemma read_other_parts:
  assumes "holds_config cfg"
  shows "read_struct agent_fields (JObj [(''Mbus'', jp_mbus (job_of cfg)), (''NTP'', jp_ntp (job_of cfg))]) (conf_Agent default_config) =
      Inr (conf_Agent cfg)"
    and "read_struct agent_config_fields (JObj [(''SourceType'', jp_agent_type (job_of cfg)), (''Label'', jp_label (job_of cfg)),
        (''MetadataPath'', jp_metadata_path (job_of cfg)), (''UserdataPath'', jp_userdata_path (job_of cfg)),
        (''FileStorePath'', jp_filestore_path (job_of cfg))]) (conf_AgentConfig default_config) = Inr (conf_AgentConfig cfg)"
    and "read_struct throttle_fields (JObj [(''Enabled'', jp_throttle_enabled (job_of cfg)), (''Path'', jp_throttle_path (job_of cfg)),
        (''Limit'', JNum (jp_throttle_limit (job_of cfg))), (''Hold'', jp_throttle_hold (job_of cfg))]) (conf_ThrottleConfig default_config) =
      Inr (conf_ThrottleConfig cfg)"
  using assms
  by (simp_all add: read_struct_def set_field_def agent_fields_def agent_config_fields_def throttle_fields_def template_names
      field_def job_of_def Let_def default_config_def dec_strings_inverse holds_config_def)

lemma template_read_back:
  assumes "holds_config cfg"
  shows "read_struct config_fields (cpi_json_erb (job_of cfg)) default_config = Inr cfg"
  unfolding cpi_json_erb_def read_struct_def [where tbl = config_fields]
  by (simp add: set_field_def config_fields_def template_names field_def
      read_server_part [OF assms] read_other_parts [OF assms])

text \<open>A switch that is a text.\<close>

definition quoted_switch :: "job_properties \<Rightarrow> bool" where
  "quoted_switch p \<longleftrightarrow> (\<exists>s. jp_insecure_skip_verify p = JStr s \<or> jp_predeploy_stemcell p = JStr s \<or> jp_throttle_enabled p = JStr s)"

lemma template_switches:
  assumes "cpi_json_erb p = JObj kvs"
  obtains parts tparts where "named ''Server'' kvs = map JObj parts" and "length parts \<le> 1"
    and "named ''ThrottleConfig'' kvs = map JObj tparts" and "length tparts \<le> 1"
    and "named ''InsecureSkipVerify'' (concat parts) = [jp_insecure_skip_verify p]"
    and "named ''PredeployStemcell'' (concat parts) = [jp_predeploy_stemcell p]"
    and "named ''Enabled'' (concat tparts) = [jp_throttle_enabled p]"
proof -
  obtain ps ts where "json_field kvs ''Server'' = Some (JObj ps)" "json_field kvs ''ThrottleConfig'' = Some (JObj ts)"
    using assms by (auto simp: cpi_json_erb_def json_field_def template_names)
  then show ?thesis using assms
    by (intro that [of "[ps]" "[ts]"]) (auto simp: cpi_json_erb_def json_field_def named_def template_names)
qed

lemma quoted_refused:
  assumes "json_parse bytes = Some (cpi_json_erb p)" and "quoted_switch p"
  shows "\<not> is_Inr (parse_config bytes)"
proof
  assume "is_Inr (parse_config bytes)"
  then obtain cfg where ok: "parse_config bytes = Inr cfg" by (cases "parse_config bytes") auto
  obtain kvs where kvs: "cpi_json_erb p = JObj kvs" by (simp add: cpi_json_erb_def)
  obtain parts tparts where parts: "named ''Server'' kvs = map JObj parts" "length parts \<le> 1"
      "named ''ThrottleConfig'' kvs = map JObj tparts" "length tparts \<le> 1"
    and switches: "named ''InsecureSkipVerify'' (concat parts) = [jp_insecure_skip_verify p]"
      "named ''PredeployStemcell'' (concat parts) = [jp_predeploy_stemcell p]"
      "named ''Enabled'' (concat tparts) = [jp_throttle_enabled p]"
    by (rule template_switches [OF kvs])
  from config_switches_read [OF ok assms(1) [unfolded kvs] parts] show False
    using assms(2) switches by (auto simp: reads_switch_def quoted_switch_def)
qed

section \<open>Properties\<close>

text \<open>
  C39.  The configuration that a deployment asks for is the one that the programs work with.  The document
  that the job template writes for the properties of a configuration, with its switches as booleans and
  everything else as it is, is read back as exactly that configuration, whatever its values.  With a text
  in place of one of the switches \<open>insecure_skip_verify\<close>, \<open>predeploy_stemcell\<close> or
  \<open>throttle_config.enabled\<close> the document is refused.
\<close>

theorem job_template_configures:
  assumes "json_parse bytes = Some (cpi_json_erb job)"
  shows "(job = job_of cfg \<and> holds_config cfg \<longrightarrow> parse_config bytes = Inr cfg) \<and>
    (quoted_switch job \<longrightarrow> \<not> is_Inr (parse_config bytes))"
  using template_read_back [of cfg] quoted_refused [OF assms] assms by (auto simp: parse_config_def)

text \<open>
  The configuration that the defaults of the job ask for, with example values for the properties that have
  no default; and these defaults as they are.
\<close>

definition wanted_config :: Config where
  "wanted_config = \<lparr>
     conf_Server = \<lparr>cfg_Type = ''lxd'', cfg_URL = ''https://server:8443'', cfg_TLSClientCert = [], cfg_TLSClientKey = [],
       cfg_InsecureSkipVerify = False, cfg_Project = ''default'', cfg_Profile = ''default'', cfg_Target = [],
       cfg_ManagedNetworkAssignment = ''static'', cfg_Network = ''lxdbr0'', cfg_StoragePool = ''default'',
       cfg_PredeployStemcell = False,
       cfg_CreateVMLock = \<lparr>lock_Enabled = False, lock_Timeout = ''10m'',
         lock_Path = ''/var/vcap/sys/run/lxd_cpi/create-vm.lock''\<rparr>,
       cfg_InstanceConfig = [(''jammy'', [(''security.csm'', ''true''), (''security.secureboot'', ''false'')]),
         (''default'', [(''security.secureboot'', ''false'')])]\<rparr>,
     conf_Agent = \<lparr>ao_Mbus = ''nats://nats:4222'', ao_NTP = Some []\<rparr>,
     conf_AgentConfig = \<lparr>ac_SourceType = ''CDROM'', ac_Label = ''config-2'', ac_MetadataPath = ''ec2/latest/meta-data.json'',
       ac_UserdataPath = ''ec2/latest/user-data'', ac_FileStorePath = ''/var/vcap/store/agent-data''\<rparr>,
     conf_ThrottleConfig = \<lparr>tc_Enabled = False, tc_Path = ''/var/vcap/sys/run/lxd_cpi/throttle.sock'', tc_Limit = 4,
       tc_Hold = ''2m''\<rparr>\<rparr>"

definition default_job :: job_properties where
  "default_job = (job_of wanted_config)\<lparr>jp_insecure_skip_verify := JStr ''false'', jp_throttle_enabled := JStr ''false''\<rparr>"

theorem job_template_configures_witness:
  "parse_config (json_print (cpi_json_erb (job_of wanted_config))) = Inr wanted_config \<and>
   \<not> is_Inr (parse_config (json_print (cpi_json_erb default_job)))"
proof -
  have "holds_config wanted_config" by (simp add: holds_config_def wanted_config_def wf_map_def)
  moreover have "quoted_switch default_job" by (auto simp: quoted_switch_def default_job_def)
  ultimately show ?thesis
    using job_template_configures [OF json_parse_print, of "job_of wanted_config" wanted_config]
      job_template_configures [OF json_parse_print, of default_job wanted_config] by simp
qed

end
