(* ===== verification/NetworkOps.thy ===== *)
theory NetworkOps
  imports AgentEnv
begin

text \<open>
  The operations of \<open>apiv1/networks.go\<close> that change a network or a set of networks, and the default
  network.  A set of networks is a Go map to pointers: changing one network changes its entry.
\<close>

section \<open>One network\<close>

definition SetMAC :: "string \<Rightarrow> network \<Rightarrow> network" where
  "SetMAC mac n = n\<lparr>nw_mac := mac\<rparr>"

definition SetDNS :: "string list option \<Rightarrow> network \<Rightarrow> network" where
  "SetDNS nameservers n = n\<lparr>nw_DNS := nameservers\<rparr>"

definition SetPreconfigured :: "network \<Rightarrow> network" where
  "SetPreconfigured n = n\<lparr>nw_preconfigured := True\<rparr>"

definition SetAlias :: "string \<Rightarrow> network \<Rightarrow> network" where
  "SetAlias a n = n\<lparr>nw_Alias := a\<rparr>"

text \<open>Appending to a nil slice makes one.\<close>

definition AddRoute :: "string \<Rightarrow> string \<Rightarrow> string \<Rightarrow> network \<Rightarrow> network" where
  "AddRoute ip netmask gw n = n\<lparr>nw_Routes := Some (case_option [] id (nw_Routes n) @
     [\<lparr>rt_Destination = ip, rt_Gateway = gw, rt_Netmask = netmask\<rparr>])\<rparr>"

definition IsDefaultFor :: "string \<Rightarrow> network \<Rightarrow> bool" where
  "IsDefaultFor what n = list_ex (\<lambda>def. def = what) (case_option [] id (nw_Default n))"

section \<open>A set of networks\<close>

definition empty_network :: network where
  "empty_network = NewNetwork [] [] [] [] None None None []"

text \<open>The loop over the map: it stops at the first network that is a default gateway, else at the last.\<close>

fun default_loop :: "networks \<Rightarrow> network option \<Rightarrow> network option" where
  "default_loop [] n = n"
| "default_loop ((_, n') # ns) n = (if IsDefaultFor ''gateway'' n' then Some n' else default_loop ns (Some n'))"

definition Networks_Default :: "networks \<Rightarrow> network" where
  "Networks_Default ns = (case default_loop ns None of None \<Rightarrow> empty_network | Some n \<Rightarrow> n)"

fun BackfillDefaultDNS :: "string list option \<Rightarrow> networks \<Rightarrow> networks" where
  "BackfillDefaultDNS nameservers [] = []"
| "BackfillDefaultDNS nameservers ((k, n) # ns) =
     (if IsDefaultFor ''dns'' n
      then (k, if length (case_option [] id (nw_DNS n)) = 0 then SetDNS nameservers n else n) # ns
      else (k, n) # BackfillDefaultDNS nameservers ns)"

section \<open>What they do\<close>

text \<open>What the settings document of a VM says of a network after each of these operations.\<close>

lemma network_spec_after:
  "network_spec_of (SetMAC m n) = (network_spec_of n)\<lparr>ns_MAC := m\<rparr>"
  "network_spec_of (SetDNS d n) = (network_spec_of n)\<lparr>ns_DNS := d\<rparr>"
  "network_spec_of (SetPreconfigured n) = (network_spec_of n)\<lparr>ns_Preconfigured := True\<rparr>"
  "network_spec_of (SetAlias a n) = (network_spec_of n)\<lparr>ns_Alias := a\<rparr>"
  by (simp_all add: network_spec_of_def SetMAC_def SetDNS_def SetPreconfigured_def SetAlias_def)

text \<open>Filling in name servers keeps the names of the networks and is done once at most.\<close>

lemma backfill_names [simp]: "map fst (BackfillDefaultDNS d ns) = map fst ns"
  by (induction d ns rule: BackfillDefaultDNS.induct) auto

lemma backfill_wf: "wf_map ns \<Longrightarrow> wf_map (BackfillDefaultDNS d ns)"
  by (simp add: wf_map_def)

lemma default_set_dns [simp]: "IsDefaultFor what (SetDNS d n) = IsDefaultFor what n"
  by (simp add: IsDefaultFor_def SetDNS_def)

lemma backfill_twice:
  "BackfillDefaultDNS d' (BackfillDefaultDNS (Some (x # xs)) ns) = BackfillDefaultDNS (Some (x # xs)) ns"
  by (induction ns) (auto simp: SetDNS_def IsDefaultFor_def)

text \<open>With one default gateway the default network is that one, in whatever order the map delivers it.\<close>

lemma default_loop_gateway:
  "list_all (\<lambda>(k', n'). IsDefaultFor ''gateway'' n' \<longrightarrow> n' = n) ns \<Longrightarrow> (k, n) \<in> set ns \<Longrightarrow> IsDefaultFor ''gateway'' n \<Longrightarrow>
   default_loop ns acc = Some n"
  by (induction ns acc rule: default_loop.induct) auto

lemma default_gateway:
  assumes "(k, n) \<in> set ns" and "IsDefaultFor ''gateway'' n"
    and "list_all (\<lambda>(k', n'). IsDefaultFor ''gateway'' n' \<longrightarrow> n' = n) ns"
  shows "Networks_Default ns = n"
  by (simp add: Networks_Default_def default_loop_gateway [OF assms(3,1,2)])

end
