(* ===== verification/Spec2Isabelle.thy ===== *)
theory Spec2Isabelle
  imports Agreement CpiStemcellProps NetProps Fleet JobTemplate NetworkOps
begin

text \<open>
  The BOSH CPI for LXD and Incus: a verification library for the Go code under \<open>src/src\<close>.

  \<^bold>\<open>The program.\<close>  The director runs \<open>cmd/cpi\<close> once per call.  The program reads its configuration
  (\<open>config\<close>), may reserve a slot at the throttle service (\<open>throttle\<close>, served by \<open>cmd/throttle\<close>), reads a
  request from its input, lets the vendored dispatcher (\<open>bosh-cpi-go/rpc\<close>, \<open>apiv1/action_factory.go\<close>) call
  one method of \<open>cpi.CPI\<close>, and writes the answer to its output.  These methods work through two
  interfaces: \<open>adapter.ApiAdapter\<close>, implemented for LXD and for Incus, and \<open>agentmgr.AgentManager\<close>, which
  keeps the settings document of every VM in a local file and builds the FAT32 or ISO image that carries
  it to the VM.  \<open>cmd/cleanup\<close> deletes settings volumes that no VM uses; \<open>cmd/tc\<close> tries a throttle out.

  \<^bold>\<open>How it is modelled.\<close>  A call is a function of type \<open>('e, 'w, 'a) io\<close> (theory Prelude): from a state
  (the world behind the libraries, the local files, the trace of interactions so far) to an outcome
  (\<open>Ok\<close>, \<open>Err\<close> with the Go error value, or \<open>Panic\<close>) and the new state.  \<open>io_bind\<close>, \<open>io_wrap\<close>, \<open>io_try\<close>,
  \<open>io_finally\<close> and \<open>io_for\<close> stand for the early return of an error, the wrapped error, the inspected error,
  \<open>defer\<close> and \<open>for\<close>; \<open>io_on\<close> runs a call inside a process that also talks to something else.
  Libraries that are not part of the repository's own code (the LXD and Incus clients, go-diskfs, yaml,
  the file lock, the identifier generator, dialling and HTTP transport) are parameters, collected in the
  records \<open>api_server\<close>, \<open>local_machine\<close>, \<open>client_library\<close>, \<open>network_library\<close>, \<open>http_client\<close> and in fields of
  \<open>CPI\<close>; they may answer anything.  Properties of a call are stated over its trace: \<open>emits m P\<close> says that
  every run of \<open>m\<close>, from every state and for every behaviour of the libraries, ends with an outcome and
  appended events related by \<open>P\<close>.  Go maps are association lists in iteration order, so that dependence on
  that order is visible.

  \<^bold>\<open>Theories of the model.\<close>
    \<^item> Prelude: outcomes, errors, the combinators, the judgements \<open>emits\<close> and \<open>leaves\<close> with one rule each per
      combinator; Go maps.  GoStrings: \<open>strings\<close>, \<open>strconv\<close>, \<open>path\<close> and \<open>fmt\<close> functions the code calls.
      Json: \<open>encoding/json\<close> as the code uses it (printer, fuel-bounded parser, field decoding), with the
      round trip \<open>json_parse (json_print v) = Some v\<close>; the parser's fuel is the length of its input plus
      one, which suffices because every nested call has consumed a character.  Urls: the part of \<open>net/url\<close>
      that joins and splits paths.
    \<^item> World, Adapter: API data, requests and events; \<open>adapter/adapter.go\<close>, \<open>adapter/config.go\<close>.
      LxdAdapter, IncusAdapter: every method of \<open>adapter/lxd\<close> and \<open>adapter/incus\<close>.
    \<^item> AgentEnv, NetworkOps: the settings document and the networks of \<open>bosh-cpi-go/apiv1\<close>; AgentMgr:
      \<open>agentmgr\<close>.
    \<^item> CpiBase, CpiVm, CpiDisk, CpiStemcell, CpiMeta: \<open>cpi\<close>, one definition per call and per loop body or
      deferred block; CpiFactory: \<open>config\<close>, the factories.
    \<^item> Dispatch: from the bytes of a request to the bytes of its answer.  Arguments go through an untyped
      Go value on their way (\<open>untyped\<close>), which rounds large numbers (\<open>float64\<close>) and sorts the keys of maps.
    \<^item> Throttle, ThrottleClient: \<open>throttle/server.go\<close> as handler functions and as an interleaving step
      relation, its start and its routes; \<open>throttle/client.go\<close>.
    \<^item> CommandLine: the \<open>flag\<close> package for the flags the programs have, log levels and the logger.
      Commands: the four programs under \<open>cmd\<close>, from their command line to their exit code and log.

  \<^bold>\<open>Interfaces.\<close>  AdapterContract states what the CPI relies on of an adapter as the locale
  \<open>adapter_contract\<close> and interprets it on both adapters; AgentMgr does the same with
  \<open>agent_manager_contract\<close>; CpiContract joins the two in \<open>cpi_contract\<close>, in which the lemmas about CPI calls
  are proved once, and interprets it on every CPI the factory can build.  Steps states in \<open>stepping\<close> that
  every answer moves the world along a relation, and lifts that to whole calls; DiskSafety states in
  \<open>disk_keeper\<close> that every answer keeps an invariant on disks; CloudCalls states in \<open>cloud_effects\<close> what
  each method makes of the cloud, and Agreement in \<open>file_effects\<close> what each makes of the local
  files.  ThrottleClient states what \<open>LockAndWait\<close> needs of a server as \<open>reservation_service\<close> and interprets it on the modelled server.

  \<^bold>\<open>Properties.\<close>
    \<^item> CpiContract, CpiAgentProps, CpiVmProps, CpiDiskProps, CpiStemcellProps: which requests a call may
      send, in which order and with which bodies, what its answer means, and what an error leaves undone.
    \<^item> Cloud, DiskSafety, EditProps, CloudCalls: what calls make of an abstract cloud, on a world that shows
      one.  The hypothesis \<open>shows_cloud\<close> says that the server carries out what it accepts and nothing else;
      Scenarios shows that the server in memory of DemoServer meets it.  CloudCalls composes small
      operations on the cloud into what creating a VM and attaching or detaching a disk do to it, and shows
      that removing a VM undoes its creation.  Agreement puts the local files beside the cloud: over every
      history of successful calls the stored settings of a VM and its devices name the same disks.
    \<^item> NetProps: the planning loops of \<open>CreateVMV2\<close> against reference definitions, and their (in)dependence
      of map order.  AgentProps, Documents: settings round trips and image contents.  AdapterProps: LXD and
      Incus are interchangeable.
    \<^item> FactoryProps: what a configuration builds.  DispatchProps: every answer the dispatcher can give, that
      a written request is read as the call it was written for, and that no sequence of requests loses a
      disk nobody asked to delete.
    \<^item> ThrottleProps: limits, waiting, the life of a reservation, starting the service, the test program.
      Fleet: many programs at one throttle, as a step relation over the exchanges of clients and server.
      ProgramProps: clean-up, one run of the CPI program, configuration.  JobTemplate: the template of the
      configuration file under \<open>jobs\<close>, against the program that reads the file.
    \<^item> Scenarios: concrete runs on the server in memory, which show that hypotheses can hold, among them a
      run of the whole program that deletes a VM, and one that leaves a VM without an owner.  CloudRuns:
      rules to run a call step by step, and the runs that make, change and remove a VM.

  \<^bold>\<open>Bounds.\<close>  \<open>LockAndWait\<close> may run for ever and is a partial function into an option; that it returns,
  and after how many sleeps, is a theorem (\<open>lock_and_wait_returns\<close>).  The programs that call it have an
  optional result for the same reason.  No other loop needs fuel: all go over finite maps and lists.

  \<^bold>\<open>Not modelled.\<close>  The client libraries, the disk-image library and the text libraries themselves; the
  socket handling of \<open>http.Serve\<close>; the time in a log line, and the lines that the dispatcher, the calls, the
  adapters and the running service log; numbers in a request that are not whole; the formatting of
  subnets in \<open>apiv1\<close>, which nothing in the repository calls; the rest of the release packaging (scripts,
  packages, manifests).
\<close>

end
